(* ===== verification/Remus_Prelude.thy ===== *)
theory Remus_Prelude
  imports Main "HOL-Library.Word" "HOL-Library.Char_ord" "HOL-Library.Multiset"
begin

text \<open>
  Shared vocabulary of the development: how C++ failures become values
  (\<open>cpp_error\<close>, \<open>result\<close>), the standard containers and algorithms the Remus sources
  use (\<open>std::set\<close>, \<open>std::map\<close>, \<open>std::lower_bound\<close>, \<open>std::find_if\<close>,
  \<open>std::remove_if\<close>, \<open>std::rotate\<close>) over an explicit comparator, and the laws of
  these containers, proved once in the locales \<open>strict_weak_order\<close> and
  \<open>strict_total_order\<close> and used through interpretations by every component.
\<close>

named_theorems proto_simps "equations for records of remus/proto that proofs unfold"
named_theorems codec_simps "how a printed field is read back from a stream"

section \<open>Failures and identifiers\<close>

text \<open>
  An exception that leaves a function, a failed \<open>assert\<close> and undefined behaviour are
  values. \<open>AssertFailure\<close> is \<open>assert\<close> in a build without NDEBUG.
\<close>

datatype cpp_error =
    AssertFailure
  | LengthError
  | BadAlloc
  | BadCast
  | RuntimeError
  | ZmqError
  | UndefinedBehaviour

type_synonym 'a result = "cpp_error + 'a"

definition bindE :: "'a result \<Rightarrow> ('a \<Rightarrow> 'b result) \<Rightarrow> 'b result" where
  "bindE m f = (case m of Inl e \<Rightarrow> Inl e | Inr x \<Rightarrow> f x)"

lemma bindE_simps [simp]:
  "bindE (Inl e) f = Inl e"
  "bindE (Inr x) f = f x"
  by (simp_all add: bindE_def)

lemma bindE_eq_Inr: "bindE m f = Inr y \<longleftrightarrow> (\<exists>x. m = Inr x \<and> f x = Inr y)"
  by (cases m) auto

text \<open>
  \<open>boost::uuids::uuid\<close> is an array of 16 octets that compares lexicographically, which
  is the order of the 128-bit number the octets write in big endian.
  The value-initialised uuid is the nil uuid, 0.
\<close>

type_synonym uuid = "128 word"

text \<open>
  \<open>boost::posix_time\<close>: time points and durations in microseconds. The code counts them in 64
  bits; the model has no bound, and agrees with the code below \<open>2 ^ 63 - 2\<close> microseconds.
\<close>

type_synonym ptime = int
type_synonym time_duration = int

definition milliseconds :: "int \<Rightarrow> time_duration" where
  "milliseconds ms = 1000 * ms"

definition total_milliseconds :: "time_duration \<Rightarrow> int" where
  "total_milliseconds d = (if d < 0 then - ((- d) div 1000) else d div 1000)"

lemma total_milliseconds_milliseconds [simp]: "total_milliseconds (milliseconds m) = m"
  by (auto simp: total_milliseconds_def milliseconds_def simp flip: mult_minus_right)

lemma total_milliseconds_nonneg: "0 \<le> d \<Longrightarrow> 0 \<le> total_milliseconds d"
  by (simp add: total_milliseconds_def)

section \<open>Strings as byte sequences\<close>

text \<open>
  \<open>std::string::operator<\<close> compares bytes as unsigned values
  (\<open>char_traits<char>::compare\<close>); \<open>std::lexicographical_compare\<close> on \<open>char const*\<close>
  uses the built-in order of \<open>char\<close>, which is signed on the platforms Remus is built for.
\<close>

definition schar :: "char \<Rightarrow> int" where
  "schar c = (let n = (of_char c :: int) in if n < 128 then n else n - 256)"

lemma char_of_char_range: "0 \<le> (of_char e :: int)" "(of_char e :: int) < 256"
  by (cases e; simp add: of_char_def horner_sum_simps split: prod.splits)+

lemma schar_inject [simp]: "schar c = schar d \<longleftrightarrow> c = d"
proof
  assume eq: "schar c = schar d"
  have range: "0 \<le> (of_char e :: int) \<and> (of_char e :: int) < 256" for e :: char
    using char_of_char_range [of e] by simp
  from eq have "(of_char c :: int) = of_char d"
    using range [of c] range [of d] by (auto simp: schar_def Let_def split: if_splits)
  then show "c = d" by simp
qed simp

fun lex_less :: "('a \<Rightarrow> int) \<Rightarrow> 'a list \<Rightarrow> 'a list \<Rightarrow> bool" where
  "lex_less key [] [] = False"
| "lex_less key [] (y # ys) = True"
| "lex_less key (x # xs) [] = False"
| "lex_less key (x # xs) (y # ys) =
     (key x < key y \<or> (key x = key y \<and> lex_less key xs ys))"

definition string_less :: "string \<Rightarrow> string \<Rightarrow> bool" where
  "string_less = lex_less (\<lambda>c. of_char c)"

lemma lex_less_irrefl [simp]: "\<not> lex_less key xs xs"
  by (induction xs) auto

lemma lex_less_trans: "lex_less key xs ys \<Longrightarrow> lex_less key ys zs \<Longrightarrow> lex_less key xs zs"
proof (induction key xs ys arbitrary: zs rule: lex_less.induct)
  case (4 key x xs y ys)
  then show ?case by (cases zs) auto
qed (auto elim: lex_less.elims)

lemma lex_less_linear: "inj key \<Longrightarrow> lex_less key xs ys \<or> xs = ys \<or> lex_less key ys xs"
proof (induction key xs ys rule: lex_less.induct)
  case (4 key x xs y ys)
  then show ?case
    by (metis inj_eq lex_less.simps(4) linorder_less_linear)
qed auto

section \<open>Comparators\<close>

text \<open>
  The contract the standard containers demand of their comparator: a strict weak
  ordering, with \<open>equiv\<close> for "neither is less".
\<close>

definition equiv_by :: "('a \<Rightarrow> 'a \<Rightarrow> bool) \<Rightarrow> 'a \<Rightarrow> 'a \<Rightarrow> bool" where
  "equiv_by lt x y \<longleftrightarrow> \<not> lt x y \<and> \<not> lt y x"

text \<open>
  \<open>std::set\<close> with comparator \<open>lt\<close> is its iteration sequence: strictly ascending.
  \<open>insert\<close> keeps the element already there when an equivalent one is present.
\<close>

fun set_insert :: "('a \<Rightarrow> 'a \<Rightarrow> bool) \<Rightarrow> 'a \<Rightarrow> 'a list \<Rightarrow> 'a list" where
  "set_insert lt x [] = [x]"
| "set_insert lt x (y # ys) =
     (if lt x y then x # y # ys
      else if lt y x then y # set_insert lt x ys
      else y # ys)"

definition set_insert_range :: "('a \<Rightarrow> 'a \<Rightarrow> bool) \<Rightarrow> 'a list \<Rightarrow> 'a list \<Rightarrow> 'a list" where
  "set_insert_range lt xs s = fold (set_insert lt) xs s"

definition set_count :: "('a \<Rightarrow> 'a \<Rightarrow> bool) \<Rightarrow> 'a \<Rightarrow> 'a list \<Rightarrow> nat" where
  "set_count lt x s = (if list_ex (equiv_by lt x) s then 1 else 0)"

definition set_erase :: "('a \<Rightarrow> 'a \<Rightarrow> bool) \<Rightarrow> 'a \<Rightarrow> 'a list \<Rightarrow> 'a list" where
  "set_erase lt x s = filter (\<lambda>y. \<not> equiv_by lt x y) s"

text \<open>
  \<open>std::map\<close> with comparator \<open>lt\<close>: the key/value pairs in iteration order.
  \<open>map_insert\<close> is \<open>insert\<close> (an existing entry stays), \<open>map_assign\<close> is
  \<open>m[k] = v\<close> (an existing value is overwritten, its key stays).
\<close>

fun map_insert :: "('k \<Rightarrow> 'k \<Rightarrow> bool) \<Rightarrow> 'k \<Rightarrow> 'v \<Rightarrow> ('k \<times> 'v) list \<Rightarrow> ('k \<times> 'v) list" where
  "map_insert lt k v [] = [(k, v)]"
| "map_insert lt k v ((k', v') # m) =
     (if lt k k' then (k, v) # (k', v') # m
      else if lt k' k then (k', v') # map_insert lt k v m
      else (k', v') # m)"

fun map_assign :: "('k \<Rightarrow> 'k \<Rightarrow> bool) \<Rightarrow> 'k \<Rightarrow> 'v \<Rightarrow> ('k \<times> 'v) list \<Rightarrow> ('k \<times> 'v) list" where
  "map_assign lt k v [] = [(k, v)]"
| "map_assign lt k v ((k', v') # m) =
     (if lt k k' then (k, v) # (k', v') # m
      else if lt k' k then (k', v') # map_assign lt k v m
      else (k', v) # m)"

fun map_find :: "('k \<Rightarrow> 'k \<Rightarrow> bool) \<Rightarrow> 'k \<Rightarrow> ('k \<times> 'v) list \<Rightarrow> 'v option" where
  "map_find lt k [] = None"
| "map_find lt k ((k', v') # m) = (if equiv_by lt k k' then Some v' else map_find lt k m)"

definition map_count :: "('k \<Rightarrow> 'k \<Rightarrow> bool) \<Rightarrow> 'k \<Rightarrow> ('k \<times> 'v) list \<Rightarrow> nat" where
  "map_count lt k m = (if map_find lt k m = None then 0 else 1)"

definition map_erase :: "('k \<Rightarrow> 'k \<Rightarrow> bool) \<Rightarrow> 'k \<Rightarrow> ('k \<times> 'v) list \<Rightarrow> ('k \<times> 'v) list" where
  "map_erase lt k m = filter (\<lambda>(k', v). \<not> equiv_by lt k k') m"

section \<open>Algorithms on sequences\<close>

text \<open>\<open>std::find_if\<close> returns an iterator: here its index, \<open>length xs\<close> for \<open>end()\<close>.\<close>

fun find_if :: "('a \<Rightarrow> bool) \<Rightarrow> 'a list \<Rightarrow> nat" where
  "find_if p [] = 0"
| "find_if p (x # xs) = (if p x then 0 else Suc (find_if p xs))"

lemma find_append:
  "find p (xs @ ys) = (case find p xs of None \<Rightarrow> find p ys | Some x \<Rightarrow> Some x)"
  by (induction xs) auto

lemma find_if_le: "find_if p xs \<le> length xs"
  by (induction xs) auto

lemma find_if_end: "find_if p xs = length xs \<longleftrightarrow> (\<forall>x\<in>set xs. \<not> p x)"
  by (induction xs) auto

lemma find_if_less: "find_if p xs < length xs \<longleftrightarrow> (\<exists>x\<in>set xs. p x)"
  using find_if_end [of p xs] find_if_le [of p xs] by auto

lemma find_if_holds: "find_if p xs < length xs \<Longrightarrow> p (xs ! find_if p xs)"
  by (induction xs) auto

lemma find_if_first: "i < find_if p xs \<Longrightarrow> \<not> p (xs ! i)"
  by (induction xs arbitrary: i) (auto simp: nth_Cons split: nat.splits if_splits)

text \<open>Erasing the element an iterator points to.\<close>

definition erase_at :: "nat \<Rightarrow> 'a list \<Rightarrow> 'a list" where
  "erase_at i xs = take i xs @ drop (Suc i) xs"

lemma mset_erase_at: "i < length xs \<Longrightarrow> mset xs = add_mset (xs ! i) (mset (erase_at i xs))"
  by (metis erase_at_def id_take_nth_drop mset.simps(2) mset_append union_mset_add_mset_right)

lemma set_erase_at_subset: "set (erase_at i xs) \<subseteq> set xs"
  by (auto simp: erase_at_def dest: in_set_takeD in_set_dropD)

lemma erase_at_length: "i < length xs \<Longrightarrow> length (erase_at i xs) = length xs - 1"
  by (auto simp: erase_at_def)

lemma sorted_wrt_erase_at: "sorted_wrt P xs \<Longrightarrow> sorted_wrt P (erase_at i xs)"
proof (cases "i < length xs")
  case True
  assume "sorted_wrt P xs"
  then have "sorted_wrt P (take i xs @ xs ! i # drop (Suc i) xs)"
    using True by (simp flip: id_take_nth_drop)
  then show ?thesis by (auto simp: erase_at_def sorted_wrt_append)
qed (simp add: erase_at_def)

text \<open>
  \<open>std::lower_bound\<close> on a vector sorted by \<open>lt\<close>: the first position whose element is
  not less than the value; inserting there is the sources' sorted insertion.
\<close>

definition lower_bound :: "('a \<Rightarrow> 'a \<Rightarrow> bool) \<Rightarrow> 'a list \<Rightarrow> 'a \<Rightarrow> nat" where
  "lower_bound lt xs x = find_if (\<lambda>y. \<not> lt y x) xs"

definition insert_at :: "nat \<Rightarrow> 'a \<Rightarrow> 'a list \<Rightarrow> 'a list" where
  "insert_at i x xs = take i xs @ x # drop i xs"

lemma mset_insert_at: "mset (insert_at i x xs) = add_mset x (mset xs)"
  by (metis append_take_drop_id insert_at_def mset.simps(2) mset_append
      union_mset_add_mset_right)

lemma set_insert_at: "set (insert_at i x xs) = insert x (set xs)"
  by (metis mset_insert_at set_mset_add_mset_insert set_mset_mset)

lemma length_insert_at [simp]: "length (insert_at i x xs) = Suc (length xs)"
  by (simp add: insert_at_def)

text \<open>\<open>std::rotate(begin, begin+1, end)\<close>.\<close>

definition rotate_left_one :: "'a list \<Rightarrow> 'a list" where
  "rotate_left_one xs = rotate1 xs"

lemma mset_rotate_left_one [simp]: "mset (rotate_left_one xs) = mset xs"
  by (cases xs) (auto simp: rotate_left_one_def)

lemma set_rotate_left_one [simp]: "set (rotate_left_one xs) = set xs"
  by (cases xs) (auto simp: rotate_left_one_def)

section \<open>The laws of the containers\<close>

locale strict_weak_order =
  fixes lt :: "'a \<Rightarrow> 'a \<Rightarrow> bool"
  assumes lt_irrefl: "\<not> lt x x"
    and lt_trans: "lt x y \<Longrightarrow> lt y z \<Longrightarrow> lt x z"
    and equiv_trans: "equiv_by lt x y \<Longrightarrow> equiv_by lt y z \<Longrightarrow> equiv_by lt x z"
begin

lemma equiv_refl: "equiv_by lt x x"
  by (simp add: equiv_by_def lt_irrefl)

lemma equiv_sym: "equiv_by lt x y \<Longrightarrow> equiv_by lt y x"
  by (auto simp: equiv_by_def)

lemma lt_equiv: "lt x y \<Longrightarrow> equiv_by lt y z \<Longrightarrow> lt x z"
  by (metis equiv_by_def equiv_sym equiv_trans lt_irrefl lt_trans)

lemma equiv_lt: "equiv_by lt x y \<Longrightarrow> lt y z \<Longrightarrow> lt x z"
  by (metis equiv_by_def equiv_sym equiv_trans lt_irrefl lt_trans)

lemma set_insert_subset: "set (set_insert lt x s) \<subseteq> insert x (set s)"
  by (induction s) auto

lemma set_insert_superset: "set s \<subseteq> set (set_insert lt x s)"
  by (induction s) auto

lemma set_insert_has: "\<exists>y\<in>set (set_insert lt x s). equiv_by lt x y"
  by (induction s) (auto simp: equiv_by_def lt_irrefl)

lemma set_insert_sorted: "sorted_wrt lt s \<Longrightarrow> sorted_wrt lt (set_insert lt x s)"
proof (induction s)
  case (Cons y ys)
  then show ?case
    using set_insert_subset [of x ys] by (auto dest: lt_trans)
qed simp

lemma set_insert_range_sorted:
  "sorted_wrt lt s \<Longrightarrow> sorted_wrt lt (set_insert_range lt xs s)"
  unfolding set_insert_range_def
  by (induction xs arbitrary: s) (auto simp: set_insert_sorted)

lemma set_insert_range_subset: "set (set_insert_range lt xs s) \<subseteq> set xs \<union> set s"
  unfolding set_insert_range_def
proof (induction xs arbitrary: s)
  case (Cons x xs)
  then show ?case using set_insert_subset [of x s] by fastforce
qed simp

lemma set_insert_range_superset: "set s \<subseteq> set (set_insert_range lt xs s)"
  unfolding set_insert_range_def
proof (induction xs arbitrary: s)
  case (Cons x xs)
  then show ?case using set_insert_superset [of s x] by fastforce
qed simp

lemma set_insert_range_has:
  "x \<in> set xs \<Longrightarrow> \<exists>y\<in>set (set_insert_range lt xs s). equiv_by lt x y"
proof (induction xs arbitrary: s)
  case (Cons z xs)
  show ?case
  proof (cases "x = z")
    case True
    from set_insert_has [of x s] obtain y
      where "y \<in> set (set_insert lt x s)" and "equiv_by lt x y" by blast
    then show ?thesis
      using True set_insert_range_superset [of "set_insert lt x s" xs]
      by (auto simp: set_insert_range_def)
  next
    case False
    with Cons show ?thesis by (auto simp: set_insert_range_def)
  qed
qed simp

text \<open>Inserting an already ascending sequence into an empty set gives it back.\<close>

lemma set_insert_append:
  "\<forall>y\<in>set s. lt y x \<Longrightarrow> set_insert lt x s = s @ [x]"
proof (induction s)
  case (Cons y ys)
  then have "lt y x" by simp
  then have "\<not> lt x y" using lt_irrefl lt_trans by blast
  with Cons show ?case by auto
qed simp

lemma set_insert_range_ascending:
  "sorted_wrt lt (s @ xs) \<Longrightarrow> set_insert_range lt xs s = s @ xs"
proof (induction xs arbitrary: s)
  case (Cons x xs)
  then have "set_insert lt x s = s @ [x]"
    by (intro set_insert_append) (auto simp: sorted_wrt_append)
  with Cons show ?case by (simp add: set_insert_range_def)
qed (simp add: set_insert_range_def)

text \<open>Maps whose keys are only compared up to equivalence.\<close>

lemma equiv_cong: "equiv_by lt k k' \<Longrightarrow> equiv_by lt k c \<longleftrightarrow> equiv_by lt k' c"
  using equiv_sym equiv_trans by blast

lemma map_find_cong: "equiv_by lt k k' \<Longrightarrow> map_find lt k m = map_find lt k' m"
  by (induction m) (auto simp: equiv_cong)

lemma in_assign: "x \<in> set (map_assign lt k v m) \<Longrightarrow> fst x = k \<or> fst x \<in> fst ` set m"
  by (induction m) (auto split: if_splits)

lemma in_insert: "x \<in> set (map_insert lt k v m) \<Longrightarrow> fst x = k \<or> fst x \<in> fst ` set m"
  by (induction m) (auto split: if_splits)

lemma assign_sorted:
  "sorted_wrt lt (map fst m) \<Longrightarrow> sorted_wrt lt (map fst (map_assign lt k v m))"
proof (induction m)
  case (Cons kv m)
  then show ?case
    by (cases kv) (auto dest!: in_assign dest: lt_trans)
qed simp

lemma insert_sorted:
  "sorted_wrt lt (map fst m) \<Longrightarrow> sorted_wrt lt (map fst (map_insert lt k v m))"
proof (induction m)
  case (Cons kv m)
  then show ?case
    by (cases kv) (auto dest!: in_insert dest: lt_trans)
qed simp

lemma erase_sorted:
  "sorted_wrt lt (map fst m) \<Longrightarrow> sorted_wrt lt (map fst (map_erase lt k m))"
  by (induction m) (auto simp: map_erase_def)

lemma key_cases:
  obtains "lt k c" and "\<not> equiv_by lt k c" | "lt c k" and "\<not> lt k c" and "\<not> equiv_by lt k c"
  | "equiv_by lt k c" and "\<not> lt k c" and "\<not> lt c k"
  using lt_irrefl lt_trans by (auto simp: equiv_by_def)

lemma find_assign:
  "map_find lt k (map_assign lt k' v m) = (if equiv_by lt k k' then Some v else map_find lt k m)"
proof (induction m)
  case (Cons kv m)
  obtain c d where kv: "kv = (c, d)" by force
  show ?case
    by (cases rule: key_cases [of k' c])
       (use kv Cons equiv_cong [of k k' c] equiv_sym [of k c] equiv_sym [of k' c] equiv_trans [of k c k']
         in auto)
qed simp

lemma map_find_below:
  "sorted_wrt lt (c # map fst m) \<Longrightarrow> lt k c \<Longrightarrow> map_find lt k m = None"
proof (induction m)
  case (Cons kv m)
  then have "lt k (fst kv)" by (auto intro: lt_trans)
  with Cons show ?case by (cases kv) (auto simp: equiv_by_def)
qed simp

lemma find_insert:
  assumes "sorted_wrt lt (map fst m)"
  shows "map_find lt k (map_insert lt k' v m) =
    (if equiv_by lt k k' \<and> map_find lt k m = None then Some v else map_find lt k m)"
  using assms
proof (induction m)
  case (Cons kv m)
  obtain c d where kv: "kv = (c, d)" by force
  have "map_find lt k' m = None" if "lt k' c" using that map_find_below Cons.prems kv by simp
  with Cons kv show ?case
    by (cases rule: key_cases [of k' c])
       (use equiv_cong [of k k' c] equiv_sym [of k c] equiv_sym [of k' c] equiv_trans [of k c k']
          map_find_cong [of k k' m] in auto)
qed simp

lemma find_erase:
  "map_find lt k (map_erase lt k' m) = (if equiv_by lt k k' then None else map_find lt k m)"
proof (induction m)
  case (Cons kv m)
  then show ?case
    using equiv_cong [of k k' "fst kv"] equiv_sym [of k "fst kv"] equiv_trans [of k' "fst kv" k]
      equiv_sym [of k' k]
    by (cases kv) (auto simp: map_erase_def)
qed (simp add: map_erase_def)

end

text \<open>A comparator whose equivalence is equality: \<open>std::set\<close> is then a finite set.\<close>

locale strict_total_order =
  fixes lt :: "'a \<Rightarrow> 'a \<Rightarrow> bool"
  assumes total_irrefl: "\<not> lt x x"
    and total_trans: "lt x y \<Longrightarrow> lt y z \<Longrightarrow> lt x z"
    and total_linear: "lt x y \<or> x = y \<or> lt y x"
begin

lemma equiv_iff_eq: "equiv_by lt x y \<longleftrightarrow> x = y"
  using total_linear [of x y] by (auto simp: equiv_by_def total_irrefl)

end

sublocale strict_total_order \<subseteq> strict_weak_order lt
  by unfold_locales (auto simp: equiv_iff_eq total_irrefl intro: total_trans)

context strict_total_order
begin

lemma set_set_insert: "set (set_insert lt x s) = insert x (set s)"
  using set_insert_subset [of x s] set_insert_superset [of s x] set_insert_has [of x s]
  by (auto simp: equiv_iff_eq)

lemma set_set_erase: "set (set_erase lt x s) = set s - {x}"
  by (auto simp: set_erase_def equiv_iff_eq)

lemma set_erase_sorted: "sorted_wrt lt s \<Longrightarrow> sorted_wrt lt (set_erase lt x s)"
  by (simp add: set_erase_def sorted_wrt_filter)

lemma set_count_iff: "set_count lt x s = (if x \<in> set s then 1 else 0)"
  by (auto simp: set_count_def equiv_iff_eq list_ex_iff)

lemma map_find_map_of: "map_find lt k m = map_of m k"
  by (induction m) (auto simp: equiv_iff_eq)

lemma keys_map_insert: "fst ` set (map_insert lt k v m) = insert k (fst ` set m)"
proof (induction m)
  case (Cons kv m)
  then show ?case using total_linear [of k "fst kv"] by (cases kv) auto
qed simp

lemma map_insert_sorted:
  "sorted_wrt lt (map fst m) \<Longrightarrow> sorted_wrt lt (map fst (map_insert lt k v m))"
proof (induction m)
  case (Cons kv m)
  obtain k' v' where kv: "kv = (k', v')" by force
  have "set (map fst (map_insert lt k v m)) = insert k (set (map fst m))"
    using keys_map_insert [of k v m] by simp
  with Cons kv show ?case by (auto dest: total_trans)
qed simp

lemma map_of_map_insert:
  assumes "sorted_wrt lt (map fst m)"
  shows "map_of (map_insert lt k v m) =
    (if k \<in> fst ` set m then map_of m else (map_of m)(k \<mapsto> v))"
  using assms
proof (induction m)
  case (Cons kv m)
  obtain k' v' where kv: "kv = (k', v')" by force
  have later: "\<not> lt k k' \<and> k \<noteq> k'" if "k \<in> fst ` set m"
  proof -
    from that Cons.prems kv have "lt k' k" by auto
    then show ?thesis using total_irrefl total_trans by blast
  qed
  have IH: "map_of (map_insert lt k v m) =
      (if k \<in> fst ` set m then map_of m else (map_of m)(k \<mapsto> v))"
    using Cons by simp
  show ?case
    using kv later total_linear [of k k'] by (auto simp: fun_eq_iff total_irrefl IH)
qed (auto simp: fun_eq_iff)

lemma keys_map_assign: "fst ` set (map_assign lt k v m) = insert k (fst ` set m)"
proof (induction m)
  case (Cons kv m)
  then show ?case using total_linear [of k "fst kv"] by (cases kv) auto
qed simp

lemma map_assign_sorted:
  "sorted_wrt lt (map fst m) \<Longrightarrow> sorted_wrt lt (map fst (map_assign lt k v m))"
proof (induction m)
  case (Cons kv m)
  obtain k' v' where kv: "kv = (k', v')" by force
  have "set (map fst (map_assign lt k v m)) = insert k (set (map fst m))"
    using keys_map_assign [of k v m] by simp
  with Cons kv show ?case by (auto dest: total_trans)
qed simp

lemma map_of_map_assign:
  assumes "sorted_wrt lt (map fst m)"
  shows "map_of (map_assign lt k v m) = (map_of m)(k \<mapsto> v)"
  using assms
proof (induction m)
  case (Cons kv m)
  obtain k' v' where kv: "kv = (k', v')" by force
  show ?case
    using Cons kv total_linear [of k k'] by (auto simp: fun_eq_iff total_irrefl)
qed (auto simp: fun_eq_iff)

lemma map_of_map_erase: "map_of (map_erase lt k m) = (map_of m)(k := None)"
  by (induction m) (auto simp: map_erase_def equiv_iff_eq fun_eq_iff)

lemma map_erase_sorted:
  "sorted_wrt lt (map fst m) \<Longrightarrow> sorted_wrt lt (map fst (map_erase lt k m))"
  by (induction m) (auto simp: map_erase_def)

lemma keys_map_erase: "fst ` set (map_erase lt k m) = fst ` set m - {k}"
  by (force simp: map_erase_def equiv_iff_eq)

lemma map_assign_append:
  "\<forall>k'\<in>fst ` set m. lt k' k \<Longrightarrow> map_assign lt k v m = m @ [(k, v)]"
proof (induction m)
  case (Cons kv m)
  obtain k' v' where kv: "kv = (k', v')" by force
  with Cons.prems have "lt k' k" by simp
  then have "\<not> lt k k'" using total_irrefl total_trans by blast
  with Cons kv show ?case by auto
qed simp

lemma map_assign_ascending:
  "sorted_wrt lt (map fst (m @ xs)) \<Longrightarrow>
   fold (\<lambda>(k, v). map_assign lt k v) xs m = m @ xs"
proof (induction xs arbitrary: m)
  case (Cons kv xs)
  obtain k v where kv: "kv = (k, v)" by force
  with Cons.prems have "map_assign lt k v m = m @ [(k, v)]"
    by (intro map_assign_append) (auto simp: sorted_wrt_append)
  with Cons kv show ?case by simp
qed simp

end

interpretation uuid_order: strict_total_order "(<) :: uuid \<Rightarrow> uuid \<Rightarrow> bool"
  by unfold_locales auto

interpretation string_order: strict_total_order string_less
proof
  show "\<not> string_less x x" for x
    by (simp add: string_less_def)
  show "string_less x y \<Longrightarrow> string_less y z \<Longrightarrow> string_less x z" for x y z
    unfolding string_less_def by (rule lex_less_trans)
  have "inj (\<lambda>c::char. (of_char c :: int))"
    by (rule injI) simp
  then show "string_less x y \<or> x = y \<or> string_less y x" for x y
    unfolding string_less_def by (rule lex_less_linear)
qed

section \<open>Comparing field by field\<close>

text \<open>
  The sources' \<open>operator<\<close> compares one field after the other and moves on where the
  fields are equal.
\<close>

definition lex_comb :: "('k \<Rightarrow> 'k \<Rightarrow> bool) \<Rightarrow> ('a \<Rightarrow> 'k) \<Rightarrow> ('a \<Rightarrow> 'a \<Rightarrow> bool) \<Rightarrow>
    'a \<Rightarrow> 'a \<Rightarrow> bool" where
  "lex_comb lt f rest a b = (if f a \<noteq> f b then lt (f a) (f b) else rest a b)"

lemma lex_comb_equiv:
  assumes "strict_total_order lt"
  shows "equiv_by (lex_comb lt f rest) a b \<longleftrightarrow> f a = f b \<and> equiv_by rest a b"
  using strict_total_order.equiv_iff_eq [OF assms, of "f a" "f b"]
  by (auto simp: equiv_by_def lex_comb_def)

lemma lex_comb_order:
  assumes lt: "strict_total_order lt" and rest: "strict_weak_order rest"
  shows "strict_weak_order (lex_comb lt f rest)"
proof
  show "\<not> lex_comb lt f rest x x" for x
    by (simp add: lex_comb_def strict_weak_order.lt_irrefl [OF rest])
  show "lex_comb lt f rest x y \<Longrightarrow> lex_comb lt f rest y z \<Longrightarrow> lex_comb lt f rest x z" for x y z
    unfolding lex_comb_def
    by (metis strict_total_order.total_irrefl [OF lt] strict_total_order.total_trans [OF lt]
        strict_weak_order.lt_trans [OF rest])
  show "equiv_by (lex_comb lt f rest) x y \<Longrightarrow> equiv_by (lex_comb lt f rest) y z \<Longrightarrow>
      equiv_by (lex_comb lt f rest) x z" for x y z
    using strict_weak_order.equiv_trans [OF rest] by (auto simp: lex_comb_equiv [OF lt])
qed

lemma order_False: "strict_weak_order (\<lambda>_ _. False)"
  by unfold_locales (auto simp: equiv_by_def)

lemma equiv_False [simp]: "equiv_by (\<lambda>_ _. False) a b"
  by (simp add: equiv_by_def)

lemma strict_total_order_nat: "strict_total_order ((<) :: nat \<Rightarrow> nat \<Rightarrow> bool)"
  by unfold_locales auto

end
