(* ===== verification/Remus_Streams.thy ===== *)
theory Remus_Streams
  imports Remus_Prelude
begin

text \<open>
  The text streams that carry every serialised object of Remus, and the helpers of
  \<open>remus/common/ConversionHelper.h\<close>. An output stream is the string written to it; an
  input stream is its unread characters with \<open>eofbit\<close> and \<open>failbit\<close>. Formatted
  extraction of numbers and words follows the C++11 rules of \<open>num_get\<close> and
  \<open>operator>>\<close>: white space is skipped, a failed sentry leaves the target unchanged, a
  missing number stores 0, a number out of range stores the nearest bound, and both set
  \<open>failbit\<close>.

  The locale \<open>stream_codec\<close> is the contract between a class's \<open>serialize\<close> and its
  stream constructor; each class of \<open>remus/proto\<close> interprets it.
\<close>

abbreviation nl :: char where
  "nl \<equiv> CHR 0x0A"

section \<open>Characters and printed numbers\<close>

definition isspace :: "char \<Rightarrow> bool" where
  "isspace c \<longleftrightarrow> c \<in> {CHR 0x20, CHR 0x09, CHR 0x0A, CHR 0x0B, CHR 0x0C, CHR 0x0D}"

definition spaces :: "string \<Rightarrow> bool" where
  "spaces s \<longleftrightarrow> list_all isspace s"

definition isdigit :: "char \<Rightarrow> bool" where
  "isdigit c \<longleftrightarrow> (48::nat) \<le> of_char c \<and> (of_char c :: nat) \<le> 57"

definition digit :: "nat \<Rightarrow> char" where
  "digit d = char_of (48 + d)"

definition digit_val :: "char \<Rightarrow> nat" where
  "digit_val c = of_char c - 48"

fun show_nat :: "nat \<Rightarrow> string" where
  "show_nat n = (if n < 10 then [digit n] else show_nat (n div 10) @ [digit (n mod 10)])"

declare show_nat.simps [simp del]

definition show_int :: "int \<Rightarrow> string" where
  "show_int z = (if z < 0 then CHR ''-'' # show_nat (nat (- z)) else show_nat (nat z))"

definition digits_value :: "string \<Rightarrow> nat" where
  "digits_value ds = foldl (\<lambda>acc c. 10 * acc + digit_val c) 0 ds"

lemma isspace_nl [simp]: "isspace nl"
  by (simp add: isspace_def)

lemma spaces_simps [simp]:
  "spaces []"
  "spaces (c # s) \<longleftrightarrow> isspace c \<and> spaces s"
  "spaces (s @ t) \<longleftrightarrow> spaces s \<and> spaces t"
  by (simp_all add: spaces_def)

lemma of_char_digit: "d < 10 \<Longrightarrow> (of_char (digit d) :: nat) = 48 + d"
  by (simp add: digit_def)

lemma isdigit_digit [simp]: "d < 10 \<Longrightarrow> isdigit (digit d)"
  by (simp add: isdigit_def of_char_digit)

lemma digit_val_digit [simp]: "d < 10 \<Longrightarrow> digit_val (digit d) = d"
  by (simp add: digit_val_def of_char_digit)

lemma isdigit_not_space: "isdigit c \<Longrightarrow> \<not> isspace c"
  by (auto simp: isdigit_def isspace_def)

lemma isdigit_not_sign: "isdigit c \<Longrightarrow> c \<noteq> CHR ''-'' \<and> c \<noteq> CHR ''+''"
  by (auto simp: isdigit_def)

lemma not_isdigit_nl [simp]: "\<not> isdigit nl"
  by (simp add: isdigit_def)

lemma show_nat_digits: "\<forall>c\<in>set (show_nat n). isdigit c"
proof (induction n rule: show_nat.induct)
  case (1 n)
  then show ?case by (subst show_nat.simps) auto
qed

lemma show_nat_nonempty [simp]: "show_nat n \<noteq> []"
  by (subst show_nat.simps) simp

lemma digits_value_snoc: "digits_value (ds @ [c]) = 10 * digits_value ds + digit_val c"
  by (simp add: digits_value_def)

lemma digits_value_show_nat [simp]: "digits_value (show_nat n) = n"
proof (induction n rule: show_nat.induct)
  case (1 n)
  show ?case
  proof (cases "n < 10")
    case True
    then show ?thesis by (subst show_nat.simps) (simp add: digits_value_def)
  next
    case False
    then have "digits_value (show_nat n) = 10 * digits_value (show_nat (n div 10)) + n mod 10"
      by (subst show_nat.simps) (simp add: digits_value_snoc)
    with 1 False show ?thesis by simp
  qed
qed

section \<open>Input streams\<close>

record istream =
  is_buf :: string
  is_eof :: bool
  is_fail :: bool

text \<open>\<open>std::istringstream buffer(str)\<close>\<close>

definition istream_of :: "string \<Rightarrow> istream" where
  "istream_of s = \<lparr>is_buf = s, is_eof = False, is_fail = False\<rparr>"

definition istream_good :: "istream \<Rightarrow> bool" where
  "istream_good s \<longleftrightarrow> \<not> is_eof s \<and> \<not> is_fail s"

definition scan_number :: "string \<Rightarrow> bool \<times> string \<times> string" where
  "scan_number cs =
     (let neg = (cs \<noteq> [] \<and> hd cs = CHR ''-'');
          body = (if cs \<noteq> [] \<and> (hd cs = CHR ''-'' \<or> hd cs = CHR ''+'') then tl cs else cs)
      in (neg, takeWhile isdigit body, dropWhile isdigit body))"

text \<open>
  Extraction of a number: \<open>None\<close> when the sentry failed and the variable keeps its old
  value. \<open>conv\<close> maps sign and magnitude to the stored value and says whether the number
  was out of range.
\<close>

definition istream_number ::
  "(bool \<Rightarrow> nat \<Rightarrow> 'a \<times> bool) \<Rightarrow> 'a \<Rightarrow> istream \<Rightarrow> 'a option \<times> istream" where
  "istream_number conv zero s =
     (if \<not> istream_good s then (None, s\<lparr>is_fail := True\<rparr>)
      else
        let cs = dropWhile isspace (is_buf s) in
        if cs = [] then (None, \<lparr>is_buf = [], is_eof = True, is_fail = True\<rparr>)
        else
          let (neg, ds, rest) = scan_number cs in
          if ds = [] then (Some zero, \<lparr>is_buf = rest, is_eof = (rest = []), is_fail = True\<rparr>)
          else
            let (v, out_of_range) = conv neg (digits_value ds) in
            (Some v, \<lparr>is_buf = rest, is_eof = (rest = []), is_fail = out_of_range\<rparr>))"

definition conv_int32 :: "bool \<Rightarrow> nat \<Rightarrow> int \<times> bool" where
  "conv_int32 neg n =
     (let z = (if neg then - int n else int n) in
      if z > 2 ^ 31 - 1 then (2 ^ 31 - 1, True)
      else if z < - (2 ^ 31) then (- (2 ^ 31), True)
      else (z, False))"

definition conv_size_t :: "bool \<Rightarrow> nat \<Rightarrow> nat \<times> bool" where
  "conv_size_t neg n =
     (if n > 2 ^ 64 - 1 then (2 ^ 64 - 1, True)
      else if neg then ((2 ^ 64 - n) mod 2 ^ 64, False)
      else (n, False))"

definition istream_int :: "istream \<Rightarrow> int option \<times> istream" where
  "istream_int s = istream_number conv_int32 0 s"

definition istream_size :: "istream \<Rightarrow> nat option \<times> istream" where
  "istream_size s = istream_number conv_size_t 0 s"

text \<open>\<open>buffer >> x\<close> for an \<open>x\<close> that was initialised to 0.\<close>

definition read_int :: "istream \<Rightarrow> int \<times> istream" where
  "read_int s = (case istream_int s of (v, s') \<Rightarrow> (case v of None \<Rightarrow> 0 | Some z \<Rightarrow> z, s'))"

definition read_size :: "istream \<Rightarrow> nat \<times> istream" where
  "read_size s = (case istream_size s of (v, s') \<Rightarrow> (case v of None \<Rightarrow> 0 | Some n \<Rightarrow> n, s'))"

text \<open>
  \<open>buffer >> x\<close> for an \<open>x\<close> left uninitialised: when the sentry fails, the code goes on
  to read an indeterminate value.
\<close>

definition read_int_uninit :: "istream \<Rightarrow> (int \<times> istream) result" where
  "read_int_uninit s =
     (case istream_int s of (v, s') \<Rightarrow>
       (case v of None \<Rightarrow> Inl UndefinedBehaviour | Some z \<Rightarrow> Inr (z, s')))"

text \<open>\<open>buffer >> str\<close> for an empty \<open>std::string str\<close>\<close>

definition read_word :: "istream \<Rightarrow> string \<times> istream" where
  "read_word s =
     (if \<not> istream_good s then ([], s\<lparr>is_fail := True\<rparr>)
      else
        let cs = dropWhile isspace (is_buf s);
            w = takeWhile (\<lambda>c. \<not> isspace c) cs;
            rest = dropWhile (\<lambda>c. \<not> isspace c) cs in
        (w, \<lparr>is_buf = rest, is_eof = (rest = []), is_fail = (w = [])\<rparr>))"

section \<open>ConversionHelper.h\<close>

text \<open>\<open>buffer.peek()\<close>; \<open>None\<close> is \<open>traits::eof()\<close>.\<close>

definition istream_peek :: "istream \<Rightarrow> char option \<times> istream" where
  "istream_peek s =
     (if \<not> istream_good s then (None, s\<lparr>is_fail := True\<rparr>)
      else case is_buf s of
        [] \<Rightarrow> (None, s\<lparr>is_eof := True\<rparr>)
      | c # _ \<Rightarrow> (Some c, s))"

definition skip_newline :: "istream \<Rightarrow> istream" where
  "skip_newline s =
     (case istream_peek s of (c, s') \<Rightarrow>
       if c = Some nl then s'\<lparr>is_buf := tl (is_buf s')\<rparr> else s')"

text \<open>
  \<open>rdbuf()->sgetn\<close> reads the buffer directly, whatever the stream's state bits say; the
  following \<open>assert\<close> fires when fewer characters are left than were asked for.
\<close>

definition sgetn :: "istream \<Rightarrow> nat \<Rightarrow> (string \<times> istream) result" where
  "sgetn s n =
     (if length (is_buf s) < n then Inl AssertFailure
      else Inr (take n (is_buf s), s\<lparr>is_buf := drop n (is_buf s)\<rparr>))"

definition extractVector :: "istream \<Rightarrow> nat \<Rightarrow> (string \<times> istream) result" where
  "extractVector s n =
     (let s' = skip_newline s in if n > 0 then sgetn s' n else Inr ([], s'))"

definition extractArray :: "istream \<Rightarrow> bool \<Rightarrow> nat \<Rightarrow> (string \<times> istream) result" where
  "extractArray s is_null n =
     (let s' = skip_newline s in if n > 0 \<and> \<not> is_null then sgetn s' n else Inr ([], s'))"

text \<open>
  \<open>std::vector<char>(size)\<close> refuses a size above \<open>PTRDIFF_MAX\<close> with
  \<open>std::length_error\<close>, \<open>new char[size]\<close> with a \<open>bad_alloc\<close>.
\<close>

definition max_object_size :: nat where
  "max_object_size = 2 ^ 63 - 1"

definition extractString :: "istream \<Rightarrow> nat \<Rightarrow> (string \<times> istream) result" where
  "extractString s n =
     (if n > max_object_size then Inl LengthError
      else bindE (extractVector s n) (\<lambda>(msg, s').
        if n > 0 then Inr (msg, s') else Inr ([], s')))"

definition new_char_array :: "nat \<Rightarrow> unit result" where
  "new_char_array n = (if n > max_object_size then Inl BadAlloc else Inr ())"

text \<open>An \<open>int\<close> converted to \<open>std::size_t\<close>.\<close>

definition size_t_of_int :: "int \<Rightarrow> nat" where
  "size_t_of_int z = nat (z mod 2 ^ 64)"

lemma size_t_of_int_nonneg [simp]: "n < 2 ^ 64 \<Longrightarrow> size_t_of_int (int n) = n"
  by (simp add: size_t_of_int_def)

text \<open>\<open>writeString\<close>: the characters, then \<open>std::endl\<close>.\<close>

definition writeString :: "string \<Rightarrow> string" where
  "writeString str = str @ [nl]"

text \<open>The contents members of the proto classes: read a size, allocate, extract.\<close>

definition read_contents :: "nat \<Rightarrow> istream \<Rightarrow> (string \<times> istream) result" where
  "read_contents n s = bindE (new_char_array n) (\<lambda>_. extractArray s False n)"

text \<open>A \<open>for\<close> loop that reads \<open>n\<close> items.\<close>

primrec read_many :: "nat \<Rightarrow> (istream \<Rightarrow> ('a \<times> istream) result) \<Rightarrow> istream \<Rightarrow>
    ('a list \<times> istream) result" where
  "read_many 0 get s = Inr ([], s)"
| "read_many (Suc n) get s =
     bindE (get s) (\<lambda>(x, s'). bindE (read_many n get s') (\<lambda>(xs, s''). Inr (x # xs, s'')))"

section \<open>Reading back what was printed\<close>

lemma is_buf_istream_of [simp]: "is_buf (istream_of s) = s"
  by (simp add: istream_of_def)

lemma istream_good_istream_of [simp]: "istream_good (istream_of s)"
  by (simp add: istream_of_def istream_good_def)

lemma dropWhile_spaces: "spaces ws \<Longrightarrow> dropWhile isspace (ws @ s) = dropWhile isspace s"
  by (induction ws) auto

lemma istream_number_spaces:
  "spaces ws \<Longrightarrow> istream_number conv zero (istream_of (ws @ s)) =
   istream_number conv zero (istream_of s)"
  by (simp add: istream_number_def dropWhile_spaces)

lemma istream_number_nl:
  "istream_number conv zero (istream_of (nl # s)) = istream_number conv zero (istream_of s)"
  using istream_number_spaces [of "[nl]" conv zero s] by simp

lemma takeWhile_show_nat [simp]:
  "takeWhile isdigit (show_nat n @ nl # r) = show_nat n"
  "dropWhile isdigit (show_nat n @ nl # r) = nl # r"
  using show_nat_digits [of n] by (simp_all add: takeWhile_append dropWhile_append)

lemma show_nat_Cons: obtains c cs where "show_nat n = c # cs" and "isdigit c"
proof -
  obtain c cs where "show_nat n = c # cs" by (cases "show_nat n") auto
  with show_nat_digits [of n] that show ?thesis by auto
qed

lemma dropWhile_space_show_nat [simp]:
  "dropWhile isspace (show_nat n @ s) = show_nat n @ s"
  by (rule show_nat_Cons [of n]) (auto dest: isdigit_not_space)

lemma scan_show_nat [simp]:
  "scan_number (show_nat n @ nl # r) = (False, show_nat n, nl # r)"
proof -
  obtain c cs where c: "show_nat n = c # cs" and "isdigit c" by (rule show_nat_Cons)
  then have "c \<noteq> CHR ''-''" and "c \<noteq> CHR ''+''" using isdigit_not_sign by auto
  with c show ?thesis
    using takeWhile_show_nat [of n r] by (simp add: scan_number_def)
qed

lemma istream_number_show_nat:
  assumes "conv False n = (v, False)"
  shows "istream_number conv zero (istream_of (show_nat n @ nl # r)) =
    (Some v, istream_of (nl # r))"
  using assms by (simp add: istream_number_def) (simp add: istream_of_def)

lemma istream_number_show_neg:
  assumes "conv True n = (v, False)"
  shows "istream_number conv zero (istream_of (CHR ''-'' # show_nat n @ nl # r)) =
    (Some v, istream_of (nl # r))"
  using assms by (simp add: istream_number_def scan_number_def isspace_def)
    (simp add: istream_of_def)

lemma istream_int_show_int:
  assumes "- (2 ^ 31) \<le> z" and "z < 2 ^ 31"
  shows "istream_int (istream_of (show_int z @ nl # r)) = (Some z, istream_of (nl # r))"
  using assms unfolding istream_int_def show_int_def
  by (auto intro!: istream_number_show_nat istream_number_show_neg simp: conv_int32_def Let_def)

lemma read_int_show_int [codec_simps]:
  "- (2 ^ 31) \<le> z \<Longrightarrow> z < 2 ^ 31 \<Longrightarrow>
   read_int (istream_of (show_int z @ nl # r)) = (z, istream_of (nl # r))"
  by (simp add: read_int_def istream_int_show_int)

lemma read_int_show_nat [codec_simps]:
  "n < 2 ^ 31 \<Longrightarrow> read_int (istream_of (show_nat n @ nl # r)) = (int n, istream_of (nl # r))"
  using read_int_show_int [of "int n" r] by (simp add: show_int_def)

lemma read_int_uninit_show_int [codec_simps]:
  "- (2 ^ 31) \<le> z \<Longrightarrow> z < 2 ^ 31 \<Longrightarrow>
   read_int_uninit (istream_of (show_int z @ nl # r)) = Inr (z, istream_of (nl # r))"
  by (simp add: read_int_uninit_def istream_int_show_int)

lemma read_int_uninit_show_nat [codec_simps]:
  "n < 2 ^ 31 \<Longrightarrow>
   read_int_uninit (istream_of (show_nat n @ nl # r)) = Inr (int n, istream_of (nl # r))"
  using read_int_uninit_show_int [of "int n" r] by (simp add: show_int_def)

lemma read_size_show_nat [codec_simps]:
  "n < 2 ^ 64 \<Longrightarrow> read_size (istream_of (show_nat n @ nl # r)) = (n, istream_of (nl # r))"
  by (simp add: read_size_def istream_size_def istream_number_show_nat conv_size_t_def)

lemma read_size_show_nat_object [codec_simps]:
  "n \<le> max_object_size \<Longrightarrow>
   read_size (istream_of (show_nat n @ nl # r)) = (n, istream_of (nl # r))"
  by (rule read_size_show_nat) (simp add: max_object_size_def)

lemma read_skip_spaces [codec_simps]:
  "spaces ws \<Longrightarrow> read_int (istream_of (ws @ s)) = read_int (istream_of s)"
  "spaces ws \<Longrightarrow> read_size (istream_of (ws @ s)) = read_size (istream_of s)"
  "spaces ws \<Longrightarrow> read_int_uninit (istream_of (ws @ s)) = read_int_uninit (istream_of s)"
  "read_int (istream_of (nl # s)) = read_int (istream_of s)"
  "read_size (istream_of (nl # s)) = read_size (istream_of s)"
  "read_int_uninit (istream_of (nl # s)) = read_int_uninit (istream_of s)"
  by (simp_all add: read_int_def read_size_def read_int_uninit_def istream_int_def
      istream_size_def istream_number_spaces istream_number_nl)

lemma skip_newline_nl [simp]: "skip_newline (istream_of (nl # s)) = istream_of s"
  by (simp add: skip_newline_def istream_peek_def) (simp add: istream_of_def)

lemma sgetn_append [simp]: "sgetn (istream_of (s @ r)) (length s) = Inr (s, istream_of r)"
  by (simp add: sgetn_def istream_of_def)

lemma extractVector_nl:
  "extractVector (istream_of (nl # s @ r)) (length s) = Inr (s, istream_of r)"
  by (cases "s = []") (simp_all add: extractVector_def Let_def)

lemma extractString_nl [codec_simps]:
  "length s \<le> max_object_size \<Longrightarrow>
   extractString (istream_of (nl # s @ r)) (length s) = Inr (s, istream_of r)"
  by (simp add: extractString_def extractVector_nl)

lemma read_contents_nl [codec_simps]:
  "length s \<le> max_object_size \<Longrightarrow>
   read_contents (length s) (istream_of (nl # s @ r)) = Inr (s, istream_of r)"
  by (cases "s = []") (simp_all add: read_contents_def new_char_array_def extractArray_def Let_def)

lemma read_word_nl [codec_simps]:
  "w \<noteq> [] \<Longrightarrow> \<forall>c\<in>set w. \<not> isspace c \<Longrightarrow>
   read_word (istream_of (w @ nl # r)) = (w, istream_of (nl # r))"
proof -
  assume "w \<noteq> []" and sp: "\<forall>c\<in>set w. \<not> isspace c"
  then have "dropWhile isspace (w @ nl # r) = w @ nl # r"
    by (cases w) auto
  with sp \<open>w \<noteq> []\<close> show ?thesis
    by (simp add: read_word_def Let_def istream_of_def takeWhile_append dropWhile_append)
       (simp add: istream_good_def)
qed

lemma read_word_spaces [codec_simps]:
  "spaces ws \<Longrightarrow> read_word (istream_of (ws @ s)) = read_word (istream_of s)"
  "read_word (istream_of (nl # s)) = read_word (istream_of s)"
  by (simp_all add: read_word_def dropWhile_spaces)

section \<open>The contract of a serialised class\<close>

text \<open>
  \<open>put\<close> is what \<open>operator<<\<close> writes, \<open>get\<close> the stream constructor, \<open>wf\<close> the objects
  the format can carry (field sizes within the integer types the reader uses) and
  \<open>trail x\<close> the white space \<open>get\<close> leaves unread. Leading white space is skipped,
  because every format starts with a number or a uuid.
\<close>

locale stream_codec =
  fixes put :: "'a \<Rightarrow> string"
    and get :: "istream \<Rightarrow> ('a \<times> istream) result"
    and wf :: "'a \<Rightarrow> bool"
    and trail :: "'a \<Rightarrow> string"
  assumes get_put: "wf x \<Longrightarrow> spaces ws \<Longrightarrow>
      get (istream_of (ws @ put x @ r)) = Inr (x, istream_of (trail x @ r))"
    and trail_spaces: "spaces (trail x)"
begin

lemma get_put0: "wf x \<Longrightarrow> get (istream_of (put x @ r)) = Inr (x, istream_of (trail x @ r))"
  using get_put [of x "[]" r] by simp

lemma get_put_nl:
  "wf x \<Longrightarrow> get (istream_of (nl # put x @ r)) = Inr (x, istream_of (trail x @ r))"
  using get_put [of x "[nl]" r] by simp

lemma get_put_end: "wf x \<Longrightarrow> get (istream_of (put x)) = Inr (x, istream_of (trail x))"
  using get_put0 [of x "[]"] by simp

text \<open>\<open>n\<close> objects written one after the other, each followed by a newline.\<close>

lemma read_many_put:
  assumes "\<forall>x\<in>set xs. wf x" and "spaces ws"
  shows "read_many (length xs) get (istream_of (ws @ concat (map (\<lambda>x. put x @ [nl]) xs) @ r)) =
    Inr (xs, istream_of ((if xs = [] then ws else trail (last xs) @ [nl]) @ r))"
  using assms
proof (induction xs arbitrary: ws)
  case (Cons x xs)
  have sp: "spaces (trail x @ [nl])" using trail_spaces by simp
  have IH: "read_many (length xs) get
      (istream_of ((trail x @ [nl]) @ concat (map (\<lambda>x. put x @ [nl]) xs) @ r)) =
      Inr (xs, istream_of ((if xs = [] then trail x @ [nl] else trail (last xs) @ [nl]) @ r))"
    using Cons.prems by (intro Cons.IH [OF _ sp]) simp
  have "get (istream_of (ws @ put x @ nl # concat (map (\<lambda>x. put x @ [nl]) xs) @ r)) =
      Inr (x, istream_of (trail x @ nl # concat (map (\<lambda>x. put x @ [nl]) xs) @ r))"
    using Cons.prems by (intro get_put) auto
  with IH show ?case by (auto split: if_splits)
qed auto

lemma read_many_put_nl:
  assumes "\<forall>x\<in>set xs. wf x"
  shows "read_many (length xs) get (istream_of (nl # concat (map (\<lambda>x. put x @ [nl]) xs) @ r)) =
    Inr (xs, istream_of ((if xs = [] then [nl] else trail (last xs) @ [nl]) @ r))"
  using read_many_put [OF assms, of "[nl]"] by simp

end

end
