(* ===== verification/Remus_Types.thy ===== *)
theory Remus_Types
  imports Remus_Streams
begin

text \<open>
  The enumerations of \<open>remus/common\<close> (\<open>ServiceTypes.h\<close>, \<open>StatusTypes.h\<close>,
  \<open>ContentTypes.h\<close>) with their string tables, and \<open>MeshIOType\<close> with its set type:
  equality, ordering, and the text format clients, server and workers exchange.
\<close>

section \<open>ServiceTypes.h\<close>

datatype SERVICE_TYPE =
    INVALID_SERVICE
  | SUPPORTED_IO_TYPES
  | MESH_REQUIREMENTS_FOR_IO_TYPE
  | CAN_MESH_REQUIREMENTS
  | CAN_MESH_IO_TYPE
  | MAKE_MESH
  | MESH_STATUS
  | RETRIEVE_RESULT
  | HEARTBEAT
  | TERMINATE_JOB
  | TERMINATE_WORKER

fun int_of_SERVICE_TYPE :: "SERVICE_TYPE \<Rightarrow> nat" where
  "int_of_SERVICE_TYPE INVALID_SERVICE = 0"
| "int_of_SERVICE_TYPE SUPPORTED_IO_TYPES = 1"
| "int_of_SERVICE_TYPE MESH_REQUIREMENTS_FOR_IO_TYPE = 2"
| "int_of_SERVICE_TYPE CAN_MESH_REQUIREMENTS = 3"
| "int_of_SERVICE_TYPE CAN_MESH_IO_TYPE = 4"
| "int_of_SERVICE_TYPE MAKE_MESH = 5"
| "int_of_SERVICE_TYPE MESH_STATUS = 6"
| "int_of_SERVICE_TYPE RETRIEVE_RESULT = 7"
| "int_of_SERVICE_TYPE HEARTBEAT = 8"
| "int_of_SERVICE_TYPE TERMINATE_JOB = 9"
| "int_of_SERVICE_TYPE TERMINATE_WORKER = 10"

definition all_services :: "SERVICE_TYPE list" where
  "all_services = [INVALID_SERVICE, SUPPORTED_IO_TYPES, MESH_REQUIREMENTS_FOR_IO_TYPE,
     CAN_MESH_REQUIREMENTS, CAN_MESH_IO_TYPE, MAKE_MESH, MESH_STATUS, RETRIEVE_RESULT,
     HEARTBEAT, TERMINATE_JOB, TERMINATE_WORKER]"

text \<open>
  \<open>static_cast<SERVICE_TYPE>(i)\<close>: only the enumerators' values are within the type's
  range in the sense the sources use it; any other value is undefined behaviour.
\<close>

definition SERVICE_TYPE_of_int :: "int \<Rightarrow> SERVICE_TYPE result" where
  "SERVICE_TYPE_of_int i =
     (if 0 \<le> i \<and> nat i < length all_services then Inr (all_services ! nat i)
      else Inl UndefinedBehaviour)"

definition serv_types :: "string list" where
  "serv_types = [''INVALID'', ''SUPPORTED IO TYPES'', ''MESH REQUIREMENTS IO TYPE'',
     ''CAN MESH REQUIREMENTS'', ''CAN MESH IO TYPE'', ''MAKE MESH'', ''MESH STATUS'',
     ''RETRIEVE RESULT'', ''HEARTBEAT'', ''TERMINATE JOB'', ''TERMINATE WORKER'']"

definition service_to_string :: "SERVICE_TYPE \<Rightarrow> string" where
  "service_to_string t = serv_types ! int_of_SERVICE_TYPE t"

text \<open>The loop \<open>for (i = 1; i <= 10; i++)\<close> with its early return.\<close>

definition to_serviceType :: "string \<Rightarrow> SERVICE_TYPE" where
  "to_serviceType t =
     (case find (\<lambda>i. service_to_string (all_services ! i) = t) [1..<11] of
        Some i \<Rightarrow> all_services ! i
      | None \<Rightarrow> INVALID_SERVICE)"

section \<open>StatusTypes.h\<close>

definition INVALID_MSG :: string where
  "INVALID_MSG = ''INVALID_MSG''"

datatype STATUS_TYPE = INVALID_STATUS | QUEUED | IN_PROGRESS | FINISHED | FAILED | EXPIRED

fun int_of_STATUS_TYPE :: "STATUS_TYPE \<Rightarrow> nat" where
  "int_of_STATUS_TYPE INVALID_STATUS = 0"
| "int_of_STATUS_TYPE QUEUED = 1"
| "int_of_STATUS_TYPE IN_PROGRESS = 2"
| "int_of_STATUS_TYPE FINISHED = 3"
| "int_of_STATUS_TYPE FAILED = 4"
| "int_of_STATUS_TYPE EXPIRED = 5"

definition all_statuses :: "STATUS_TYPE list" where
  "all_statuses = [INVALID_STATUS, QUEUED, IN_PROGRESS, FINISHED, FAILED, EXPIRED]"

definition STATUS_TYPE_of_int :: "int \<Rightarrow> STATUS_TYPE result" where
  "STATUS_TYPE_of_int i =
     (if 0 \<le> i \<and> nat i < length all_statuses then Inr (all_statuses ! nat i)
      else Inl UndefinedBehaviour)"

definition stat_types :: "string list" where
  "stat_types = [''INVALID'', ''QUEUED'', ''IN PROGRESS'', ''FINISHED'', ''FAILED'', ''EXPIRED'']"

definition status_to_string :: "STATUS_TYPE \<Rightarrow> string" where
  "status_to_string t = stat_types ! int_of_STATUS_TYPE t"

definition to_statusType :: "string \<Rightarrow> STATUS_TYPE" where
  "to_statusType t =
     (case find (\<lambda>i. status_to_string (all_statuses ! i) = t) [1..<6] of
        Some i \<Rightarrow> all_statuses ! i
      | None \<Rightarrow> INVALID_STATUS)"

section \<open>ContentTypes.h\<close>

datatype ContentFormat = User | XML | JSON | BSON

datatype ContentSource = File | Memory

fun int_of_ContentFormat :: "ContentFormat \<Rightarrow> nat" where
  "int_of_ContentFormat User = 0"
| "int_of_ContentFormat XML = 1"
| "int_of_ContentFormat JSON = 2"
| "int_of_ContentFormat BSON = 3"

fun int_of_ContentSource :: "ContentSource \<Rightarrow> nat" where
  "int_of_ContentSource File = 0"
| "int_of_ContentSource Memory = 1"

definition ContentFormat_of_int :: "int \<Rightarrow> ContentFormat result" where
  "ContentFormat_of_int i =
     (if i = 0 then Inr User else if i = 1 then Inr XML
      else if i = 2 then Inr JSON else if i = 3 then Inr BSON
      else Inl UndefinedBehaviour)"

definition ContentSource_of_int :: "int \<Rightarrow> ContentSource result" where
  "ContentSource_of_int i =
     (if i = 0 then Inr File else if i = 1 then Inr Memory else Inl UndefinedBehaviour)"

section \<open>MeshIOType\<close>

record MeshIOType =
  inputType :: string
  outputType :: string

definition MeshIOType_default :: MeshIOType where
  "MeshIOType_default = \<lparr>inputType = '''', outputType = ''''\<rparr>"

definition MeshIOType_valid :: "MeshIOType \<Rightarrow> bool" where
  "MeshIOType_valid t \<longleftrightarrow> inputType t \<noteq> [] \<and> outputType t \<noteq> []"

definition MeshIOType_eq :: "MeshIOType \<Rightarrow> MeshIOType \<Rightarrow> bool" where
  "MeshIOType_eq a b \<longleftrightarrow> inputType a = inputType b \<and> outputType a = outputType b"

definition MeshIOType_less :: "MeshIOType \<Rightarrow> MeshIOType \<Rightarrow> bool" where
  "MeshIOType_less a b =
     (if inputType a = inputType b then string_less (outputType a) (outputType b)
      else string_less (inputType a) (inputType b))"

definition MeshIOType_serialize :: "MeshIOType \<Rightarrow> string" where
  "MeshIOType_serialize t =
     show_nat (length (inputType t)) @ [nl] @ writeString (inputType t) @
     show_nat (length (outputType t)) @ [nl] @ writeString (outputType t)"

definition MeshIOType_read :: "istream \<Rightarrow> (MeshIOType \<times> istream) result" where
  "MeshIOType_read s0 =
     (let (inputSize, s1) = read_size s0 in
      bindE (extractString s1 inputSize) (\<lambda>(inName, s2).
      let (outputSize, s3) = read_size s2 in
      bindE (extractString s3 outputSize) (\<lambda>(outName, s4).
      Inr (\<lparr>inputType = inName, outputType = outName\<rparr>, s4))))"

text \<open>\<open>MeshIOTypeSet\<close> wraps \<open>std::set<MeshIOType>\<close>.\<close>

type_synonym MeshIOTypeSet = "MeshIOType list"

definition MeshIOTypeSet_insert :: "MeshIOType \<Rightarrow> MeshIOTypeSet \<Rightarrow> MeshIOTypeSet" where
  "MeshIOTypeSet_insert = set_insert MeshIOType_less"

definition MeshIOTypeSet_insert_range :: "MeshIOType list \<Rightarrow> MeshIOTypeSet \<Rightarrow> MeshIOTypeSet" where
  "MeshIOTypeSet_insert_range = set_insert_range MeshIOType_less"

definition MeshIOTypeSet_serialize :: "MeshIOTypeSet \<Rightarrow> string" where
  "MeshIOTypeSet_serialize c =
     show_nat (length c) @ [nl] @ concat (map (\<lambda>t. MeshIOType_serialize t @ [nl]) c)"

definition MeshIOTypeSet_read :: "istream \<Rightarrow> (MeshIOTypeSet \<times> istream) result" where
  "MeshIOTypeSet_read s0 =
     (let (csize, s1) = read_size s0 in
      bindE (read_many csize MeshIOType_read s1) (\<lambda>(ts, s2).
      Inr (set_insert_range MeshIOType_less ts [], s2)))"

section \<open>Enumerations: conversions are inverse to each other\<close>

lemma SERVICE_TYPE_of_int_of [simp]:
  "SERVICE_TYPE_of_int (int (int_of_SERVICE_TYPE t)) = Inr t"
  by (cases t) (simp_all add: SERVICE_TYPE_of_int_def all_services_def)

lemma STATUS_TYPE_of_int_of [simp]:
  "STATUS_TYPE_of_int (int (int_of_STATUS_TYPE t)) = Inr t"
  by (cases t) (simp_all add: STATUS_TYPE_of_int_def all_statuses_def)

lemma ContentFormat_of_int_of [simp]:
  "ContentFormat_of_int (int (int_of_ContentFormat t)) = Inr t"
  by (cases t) (simp_all add: ContentFormat_of_int_def)

lemma ContentSource_of_int_of [simp]:
  "ContentSource_of_int (int (int_of_ContentSource t)) = Inr t"
  by (cases t) (simp_all add: ContentSource_of_int_def)

lemma int_of_STATUS_TYPE_bound [simp]: "int_of_STATUS_TYPE js < 2147483648"
  by (cases js) simp_all

lemma int_of_ContentFormat_bound [simp]: "int_of_ContentFormat cf < 2147483648"
  by (cases cf) simp_all

lemma int_of_ContentSource_bound [simp]: "int_of_ContentSource cs < 2147483648"
  by (cases cs) simp_all

lemma int_of_ContentFormat_inject [simp]:
  "int_of_ContentFormat a = int_of_ContentFormat b \<longleftrightarrow> a = b"
  by (cases a; cases b) auto

lemma int_of_ContentSource_inject [simp]:
  "int_of_ContentSource a = int_of_ContentSource b \<longleftrightarrow> a = b"
  by (cases a; cases b) auto

text \<open>
  Printing a service type or a status type and looking the string up again gives the
  same enumerator, and a string that names no enumerator is mapped to the invalid one.
\<close>

theorem enum_strings_roundtrip:
  "to_serviceType (service_to_string st) = st \<and>
   to_statusType (status_to_string js) = js \<and>
   (to_serviceType s = INVALID_SERVICE \<longleftrightarrow> s \<notin> set (tl serv_types)) \<and>
   (to_statusType s = INVALID_STATUS \<longleftrightarrow> s \<notin> set (tl stat_types))"
proof (intro conjI)
  show "to_serviceType (service_to_string st) = st"
    by (cases st) (simp_all add: to_serviceType_def service_to_string_def serv_types_def
        all_services_def upt_rec)
  show "to_statusType (status_to_string js) = js"
    by (cases js) (simp_all add: to_statusType_def status_to_string_def stat_types_def
        all_statuses_def upt_rec)
  show "to_serviceType s = INVALID_SERVICE \<longleftrightarrow> s \<notin> set (tl serv_types)"
    by (auto simp add: to_serviceType_def service_to_string_def serv_types_def
        all_services_def upt_rec)
  show "to_statusType s = INVALID_STATUS \<longleftrightarrow> s \<notin> set (tl stat_types)"
    by (auto simp add: to_statusType_def status_to_string_def stat_types_def
        all_statuses_def upt_rec)
qed

section \<open>MeshIOType: ordering and text format\<close>

lemma MeshIOType_eq_iff [simp]: "MeshIOType_eq a b \<longleftrightarrow> a = b"
  by (cases a; cases b) (simp add: MeshIOType_eq_def)

interpretation meshio_order: strict_total_order MeshIOType_less
proof
  show "\<not> MeshIOType_less x x" for x
    by (simp add: MeshIOType_less_def string_order.total_irrefl)
  show "MeshIOType_less x y \<Longrightarrow> MeshIOType_less y z \<Longrightarrow> MeshIOType_less x z" for x y z
    unfolding MeshIOType_less_def
    by (metis string_order.total_trans string_order.total_irrefl)
  show "MeshIOType_less x y \<or> x = y \<or> MeshIOType_less y x" for x y
    using string_order.total_linear [of "inputType x" "inputType y"]
      string_order.total_linear [of "outputType x" "outputType y"]
    by (cases x; cases y) (auto simp: MeshIOType_less_def)
qed

definition MeshIOType_wf :: "MeshIOType \<Rightarrow> bool" where
  "MeshIOType_wf t \<longleftrightarrow>
     length (inputType t) \<le> max_object_size \<and> length (outputType t) \<le> max_object_size"

lemmas codec_unfolds = Let_def writeString_def

interpretation meshio_codec: stream_codec MeshIOType_serialize MeshIOType_read
  MeshIOType_wf "\<lambda>_. [nl]"
proof
  fix x :: MeshIOType and ws r
  assume "MeshIOType_wf x" and "spaces ws"
  then show "MeshIOType_read (istream_of (ws @ MeshIOType_serialize x @ r)) =
      Inr (x, istream_of ([nl] @ r))"
    by (simp add: MeshIOType_read_def MeshIOType_serialize_def MeshIOType_wf_def codec_unfolds
        codec_simps)
qed simp

definition MeshIOTypeSet_wf :: "MeshIOTypeSet \<Rightarrow> bool" where
  "MeshIOTypeSet_wf c \<longleftrightarrow>
     sorted_wrt MeshIOType_less c \<and> (\<forall>t\<in>set c. MeshIOType_wf t) \<and> length c < 2 ^ 64"

text \<open>
  The set of mesh types the server sends to a client (\<open>SUPPORTED_IO_TYPES\<close>) is read
  back as the same set, whatever white space precedes it and whatever follows it.
\<close>

theorem MeshIOTypeSet_roundtrip:
  assumes wf: "MeshIOTypeSet_wf c" and ws: "spaces ws"
  shows "\<exists>ws'. spaces ws' \<and>
    MeshIOTypeSet_read (istream_of (ws @ MeshIOTypeSet_serialize c @ r)) =
    Inr (c, istream_of (ws' @ r))"
proof -
  have "set_insert_range MeshIOType_less c [] = c"
    using wf meshio_order.set_insert_range_ascending [of "[]" c]
    by (simp add: MeshIOTypeSet_wf_def)
  then show ?thesis
    using wf ws
    by (intro exI [of _ "if c = [] then [nl] else [nl, nl]"])
       (auto simp: MeshIOTypeSet_read_def MeshIOTypeSet_serialize_def MeshIOTypeSet_wf_def
        codec_unfolds codec_simps meshio_codec.read_many_put_nl)
qed

theorem MeshIOTypeSet_roundtrip_witness:
  "MeshIOTypeSet_wf [\<lparr>inputType = ''Model'', outputType = ''Mesh3D''\<rparr>,
      \<lparr>inputType = ''Scene'', outputType = ''Mesh2D''\<rparr>] \<and>
   (\<exists>ws'. spaces ws' \<and>
     MeshIOTypeSet_read (istream_of ([nl] @
       MeshIOTypeSet_serialize [\<lparr>inputType = ''Model'', outputType = ''Mesh3D''\<rparr>,
         \<lparr>inputType = ''Scene'', outputType = ''Mesh2D''\<rparr>] @ ''tail'')) =
     Inr ([\<lparr>inputType = ''Model'', outputType = ''Mesh3D''\<rparr>,
       \<lparr>inputType = ''Scene'', outputType = ''Mesh2D''\<rparr>], istream_of (ws' @ ''tail'')))"
proof -
  have "MeshIOTypeSet_wf [\<lparr>inputType = ''Model'', outputType = ''Mesh3D''\<rparr>,
      \<lparr>inputType = ''Scene'', outputType = ''Mesh2D''\<rparr>]"
    by (simp add: MeshIOTypeSet_wf_def MeshIOType_wf_def max_object_size_def
        MeshIOType_less_def string_less_def)
  then show ?thesis
    using MeshIOTypeSet_roundtrip [of _ "[nl]" "''tail''"] by auto
qed

end
