(* ===== verification/Remus_Polling.thy ===== *)
theory Remus_Polling
  imports Remus_Prelude
begin

text \<open>
  \<open>remus/common/PollingMonitor.cxx\<close> and \<open>remus/common/Timer.cxx\<close>: the adaptive polling
  interval that the server's broker loop, the worker's message router and the
  \<open>SocketMonitor\<close> share. Times and durations are microseconds, as
  \<open>boost::posix_time::microsec_clock\<close> counts them; the public accessors convert to
  milliseconds. The counts have 64 bits in the code and are unbounded here: the constructor and
  \<open>changeTimeOutRates\<close> are as in the code for rates below \<open>2 ^ 63 / 1000\<close> milliseconds.
\<close>

section \<open>Timer\<close>

record Timer =
  LastTime :: ptime

definition Timer_init :: "ptime \<Rightarrow> Timer" where
  "Timer_init now = \<lparr>LastTime = now\<rparr>"

definition Timer_reset :: "ptime \<Rightarrow> Timer \<Rightarrow> Timer" where
  "Timer_reset now t = t\<lparr>LastTime := now\<rparr>"

definition Timer_elapsed :: "ptime \<Rightarrow> Timer \<Rightarrow> int" where
  "Timer_elapsed now t = total_milliseconds (now - LastTime t)"

section \<open>PollingMonitor\<close>

record PollingMonitor =
  MinTimeOut :: time_duration
  MaxTimeOut :: time_duration
  AveragePollRate :: time_duration
  CurrentPollRate :: time_duration
  LastPollTime :: ptime
  PollingFrequency :: "time_duration list"

text \<open>\<open>boost::circular_buffer\<close> of capacity 5: pushing into a full buffer drops the oldest.\<close>

definition frequency_capacity :: nat where
  "frequency_capacity = 5"

definition circular_push_back :: "'a \<Rightarrow> 'a list \<Rightarrow> 'a list" where
  "circular_push_back x buf =
     (if length buf < frequency_capacity then buf @ [x] else tl buf @ [x])"

definition PollingMonitor_init :: "int \<Rightarrow> int \<Rightarrow> ptime \<Rightarrow> PollingMonitor" where
  "PollingMonitor_init minRate maxRate p =
     (let tempMin = max 0 minRate; tempMax = max 0 maxRate;
          properMinRate = milliseconds (min tempMin tempMax);
          properMaxRate = milliseconds (max tempMin tempMax) in
      \<lparr>MinTimeOut = properMinRate, MaxTimeOut = properMaxRate,
       AveragePollRate = properMinRate, CurrentPollRate = properMinRate,
       LastPollTime = p, PollingFrequency = circular_push_back properMinRate []\<rparr>)"

definition PollingMonitor_default :: "ptime \<Rightarrow> PollingMonitor" where
  "PollingMonitor_default now = PollingMonitor_init (5 * 1000) (60 * 1000) now"

definition changeTimeOutRates :: "int \<Rightarrow> int \<Rightarrow> PollingMonitor \<Rightarrow> PollingMonitor" where
  "changeTimeOutRates minRate maxRate m =
     (let tempMin = max 0 minRate; tempMax = max 0 maxRate;
          properMinRate = milliseconds (min tempMin tempMax);
          properMaxRate = milliseconds (max tempMin tempMax);
          cur = max (CurrentPollRate m) properMinRate in
      m\<lparr>MinTimeOut := properMinRate, MaxTimeOut := properMaxRate,
        CurrentPollRate := min cur properMaxRate\<rparr>)"

text \<open>
  \<open>time_duration / int\<close> divides the tick count, rounding towards zero. The quarter of
  the average is taken on its whole milliseconds and truncated.
\<close>

definition duration_div :: "time_duration \<Rightarrow> nat \<Rightarrow> time_duration" where
  "duration_div d n = (if d < 0 then - ((- d) div int n) else d div int n)"

definition pollOccurred :: "ptime \<Rightarrow> PollingMonitor \<Rightarrow> PollingMonitor" where
  "pollOccurred time m =
     (let dur = time - LastPollTime m;
          freq = circular_push_back dur (PollingFrequency m);
          avg = duration_div (sum_list freq) (length freq);
          m' = m\<lparr>PollingFrequency := freq, LastPollTime := time, AveragePollRate := avg\<rparr> in
      if avg < MinTimeOut m then m'\<lparr>CurrentPollRate := MinTimeOut m\<rparr>
      else
        let mil_secs = total_milliseconds avg div 4;
            cur = avg + milliseconds mil_secs in
        m'\<lparr>CurrentPollRate := (if cur > MaxTimeOut m then MaxTimeOut m else cur)\<rparr>)"

definition PollingMonitor_minTimeOut :: "PollingMonitor \<Rightarrow> int" where
  "PollingMonitor_minTimeOut m = total_milliseconds (MinTimeOut m)"

definition PollingMonitor_maxTimeOut :: "PollingMonitor \<Rightarrow> int" where
  "PollingMonitor_maxTimeOut m = total_milliseconds (MaxTimeOut m)"

definition PollingMonitor_current :: "PollingMonitor \<Rightarrow> int" where
  "PollingMonitor_current m = total_milliseconds (CurrentPollRate m)"

definition PollingMonitor_average :: "PollingMonitor \<Rightarrow> int" where
  "PollingMonitor_average m = total_milliseconds (AveragePollRate m)"

definition hasAbnormalEvent :: "PollingMonitor \<Rightarrow> bool" where
  "hasAbnormalEvent m \<longleftrightarrow> AveragePollRate m > CurrentPollRate m"

text \<open>The state-changing operations as events, and a run of them.\<close>

datatype polling_op = ChangeTimeOutRates int int | PollOccurred ptime

fun polling_step :: "polling_op \<Rightarrow> PollingMonitor \<Rightarrow> PollingMonitor" where
  "polling_step (ChangeTimeOutRates lo hi) m = changeTimeOutRates lo hi m"
| "polling_step (PollOccurred t) m = pollOccurred t m"

section \<open>The polling interval stays within its bounds\<close>

definition polling_inv :: "PollingMonitor \<Rightarrow> bool" where
  "polling_inv m \<longleftrightarrow>
     0 \<le> MinTimeOut m \<and> MinTimeOut m \<le> CurrentPollRate m \<and>
     CurrentPollRate m \<le> MaxTimeOut m \<and>
     PollingFrequency m \<noteq> [] \<and> length (PollingFrequency m) \<le> frequency_capacity"

lemma circular_push_back_shape:
  assumes "length buf \<le> frequency_capacity"
  shows "circular_push_back x buf \<noteq> []"
    and "length (circular_push_back x buf) \<le> frequency_capacity"
  using assms by (auto simp: circular_push_back_def frequency_capacity_def)

lemma polling_inv_init: "polling_inv (PollingMonitor_init lo hi now)"
  by (auto simp: polling_inv_def PollingMonitor_init_def Let_def milliseconds_def
      circular_push_back_def frequency_capacity_def)

lemma polling_inv_change: "polling_inv m \<Longrightarrow> polling_inv (changeTimeOutRates lo hi m)"
  by (auto simp: polling_inv_def changeTimeOutRates_def Let_def milliseconds_def)

lemma quarter_nonneg: "0 \<le> avg \<Longrightarrow> 0 \<le> milliseconds (total_milliseconds avg div 4)"
  by (simp add: milliseconds_def total_milliseconds_def)

lemma polling_inv_poll:
  assumes "polling_inv m"
  shows "polling_inv (pollOccurred t m)"
proof -
  have "0 \<le> MinTimeOut m" and "MinTimeOut m \<le> MaxTimeOut m"
    and "length (PollingFrequency m) \<le> frequency_capacity"
    using assms by (auto simp: polling_inv_def)
  then show ?thesis
    using circular_push_back_shape [of "PollingFrequency m" "t - LastPollTime m"]
      quarter_nonneg [of "duration_div
        (sum_list (circular_push_back (t - LastPollTime m) (PollingFrequency m)))
        (length (circular_push_back (t - LastPollTime m) (PollingFrequency m)))"]
    by (auto simp: polling_inv_def pollOccurred_def Let_def)
qed

lemma polling_inv_step: "polling_inv m \<Longrightarrow> polling_inv (polling_step op m)"
  by (cases op) (auto simp: polling_inv_change polling_inv_poll)

lemma polling_inv_run: "polling_inv m \<Longrightarrow> polling_inv (fold polling_step ops m)"
  by (induction ops arbitrary: m) (auto simp: polling_inv_step)

lemma total_milliseconds_mono: "0 \<le> a \<Longrightarrow> a \<le> b \<Longrightarrow> total_milliseconds a \<le> total_milliseconds b"
  by (simp add: total_milliseconds_def zdiv_mono1)

text \<open>
  Whatever rates a monitor is created with and whatever sequence of rate changes and
  polls follows (clocks that jump backwards included), the time-out handed to the next poll
  is never negative and lies between the minimum and maximum time-out, and at most five
  poll durations are remembered.
\<close>

theorem polling_current_bounds:
  defines "m \<equiv> \<lambda>lo hi now ops. fold polling_step ops (PollingMonitor_init lo hi now)"
  shows "0 \<le> PollingMonitor_minTimeOut (m lo hi now ops) \<and>
    PollingMonitor_minTimeOut (m lo hi now ops) \<le> PollingMonitor_current (m lo hi now ops) \<and>
    PollingMonitor_current (m lo hi now ops) \<le> PollingMonitor_maxTimeOut (m lo hi now ops) \<and>
    length (PollingFrequency (m lo hi now ops)) \<le> 5"
proof -
  have "polling_inv (m lo hi now ops)"
    unfolding m_def by (intro polling_inv_run polling_inv_init)
  then show ?thesis
    by (auto simp: polling_inv_def PollingMonitor_minTimeOut_def PollingMonitor_current_def
        PollingMonitor_maxTimeOut_def frequency_capacity_def
        intro: total_milliseconds_mono total_milliseconds_nonneg)
qed

text \<open>
  Creating a monitor or changing its rates takes the two rates in either order, replaces
  negative ones by zero, and moves the current rate to the nearest point of the new range.
\<close>

theorem polling_rates_normalised:
  "PollingMonitor_minTimeOut (PollingMonitor_init lo hi now) = max 0 (min lo hi) \<and>
   PollingMonitor_maxTimeOut (PollingMonitor_init lo hi now) = max 0 (max lo hi) \<and>
   PollingMonitor_minTimeOut (changeTimeOutRates lo hi m) = max 0 (min lo hi) \<and>
   PollingMonitor_maxTimeOut (changeTimeOutRates lo hi m) = max 0 (max lo hi) \<and>
   CurrentPollRate (changeTimeOutRates lo hi m) =
     (if CurrentPollRate m < MinTimeOut (changeTimeOutRates lo hi m)
      then MinTimeOut (changeTimeOutRates lo hi m)
      else if CurrentPollRate m > MaxTimeOut (changeTimeOutRates lo hi m)
      then MaxTimeOut (changeTimeOutRates lo hi m)
      else CurrentPollRate m)"
  by (auto simp: PollingMonitor_minTimeOut_def PollingMonitor_maxTimeOut_def
      PollingMonitor_init_def changeTimeOutRates_def Let_def milliseconds_def
      total_milliseconds_def min_def max_def)

section \<open>Abnormal events\<close>

lemma abnormal_after_poll:
  assumes "polling_inv m"
  shows "hasAbnormalEvent (pollOccurred t m) \<longleftrightarrow>
    AveragePollRate (pollOccurred t m) > MaxTimeOut m"
  using assms quarter_nonneg [of "duration_div
      (sum_list (circular_push_back (t - LastPollTime m) (PollingFrequency m)))
      (length (circular_push_back (t - LastPollTime m) (PollingFrequency m)))"]
  by (auto simp: hasAbnormalEvent_def pollOccurred_def polling_inv_def Let_def)

fun poll_all :: "ptime list \<Rightarrow> PollingMonitor \<Rightarrow> PollingMonitor" where
  "poll_all [] m = m"
| "poll_all (t # ts) m = poll_all ts (pollOccurred t m)"

fun gaps :: "ptime \<Rightarrow> ptime list \<Rightarrow> time_duration list" where
  "gaps t0 [] = []"
| "gaps t0 (t # ts) = (t - t0) # gaps t ts"

lemma length_gaps [simp]: "length (gaps t0 ts) = length ts"
  by (induction ts arbitrary: t0) auto

lemma pollOccurred_fields [simp]:
  "MaxTimeOut (pollOccurred t m) = MaxTimeOut m"
  "MinTimeOut (pollOccurred t m) = MinTimeOut m"
  "LastPollTime (pollOccurred t m) = t"
  "PollingFrequency (pollOccurred t m) =
     circular_push_back (t - LastPollTime m) (PollingFrequency m)"
  "AveragePollRate (pollOccurred t m) =
     duration_div (sum_list (circular_push_back (t - LastPollTime m) (PollingFrequency m)))
       (length (circular_push_back (t - LastPollTime m) (PollingFrequency m)))"
  by (simp_all add: pollOccurred_def Let_def)

lemma MaxTimeOut_poll_all [simp]: "MaxTimeOut (poll_all ts m) = MaxTimeOut m"
  by (induction ts m rule: poll_all.induct) auto

lemma poll_all_append: "poll_all (ts @ us) m = poll_all us (poll_all ts m)"
  by (induction ts m rule: poll_all.induct) auto

lemma polling_inv_poll_all: "polling_inv m \<Longrightarrow> polling_inv (poll_all ts m)"
  by (induction ts m rule: poll_all.induct) (auto simp: polling_inv_poll)

text \<open>The circular buffer holds the last five of all durations ever pushed.\<close>

definition last_five :: "'a list \<Rightarrow> 'a list" where
  "last_five xs = drop (length xs - frequency_capacity) xs"

lemma circular_push_back_last_five:
  "circular_push_back x (last_five xs) = last_five (xs @ [x])"
proof (cases "length xs < frequency_capacity")
  case True
  then show ?thesis by (simp add: circular_push_back_def last_five_def)
next
  case False
  then have "length (last_five xs) = frequency_capacity" by (simp add: last_five_def)
  moreover have "tl (last_five xs) = drop (Suc (length xs - frequency_capacity)) xs"
    by (simp add: last_five_def drop_Suc tl_drop)
  ultimately show ?thesis
    using False by (simp add: circular_push_back_def last_five_def Suc_diff_le)
      (simp add: frequency_capacity_def)
qed

lemma last_five_short: "length xs \<le> frequency_capacity \<Longrightarrow> last_five xs = xs"
  by (simp add: last_five_def)

lemma frequency_poll_all:
  "PollingFrequency m = last_five xs \<Longrightarrow>
   PollingFrequency (poll_all ts m) = last_five (xs @ gaps (LastPollTime m) ts)"
proof (induction ts m arbitrary: xs rule: poll_all.induct)
  case (2 t ts m)
  then have "PollingFrequency (pollOccurred t m) = last_five (xs @ [t - LastPollTime m])"
    by (simp add: circular_push_back_last_five)
  from "2.IH" [OF this] show ?case by simp
qed simp

lemma sum_list_bound: "\<forall>x\<in>set xs. x \<le> b \<Longrightarrow> sum_list xs \<le> int (length xs) * b"
  by (induction xs) (auto simp: algebra_simps)

lemma average_bound:
  assumes "\<forall>x\<in>set xs. x \<le> b" and "xs \<noteq> []" and "0 \<le> b"
  shows "duration_div (sum_list xs) (length xs) \<le> b"
proof (cases "sum_list xs < 0")
  case True
  then have "duration_div (sum_list xs) (length xs) \<le> 0"
    using assms(2) by (simp add: duration_div_def pos_imp_zdiv_nonneg_iff)
  then show ?thesis using assms(3) by simp
next
  case False
  have "sum_list xs \<le> int (length xs) * b" using assms(1) by (rule sum_list_bound)
  then have "sum_list xs div int (length xs) \<le> b"
    using assms(2) by (metis length_0_conv nonzero_mult_div_cancel_left of_nat_0_eq_iff
        of_nat_0_less_iff length_greater_0_conv zdiv_mono1)
  with False show ?thesis by (simp add: duration_div_def)
qed

text \<open>
  An abnormal event is flushed: after any history, five polls whose spacing does not
  exceed the maximum time-out leave the monitor without an abnormal event; and the poll
  that raises one is a poll whose five-entry average exceeds that maximum.
\<close>

theorem abnormal_event_flushed:
  assumes inv: "polling_inv m" and five: "length ts = 5"
    and steady: "\<forall>g\<in>set (gaps (LastPollTime m) ts). g \<le> MaxTimeOut m"
  shows "\<not> hasAbnormalEvent (poll_all ts m) \<and>
    (hasAbnormalEvent (pollOccurred t m) \<longleftrightarrow>
       AveragePollRate (pollOccurred t m) > MaxTimeOut (pollOccurred t m))"
proof -
  obtain us u where ts: "ts = us @ [u]"
    using five by (cases ts rule: rev_cases) auto
  let ?m = "poll_all us m"
  have inv': "polling_inv ?m" using inv by (rule polling_inv_poll_all)
  have "PollingFrequency m = last_five (PollingFrequency m)"
    using inv by (simp add: polling_inv_def last_five_short)
  from frequency_poll_all [OF this, of ts]
  have freq: "PollingFrequency (poll_all ts m) = gaps (LastPollTime m) ts"
    using five by (simp add: last_five_def frequency_capacity_def)
  have "AveragePollRate (poll_all ts m) \<le> MaxTimeOut m"
  proof -
    have "AveragePollRate (poll_all ts m) = duration_div
        (sum_list (PollingFrequency (poll_all ts m))) (length (PollingFrequency (poll_all ts m)))"
      by (simp add: ts poll_all_append)
    moreover have "gaps (LastPollTime m) ts \<noteq> []" using five by (metis length_gaps length_0_conv zero_neq_numeral)
    moreover have "0 \<le> MaxTimeOut m" using inv by (simp add: polling_inv_def)
    ultimately show ?thesis using freq steady average_bound by metis
  qed
  moreover have "hasAbnormalEvent (poll_all ts m) \<longleftrightarrow>
      AveragePollRate (poll_all ts m) > MaxTimeOut m"
    using abnormal_after_poll [OF inv', of u] by (simp add: ts poll_all_append)
  ultimately show ?thesis using abnormal_after_poll [OF inv, of t] by simp
qed

theorem abnormal_event_flushed_witness:
  "polling_inv (PollingMonitor_init 25 100 0) \<and>
   \<not> hasAbnormalEvent (poll_all [100000, 200000, 300000, 400000, 500000]
       (pollOccurred 0 (PollingMonitor_init 25 100 0)))"
proof -
  have inv: "polling_inv (pollOccurred 0 (PollingMonitor_init 25 100 0))"
    by (intro polling_inv_poll polling_inv_init)
  have "\<forall>g\<in>set (gaps (LastPollTime (pollOccurred 0 (PollingMonitor_init 25 100 0)))
        [100000, 200000, 300000, 400000, 500000]).
      g \<le> MaxTimeOut (pollOccurred 0 (PollingMonitor_init 25 100 0))"
    by (simp add: PollingMonitor_init_def milliseconds_def)
  from abnormal_event_flushed [OF inv _ this, of 0] show ?thesis
    by (simp add: polling_inv_init)
qed

end
