(* ===== verification/Remus_Sockets.thy ===== *)
theory Remus_Sockets
  imports Remus_Types Remus_Polling
begin

text \<open>
  \<open>remus/proto/zmqSocketIdentity.cxx\<close>, \<open>zmqHelper.cxx\<close>, \<open>Message.cxx\<close> and
  \<open>Response.cxx\<close>: worker and client identities, the retrying send and receive wrappers,
  and the multi-part framing of messages and responses.

  ZeroMQ is not part of the sources. A socket is its type, the frames handed to it, the
  frames waiting to be received, the \<open>ZMQ_RCVMORE\<close> flag of the last one, and a script of
  the outcomes of the coming \<open>send\<close>/\<open>recv\<close> calls (an exhausted script means they
  succeed). Every property holds for every script it does not constrain.
\<close>

unbundle bit_operations_syntax

section \<open>SocketIdentity\<close>

record SocketIdentity =
  si_data :: string
  si_name :: string

definition SocketIdentity_default :: SocketIdentity where
  "SocketIdentity_default = \<lparr>si_data = '''', si_name = ''''\<rparr>"

text \<open>
  \<open>static_cast<uint32_t>(buffer[i])\<close> on a signed \<open>char\<close>: bytes from 0x80 are sign-extended
  before they are shifted and combined.
\<close>

definition byte_to_uint32 :: "char \<Rightarrow> 32 word" where
  "byte_to_uint32 c = word_of_int (schar c)"

definition convertBEToUnsignedInteger :: "string \<Rightarrow> 32 word" where
  "convertBEToUnsignedInteger b =
     push_bit 24 (byte_to_uint32 (b ! 1)) OR push_bit 16 (byte_to_uint32 (b ! 2)) OR
     push_bit 8 (byte_to_uint32 (b ! 3)) OR byte_to_uint32 (b ! 4)"

fun show_hex :: "nat \<Rightarrow> string" where
  "show_hex n =
     (if n < 16 then [''0123456789abcdef'' ! n]
      else show_hex (n div 16) @ [''0123456789abcdef'' ! (n mod 16)])"

declare show_hex.simps [simp del]

text \<open>The \<open>int\<close> at index \<open>i\<close> of the 16 bytes, on a little-endian host.\<close>

definition le_word :: "string \<Rightarrow> nat \<Rightarrow> nat" where
  "le_word d i = (\<Sum>k<4. of_char (d ! (4 * i + k)) * 256 ^ k)"

definition convertDigestToHex :: "string \<Rightarrow> string" where
  "convertDigestToHex d =
     show_hex (le_word d 0) @ ''-'' @ show_hex (le_word d 1) @ ''-'' @
     show_hex (le_word d 2) @ ''-'' @ show_hex (le_word d 3)"

text \<open>The identity is copied into a 256-byte array; a longer one would overrun it.\<close>

definition SocketIdentity_mk :: "string \<Rightarrow> SocketIdentity result" where
  "SocketIdentity_mk start =
     (if length start > 256 then Inl UndefinedBehaviour
      else
        let nm = (if start \<noteq> [] \<and> hd start = CHR 0x00 \<and> length start = 5
                  then show_nat (unat (convertBEToUnsignedInteger start))
                  else if start \<noteq> [] \<and> hd start = CHR 0x00 \<and> length start = 17
                  then convertDigestToHex (tl start)
                  else start) in
        Inr \<lparr>si_data = start, si_name = nm\<rparr>)"

definition SocketIdentity_eq :: "SocketIdentity \<Rightarrow> SocketIdentity \<Rightarrow> bool" where
  "SocketIdentity_eq a b \<longleftrightarrow>
     (if length (si_data a) \<noteq> length (si_data b) then False else si_data a = si_data b)"

definition SocketIdentity_less :: "SocketIdentity \<Rightarrow> SocketIdentity \<Rightarrow> bool" where
  "SocketIdentity_less a b =
     (if length (si_data a) \<noteq> length (si_data b) then length (si_data a) < length (si_data b)
      else lex_less schar (si_data a) (si_data b))"

section \<open>Sockets\<close>

datatype socket_kind = ZMQ_REQ | ZMQ_REP | ZMQ_ROUTER | ZMQ_DEALER | ZMQ_PAIR | ZMQ_PUB

datatype zmq_outcome = ZOk | ZAgain | ZThrow

type_synonym frame = "string \<times> bool"

record socket =
  sk_kind :: socket_kind
  sk_sent :: "frame list"
  sk_inbox :: "frame list"
  sk_rcvmore :: bool
  sk_script :: "zmq_outcome list"

definition next_outcome :: "socket \<Rightarrow> zmq_outcome \<times> socket" where
  "next_outcome sk =
     (case sk_script sk of
        [] \<Rightarrow> (ZOk, sk)
      | x # xs \<Rightarrow> (x, sk\<lparr>sk_script := xs\<rparr>))"

text \<open>\<open>send_harder\<close>: at most five attempts that fail or throw.\<close>

fun send_tries :: "nat \<Rightarrow> string \<Rightarrow> bool \<Rightarrow> socket \<Rightarrow> bool \<times> socket" where
  "send_tries 0 msg sndmore sk = (False, sk)"
| "send_tries (Suc n) msg sndmore sk =
     (case next_outcome sk of
        (ZOk, sk') \<Rightarrow> (True, sk'\<lparr>sk_sent := sk_sent sk' @ [(msg, sndmore)]\<rparr>)
      | (_, sk') \<Rightarrow> send_tries n msg sndmore sk')"

definition send_harder :: "string \<Rightarrow> bool \<Rightarrow> socket \<Rightarrow> bool \<times> socket" where
  "send_harder msg sndmore sk = send_tries 5 msg sndmore sk"

text \<open>
  \<open>recv_harder\<close>. With \<open>ZMQ_DONTWAIT\<close> an empty inbox makes the call fail at once;
  a blocking call waits, and with nothing left to arrive never returns: \<open>None\<close>.
\<close>

fun recv_tries :: "nat \<Rightarrow> bool \<Rightarrow> socket \<Rightarrow> (bool \<times> string \<times> socket) option" where
  "recv_tries 0 dontwait sk = Some (False, '''', sk)"
| "recv_tries (Suc n) dontwait sk =
     (case next_outcome sk of
        (ZOk, sk') \<Rightarrow>
          (case sk_inbox sk' of
             (msg, sndmore) # rest \<Rightarrow>
               Some (True, msg, sk'\<lparr>sk_inbox := rest, sk_rcvmore := sndmore\<rparr>)
           | [] \<Rightarrow> if dontwait then recv_tries n dontwait sk' else None)
      | (_, sk') \<Rightarrow> recv_tries n dontwait sk')"

definition recv_harder :: "bool \<Rightarrow> socket \<Rightarrow> (bool \<times> string \<times> socket) option" where
  "recv_harder dontwait sk = recv_tries 5 dontwait sk"

definition needs_header :: "socket \<Rightarrow> bool" where
  "needs_header sk \<longleftrightarrow> sk_kind sk \<noteq> ZMQ_REQ \<and> sk_kind sk \<noteq> ZMQ_REP"

definition removeReqHeader :: "bool \<Rightarrow> socket \<Rightarrow> (bool \<times> socket) option" where
  "removeReqHeader dontwait sk =
     (if needs_header sk
      then map_option (\<lambda>(ok, _, sk'). (ok, sk')) (recv_harder dontwait sk)
      else Some (True, sk))"

definition attachReqHeader :: "socket \<Rightarrow> bool \<times> socket" where
  "attachReqHeader sk = (if needs_header sk then send_harder '''' True sk else (True, sk))"

text \<open>
  \<open>poll_safely\<close>: the outcomes of the successive \<open>zmq_poll\<close> calls, an interrupted one
  with the milliseconds it lasted. The result is the return code of the last call.
\<close>

datatype poll_event = PollReturned nat | PollInterrupted int | PollFailed

fun poll_loop :: "int \<Rightarrow> poll_event list \<Rightarrow> int result" where
  "poll_loop timeout [] = Inr 0"
| "poll_loop timeout (PollReturned rc # es) = (if timeout \<ge> 0 then Inr (int rc) else Inr (-1))"
| "poll_loop timeout (PollInterrupted delta # es) =
     (if timeout \<ge> 0 then
        (if timeout - delta \<ge> 0 then poll_loop (timeout - delta) es else Inr (-1))
      else Inr (-1))"
| "poll_loop timeout (PollFailed # es) = (if timeout \<ge> 0 then Inl ZmqError else Inr (-1))"

definition poll_safely :: "int \<Rightarrow> poll_event list \<Rightarrow> int result" where
  "poll_safely timeout es = (if timeout > 0 then poll_loop timeout es else Inl AssertFailure)"

section \<open>Message\<close>

record Message =
  msg_MeshIOType :: MeshIOType
  msg_serviceType :: SERVICE_TYPE
  msg_valid :: bool
  msg_storage :: "string option"

definition msg_data :: "Message \<Rightarrow> string" where
  "msg_data m = (case msg_storage m of None \<Rightarrow> '''' | Some d \<Rightarrow> d)"

definition msg_dataSize :: "Message \<Rightarrow> nat" where
  "msg_dataSize m = (case msg_storage m of None \<Rightarrow> 0 | Some d \<Rightarrow> length d)"

text \<open>The bytes of a \<open>SERVICE_TYPE\<close>, a 4-byte little-endian integer.\<close>

definition service_frame :: "SERVICE_TYPE \<Rightarrow> string" where
  "service_frame t = [char_of (int_of_SERVICE_TYPE t), CHR 0x00, CHR 0x00, CHR 0x00]"

definition read_service_frame :: "string \<Rightarrow> SERVICE_TYPE result" where
  "read_service_frame f =
     (if length f < 4 then Inl UndefinedBehaviour
      else SERVICE_TYPE_of_int (int (le_word f 0)))"

definition Message_send_impl :: "Message \<Rightarrow> socket \<Rightarrow> bool \<times> socket" where
  "Message_send_impl m sk0 =
     (if \<not> msg_valid m then (False, sk0)
      else
        let (header, sk1) = attachReqHeader sk0;
            (sentType, sk2) =
              (if header then send_harder (MeshIOType_serialize (msg_MeshIOType m)) True sk1
               else (False, sk1)) in
        if msg_dataSize m > 0 \<and> sentType then
          let (sentService, sk3) = send_harder (service_frame (msg_serviceType m)) True sk2 in
          (if sentService then send_harder (msg_data m) False sk3 else (False, sk3))
        else if sentType then send_harder (service_frame (msg_serviceType m)) False sk2
        else (False, sk2))"

text \<open>\<open>send_Message\<close> and its non-blocking form, with or without data.\<close>

definition Message_send ::
  "MeshIOType \<Rightarrow> SERVICE_TYPE \<Rightarrow> string option \<Rightarrow> socket \<Rightarrow> Message \<times> socket" where
  "Message_send mtype stype data sk =
     (let m = \<lparr>msg_MeshIOType = mtype, msg_serviceType = stype, msg_valid = True,
               msg_storage = data\<rparr>;
          (ok, sk') = Message_send_impl m sk in
      (m\<lparr>msg_valid := ok\<rparr>, sk'))"

text \<open>
  \<open>Message(socket)\<close>, every receive with \<open>ZMQ_DONTWAIT\<close> (so it always returns). The
  service type starts as the zero enumerator.
\<close>

definition Message_receive :: "socket \<Rightarrow> (Message \<times> socket) result" where
  "Message_receive sk0 =
     (case removeReqHeader True sk0 of None \<Rightarrow> Inl ZmqError | Some (removedHeader, sk1) \<Rightarrow>
      case (if removedHeader then recv_harder True sk1 else Some (False, '''', sk1)) of
        None \<Rightarrow> Inl ZmqError
      | Some (readMeshType, typeFrame, sk2) \<Rightarrow>
      bindE (if readMeshType then MeshIOType_read (istream_of typeFrame)
             else Inr (MeshIOType_default, istream_of '''')) (\<lambda>(mtype, _).
      case (if readMeshType then recv_harder True sk2 else Some (False, '''', sk2)) of
        None \<Rightarrow> Inl ZmqError
      | Some (readServiceType, serviceFrame, sk3) \<Rightarrow>
      bindE (if readServiceType then read_service_frame serviceFrame
             else Inr INVALID_SERVICE) (\<lambda>stype.
      let haveStorageData = (readServiceType \<and> readMeshType \<and> sk_rcvmore sk3) in
      case (if haveStorageData then recv_harder True sk3 else Some (False, '''', sk3)) of
        None \<Rightarrow> Inl ZmqError
      | Some (readStorageData, data, sk4) \<Rightarrow>
      let haveNothingElseToRead = (\<not> sk_rcvmore sk4);
          valid = (if haveStorageData then readStorageData \<and> haveNothingElseToRead
                   else readServiceType \<and> haveNothingElseToRead) in
      Inr (\<lparr>msg_MeshIOType = mtype, msg_serviceType = stype, msg_valid = valid,
            msg_storage = Some data\<rparr>, sk4))))"

section \<open>Response\<close>

record Response =
  rsp_serviceType :: SERVICE_TYPE
  rsp_valid :: bool
  rsp_data :: string

definition Response_send_impl ::
  "SERVICE_TYPE \<Rightarrow> string \<Rightarrow> SocketIdentity \<Rightarrow> socket \<Rightarrow> bool \<times> socket" where
  "Response_send_impl stype data client sk0 =
     (let (clientSent, sk1) =
            (if length (si_data client) > 0 then send_harder (si_data client) True sk0
             else (True, sk0)) in
      if clientSent then
        let (sentFakeReq, sk2) = attachReqHeader sk1 in
        if sentFakeReq then
          let (sentServiceType, sk3) = send_harder (service_frame stype) True sk2 in
          if sentServiceType then send_harder data False sk3 else (False, sk3)
        else (False, sk2)
      else (False, sk1))"

definition Response_receive :: "socket \<Rightarrow> ((Response \<times> socket) result) option" where
  "Response_receive sk0 =
     (case removeReqHeader False sk0 of
        None \<Rightarrow> None
      | Some (removedHeader, sk1) \<Rightarrow>
          if \<not> removedHeader then
            Some (Inr (\<lparr>rsp_serviceType = INVALID_SERVICE, rsp_valid = False, rsp_data = ''''\<rparr>, sk1))
          else case recv_harder False sk1 of
            None \<Rightarrow> None
          | Some (parsedServiceType, serviceFrame, sk2) \<Rightarrow>
              if \<not> parsedServiceType then
                Some (Inr (\<lparr>rsp_serviceType = INVALID_SERVICE, rsp_valid = False,
                            rsp_data = ''''\<rparr>, sk2))
              else case read_service_frame serviceFrame of
                Inl e \<Rightarrow> Some (Inl e)
              | Inr stype \<Rightarrow>
                  (case recv_harder False sk2 of
                     None \<Rightarrow> None
                   | Some (recvStorage, data, sk3) \<Rightarrow>
                       Some (Inr (\<lparr>rsp_serviceType = stype, rsp_valid = recvStorage,
                                   rsp_data = data\<rparr>, sk3))))"

section \<open>Identities\<close>

lemma SocketIdentity_eq_iff [simp]: "SocketIdentity_eq a b \<longleftrightarrow> si_data a = si_data b"
  by (auto simp: SocketIdentity_eq_def)

lemma strict_total_order_schar: "strict_total_order (lex_less schar)"
proof
  have "inj schar" by (rule injI) simp
  then show "lex_less schar x y \<or> x = y \<or> lex_less schar y x" for x y
    by (rule lex_less_linear)
qed (auto intro: lex_less_trans)

lemma SocketIdentity_less_lex:
  "SocketIdentity_less = lex_comb (<) (\<lambda>s. length (si_data s))
     (lex_comb (lex_less schar) si_data (\<lambda>_ _. False))"
  by (auto simp: SocketIdentity_less_def lex_comb_def fun_eq_iff)

interpretation identity_order: strict_weak_order SocketIdentity_less
  unfolding SocketIdentity_less_lex
  by (intro lex_comb_order order_False strict_total_order_schar strict_total_order_nat)

lemma identity_equiv_iff [simp]:
  "equiv_by SocketIdentity_less a b \<longleftrightarrow> si_data a = si_data b"
  by (auto simp: SocketIdentity_less_lex lex_comb_equiv strict_total_order_schar
      strict_total_order_nat)

text \<open>
  Identities compare by their bytes alone: \<open>operator<\<close> is a strict weak ordering whose
  equivalence is \<open>operator==\<close>, and two identities built from bytes are \<open>==\<close> exactly when
  they were built from the same bytes, whatever their names.
\<close>

theorem SocketIdentity_comparison:
  "\<not> SocketIdentity_less a a \<and>
   (SocketIdentity_less a b \<and> SocketIdentity_less b c \<longrightarrow> SocketIdentity_less a c) \<and>
   (\<not> SocketIdentity_less a b \<and> \<not> SocketIdentity_less b a \<longleftrightarrow> SocketIdentity_eq a b) \<and>
   (SocketIdentity_mk x = Inr a \<and> SocketIdentity_mk y = Inr b \<longrightarrow>
     (SocketIdentity_eq a b \<longleftrightarrow> x = y))"
  using identity_order.lt_irrefl [of a] identity_order.lt_trans [of a b c]
    identity_equiv_iff [of a b]
  by (auto simp: equiv_by_def SocketIdentity_mk_def Let_def split: if_splits)

theorem SocketIdentity_comparison_witness:
  "SocketIdentity_mk ''w1'' = Inr \<lparr>si_data = ''w1'', si_name = ''w1''\<rparr> \<and>
   SocketIdentity_less \<lparr>si_data = ''w1'', si_name = ''w1''\<rparr> \<lparr>si_data = ''w2'', si_name = ''''\<rparr> \<and>
   SocketIdentity_less \<lparr>si_data = ''w1'', si_name = ''w1''\<rparr> \<lparr>si_data = ''abc'', si_name = ''''\<rparr>"
  using SocketIdentity_comparison [of "\<lparr>si_data = ''w1'', si_name = ''w1''\<rparr>"
      "\<lparr>si_data = ''w2'', si_name = ''''\<rparr>" "\<lparr>si_data = ''abc'', si_name = ''''\<rparr>" "''w1''" "''w2''"]
  by (simp add: SocketIdentity_mk_def SocketIdentity_less_def schar_def)

lemma byte_to_uint32_small:
  "(of_char c :: nat) < 128 \<Longrightarrow> byte_to_uint32 c = word_of_nat (of_char c)"
  using of_nat_of_char [of c, where 'a = int] of_nat_of_char [of c, where 'a = "32 word"]
    of_int_of_char [of c, where 'a = "32 word"]
  by (simp add: byte_to_uint32_def schar_def Let_def)

lemma bit_byte_small:
  assumes "(m :: nat) < 256" and "bit (word_of_nat m :: 32 word) i"
  shows "i < 8"
proof (rule ccontr)
  assume "\<not> i < 8"
  then have "(2 :: nat) ^ 8 \<le> 2 ^ i" by (intro power_increasing) auto
  with assms(1) have "m div 2 ^ i = 0" by (intro div_less) simp
  with assms(2) show False by (simp add: bit_simps bit_iff_odd [where 'a = nat])
qed

lemma bytes_disjoint:
  "\<lbrakk>m < 256; n < 256; k + 8 \<le> j\<rbrakk> \<Longrightarrow>
   push_bit j (word_of_nat m :: 32 word) AND push_bit k (word_of_nat n) = 0"
  by (rule bit_word_eqI) (auto simp: bit_simps dest!: bit_byte_small)

lemma bytes_or_eq_plus:
  assumes "m1 < 256" "m2 < 256" "m3 < 256" "m4 < 256"
  shows "push_bit 24 (word_of_nat m1 :: 32 word) OR push_bit 16 (word_of_nat m2) OR
           push_bit 8 (word_of_nat m3) OR word_of_nat m4 =
         word_of_nat (m1 * 2 ^ 24 + m2 * 2 ^ 16 + m3 * 2 ^ 8 + m4)"
proof -
  let ?w = "word_of_nat :: nat \<Rightarrow> 32 word"
  have a: "push_bit 24 (?w m1) OR push_bit 16 (?w m2) = push_bit 24 (?w m1) + push_bit 16 (?w m2)"
    using bytes_disjoint [of m1 m2 16 24] assms by (simp add: disjunctive_add_eq_or)
  have b: "(push_bit 24 (?w m1) OR push_bit 16 (?w m2)) OR push_bit 8 (?w m3) =
    (push_bit 24 (?w m1) OR push_bit 16 (?w m2)) + push_bit 8 (?w m3)"
    using bytes_disjoint [of m1 m3 8 24] bytes_disjoint [of m2 m3 8 16] assms
    by (intro disjunctive_add_eq_or [symmetric]) (simp add: bit.conj_disj_distrib2)
  have c: "((push_bit 24 (?w m1) OR push_bit 16 (?w m2)) OR push_bit 8 (?w m3)) OR ?w m4 =
    ((push_bit 24 (?w m1) OR push_bit 16 (?w m2)) OR push_bit 8 (?w m3)) + ?w m4"
    using bytes_disjoint [of m1 m4 0 24] bytes_disjoint [of m2 m4 0 16]
      bytes_disjoint [of m3 m4 0 8] assms
    by (intro disjunctive_add_eq_or [symmetric]) (simp add: bit.conj_disj_distrib2)
  show ?thesis
    unfolding or.assoc [symmetric] c unfolding b unfolding a
    by (simp add: push_bit_eq_mult algebra_simps)
qed

lemma bit_byte_negative:
  assumes "128 \<le> (of_char c :: nat)" and "7 \<le> i" and "i < 32"
  shows "bit (byte_to_uint32 c) i"
proof -
  have "(of_char c :: nat) < 256" by simp
  with assms(1) have "-128 \<le> schar c" "schar c < 0"
    using of_nat_of_char [of c, where 'a = int] char_of_char_range [of c]
    by (simp_all add: schar_def Let_def)
  moreover have "(128 :: int) \<le> 2 ^ i"
    using power_increasing [of 7 i "2 :: int"] assms(2) by simp
  ultimately have "schar c div 2 ^ i = -1"
    by (intro int_div_pos_eq [of _ _ _ "schar c + 2 ^ i"]) auto
  with assms(3) show ?thesis by (simp add: byte_to_uint32_def bit_word_of_int_iff bit_iff_odd [where 'a = int])
qed

text \<open>
  The readable name of a ZeroMQ-assigned identity is its big-endian number as long as
  every byte is below 0x80; a last byte from 0x80 on is sign-extended over the other three,
  so workers that differ in those three bytes get the same name.
\<close>

theorem SocketIdentity_name_sign_extension:
  "((of_char (b ! 1) :: nat) < 128 \<and> (of_char (b ! 2) :: nat) < 128 \<and>
    (of_char (b ! 3) :: nat) < 128 \<and> (of_char (b ! 4) :: nat) < 128 \<longrightarrow>
     unat (convertBEToUnsignedInteger b) =
       of_char (b ! 1) * 2 ^ 24 + of_char (b ! 2) * 2 ^ 16 + of_char (b ! 3) * 2 ^ 8 +
       of_char (b ! 4)) \<and>
   (128 \<le> (of_char (b ! 4) :: nat) \<longrightarrow>
     convertBEToUnsignedInteger b = byte_to_uint32 (b ! 4))"
proof (intro conjI impI)
  assume "(of_char (b ! 1) :: nat) < 128 \<and> (of_char (b ! 2) :: nat) < 128 \<and>
    (of_char (b ! 3) :: nat) < 128 \<and> (of_char (b ! 4) :: nat) < 128"
  then have s: "(of_char (b ! 1) :: nat) < 128" "(of_char (b ! 2) :: nat) < 128"
    "(of_char (b ! 3) :: nat) < 128" "(of_char (b ! 4) :: nat) < 128"
    by auto
  then show "unat (convertBEToUnsignedInteger b) =
    of_char (b ! 1) * 2 ^ 24 + of_char (b ! 2) * 2 ^ 16 + of_char (b ! 3) * 2 ^ 8 + of_char (b ! 4)"
    using bytes_or_eq_plus [of "of_char (b ! 1)" "of_char (b ! 2)" "of_char (b ! 3)" "of_char (b ! 4)"]
    by (simp only: convertBEToUnsignedInteger_def byte_to_uint32_small)
       (simp only: unat_of_nat len_of_numeral_defs, simp)
next
  assume h: "128 \<le> (of_char (b ! 4) :: nat)"
  show "convertBEToUnsignedInteger b = byte_to_uint32 (b ! 4)"
    by (rule bit_word_eqI)
       (auto simp: convertBEToUnsignedInteger_def bit_simps intro: bit_byte_negative [OF h])
qed

theorem SocketIdentity_name_sign_extension_witness:
  "unat (convertBEToUnsignedInteger [CHR 0x00, CHR 0x01, CHR 0x02, CHR 0x03, CHR 0x04]) = 16909060 \<and>
   SocketIdentity_mk [CHR 0x00, CHR 0x01, CHR 0x02, CHR 0x03, CHR 0x80] =
     Inr \<lparr>si_data = [CHR 0x00, CHR 0x01, CHR 0x02, CHR 0x03, CHR 0x80],
          si_name = ''4294967168''\<rparr> \<and>
   SocketIdentity_mk [CHR 0x00, CHR 0x11, CHR 0x22, CHR 0x33, CHR 0x80] =
     Inr \<lparr>si_data = [CHR 0x00, CHR 0x11, CHR 0x22, CHR 0x33, CHR 0x80],
          si_name = ''4294967168''\<rparr>"
proof -
  have u: "unat (byte_to_uint32 CHR 0x80) = 4294967168"
    by (simp add: byte_to_uint32_def schar_def)
  have n: "show_nat (unat (byte_to_uint32 CHR 0x80)) = ''4294967168''"
    unfolding u by (simp add: show_nat.simps digit_def char_of_def bit_0)
  show ?thesis
    using SocketIdentity_name_sign_extension [of "[CHR 0x00, CHR 0x01, CHR 0x02, CHR 0x03, CHR 0x04]"]
      SocketIdentity_name_sign_extension [of "[CHR 0x00, CHR 0x01, CHR 0x02, CHR 0x03, CHR 0x80]"]
      SocketIdentity_name_sign_extension [of "[CHR 0x00, CHR 0x11, CHR 0x22, CHR 0x33, CHR 0x80]"] n
    by (simp add: SocketIdentity_mk_def)
qed

section \<open>Sending and receiving\<close>

lemma send_tries_outcome:
  "send_tries n msg sndmore sk =
     (if length (takeWhile (\<lambda>z. z \<noteq> ZOk) (sk_script sk)) < n
      then (True, sk\<lparr>sk_sent := sk_sent sk @ [(msg, sndmore)],
                     sk_script := tl (dropWhile (\<lambda>z. z \<noteq> ZOk) (sk_script sk))\<rparr>)
      else (False, sk\<lparr>sk_script := drop n (sk_script sk)\<rparr>))"
proof (induction n arbitrary: sk)
  case (Suc n)
  show ?case
  proof (cases "sk_script sk")
    case (Cons z zs)
    then show ?thesis
      using Suc.IH [of "sk\<lparr>sk_script := zs\<rparr>"]
      by (cases z) (simp_all add: next_outcome_def)
  qed (simp add: next_outcome_def)
qed simp

text \<open>
  \<open>send_harder\<close> gives up after five failed or throwing attempts and never loops: it
  reports success exactly when one of the next five attempts succeeds, then exactly one
  frame has been handed to the socket, and otherwise none.
\<close>

theorem send_harder_outcome:
  "send_harder msg sndmore sk =
     (if length (takeWhile (\<lambda>z. z \<noteq> ZOk) (sk_script sk)) < 5
      then (True, sk\<lparr>sk_sent := sk_sent sk @ [(msg, sndmore)],
                     sk_script := tl (dropWhile (\<lambda>z. z \<noteq> ZOk) (sk_script sk))\<rparr>)
      else (False, sk\<lparr>sk_script := drop 5 (sk_script sk)\<rparr>))"
  unfolding send_harder_def by (rule send_tries_outcome)

lemma send_harder_eq:
  "send_harder msg sndmore sk = (ok, sk') \<Longrightarrow>
   sk_kind sk' = sk_kind sk \<and> sk_inbox sk' = sk_inbox sk \<and> sk_rcvmore sk' = sk_rcvmore sk \<and>
   sk_sent sk' = sk_sent sk @ (if ok then [(msg, sndmore)] else [])"
  by (auto simp: send_harder_def send_tries_outcome split: if_splits)

lemma recv_tries_total: "recv_tries n True sk \<noteq> None"
proof (induction n arbitrary: sk)
  case (Suc n)
  then show ?case by (auto split: prod.split zmq_outcome.split list.split)
qed simp

lemma recv_harder_total: "recv_harder True sk \<noteq> None"
  unfolding recv_harder_def by (rule recv_tries_total)

lemma recv_harder_ready:
  "sk_script sk = [] \<Longrightarrow> sk_inbox sk \<noteq> [] \<Longrightarrow>
   recv_harder dw sk = Some (True, fst (hd (sk_inbox sk)),
     sk\<lparr>sk_inbox := tl (sk_inbox sk), sk_rcvmore := snd (hd (sk_inbox sk))\<rparr>)"
  by (cases "sk_inbox sk") (auto simp: recv_harder_def next_outcome_def eval_nat_numeral)

text \<open>
  The frames a peer reads for the frames handed to a socket: \<open>REQ\<close>/\<open>REP\<close> sockets add and
  strip the empty delimiter themselves.
\<close>

definition body_frames :: "socket \<Rightarrow> frame list" where
  "body_frames sk = (if needs_header sk then tl (sk_sent sk) else sk_sent sk)"

definition delivered :: "socket \<Rightarrow> frame list \<Rightarrow> frame list" where
  "delivered sk fs = (if needs_header sk then ('''', True) # fs else fs)"

lemma read_service_frame_service_frame [simp]: "read_service_frame (service_frame t) = Inr t"
proof -
  have "int (le_word (service_frame t) 0) = int (int_of_SERVICE_TYPE t)"
    by (cases t) (simp_all add: le_word_def service_frame_def lessThan_nat_numeral lessThan_Suc)
  then show ?thesis by (simp add: read_service_frame_def service_frame_def)
qed

lemma Message_receive_frames:
  assumes "sk_script rs = []" and "MeshIOType_wf mtype"
  shows "sk_inbox rs = delivered rs ((MeshIOType_serialize mtype, True) #
           (service_frame stype, False) # rest) \<Longrightarrow>
         Message_receive rs =
           Inr (\<lparr>msg_MeshIOType = mtype, msg_serviceType = stype, msg_valid = True,
                 msg_storage = Some ''''\<rparr>, rs\<lparr>sk_inbox := rest, sk_rcvmore := False\<rparr>)"
    and "sk_inbox rs = delivered rs ((MeshIOType_serialize mtype, True) #
           (service_frame stype, True) # (d, False) # rest) \<Longrightarrow>
         Message_receive rs =
           Inr (\<lparr>msg_MeshIOType = mtype, msg_serviceType = stype, msg_valid = True,
                 msg_storage = Some d\<rparr>, rs\<lparr>sk_inbox := rest, sk_rcvmore := False\<rparr>)"
  using assms
  by (cases "needs_header rs";
      simp add: Message_receive_def removeReqHeader_def delivered_def recv_harder_ready
        meshio_codec.get_put_end)+

lemma Message_send_impl_frames:
  assumes "Message_send_impl m sk = (True, sk')" and "sk_sent sk = []"
  shows "body_frames sk' = (MeshIOType_serialize (msg_MeshIOType m), True) #
    (if msg_dataSize m > 0
     then [(service_frame (msg_serviceType m), True), (msg_data m, False)]
     else [(service_frame (msg_serviceType m), False)])"
  using assms
  by (auto simp: Message_send_impl_def attachReqHeader_def body_frames_def needs_header_def Let_def
      split: if_splits prod.splits dest!: send_harder_eq)

text \<open>
  A message is the frames the receiver expects. When \<open>send_impl\<close> reports success on a
  fresh socket, a receiver of any socket kind that gets those frames rebuilds the same mesh
  type, service type and payload, is valid, and leaves whatever follows unread.
\<close>

theorem Message_framing_roundtrip:
  assumes "Message_send mtype stype data sk = (m, sk')" and "msg_valid m" and "sk_sent sk = []"
    and "MeshIOType_wf mtype"
    and "sk_script rs = []" and "sk_inbox rs = delivered rs (body_frames sk') @ rest"
  shows "Message_receive rs =
    Inr (\<lparr>msg_MeshIOType = mtype, msg_serviceType = stype, msg_valid = True,
          msg_storage = Some (case data of None \<Rightarrow> '''' | Some d \<Rightarrow> d)\<rparr>,
         rs\<lparr>sk_inbox := rest, sk_rcvmore := False\<rparr>)"
proof -
  let ?m = "\<lparr>msg_MeshIOType = mtype, msg_serviceType = stype, msg_valid = True, msg_storage = data\<rparr>"
  have "Message_send_impl ?m sk = (True, sk')"
    using assms(1,2) by (auto simp: Message_send_def Let_def split: prod.splits)
  from Message_send_impl_frames [OF this assms(3)] assms(4-6) show ?thesis
    by (cases data)
       (auto simp: msg_dataSize_def msg_data_def delivered_def Message_receive_frames
         split: if_splits)
qed

definition fresh_socket :: "socket_kind \<Rightarrow> zmq_outcome list \<Rightarrow> frame list \<Rightarrow> socket" where
  "fresh_socket k script inbox =
     \<lparr>sk_kind = k, sk_sent = [], sk_inbox = inbox, sk_rcvmore = False, sk_script = script\<rparr>"

definition example_type :: MeshIOType where
  "example_type = \<lparr>inputType = ''Model'', outputType = ''Mesh3D''\<rparr>"

theorem Message_framing_roundtrip_witness:
  "Message_receive (fresh_socket ZMQ_ROUTER []
      [('''', True), (MeshIOType_serialize example_type, True), (service_frame MAKE_MESH, True),
       (''payload'', False), (''next'', False)]) =
    Inr (\<lparr>msg_MeshIOType = example_type, msg_serviceType = MAKE_MESH, msg_valid = True,
          msg_storage = Some ''payload''\<rparr>, fresh_socket ZMQ_ROUTER [] [(''next'', False)])"
proof -
  have o: "send_harder m s (fresh_socket ZMQ_DEALER [ZAgain, ZThrow] [] \<lparr>sk_sent := fs\<rparr>) =
    (True, fresh_socket ZMQ_DEALER [] [] \<lparr>sk_sent := fs @ [(m, s)]\<rparr>)" for m s fs
    by (simp add: send_harder_def send_tries_outcome fresh_socket_def)
  have r: "send_harder m s (fresh_socket ZMQ_DEALER [] [] \<lparr>sk_sent := fs\<rparr>) =
    (True, fresh_socket ZMQ_DEALER [] [] \<lparr>sk_sent := fs @ [(m, s)]\<rparr>)" for m s fs
    by (simp add: send_harder_def send_tries_outcome fresh_socket_def)
  have k: "sk_kind (fresh_socket kd sc ib) = kd" for kd sc ib
    by (simp add: fresh_socket_def)
  have s: "Message_send example_type MAKE_MESH (Some ''payload'')
      (fresh_socket ZMQ_DEALER [ZAgain, ZThrow] [] \<lparr>sk_sent := []\<rparr>) =
    (\<lparr>msg_MeshIOType = example_type, msg_serviceType = MAKE_MESH, msg_valid = True,
      msg_storage = Some ''payload''\<rparr>,
     fresh_socket ZMQ_DEALER [] [] \<lparr>sk_sent := [('''', True),
       (MeshIOType_serialize example_type, True), (service_frame MAKE_MESH, True),
       (''payload'', False)]\<rparr>)"
    by (simp add: Message_send_def Message_send_impl_def attachReqHeader_def needs_header_def
        o r k msg_dataSize_def msg_data_def)
  show ?thesis
    using Message_framing_roundtrip [OF s, of "fresh_socket ZMQ_ROUTER [] _" "[(''next'', False)]"]
    by (simp add: fresh_socket_def delivered_def body_frames_def needs_header_def
        MeshIOType_wf_def example_type_def max_object_size_def)
qed

lemma Response_send_impl_frames:
  assumes "Response_send_impl stype data client sk = (True, sk')" and "sk_sent sk = []"
  shows "sk_sent sk' = (if si_data client = '''' then [] else [(si_data client, True)]) @
    delivered sk [(service_frame stype, True), (data, False)]"
  using assms
  by (auto simp: Response_send_impl_def attachReqHeader_def delivered_def needs_header_def Let_def
      split: if_splits prod.splits dest!: send_harder_eq)

text \<open>
  A response reaches its client intact. A successful \<open>send_impl\<close> hands the socket the
  client's routing frame (when there is a client) and then the delimiter, the service type
  and the payload; a peer that gets those body frames reads the same service type and
  payload back and is valid. A send that fails is reported, and never leaves a last frame
  behind.
\<close>

theorem Response_framing_roundtrip:
  assumes "Response_send_impl stype data client sk = (ok, sk')" and "sk_sent sk = []"
    and "sk_script rs = []"
    and "sk_inbox rs = delivered rs [(service_frame stype, True), (data, False)] @ rest"
  shows "(ok \<longrightarrow>
      sk_sent sk' = (if si_data client = '''' then [] else [(si_data client, True)]) @
        delivered sk [(service_frame stype, True), (data, False)]) \<and>
    (\<not> ok \<longrightarrow> (\<forall>f\<in>set (sk_sent sk'). snd f)) \<and>
    Response_receive rs =
      Some (Inr (\<lparr>rsp_serviceType = stype, rsp_valid = True, rsp_data = data\<rparr>,
                 rs\<lparr>sk_inbox := rest, sk_rcvmore := False\<rparr>))"
proof (intro conjI impI)
  show "sk_sent sk' = (if si_data client = '''' then [] else [(si_data client, True)]) @
        delivered sk [(service_frame stype, True), (data, False)]" if ok
    using Response_send_impl_frames assms(1,2) that by simp
  show "\<forall>f\<in>set (sk_sent sk'). snd f" if "\<not> ok"
    using assms(1,2) that
    by (auto simp: Response_send_impl_def attachReqHeader_def Let_def
        split: if_splits prod.splits dest!: send_harder_eq)
  show "Response_receive rs =
      Some (Inr (\<lparr>rsp_serviceType = stype, rsp_valid = True, rsp_data = data\<rparr>,
                 rs\<lparr>sk_inbox := rest, sk_rcvmore := False\<rparr>))"
    using assms(3,4)
    by (cases "needs_header rs")
       (simp_all add: Response_receive_def removeReqHeader_def delivered_def recv_harder_ready)
qed

theorem Response_framing_roundtrip_witness:
  "Response_send_impl MESH_STATUS ''ok'' \<lparr>si_data = ''c1'', si_name = ''c1''\<rparr>
      (fresh_socket ZMQ_ROUTER (replicate 5 ZAgain) []) =
     (False, fresh_socket ZMQ_ROUTER [] []) \<and>
   Response_receive (fresh_socket ZMQ_REQ [] [(service_frame MESH_STATUS, True), (''ok'', False)]) =
     Some (Inr (\<lparr>rsp_serviceType = MESH_STATUS, rsp_valid = True, rsp_data = ''ok''\<rparr>,
                fresh_socket ZMQ_REQ [] []))"
proof -
  have s: "Response_send_impl MESH_STATUS ''ok'' \<lparr>si_data = ''c1'', si_name = ''c1''\<rparr>
      (fresh_socket ZMQ_ROUTER (replicate 5 ZAgain) []) =
     (False, fresh_socket ZMQ_ROUTER [] [])"
    by (simp add: Response_send_impl_def send_harder_def send_tries_outcome fresh_socket_def
        eval_nat_numeral)
  then show ?thesis
    using Response_framing_roundtrip [OF s,
        of "fresh_socket ZMQ_REQ [] [(service_frame MESH_STATUS, True), (''ok'', False)]" "[]"]
    by (simp add: fresh_socket_def delivered_def needs_header_def)
qed

section \<open>Polling through interrupts\<close>

lemma poll_loop_interrupted:
  assumes "\<forall>d\<in>set ds. 0 \<le> d" and "0 \<le> timeout"
  shows "poll_loop timeout (map PollInterrupted ds @ e # es) =
    (if sum_list ds \<le> timeout then poll_loop (timeout - sum_list ds) (e # es) else Inr (-1))"
  using assms
proof (induction ds arbitrary: timeout)
  case (Cons d ds)
  have "0 \<le> sum_list ds" using Cons.prems by (intro sum_list_nonneg) auto
  then show ?case using Cons.prems Cons.IH [of "timeout - d"] by (auto simp: algebra_simps)
qed simp

text \<open>
  \<open>poll_safely\<close> polls through interrupts without losing or extending its time budget.
  Interrupted calls that together used no more than the timeout are resumed and the answer
  of the next call is the result; once they used more, it stops with no event. A
  non-positive timeout fails the assertion, and an error other than an interrupt is thrown.
\<close>

theorem poll_safely_budget:
  assumes "\<forall>d\<in>set ds. 0 \<le> d" and "0 < timeout"
  shows "poll_safely timeout (map PollInterrupted ds @ PollReturned rc # es) =
      (if sum_list ds \<le> timeout then Inr (int rc) else Inr (-1)) \<and>
    poll_safely timeout (map PollInterrupted ds @ PollFailed # es) =
      (if sum_list ds \<le> timeout then Inl ZmqError else Inr (-1)) \<and>
    poll_safely (- timeout) es = Inl AssertFailure \<and> poll_safely 0 es = Inl AssertFailure"
  using assms by (simp add: poll_safely_def poll_loop_interrupted)

theorem poll_safely_budget_witness:
  "poll_safely 100 [PollInterrupted 40, PollInterrupted 60, PollReturned 1] = Inr 1 \<and>
   poll_safely 100 [PollInterrupted 40, PollInterrupted 61, PollReturned 1] = Inr (-1)"
  using poll_safely_budget [of "[40, 60]" 100 1 "[]"] poll_safely_budget [of "[40, 61]" 100 1 "[]"]
  by simp

end
