(* ===== verification/Remus_Uuid.thy ===== *)
theory Remus_Uuid
  imports Remus_Streams
begin

text \<open>
  The text form of uuids. Remus calls \<open>boost::uuids\<close> for it: \<open>operator<<\<close>,
  \<open>operator>>\<close> and \<open>string_generator\<close>, which are not part of its sources. The three
  operations are a parameter \<open>uuid_io\<close> of every definition that needs them, and
  \<open>uuid_io_ok\<close> is what Remus relies on: a printed uuid is a non-empty word without white
  space, and both readers give it back. \<open>hex_uuid_io\<close> is an instance, the canonical
  8-4-4-4-12 hexadecimal form.
\<close>

record uuid_io =
  uuid_show :: "uuid \<Rightarrow> string"
  uuid_extract :: "istream \<Rightarrow> uuid \<times> istream"
  uuid_generate :: "string \<Rightarrow> uuid option"

definition uuid_io_ok :: "uuid_io \<Rightarrow> bool" where
  "uuid_io_ok io \<longleftrightarrow>
     (\<forall>u. uuid_show io u \<noteq> [] \<and> (\<forall>c\<in>set (uuid_show io u). \<not> isspace c)) \<and>
     (\<forall>u. uuid_generate io (uuid_show io u) = Some u) \<and>
     (\<forall>ws u r. spaces ws \<longrightarrow>
        uuid_extract io (istream_of (ws @ uuid_show io u @ nl # r)) = (u, istream_of (nl # r)))"

lemma uuid_show_word:
  assumes "uuid_io_ok io"
  shows "uuid_show io u \<noteq> []" and "\<forall>c\<in>set (uuid_show io u). \<not> isspace c"
  using assms by (auto simp: uuid_io_ok_def)

lemma uuid_generate_show: "uuid_io_ok io \<Longrightarrow> uuid_generate io (uuid_show io u) = Some u"
  by (simp add: uuid_io_ok_def)

lemma uuid_extract_show:
  assumes "uuid_io_ok io"
  shows "spaces ws \<Longrightarrow> uuid_extract io (istream_of (ws @ uuid_show io u @ nl # r)) =
      (u, istream_of (nl # r))"
    and "uuid_extract io (istream_of (uuid_show io u @ nl # r)) = (u, istream_of (nl # r))"
    and "uuid_extract io (istream_of (nl # uuid_show io u @ nl # r)) = (u, istream_of (nl # r))"
proof -
  show *: "spaces ws \<Longrightarrow> uuid_extract io (istream_of (ws @ uuid_show io u @ nl # r)) =
      (u, istream_of (nl # r))" for ws
    using assms by (simp add: uuid_io_ok_def)
  show "uuid_extract io (istream_of (uuid_show io u @ nl # r)) = (u, istream_of (nl # r))"
    using * [of "[]"] by simp
  show "uuid_extract io (istream_of (nl # uuid_show io u @ nl # r)) = (u, istream_of (nl # r))"
    using * [of "[nl]"] by simp
qed

section \<open>The canonical hexadecimal form\<close>

definition hex_digits :: string where
  "hex_digits = ''0123456789abcdef''"

definition hex_val :: "char \<Rightarrow> nat" where
  "hex_val c = find_if (\<lambda>d. d = c) hex_digits"

fun hex_string :: "nat \<Rightarrow> nat \<Rightarrow> string" where
  "hex_string 0 n = []"
| "hex_string (Suc w) n = hex_string w (n div 16) @ [hex_digits ! (n mod 16)]"

definition hex_number :: "string \<Rightarrow> nat" where
  "hex_number ds = foldl (\<lambda>acc c. 16 * acc + hex_val c) 0 ds"

definition dashed :: "string \<Rightarrow> string" where
  "dashed h = take 8 h @ ''-'' @ take 4 (drop 8 h) @ ''-'' @ take 4 (drop 12 h) @ ''-'' @
     take 4 (drop 16 h) @ ''-'' @ drop 20 h"

definition hex_show :: "uuid \<Rightarrow> string" where
  "hex_show u = dashed (hex_string 32 (unat u))"

definition hex_generate :: "string \<Rightarrow> uuid option" where
  "hex_generate s =
     (let h = filter (\<lambda>c. c \<noteq> CHR ''-'') s in
      if length s = 36 \<and> length h = 32 \<and> list_all (\<lambda>c. c \<in> set hex_digits) h
      then Some (of_nat (hex_number h)) else None)"

definition hex_extract :: "istream \<Rightarrow> uuid \<times> istream" where
  "hex_extract s =
     (let cs = dropWhile isspace (is_buf s) in
      if \<not> istream_good s then (0, s\<lparr>is_fail := True\<rparr>)
      else case hex_generate (take 36 cs) of
        None \<Rightarrow> (0, s\<lparr>is_fail := True\<rparr>)
      | Some u \<Rightarrow> (u, s\<lparr>is_buf := drop 36 cs\<rparr>))"

definition hex_uuid_io :: uuid_io where
  "hex_uuid_io = \<lparr>uuid_show = hex_show, uuid_extract = hex_extract, uuid_generate = hex_generate\<rparr>"

lemma length_hex_string [simp]: "length (hex_string w n) = w"
  by (induction w n rule: hex_string.induct) auto

lemma hex_string_digits: "c \<in> set (hex_string w n) \<Longrightarrow> c \<in> set hex_digits"
proof (induction w n rule: hex_string.induct)
  case (2 w n)
  have "n mod 16 < length hex_digits" by (simp add: hex_digits_def)
  with 2 show ?case by auto
qed simp

lemma hex_digit_props:
  assumes "c \<in> set hex_digits"
  shows "c \<noteq> CHR ''-''" and "\<not> isspace c"
  using assms by (auto simp: hex_digits_def isspace_def)

lemma hex_val_digit: "d < 16 \<Longrightarrow> hex_val (hex_digits ! d) = d"
proof -
  have "\<forall>d<16. hex_val (hex_digits ! d) = d"
    by (simp add: hex_val_def hex_digits_def eval_nat_numeral All_less_Suc)
  then show "d < 16 \<Longrightarrow> hex_val (hex_digits ! d) = d" by blast
qed

lemma hex_number_hex_string: "n < 16 ^ w \<Longrightarrow> hex_number (hex_string w n) = n"
proof (induction w n rule: hex_string.induct)
  case (2 w n)
  then have "n div 16 < 16 ^ w" by (simp add: less_mult_imp_div_less mult.commute)
  with 2 have "hex_number (hex_string w (n div 16)) = n div 16" by simp
  then show ?case
    by (simp add: hex_number_def hex_val_digit)
qed (simp add: hex_number_def)

lemma length_dashed: "length h = 32 \<Longrightarrow> length (dashed h) = 36"
  by (simp add: dashed_def)

lemma take_rejoin: "take k xs @ take m (drop k xs) @ ys = take (k + m) xs @ ys"
  by (simp add: take_add)

lemma filter_dashed:
  assumes "\<forall>c\<in>set h. c \<noteq> CHR ''-''"
  shows "filter (\<lambda>c. c \<noteq> CHR ''-'') (dashed h) = h"
proof -
  have keep: "filter (\<lambda>c. c \<noteq> CHR ''-'') (take k (drop j h)) = take k (drop j h)" for j k
    using assms by (auto simp: filter_id_conv dest: in_set_takeD in_set_dropD)
  have keep': "filter (\<lambda>c. c \<noteq> CHR ''-'') (drop j h) = drop j h" for j
    using assms by (auto simp: filter_id_conv dest: in_set_dropD)
  show ?thesis
    using keep [of _ 0] by (simp add: dashed_def keep keep' take_rejoin)
qed

lemma set_dashed: "set (dashed h) \<subseteq> insert (CHR ''-'') (set h)"
  by (auto simp: dashed_def dest: in_set_takeD in_set_dropD)

lemma hex_generate_show: "hex_generate (hex_show u) = Some u"
proof -
  let ?h = "hex_string 32 (unat u)"
  have "filter (\<lambda>c. c \<noteq> CHR ''-'') (dashed ?h) = ?h"
    using hex_string_digits hex_digit_props(1) by (intro filter_dashed) blast
  moreover have "hex_number ?h = unat u"
    using unsigned_less [of u] by (intro hex_number_hex_string) simp
  ultimately show ?thesis
    using hex_string_digits by (auto simp: hex_generate_def hex_show_def length_dashed list_all_iff)
qed

lemma hex_uuid_io_ok: "uuid_io_ok hex_uuid_io"
proof -
  have "\<not> isspace (CHR ''-'')" by (simp add: isspace_def)
  then have chars: "\<forall>c\<in>set (hex_show u). \<not> isspace c" for u
    using set_dashed [of "hex_string 32 (unat u)"] hex_string_digits hex_digit_props(2)
    unfolding hex_show_def by blast
  have len: "length (hex_show u) = 36" for u
    by (simp add: hex_show_def length_dashed)
  have "hex_extract (istream_of (ws @ hex_show u @ nl # r)) = (u, istream_of (nl # r))"
    if "spaces ws" for ws u r
  proof -
    have "dropWhile isspace (hex_show u @ nl # r) = hex_show u @ nl # r"
      using chars [of u] len [of u] by (cases "hex_show u") auto
    then show ?thesis
      using that len [of u]
      by (simp add: hex_extract_def dropWhile_spaces hex_generate_show) (simp add: istream_of_def)
  qed
  moreover have "hex_show u \<noteq> []" for u
    using len [of u] by auto
  ultimately show ?thesis
    using chars hex_generate_show by (simp add: uuid_io_ok_def hex_uuid_io_def)
qed

end
