(* ===== verification/Remus_Requirements.thy ===== *)
theory Remus_Requirements
  imports Remus_Types Remus_Uuid
begin

text \<open>
  \<open>remus/proto\<close>: what a client asks for and a worker offers. \<open>JobRequirements\<close> with
  its set type, \<open>JobContent\<close>, \<open>JobSubmission\<close> and \<open>WorkerJob\<close>: constructors,
  comparison operators, serialisation and deserialisation. The zero-copy storage behind
  the classes is the byte string it refers to. \<open>MD5Hash\<close> is a parameter \<open>md5\<close>.
\<close>

section \<open>JobRequirements\<close>

record JobRequirements =
  req_sourceType :: ContentSource
  req_formatType :: ContentFormat
  req_meshTypes :: MeshIOType
  req_workerName :: string
  req_tag :: string
  req_requirements :: string

definition JobRequirements_default :: JobRequirements where
  "JobRequirements_default = \<lparr>req_sourceType = File, req_formatType = User,
     req_meshTypes = MeshIOType_default, req_workerName = '''', req_tag = '''',
     req_requirements = ''''\<rparr>"

text \<open>The constructor from a \<open>FileHandle\<close> stores the path of the file.\<close>

definition JobRequirements_file ::
  "ContentFormat \<Rightarrow> MeshIOType \<Rightarrow> string \<Rightarrow> string \<Rightarrow> JobRequirements" where
  "JobRequirements_file ftype mtype wname path = \<lparr>req_sourceType = File,
     req_formatType = ftype, req_meshTypes = mtype, req_workerName = wname, req_tag = '''',
     req_requirements = path\<rparr>"

definition JobRequirements_memory ::
  "ContentFormat \<Rightarrow> MeshIOType \<Rightarrow> string \<Rightarrow> string \<Rightarrow> JobRequirements" where
  "JobRequirements_memory ftype mtype wname reqs = \<lparr>req_sourceType = Memory,
     req_formatType = ftype, req_meshTypes = mtype, req_workerName = wname, req_tag = '''',
     req_requirements = reqs\<rparr>"

definition make_JobRequirements :: "MeshIOType \<Rightarrow> string \<Rightarrow> string \<Rightarrow> JobRequirements" where
  "make_JobRequirements meshtypes wname reqs = JobRequirements_memory User meshtypes wname reqs"

definition hasRequirements :: "JobRequirements \<Rightarrow> bool" where
  "hasRequirements r \<longleftrightarrow> length (req_requirements r) > 0"

definition JobRequirements_less :: "JobRequirements \<Rightarrow> JobRequirements \<Rightarrow> bool" where
  "JobRequirements_less a b =
     (if \<not> MeshIOType_eq (req_meshTypes a) (req_meshTypes b)
      then MeshIOType_less (req_meshTypes a) (req_meshTypes b)
      else if req_sourceType a \<noteq> req_sourceType b
      then int_of_ContentSource (req_sourceType a) < int_of_ContentSource (req_sourceType b)
      else if req_formatType a \<noteq> req_formatType b
      then int_of_ContentFormat (req_formatType a) < int_of_ContentFormat (req_formatType b)
      else if req_workerName a \<noteq> req_workerName b
      then string_less (req_workerName a) (req_workerName b)
      else if req_tag a \<noteq> req_tag b
      then string_less (req_tag a) (req_tag b)
      else False)"

definition JobRequirements_eq :: "JobRequirements \<Rightarrow> JobRequirements \<Rightarrow> bool" where
  "JobRequirements_eq a b \<longleftrightarrow>
     MeshIOType_eq (req_meshTypes a) (req_meshTypes b) \<and>
     req_sourceType a = req_sourceType b \<and>
     req_formatType a = req_formatType b \<and>
     req_workerName a = req_workerName b \<and>
     req_tag a = req_tag b"

definition JobRequirements_serialize :: "JobRequirements \<Rightarrow> string" where
  "JobRequirements_serialize r =
     show_nat (int_of_ContentSource (req_sourceType r)) @ [nl] @
     show_nat (int_of_ContentFormat (req_formatType r)) @ [nl] @
     MeshIOType_serialize (req_meshTypes r) @ [nl] @
     show_nat (length (req_workerName r)) @ [nl] @ writeString (req_workerName r) @
     show_nat (length (req_tag r)) @ [nl] @ writeString (req_tag r) @
     show_nat (length (req_requirements r)) @ [nl] @ writeString (req_requirements r)"

definition JobRequirements_read :: "istream \<Rightarrow> (JobRequirements \<times> istream) result" where
  "JobRequirements_read s0 =
     (let (stype, s1) = read_int s0; (ftype, s2) = read_int s1 in
      bindE (MeshIOType_read s2) (\<lambda>(mtype, s3).
      bindE (ContentSource_of_int stype) (\<lambda>source.
      bindE (ContentFormat_of_int ftype) (\<lambda>format.
      let (workerNameSize, s4) = read_int s3 in
      bindE (extractString s4 (size_t_of_int workerNameSize)) (\<lambda>(wname, s5).
      let (tagSize, s6) = read_int s5 in
      bindE (extractString s6 (size_t_of_int tagSize)) (\<lambda>(tg, s7).
      let (contentsSize, s8) = read_int s7 in
      bindE (read_contents (size_t_of_int contentsSize) s8) (\<lambda>(contents, s9).
      Inr (\<lparr>req_sourceType = source, req_formatType = format, req_meshTypes = mtype,
            req_workerName = wname, req_tag = tg, req_requirements = contents\<rparr>, s9))))))))"

definition JobRequirements_to_string :: "JobRequirements \<Rightarrow> string" where
  "JobRequirements_to_string r = JobRequirements_serialize r"

text \<open>The buffer is filled with \<open>writeString\<close>, which appends a newline.\<close>

definition to_JobRequirements :: "string \<Rightarrow> JobRequirements result" where
  "to_JobRequirements data =
     bindE (JobRequirements_read (istream_of (writeString data))) (\<lambda>(r, _). Inr r)"

type_synonym JobRequirementsSet = "JobRequirements list"

definition JobRequirementsSet_insert ::
  "JobRequirements \<Rightarrow> JobRequirementsSet \<Rightarrow> JobRequirementsSet" where
  "JobRequirementsSet_insert = set_insert JobRequirements_less"

definition JobRequirementsSet_insert_range ::
  "JobRequirements list \<Rightarrow> JobRequirementsSet \<Rightarrow> JobRequirementsSet" where
  "JobRequirementsSet_insert_range = set_insert_range JobRequirements_less"

text \<open>\<open>operator==\<close> of the wrapped \<open>std::set\<close>: sizes and elements pairwise.\<close>

definition JobRequirementsSet_eq :: "JobRequirementsSet \<Rightarrow> JobRequirementsSet \<Rightarrow> bool" where
  "JobRequirementsSet_eq a b \<longleftrightarrow> list_all2 JobRequirements_eq a b"

definition JobRequirementsSet_serialize :: "JobRequirementsSet \<Rightarrow> string" where
  "JobRequirementsSet_serialize c =
     show_nat (length c) @ [nl] @ concat (map (\<lambda>r. JobRequirements_serialize r @ [nl]) c)"

definition JobRequirementsSet_read :: "istream \<Rightarrow> (JobRequirementsSet \<times> istream) result" where
  "JobRequirementsSet_read s0 =
     (let (csize, s1) = read_size s0 in
      bindE (read_many csize JobRequirements_read s1) (\<lambda>(rs, s2).
      Inr (set_insert_range JobRequirements_less rs [], s2)))"

section \<open>JobContent\<close>

record JobContent =
  con_sourceType :: ContentSource
  con_formatType :: ContentFormat
  con_tag :: string
  con_data :: string

definition JobContent_default :: JobContent where
  "JobContent_default = \<lparr>con_sourceType = File, con_formatType = User, con_tag = '''',
     con_data = ''''\<rparr>"

definition JobContent_file :: "ContentFormat \<Rightarrow> string \<Rightarrow> JobContent" where
  "JobContent_file format path = \<lparr>con_sourceType = File, con_formatType = format,
     con_tag = '''', con_data = path\<rparr>"

definition JobContent_memory :: "ContentFormat \<Rightarrow> string \<Rightarrow> JobContent" where
  "JobContent_memory format contents = \<lparr>con_sourceType = Memory, con_formatType = format,
     con_tag = '''', con_data = contents\<rparr>"

text \<open>The cached hashes of the data; below 4096 bytes the short hash is the data itself.\<close>

definition shortHash :: "(string \<Rightarrow> string) \<Rightarrow> string \<Rightarrow> string" where
  "shortHash md5 d = (if length d < 4096 then d else md5 (take 4096 d))"

definition fullHash :: "(string \<Rightarrow> string) \<Rightarrow> string \<Rightarrow> string" where
  "fullHash md5 d = md5 d"

definition content_equal :: "(string \<Rightarrow> string) \<Rightarrow> string \<Rightarrow> string \<Rightarrow> bool" where
  "content_equal md5 d e \<longleftrightarrow> shortHash md5 d = shortHash md5 e \<and> fullHash md5 d = fullHash md5 e"

definition content_less :: "(string \<Rightarrow> string) \<Rightarrow> string \<Rightarrow> string \<Rightarrow> bool" where
  "content_less md5 d e =
     (if shortHash md5 d \<noteq> shortHash md5 e then string_less (shortHash md5 d) (shortHash md5 e)
      else if fullHash md5 d \<noteq> fullHash md5 e then string_less (fullHash md5 d) (fullHash md5 e)
      else False)"

definition JobContent_less :: "(string \<Rightarrow> string) \<Rightarrow> JobContent \<Rightarrow> JobContent \<Rightarrow> bool" where
  "JobContent_less md5 a b =
     (if con_sourceType a \<noteq> con_sourceType b
      then int_of_ContentSource (con_sourceType a) < int_of_ContentSource (con_sourceType b)
      else if con_formatType a \<noteq> con_formatType b
      then int_of_ContentFormat (con_formatType a) < int_of_ContentFormat (con_formatType b)
      else if con_tag a \<noteq> con_tag b then string_less (con_tag a) (con_tag b)
      else if length (con_data a) \<noteq> length (con_data b)
      then length (con_data a) < length (con_data b)
      else if \<not> content_equal md5 (con_data a) (con_data b)
      then content_less md5 (con_data a) (con_data b)
      else False)"

definition JobContent_eq :: "(string \<Rightarrow> string) \<Rightarrow> JobContent \<Rightarrow> JobContent \<Rightarrow> bool" where
  "JobContent_eq md5 a b \<longleftrightarrow>
     con_sourceType a = con_sourceType b \<and> con_formatType a = con_formatType b \<and>
     con_tag a = con_tag b \<and> length (con_data a) = length (con_data b) \<and>
     content_equal md5 (con_data a) (con_data b)"

definition JobContent_serialize :: "JobContent \<Rightarrow> string" where
  "JobContent_serialize c =
     show_nat (int_of_ContentSource (con_sourceType c)) @ [nl] @
     show_nat (int_of_ContentFormat (con_formatType c)) @ [nl] @
     show_nat (length (con_tag c)) @ [nl] @ writeString (con_tag c) @
     show_nat (length (con_data c)) @ [nl] @ writeString (con_data c)"

definition JobContent_read :: "istream \<Rightarrow> (JobContent \<times> istream) result" where
  "JobContent_read s0 =
     (let (stype, s1) = read_int s0; (ftype, s2) = read_int s1 in
      bindE (ContentSource_of_int stype) (\<lambda>source.
      bindE (ContentFormat_of_int ftype) (\<lambda>format.
      let (tagSize, s3) = read_size s2 in
      bindE (extractString s3 tagSize) (\<lambda>(tg, s4).
      let (contentsSize, s5) = read_size s4 in
      bindE (read_contents contentsSize s5) (\<lambda>(contents, s6).
      Inr (\<lparr>con_sourceType = source, con_formatType = format, con_tag = tg,
            con_data = contents\<rparr>, s6))))))"

definition to_JobContent :: "string \<Rightarrow> JobContent result" where
  "to_JobContent data =
     bindE (JobContent_read (istream_of (writeString data))) (\<lambda>(c, _). Inr c)"

section \<open>JobSubmission\<close>

record JobSubmission =
  sub_type :: MeshIOType
  sub_requirements :: JobRequirements
  sub_content :: "(string \<times> JobContent) list"

definition JobSubmission_default :: JobSubmission where
  "JobSubmission_default = \<lparr>sub_type = MeshIOType_default,
     sub_requirements = JobRequirements_default, sub_content = []\<rparr>"

definition JobSubmission_reqs :: "JobRequirements \<Rightarrow> JobSubmission" where
  "JobSubmission_reqs reqs = \<lparr>sub_type = req_meshTypes reqs, sub_requirements = reqs,
     sub_content = []\<rparr>"

definition default_key :: string where
  "default_key = ''data''"

definition JobSubmission_content :: "JobRequirements \<Rightarrow> JobContent \<Rightarrow> JobSubmission" where
  "JobSubmission_content reqs content = \<lparr>sub_type = req_meshTypes reqs,
     sub_requirements = reqs, sub_content = map_assign string_less default_key content []\<rparr>"

definition JobSubmission_insert :: "string \<Rightarrow> JobContent \<Rightarrow> JobSubmission \<Rightarrow> JobSubmission" where
  "JobSubmission_insert k v s = s\<lparr>sub_content := map_insert string_less k v (sub_content s)\<rparr>"

definition JobSubmission_assign :: "string \<Rightarrow> JobContent \<Rightarrow> JobSubmission \<Rightarrow> JobSubmission" where
  "JobSubmission_assign k v s = s\<lparr>sub_content := map_assign string_less k v (sub_content s)\<rparr>"

definition JobSubmission_find :: "string \<Rightarrow> JobSubmission \<Rightarrow> JobContent option" where
  "JobSubmission_find k s = map_find string_less k (sub_content s)"

text \<open>\<open>std::map\<close>'s \<open>operator<\<close>: lexicographic over the pairs.\<close>

fun content_map_less :: "(string \<Rightarrow> string) \<Rightarrow> (string \<times> JobContent) list \<Rightarrow>
    (string \<times> JobContent) list \<Rightarrow> bool" where
  "content_map_less md5 [] [] = False"
| "content_map_less md5 [] (y # ys) = True"
| "content_map_less md5 (x # xs) [] = False"
| "content_map_less md5 ((k, v) # xs) ((k', v') # ys) =
     (if string_less k k' \<or> (\<not> string_less k' k \<and> JobContent_less md5 v v') then True
      else if string_less k' k \<or> (\<not> string_less k k' \<and> JobContent_less md5 v' v) then False
      else content_map_less md5 xs ys)"

definition JobSubmission_less :: "(string \<Rightarrow> string) \<Rightarrow> JobSubmission \<Rightarrow> JobSubmission \<Rightarrow> bool" where
  "JobSubmission_less md5 a b =
     (if \<not> MeshIOType_eq (sub_type a) (sub_type b) then MeshIOType_less (sub_type a) (sub_type b)
      else if \<not> JobRequirements_eq (sub_requirements a) (sub_requirements b)
      then JobRequirements_less (sub_requirements a) (sub_requirements b)
      else if length (sub_content a) \<noteq> length (sub_content b)
      then content_map_less md5 (sub_content a) (sub_content b)
      else False)"

definition JobSubmission_eq :: "(string \<Rightarrow> string) \<Rightarrow> JobSubmission \<Rightarrow> JobSubmission \<Rightarrow> bool" where
  "JobSubmission_eq md5 a b \<longleftrightarrow>
     MeshIOType_eq (sub_type a) (sub_type b) \<and>
     JobRequirements_eq (sub_requirements a) (sub_requirements b) \<and>
     length (sub_content a) = length (sub_content b) \<and>
     list_all2 (\<lambda>(k, v) (k', v'). k = k' \<and> JobContent_eq md5 v v')
       (sub_content a) (sub_content b)"

definition entry_serialize :: "string \<times> JobContent \<Rightarrow> string" where
  "entry_serialize e =
     show_nat (length (fst e)) @ [nl] @ writeString (fst e) @ JobContent_serialize (snd e)"

definition entry_read :: "istream \<Rightarrow> ((string \<times> JobContent) \<times> istream) result" where
  "entry_read s0 =
     (let (keySize, s1) = read_size s0 in
      bindE (extractString s1 keySize) (\<lambda>(key, s2).
      bindE (JobContent_read s2) (\<lambda>(content, s3).
      Inr ((key, content), s3))))"

definition JobSubmission_serialize :: "JobSubmission \<Rightarrow> string" where
  "JobSubmission_serialize s =
     MeshIOType_serialize (sub_type s) @ [nl] @
     JobRequirements_serialize (sub_requirements s) @ [nl] @
     show_nat (length (sub_content s)) @ [nl] @
     concat (map (\<lambda>e. entry_serialize e @ [nl]) (sub_content s))"

definition JobSubmission_read :: "istream \<Rightarrow> (JobSubmission \<times> istream) result" where
  "JobSubmission_read s0 =
     bindE (MeshIOType_read s0) (\<lambda>(mtype, s1).
     bindE (JobRequirements_read s1) (\<lambda>(reqs, s2).
     let (contentSize, s3) = read_size s2 in
     bindE (read_many contentSize entry_read s3) (\<lambda>(entries, s4).
     Inr (\<lparr>sub_type = mtype, sub_requirements = reqs,
           sub_content = fold (\<lambda>(k, v). map_assign string_less k v) entries []\<rparr>, s4))))"

definition to_JobSubmission :: "string \<Rightarrow> JobSubmission result" where
  "to_JobSubmission data =
     bindE (JobSubmission_read (istream_of (writeString data))) (\<lambda>(s, _). Inr s)"

section \<open>WorkerJob\<close>

datatype JobValidity = JV_INVALID | JV_VALID_JOB | JV_TERMINATE_WORKER

record WorkerJob =
  wj_id :: uuid
  wj_submission :: JobSubmission
  wj_validity :: JobValidity

definition WorkerJob_default :: WorkerJob where
  "WorkerJob_default = \<lparr>wj_id = 0, wj_submission = JobSubmission_default,
     wj_validity = JV_INVALID\<rparr>"

definition WorkerJob_mk :: "uuid \<Rightarrow> JobSubmission \<Rightarrow> WorkerJob" where
  "WorkerJob_mk jid sub = \<lparr>wj_id = jid, wj_submission = sub, wj_validity = JV_VALID_JOB\<rparr>"

definition WorkerJob_valid :: "WorkerJob \<Rightarrow> bool" where
  "WorkerJob_valid j \<longleftrightarrow>
     wj_validity j = JV_VALID_JOB \<and> MeshIOType_valid (sub_type (wj_submission j))"

definition WorkerJob_details :: "string \<Rightarrow> WorkerJob \<Rightarrow> string" where
  "WorkerJob_details key j =
     (case JobSubmission_find key (wj_submission j) of
        Some c \<Rightarrow> con_data c
      | None \<Rightarrow> '''')"

definition WorkerJob_to_string :: "uuid_io \<Rightarrow> WorkerJob \<Rightarrow> string" where
  "WorkerJob_to_string io j =
     uuid_show io (wj_id j) @ [nl] @ JobSubmission_serialize (wj_submission j) @ [nl]"

definition to_WorkerJob :: "uuid_io \<Rightarrow> string \<Rightarrow> WorkerJob result" where
  "to_WorkerJob io msg =
     (let (jid, s1) = uuid_extract io (istream_of msg) in
      bindE (JobSubmission_read s1) (\<lambda>(sub, _).
      Inr (WorkerJob_mk jid sub)))"

section \<open>JobRequirements: an ordering that ignores the requirements' data\<close>

lemma JobRequirements_less_lex:
  "JobRequirements_less =
     lex_comb MeshIOType_less req_meshTypes
     (lex_comb (<) (\<lambda>r. int_of_ContentSource (req_sourceType r))
     (lex_comb (<) (\<lambda>r. int_of_ContentFormat (req_formatType r))
     (lex_comb string_less req_workerName
     (lex_comb string_less req_tag (\<lambda>_ _. False)))))"
  by (simp add: JobRequirements_less_def lex_comb_def fun_eq_iff)

interpretation reqs_order: strict_weak_order JobRequirements_less
  unfolding JobRequirements_less_lex
  by (intro lex_comb_order order_False meshio_order.strict_total_order_axioms
      string_order.strict_total_order_axioms strict_total_order_nat)

lemma reqs_equiv_iff [simp]: "equiv_by JobRequirements_less a b \<longleftrightarrow> JobRequirements_eq a b"
  by (auto simp: JobRequirements_less_lex JobRequirements_eq_def
      lex_comb_equiv meshio_order.strict_total_order_axioms
      string_order.strict_total_order_axioms strict_total_order_nat)

lemma JobRequirements_eq_refl [simp]: "JobRequirements_eq r r"
  by (simp add: JobRequirements_eq_def)

lemma JobRequirements_eq_sym: "JobRequirements_eq a b \<longleftrightarrow> JobRequirements_eq b a"
  by (auto simp: JobRequirements_eq_def)

lemma JobRequirements_eq_trans:
  "JobRequirements_eq a b \<Longrightarrow> JobRequirements_eq b c \<Longrightarrow> JobRequirements_eq a c"
  by (auto simp: JobRequirements_eq_def)

lemma JobRequirements_eq_cong:
  "JobRequirements_eq a b \<Longrightarrow> JobRequirements_eq a c \<longleftrightarrow> JobRequirements_eq b c"
  "JobRequirements_eq a b \<Longrightarrow> JobRequirements_eq c a \<longleftrightarrow> JobRequirements_eq c b"
  by (auto simp: JobRequirements_eq_def)

text \<open>The fields \<open>operator==\<close> looks at.\<close>

definition reqs_key ::
  "JobRequirements \<Rightarrow> MeshIOType \<times> ContentSource \<times> ContentFormat \<times> string \<times> string" where
  "reqs_key r = (req_meshTypes r, req_sourceType r, req_formatType r, req_workerName r, req_tag r)"

lemma JobRequirements_eq_key: "JobRequirements_eq a b \<longleftrightarrow> reqs_key a = reqs_key b"
  by (auto simp: JobRequirements_eq_def reqs_key_def)

section \<open>Round trips\<close>

definition JobRequirements_wf :: "JobRequirements \<Rightarrow> bool" where
  "JobRequirements_wf r \<longleftrightarrow> MeshIOType_wf (req_meshTypes r) \<and>
     length (req_workerName r) < 2 ^ 31 \<and> length (req_tag r) < 2 ^ 31 \<and>
     length (req_requirements r) < 2 ^ 31"

lemma int32_size [simp]: "n < 2147483648 \<Longrightarrow> n \<le> max_object_size"
  by (simp add: max_object_size_def)

interpretation reqs_codec: stream_codec JobRequirements_serialize JobRequirements_read
  JobRequirements_wf "\<lambda>_. [nl]"
proof
  fix x :: JobRequirements and ws r
  assume wf: "JobRequirements_wf x" and ws: "spaces ws"
  then have "MeshIOType_wf (req_meshTypes x)" by (simp add: JobRequirements_wf_def)
  from meshio_codec.get_put_nl [OF this] show
    "JobRequirements_read (istream_of (ws @ JobRequirements_serialize x @ r)) =
      Inr (x, istream_of ([nl] @ r))"
    using wf ws
    by (simp add: JobRequirements_read_def JobRequirements_serialize_def JobRequirements_wf_def
        codec_unfolds codec_simps)
qed simp

definition JobContent_wf :: "JobContent \<Rightarrow> bool" where
  "JobContent_wf c \<longleftrightarrow>
     length (con_tag c) \<le> max_object_size \<and> length (con_data c) \<le> max_object_size"

interpretation content_codec: stream_codec JobContent_serialize JobContent_read
  JobContent_wf "\<lambda>_. [nl]"
proof
  fix x :: JobContent and ws r
  assume "JobContent_wf x" and "spaces ws"
  then show "JobContent_read (istream_of (ws @ JobContent_serialize x @ r)) =
      Inr (x, istream_of ([nl] @ r))"
    by (simp add: JobContent_read_def JobContent_serialize_def JobContent_wf_def
        codec_unfolds codec_simps)
qed simp

definition entry_wf :: "string \<times> JobContent \<Rightarrow> bool" where
  "entry_wf e \<longleftrightarrow> length (fst e) \<le> max_object_size \<and> JobContent_wf (snd e)"

interpretation entry_codec: stream_codec entry_serialize entry_read entry_wf "\<lambda>_. [nl]"
proof
  fix x :: "string \<times> JobContent" and ws r
  assume wf: "entry_wf x" and ws: "spaces ws"
  then have "JobContent_wf (snd x)" by (simp add: entry_wf_def)
  from content_codec.get_put_nl [OF this] show
    "entry_read (istream_of (ws @ entry_serialize x @ r)) = Inr (x, istream_of ([nl] @ r))"
    using wf ws by (simp add: entry_read_def entry_serialize_def entry_wf_def codec_unfolds codec_simps)
qed simp

definition JobSubmission_wf :: "JobSubmission \<Rightarrow> bool" where
  "JobSubmission_wf s \<longleftrightarrow> MeshIOType_wf (sub_type s) \<and> JobRequirements_wf (sub_requirements s) \<and>
     sorted_wrt string_less (map fst (sub_content s)) \<and>
     (\<forall>e\<in>set (sub_content s). entry_wf e) \<and> length (sub_content s) \<le> max_object_size"

definition JobSubmission_trail :: "JobSubmission \<Rightarrow> string" where
  "JobSubmission_trail s = (if sub_content s = [] then [nl] else [nl, nl])"

interpretation submission_codec: stream_codec JobSubmission_serialize JobSubmission_read
  JobSubmission_wf JobSubmission_trail
proof
  fix x :: JobSubmission and ws r
  assume wf: "JobSubmission_wf x" and ws: "spaces ws"
  have "fold (\<lambda>(k, v). map_assign string_less k v) (sub_content x) [] = sub_content x"
    using wf string_order.map_assign_ascending [of "[]" "sub_content x"]
    by (simp add: JobSubmission_wf_def)
  then show "JobSubmission_read (istream_of (ws @ JobSubmission_serialize x @ r)) =
      Inr (x, istream_of (JobSubmission_trail x @ r))"
    using wf ws
    by (simp add: JobSubmission_read_def JobSubmission_serialize_def JobSubmission_wf_def
        JobSubmission_trail_def codec_unfolds codec_simps meshio_codec.get_put
        reqs_codec.get_put [of _ "[nl, nl]", simplified] entry_codec.read_many_put_nl)
qed (simp add: JobSubmission_trail_def)

lemma JobRequirements_wire:
  "JobRequirements_wf r \<Longrightarrow> to_JobRequirements (JobRequirements_serialize r) = Inr r"
  using reqs_codec.get_put0 [of r "[nl]"] by (simp add: to_JobRequirements_def writeString_def)

text \<open>
  The requirements a client or worker sends are reproduced exactly by the receiver's
  \<open>to_JobRequirements\<close>, data included, as long as each variable-length field is shorter
  than the \<open>int\<close> its size is read into allows.
\<close>

theorem JobRequirements_roundtrip:
  assumes "JobRequirements_wf r"
  shows "to_JobRequirements (JobRequirements_to_string r) = Inr r"
  using reqs_codec.get_put0 [OF assms, of "[nl]"]
  by (simp add: to_JobRequirements_def JobRequirements_to_string_def writeString_def)

definition example_reqs :: JobRequirements where
  "example_reqs = \<lparr>req_sourceType = Memory, req_formatType = XML,
     req_meshTypes = \<lparr>inputType = ''Edges'', outputType = ''Mesh2D''\<rparr>,
     req_workerName = ''triangle'', req_tag = ''v1'', req_requirements = [nl, CHR ''x'']\<rparr>"

lemma example_reqs_wf: "JobRequirements_wf example_reqs"
  by (simp add: JobRequirements_wf_def example_reqs_def MeshIOType_wf_def max_object_size_def)

theorem JobRequirements_roundtrip_witness:
  "JobRequirements_wf example_reqs \<and>
   to_JobRequirements (JobRequirements_to_string example_reqs) = Inr example_reqs"
  using example_reqs_wf JobRequirements_roundtrip by blast

text \<open>
  A set of requirements, as the server answers \<open>MESH_REQUIREMENTS_FOR_IO_TYPE\<close>, is
  read back element by element; the reader's re-insertion into a \<open>std::set\<close> changes
  neither the elements nor their order.
\<close>

theorem JobRequirementsSet_roundtrip:
  assumes "sorted_wrt JobRequirements_less c" and "\<forall>r\<in>set c. JobRequirements_wf r"
    and "length c < 2 ^ 64" and "spaces ws"
  shows "\<exists>ws'. JobRequirementsSet_read (istream_of (ws @ JobRequirementsSet_serialize c @ t)) =
    Inr (c, istream_of (ws' @ t)) \<and> spaces ws'"
proof -
  have "set_insert_range JobRequirements_less c [] = c"
    using assms(1) reqs_order.set_insert_range_ascending [of "[]" c] by simp
  then show ?thesis
    using assms
    by (intro exI [of _ "if c = [] then [nl] else [nl, nl]"])
       (auto simp: JobRequirementsSet_read_def JobRequirementsSet_serialize_def
        codec_unfolds codec_simps reqs_codec.read_many_put_nl)
qed

theorem JobRequirementsSet_roundtrip_witness:
  "\<exists>ws'. JobRequirementsSet_read
     (istream_of ([] @ JobRequirementsSet_serialize [example_reqs, example_reqs\<lparr>req_tag := ''v2''\<rparr>] @ [nl])) =
   Inr ([example_reqs, example_reqs\<lparr>req_tag := ''v2''\<rparr>], istream_of (ws' @ [nl])) \<and> spaces ws'"
proof (rule JobRequirementsSet_roundtrip)
  show "sorted_wrt JobRequirements_less [example_reqs, example_reqs\<lparr>req_tag := ''v2''\<rparr>]"
    by (simp add: JobRequirements_less_def example_reqs_def string_less_def)
  show "\<forall>r\<in>set [example_reqs, example_reqs\<lparr>req_tag := ''v2''\<rparr>]. JobRequirements_wf r"
    using example_reqs_wf by (simp add: JobRequirements_wf_def)
qed simp_all

lemma WorkerJob_wire:
  assumes "uuid_io_ok io" and "JobSubmission_wf sub"
  shows "to_WorkerJob io (WorkerJob_to_string io (WorkerJob_mk jid sub)) = Inr (WorkerJob_mk jid sub)"
  using submission_codec.get_put_nl [OF assms(2), of "[nl]"]
  by (simp add: to_WorkerJob_def WorkerJob_to_string_def WorkerJob_mk_def
      writeString_def uuid_extract_show [OF assms(1)])

lemma JobSubmission_wire:
  "JobSubmission_wf sub \<Longrightarrow> to_JobSubmission (JobSubmission_serialize sub) = Inr sub"
  using submission_codec.get_put0 [of sub "[nl]"] by (simp add: to_JobSubmission_def writeString_def)

text \<open>
  C25: a job handed to a worker survives the wire: \<open>to_WorkerJob\<close> rebuilds the id and the
  whole submission (type, requirements and every content entry), and the client's
  submission survives \<open>to_JobSubmission\<close> the same way.
\<close>

theorem WorkerJob_roundtrip:
  assumes "uuid_io_ok io" and "JobSubmission_wf sub"
  shows "to_WorkerJob io (WorkerJob_to_string io (WorkerJob_mk jid sub)) = Inr (WorkerJob_mk jid sub) \<and>
    to_JobSubmission (JobSubmission_serialize sub) = Inr sub"
  using WorkerJob_wire [OF assms] JobSubmission_wire [OF assms(2)] by simp

definition example_submission :: JobSubmission where
  "example_submission = JobSubmission_content example_reqs (JobContent_memory JSON ''{a}'')"

lemma example_submission_wf: "JobSubmission_wf example_submission"
  using example_reqs_wf
  by (simp add: JobSubmission_wf_def example_submission_def JobSubmission_content_def
      JobContent_memory_def entry_wf_def JobContent_wf_def max_object_size_def default_key_def
      JobRequirements_wf_def)

theorem WorkerJob_roundtrip_witness:
  "to_WorkerJob hex_uuid_io (WorkerJob_to_string hex_uuid_io (WorkerJob_mk 7 example_submission)) =
   Inr (WorkerJob_mk 7 example_submission)"
  using WorkerJob_roundtrip [OF hex_uuid_io_ok example_submission_wf] by blast

section \<open>Comparison operators\<close>

text \<open>
  \<open>JobRequirements::operator<\<close> is a strict weak ordering, as \<open>std::set\<close> demands, and
  two requirements are equivalent under it exactly when \<open>operator==\<close> says so; neither
  looks at the requirements' data.
\<close>

theorem JobRequirements_order:
  "\<not> JobRequirements_less a a \<and>
   (JobRequirements_less a b \<and> JobRequirements_less b c \<longrightarrow> JobRequirements_less a c) \<and>
   (\<not> JobRequirements_less a b \<and> \<not> JobRequirements_less b a \<longleftrightarrow> JobRequirements_eq a b) \<and>
   JobRequirements_eq a (a\<lparr>req_requirements := d\<rparr>)"
  using reqs_order.lt_irrefl reqs_order.lt_trans reqs_equiv_iff [of a b]
  by (auto simp: equiv_by_def JobRequirements_eq_def)

theorem JobRequirements_order_witness:
  "JobRequirements_less example_reqs (example_reqs\<lparr>req_tag := ''v2''\<rparr>) \<and>
   JobRequirements_less (example_reqs\<lparr>req_tag := ''v2''\<rparr>) (example_reqs\<lparr>req_tag := ''v3''\<rparr>) \<and>
   JobRequirements_less example_reqs (example_reqs\<lparr>req_tag := ''v3''\<rparr>)"
proof -
  have 1: "JobRequirements_less example_reqs (example_reqs\<lparr>req_tag := ''v2''\<rparr>)"
    and 2: "JobRequirements_less (example_reqs\<lparr>req_tag := ''v2''\<rparr>) (example_reqs\<lparr>req_tag := ''v3''\<rparr>)"
    by (simp_all add: JobRequirements_less_def example_reqs_def string_less_def)
  with JobRequirements_order [of example_reqs "example_reqs\<lparr>req_tag := ''v2''\<rparr>"
      "example_reqs\<lparr>req_tag := ''v3''\<rparr>"] show ?thesis by blast
qed

lemma JobContent_less_lex:
  "JobContent_less md5 =
     lex_comb (<) (\<lambda>c. int_of_ContentSource (con_sourceType c))
     (lex_comb (<) (\<lambda>c. int_of_ContentFormat (con_formatType c))
     (lex_comb string_less con_tag
     (lex_comb (<) (\<lambda>c. length (con_data c))
     (lex_comb string_less (\<lambda>c. shortHash md5 (con_data c))
     (lex_comb string_less (\<lambda>c. fullHash md5 (con_data c)) (\<lambda>_ _. False))))))"
  by (auto simp add: JobContent_less_def content_equal_def content_less_def lex_comb_def fun_eq_iff)

lemma JobContent_equiv_iff: "equiv_by (JobContent_less md5) a b \<longleftrightarrow> JobContent_eq md5 a b"
  by (auto simp: JobContent_less_lex JobContent_eq_def content_equal_def lex_comb_equiv
      string_order.strict_total_order_axioms strict_total_order_nat)

text \<open>
  For contents below 4096 bytes, \<open>JobContent::operator==\<close> is equality of every field,
  whatever the hash function does; and for contents of any size \<open>operator<\<close> leaves two
  contents unordered exactly when \<open>operator==\<close> holds.
\<close>

theorem JobContent_comparison:
  "(length (con_data a) < 4096 \<longrightarrow> (JobContent_eq md5 a b \<longleftrightarrow> a = b)) \<and>
   (\<not> JobContent_less md5 a b \<and> \<not> JobContent_less md5 b a \<longleftrightarrow> JobContent_eq md5 a b)"
proof
  show "length (con_data a) < 4096 \<longrightarrow> (JobContent_eq md5 a b \<longleftrightarrow> a = b)"
    by (cases a; cases b) (auto simp: JobContent_eq_def content_equal_def shortHash_def)
  show "\<not> JobContent_less md5 a b \<and> \<not> JobContent_less md5 b a \<longleftrightarrow> JobContent_eq md5 a b"
    using JobContent_equiv_iff [of md5 a b] by (simp add: equiv_by_def)
qed

theorem JobContent_comparison_witness:
  "length (con_data (JobContent_memory User ''ab'')) < 4096 \<and>
   (JobContent_eq (\<lambda>_. ''h'') (JobContent_memory User ''ab'') (JobContent_memory User ''cd'') \<longleftrightarrow>
    JobContent_memory User ''ab'' = JobContent_memory User ''cd'')"
  using JobContent_comparison [of "JobContent_memory User ''ab''" "\<lambda>_. ''h''"
      "JobContent_memory User ''cd''"]
  by (simp add: JobContent_memory_def)

text \<open>
  \<open>JobSubmission::operator<\<close> consults the contents only when their numbers differ:
  submissions with equal type and requirements and the same number of entries are
  unordered, even where \<open>operator==\<close> tells them apart. A \<open>std::set\<close> of submissions would
  drop the second of two such jobs.
\<close>

theorem JobSubmission_less_ignores_content:
  assumes "JobRequirements_eq (sub_requirements a) (sub_requirements b)"
    and "sub_type a = sub_type b" and "length (sub_content a) = length (sub_content b)"
  shows "\<not> JobSubmission_less md5 a b \<and> \<not> JobSubmission_less md5 b a \<and>
    (JobSubmission_eq md5 a b \<longleftrightarrow> list_all2 (\<lambda>(k, v) (k', v'). k = k' \<and> JobContent_eq md5 v v')
       (sub_content a) (sub_content b))"
  using assms by (auto simp: JobSubmission_less_def JobSubmission_eq_def JobRequirements_eq_sym)

theorem JobSubmission_less_ignores_content_witness:
  "\<not> JobSubmission_less (\<lambda>d. d)
      (JobSubmission_content example_reqs (JobContent_memory JSON ''{a}''))
      (JobSubmission_content example_reqs (JobContent_memory JSON ''{b}'')) \<and>
   \<not> JobSubmission_eq (\<lambda>d. d)
      (JobSubmission_content example_reqs (JobContent_memory JSON ''{a}''))
      (JobSubmission_content example_reqs (JobContent_memory JSON ''{b}''))"
  using JobSubmission_less_ignores_content
    [of "JobSubmission_content example_reqs (JobContent_memory JSON ''{a}'')"
        "JobSubmission_content example_reqs (JobContent_memory JSON ''{b}'')" "\<lambda>d. d"]
  by (simp add: JobSubmission_content_def JobContent_memory_def JobContent_eq_def
      content_equal_def shortHash_def)

end
