(* ===== verification/Remus_WorkerQueue.thy ===== *)
theory Remus_WorkerQueue
  imports Remus_Sockets Remus_Requirements
begin

text \<open>
  \<open>remus/worker/detail/JobQueue.cxx\<close>: the jobs a worker was sent and has not taken yet. What a
  member function does under one hold of \<open>QueueMutex\<close> is one step here. \<open>take\<close> locks twice,
  once to look at the size and once to take the job: \<open>wq_take\<close> is the call that nothing comes
  between, \<open>wq_take_amid\<close> the one with steps of the polling thread in between. The polling
  thread (\<open>pollForJobs\<close>) is the recursion over what it receives.
\<close>

record worker_queue =
  wq_Queue :: "WorkerJob list"
  wq_TerminatedJobs :: "uuid list"
  wq_ContinuePolling :: bool
  wq_PollingStarted :: bool
  wq_PollingFinished :: bool

definition wq_mk :: worker_queue where
  "wq_mk = \<lparr>wq_Queue = [], wq_TerminatedJobs = [], wq_ContinuePolling = True,
     wq_PollingStarted = False, wq_PollingFinished = False\<rparr>"

definition wq_stop :: "worker_queue \<Rightarrow> worker_queue" where
  "wq_stop q =
     q\<lparr>wq_ContinuePolling := False, wq_PollingStarted := False, wq_PollingFinished := True\<rparr>"

definition wq_terminateJob :: "uuid_io \<Rightarrow> Response \<Rightarrow> worker_queue \<Rightarrow> worker_queue result" where
  "wq_terminateJob io response q =
     bindE (to_WorkerJob io (rsp_data response)) (\<lambda>tj.
     Inr (q\<lparr>wq_TerminatedJobs := set_insert (<) (wj_id tj) (wq_TerminatedJobs q),
            wq_Queue := filter (\<lambda>job. wj_id job \<noteq> wj_id tj) (wq_Queue q)\<rparr>))"

definition terminate_job :: WorkerJob where
  "terminate_job = WorkerJob_default\<lparr>wj_validity := JV_TERMINATE_WORKER\<rparr>"

definition wq_clearJobs :: "worker_queue \<Rightarrow> worker_queue" where
  "wq_clearJobs q = q\<lparr>wq_Queue := [terminate_job]\<rparr>"

definition wq_addItem :: "uuid_io \<Rightarrow> Response \<Rightarrow> worker_queue \<Rightarrow> worker_queue result" where
  "wq_addItem io response q =
     bindE (to_WorkerJob io (rsp_data response)) (\<lambda>j. Inr (q\<lparr>wq_Queue := wq_Queue q @ [j]\<rparr>))"

definition wq_isATerminatedJob :: "WorkerJob \<Rightarrow> worker_queue \<Rightarrow> bool" where
  "wq_isATerminatedJob job q \<longleftrightarrow> set_count (<) (wj_id job) (wq_TerminatedJobs q) = 1"

definition wq_size :: "worker_queue \<Rightarrow> nat" where
  "wq_size q = length (wq_Queue q)"

text \<open>\<open>Queue[0]\<close> and \<open>pop_front\<close> on an empty deque are undefined.\<close>

definition wq_pop :: "worker_queue \<Rightarrow> (WorkerJob \<times> worker_queue) result" where
  "wq_pop q =
     (if wq_size q = 0 then Inl UndefinedBehaviour
      else Inr (wq_Queue q ! 0, q\<lparr>wq_Queue := tl (wq_Queue q)\<rparr>))"

definition wq_take_amid ::
  "(worker_queue \<Rightarrow> worker_queue) \<Rightarrow> worker_queue \<Rightarrow> (WorkerJob \<times> worker_queue) result" where
  "wq_take_amid others q =
     (if wq_size q > 0 then wq_pop (others q) else Inr (WorkerJob_default, others q))"

definition wq_take :: "worker_queue \<Rightarrow> WorkerJob \<times> worker_queue" where
  "wq_take q =
     (if wq_size q > 0 then (wq_Queue q ! 0, q\<lparr>wq_Queue := tl (wq_Queue q)\<rparr>)
      else (WorkerJob_default, q))"

text \<open>\<open>None\<close> while the call waits for a job.\<close>

definition wq_waitAndTakeJob :: "worker_queue \<Rightarrow> (WorkerJob \<times> worker_queue) option" where
  "wq_waitAndTakeJob q = (if wq_size q = 0 then None else Some (wq_take q))"

definition wq_isReady :: "worker_queue \<Rightarrow> bool" where
  "wq_isReady q \<longleftrightarrow> wq_PollingStarted q \<and> wq_ContinuePolling q"

definition wq_isShutdown :: "worker_queue \<Rightarrow> bool" where
  "wq_isShutdown q \<longleftrightarrow> wq_PollingFinished q"

text \<open>One round of the polling loop: the outcomes of the poll and the response that is ready.\<close>

definition pollForJobs_turn ::
  "uuid_io \<Rightarrow> poll_event list \<Rightarrow> Response option \<Rightarrow> worker_queue \<Rightarrow> worker_queue result" where
  "pollForJobs_turn io polls ready q =
     bindE (poll_safely 250 polls) (\<lambda>_.
     case ready of
       None \<Rightarrow> Inr q
     | Some response \<Rightarrow>
         if \<not> rsp_valid response then Inr q
         else case rsp_serviceType response of
           TERMINATE_WORKER \<Rightarrow> Inr (wq_stop (wq_clearJobs q))
         | MAKE_MESH \<Rightarrow> wq_addItem io response q
         | TERMINATE_JOB \<Rightarrow> wq_terminateJob io response q
         | _ \<Rightarrow> Inr q)"

fun poll_rounds ::
  "uuid_io \<Rightarrow> (poll_event list \<times> Response option) list \<Rightarrow> worker_queue \<Rightarrow> worker_queue result" where
  "poll_rounds io [] q = Inr q"
| "poll_rounds io ((polls, ready) # rs) q =
     (if wq_ContinuePolling q then bindE (pollForJobs_turn io polls ready q) (poll_rounds io rs)
      else Inr q)"

definition pollForJobs ::
  "uuid_io \<Rightarrow> (poll_event list \<times> Response option) list \<Rightarrow> worker_queue \<Rightarrow> worker_queue result" where
  "pollForJobs io rs q = poll_rounds io rs (q\<lparr>wq_PollingStarted := True\<rparr>)"

section \<open>The queue as a list of what was received\<close>

datatype wq_input = WJob WorkerJob | WTerminate uuid | WShutdown

text \<open>What the polling thread makes of a round.\<close>

definition wq_decode :: "uuid_io \<Rightarrow> Response option \<Rightarrow> wq_input list" where
  "wq_decode io ready =
     (case ready of
        None \<Rightarrow> []
      | Some response \<Rightarrow>
          if \<not> rsp_valid response then []
          else case rsp_serviceType response of
            TERMINATE_WORKER \<Rightarrow> [WShutdown]
          | MAKE_MESH \<Rightarrow>
              (case to_WorkerJob io (rsp_data response) of Inr j \<Rightarrow> [WJob j] | Inl _ \<Rightarrow> [])
          | TERMINATE_JOB \<Rightarrow>
              (case to_WorkerJob io (rsp_data response) of Inr j \<Rightarrow> [WTerminate (wj_id j)] | Inl _ \<Rightarrow> [])
          | _ \<Rightarrow> [])"

definition wq_inputs :: "uuid_io \<Rightarrow> (poll_event list \<times> Response option) list \<Rightarrow> wq_input list" where
  "wq_inputs io rs = concat (map (wq_decode io \<circ> snd) rs)"

text \<open>The jobs that were not terminated after they arrived.\<close>

fun surviving :: "wq_input list \<Rightarrow> WorkerJob list" where
  "surviving [] = []"
| "surviving (WJob j # is) =
     (if WTerminate (wj_id j) \<in> set is then surviving is else j # surviving is)"
| "surviving (i # is) = surviving is"

fun wq_step :: "wq_input \<Rightarrow> worker_queue \<Rightarrow> worker_queue" where
  "wq_step (WJob j) q = q\<lparr>wq_Queue := wq_Queue q @ [j]\<rparr>"
| "wq_step (WTerminate i) q =
     q\<lparr>wq_TerminatedJobs := set_insert (<) i (wq_TerminatedJobs q),
       wq_Queue := filter (\<lambda>job. wj_id job \<noteq> i) (wq_Queue q)\<rparr>"
| "wq_step WShutdown q = wq_stop (wq_clearJobs q)"

lemma turn_steps:
  "pollForJobs_turn io polls ready q = Inr q' \<Longrightarrow> q' = fold wq_step (wq_decode io ready) q"
  by (auto simp: pollForJobs_turn_def wq_decode_def bindE_eq_Inr wq_addItem_def wq_terminateJob_def
      split: option.splits if_splits SERVICE_TYPE.splits)

text \<open>The loop handles everything up to and including the order to shut down.\<close>

definition heeded :: "wq_input list \<Rightarrow> wq_input list" where
  "heeded is = takeWhile (\<lambda>i. i \<noteq> WShutdown) is @ (if WShutdown \<in> set is then [WShutdown] else [])"

lemma wq_decode_cases:
  "wq_decode io ready = [WShutdown] \<or> WShutdown \<notin> set (wq_decode io ready)"
  by (auto simp: wq_decode_def split: option.splits if_splits SERVICE_TYPE.splits sum.splits)

lemma steps_polling:
  "WShutdown \<notin> set is \<Longrightarrow> wq_ContinuePolling (fold wq_step is q) = wq_ContinuePolling q"
proof (induction "is" arbitrary: q)
  case (Cons i "is")
  then show ?case by (cases i) auto
qed simp

lemma heeded_append: "WShutdown \<notin> set is \<Longrightarrow> heeded (is @ js) = is @ heeded js"
  by (induction "is") (auto simp: heeded_def)

lemma poll_rounds_steps:
  assumes "poll_rounds io rs q = Inr q'" and "wq_ContinuePolling q"
  shows "q' = fold wq_step (heeded (wq_inputs io rs)) q"
  using assms
proof (induction io rs q arbitrary: rule: poll_rounds.induct)
  case (1 io q)
  then show ?case by (simp add: wq_inputs_def heeded_def)
next
  case (2 io polls ready rs q)
  then obtain q1 where q1: "pollForJobs_turn io polls ready q = Inr q1" "poll_rounds io rs q1 = Inr q'"
    by (auto simp: bindE_eq_Inr)
  have eq: "q1 = fold wq_step (wq_decode io ready) q" by (rule turn_steps [OF q1(1)])
  have inputs: "wq_inputs io ((polls, ready) # rs) = wq_decode io ready @ wq_inputs io rs"
    by (simp add: wq_inputs_def)
  show ?case
  proof (cases "wq_decode io ready = [WShutdown]")
    case True
    then have "\<not> wq_ContinuePolling q1" by (simp add: eq wq_stop_def)
    then have "q' = q1" using q1(2) by (cases rs) auto
    then show ?thesis by (simp add: inputs True eq heeded_def)
  next
    case False
    then have no: "WShutdown \<notin> set (wq_decode io ready)" using wq_decode_cases by blast
    then have "wq_ContinuePolling q1" using "2.prems"(2) by (simp add: eq steps_polling)
    with "2.IH" [OF "2.prems"(2) q1(2)] show ?thesis
      by (simp add: inputs heeded_append [OF no] eq)
  qed
qed

lemma steps_queue:
  "WShutdown \<notin> set is \<Longrightarrow>
   wq_Queue (fold wq_step is q) =
     filter (\<lambda>j. WTerminate (wj_id j) \<notin> set is) (wq_Queue q) @ surviving is"
proof (induction "is" arbitrary: q)
  case (Cons i "is")
  then show ?case by (cases i) (auto intro!: filter_cong)
qed simp

lemma steps_terminated:
  "set (wq_TerminatedJobs (fold wq_step is q)) =
     set (wq_TerminatedJobs q) \<union> {i. WTerminate i \<in> set is}"
proof (induction "is" arbitrary: q)
  case (Cons i "is")
  then show ?case
    by (cases i) (auto simp: uuid_order.set_set_insert wq_stop_def wq_clearJobs_def)
qed simp

lemma steps_finished:
  "WShutdown \<notin> set is \<Longrightarrow> wq_PollingFinished (fold wq_step is q) = wq_PollingFinished q"
proof (induction "is" arbitrary: q)
  case (Cons i "is")
  then show ?case by (cases i) auto
qed simp

text \<open>
  C18: what a worker takes from its queue. Until it is told to shut down, the queue holds
  exactly the jobs received and not terminated since, in the order of arrival, and a job
  counts as terminated exactly when a termination for its id arrived, even before the job
  did. The order to shut down empties the queue but for one termination job, and from then
  on nothing that arrives is looked at.
\<close>

theorem worker_queue_fifo:
  assumes "pollForJobs io rs wq_mk = Inr q"
  shows "if WShutdown \<in> set (wq_inputs io rs)
    then wq_Queue q = [terminate_job] \<and> wq_isShutdown q \<and> \<not> wq_isReady q
    else wq_Queue q = surviving (wq_inputs io rs) \<and> \<not> wq_isShutdown q \<and>
      (wq_isATerminatedJob j q \<longleftrightarrow> WTerminate (wj_id j) \<in> set (wq_inputs io rs))"
proof -
  let ?is = "wq_inputs io rs" and ?q0 = "wq_mk\<lparr>wq_PollingStarted := True\<rparr>"
  have q: "q = fold wq_step (heeded ?is) ?q0"
    using poll_rounds_steps [of io rs ?q0 q] assms by (simp add: pollForJobs_def wq_mk_def)
  show ?thesis
  proof (cases "WShutdown \<in> set ?is")
    case True
    then show ?thesis
      by (simp add: q heeded_def wq_stop_def wq_clearJobs_def wq_isShutdown_def wq_isReady_def)
  next
    case False
    then have "heeded ?is = ?is" by (auto simp: heeded_def takeWhile_eq_all_conv)
    with False show ?thesis
      by (simp add: q steps_queue steps_finished steps_terminated wq_mk_def wq_isShutdown_def
          wq_isATerminatedJob_def uuid_order.set_count_iff)
  qed
qed

lemma take_alone: "wq_take_amid (\<lambda>q. q) q = Inr (wq_take q)"
  by (simp add: wq_take_amid_def wq_pop_def wq_take_def)

text \<open>
  Taking a job while the polling thread works. The call hands out the first job that
  survives what the thread handles between its two critical sections; it reads from an empty
  deque exactly when it saw a job and all jobs were terminated before it took one.
\<close>

theorem take_race:
  assumes "WShutdown \<notin> set is" and "wq_Queue q \<noteq> []"
  defines "left \<equiv> filter (\<lambda>j. WTerminate (wj_id j) \<notin> set is) (wq_Queue q) @ surviving is"
  shows "case wq_take_amid (fold wq_step is) q of
      Inr (job, q') \<Rightarrow> job # wq_Queue q' = left
    | Inl e \<Rightarrow> e = UndefinedBehaviour \<and> left = []"
proof -
  have "wq_Queue (fold wq_step is q) = left" using steps_queue [OF assms(1)] by (simp add: left_def)
  with assms(2) show ?thesis
    by (cases left) (simp_all add: wq_take_amid_def wq_pop_def wq_size_def)
qed

theorem take_race_witness:
  "wq_take_amid (fold wq_step [WTerminate 4])
     (wq_mk\<lparr>wq_Queue := [WorkerJob_mk 4 example_submission]\<rparr>) = Inl UndefinedBehaviour"
  using take_race [of "[WTerminate 4]" "wq_mk\<lparr>wq_Queue := [WorkerJob_mk 4 example_submission]\<rparr>"]
  by (auto simp: WorkerJob_mk_def split: sum.splits)

definition queue_response :: "SERVICE_TYPE \<Rightarrow> uuid \<Rightarrow> Response" where
  "queue_response service i = \<lparr>rsp_serviceType = service, rsp_valid = True,
     rsp_data = WorkerJob_to_string hex_uuid_io (WorkerJob_mk i example_submission)\<rparr>"

lemma queue_response_read:
  "to_WorkerJob hex_uuid_io (rsp_data (queue_response service i)) = Inr (WorkerJob_mk i example_submission)"
  using WorkerJob_wire [OF hex_uuid_io_ok example_submission_wf] by (simp add: queue_response_def)

theorem worker_queue_fifo_witness:
  "\<exists>q. pollForJobs hex_uuid_io
      [([PollReturned 1], Some (queue_response MAKE_MESH 4)),
       ([PollReturned 1], Some (queue_response MAKE_MESH 2)),
       ([PollReturned 1], Some (queue_response TERMINATE_JOB 4))] wq_mk = Inr q \<and>
     map wj_id (wq_Queue q) = [2] \<and> wq_isATerminatedJob (WorkerJob_mk 4 example_submission) q"
proof -
  let ?rs = "[([PollReturned 1], Some (queue_response MAKE_MESH 4)),
       ([PollReturned 1], Some (queue_response MAKE_MESH 2)),
       ([PollReturned 1], Some (queue_response TERMINATE_JOB 4))]"
  have v: "rsp_valid (queue_response x i)" "rsp_serviceType (queue_response x i) = x" for x i
    by (simp_all add: queue_response_def)
  obtain q where q: "pollForJobs hex_uuid_io ?rs wq_mk = Inr q"
    by (simp add: pollForJobs_def wq_mk_def pollForJobs_turn_def poll_safely_def v wq_addItem_def
        wq_terminateJob_def queue_response_read)
  have inputs: "wq_inputs hex_uuid_io ?rs =
      [WJob (WorkerJob_mk 4 example_submission), WJob (WorkerJob_mk 2 example_submission), WTerminate 4]"
    by (simp add: wq_inputs_def wq_decode_def v queue_response_read WorkerJob_mk_def)
  from worker_queue_fifo [OF q, of "WorkerJob_mk 4 example_submission"] q show ?thesis
    unfolding inputs by (auto simp: WorkerJob_mk_def)
qed

end
