(* ===== verification/Remus_Jobs.thy ===== *)
theory Remus_Jobs
  imports Remus_Requirements
begin

text \<open>
  \<open>remus/proto\<close>: what a client learns about its job. \<open>JobProgress\<close>, \<open>JobStatus\<close>,
  \<open>JobResult\<close> and the client-side \<open>Job\<close> handle: constructors, updates, predicates,
  serialisation and deserialisation.
\<close>

section \<open>JobProgress\<close>

record JobProgress =
  prog_value :: int
  prog_message :: string

definition valid_progress_value :: "int \<Rightarrow> int" where
  "valid_progress_value v = (let v1 = min v 100; v2 = max v1 0 in v2)"

definition JobProgress_default :: JobProgress where
  "JobProgress_default = \<lparr>prog_value = -1, prog_message = ''''\<rparr>"

definition JobProgress_status :: "STATUS_TYPE \<Rightarrow> JobProgress" where
  "JobProgress_status st =
     \<lparr>prog_value = (if st = IN_PROGRESS then 0 else -1), prog_message = ''''\<rparr>"

definition JobProgress_value :: "int \<Rightarrow> JobProgress" where
  "JobProgress_value v = \<lparr>prog_value = valid_progress_value v, prog_message = ''''\<rparr>"

definition JobProgress_message :: "string \<Rightarrow> JobProgress" where
  "JobProgress_message msg = \<lparr>prog_value = 0, prog_message = msg\<rparr>"

definition JobProgress_mk :: "int \<Rightarrow> string \<Rightarrow> JobProgress" where
  "JobProgress_mk v msg = \<lparr>prog_value = valid_progress_value v, prog_message = msg\<rparr>"

definition setValue :: "int \<Rightarrow> JobProgress \<Rightarrow> JobProgress" where
  "setValue v p = p\<lparr>prog_value := valid_progress_value v\<rparr>"

definition setMessage :: "string \<Rightarrow> JobProgress \<Rightarrow> JobProgress" where
  "setMessage msg p = p\<lparr>prog_message := msg\<rparr>"

definition appendMessage :: "string \<Rightarrow> JobProgress \<Rightarrow> JobProgress" where
  "appendMessage msg p =
     p\<lparr>prog_message := prog_message p @
        ((if prog_message p = [] \<or> msg = [] then '''' else [nl]) @ msg)\<rparr>"

definition JobProgress_serialize :: "JobProgress \<Rightarrow> string" where
  "JobProgress_serialize p =
     show_int (prog_value p) @ [nl] @ show_nat (length (prog_message p)) @ [nl] @
     writeString (prog_message p)"

definition JobProgress_read :: "istream \<Rightarrow> (JobProgress \<times> istream) result" where
  "JobProgress_read s0 =
     bindE (read_int_uninit s0) (\<lambda>(v, s1).
     bindE (read_int_uninit s1) (\<lambda>(progressMessageLen, s2).
     bindE (extractString s2 (size_t_of_int progressMessageLen)) (\<lambda>(msg, s3).
     Inr (\<lparr>prog_value = v, prog_message = msg\<rparr>, s3))))"

section \<open>JobStatus\<close>

record JobStatus =
  js_id :: uuid
  js_status :: STATUS_TYPE
  js_progress :: JobProgress

definition JobStatus_mk :: "uuid \<Rightarrow> STATUS_TYPE \<Rightarrow> JobStatus" where
  "JobStatus_mk jid st = \<lparr>js_id = jid, js_status = st, js_progress = JobProgress_status st\<rparr>"

definition JobStatus_progress :: "uuid \<Rightarrow> JobProgress \<Rightarrow> JobStatus" where
  "JobStatus_progress jid p = \<lparr>js_id = jid, js_status = IN_PROGRESS, js_progress = p\<rparr>"

definition mergeStatus :: "JobStatus \<Rightarrow> JobStatus \<Rightarrow> JobStatus" where
  "mergeStatus s js =
     (let p1 = setValue (prog_value (js_progress s)) (js_progress js);
          p2 = appendMessage (prog_message (js_progress s)) p1 in
      js\<lparr>js_status := js_status s, js_progress := p2\<rparr>)"

definition updateProgress :: "JobProgress \<Rightarrow> JobStatus \<Rightarrow> JobStatus" where
  "updateProgress p js = js\<lparr>js_status := IN_PROGRESS, js_progress := p\<rparr>"

definition clearProgress :: "JobStatus \<Rightarrow> JobStatus" where
  "clearProgress js = js\<lparr>js_progress := setMessage '''' (js_progress js)\<rparr>"

definition js_inProgress :: "JobStatus \<Rightarrow> bool" where
  "js_inProgress js \<longleftrightarrow> js_status js = IN_PROGRESS"

definition js_queued :: "JobStatus \<Rightarrow> bool" where
  "js_queued js \<longleftrightarrow> js_status js = QUEUED"

definition js_good :: "JobStatus \<Rightarrow> bool" where
  "js_good js \<longleftrightarrow> js_queued js \<or> js_inProgress js"

definition js_failed :: "JobStatus \<Rightarrow> bool" where
  "js_failed js \<longleftrightarrow>
     js_status js = INVALID_STATUS \<or> js_status js = FAILED \<or> js_status js = EXPIRED"

definition markAsFailed :: "JobStatus \<Rightarrow> JobStatus" where
  "markAsFailed js = js\<lparr>js_status := FAILED\<rparr>"

definition js_finished :: "JobStatus \<Rightarrow> bool" where
  "js_finished js \<longleftrightarrow> js_status js = FINISHED"

definition markAsFinished :: "JobStatus \<Rightarrow> JobStatus" where
  "markAsFinished js = js\<lparr>js_status := FINISHED\<rparr>"

definition make_FailedJobStatus :: "uuid \<Rightarrow> string \<Rightarrow> JobStatus" where
  "make_FailedJobStatus jid failure_message =
     markAsFailed (JobStatus_progress jid (JobProgress_message failure_message))"

definition JobStatus_serialize :: "uuid_io \<Rightarrow> JobStatus \<Rightarrow> string" where
  "JobStatus_serialize io js =
     uuid_show io (js_id js) @ [nl] @ show_nat (int_of_STATUS_TYPE (js_status js)) @ [nl] @
     JobProgress_serialize (js_progress js) @ [nl]"

definition JobStatus_read :: "uuid_io \<Rightarrow> istream \<Rightarrow> (JobStatus \<times> istream) result" where
  "JobStatus_read io s0 =
     (let (jid, s1) = uuid_extract io s0 in
      bindE (read_int_uninit s1) (\<lambda>(t, s2).
      bindE (JobProgress_read s2) (\<lambda>(p, s3).
      bindE (STATUS_TYPE_of_int t) (\<lambda>st.
      Inr (\<lparr>js_id = jid, js_status = st, js_progress = p\<rparr>, s3)))))"

definition JobStatus_to_string :: "uuid_io \<Rightarrow> JobStatus \<Rightarrow> string" where
  "JobStatus_to_string io js = JobStatus_serialize io js"

definition to_JobStatus :: "uuid_io \<Rightarrow> string \<Rightarrow> JobStatus result" where
  "to_JobStatus io msg = bindE (JobStatus_read io (istream_of msg)) (\<lambda>(js, _). Inr js)"

section \<open>JobResult\<close>

record JobResult =
  res_id :: uuid
  res_formatType :: ContentFormat
  res_data :: string

definition JobResult_empty :: "uuid \<Rightarrow> JobResult" where
  "JobResult_empty jid = \<lparr>res_id = jid, res_formatType = User, res_data = ''''\<rparr>"

definition JobResult_mk :: "uuid \<Rightarrow> ContentFormat \<Rightarrow> string \<Rightarrow> JobResult" where
  "JobResult_mk jid format contents =
     \<lparr>res_id = jid, res_formatType = format, res_data = contents\<rparr>"

definition JobResult_valid :: "JobResult \<Rightarrow> bool" where
  "JobResult_valid r \<longleftrightarrow> length (res_data r) \<noteq> 0"

definition JobResult_file :: "uuid \<Rightarrow> ContentFormat \<Rightarrow> string \<Rightarrow> JobResult" where
  "JobResult_file jid format path = \<lparr>res_id = jid, res_formatType = format, res_data = path\<rparr>"

text \<open>Results compare by the job alone.\<close>

definition JobResult_less :: "JobResult \<Rightarrow> JobResult \<Rightarrow> bool" where
  "JobResult_less a b \<longleftrightarrow> res_id a < res_id b"

definition JobResult_eq :: "JobResult \<Rightarrow> JobResult \<Rightarrow> bool" where
  "JobResult_eq a b \<longleftrightarrow> res_id a = res_id b"

interpretation result_order: strict_weak_order JobResult_less
  by unfold_locales (auto simp: JobResult_less_def equiv_by_def)

lemma JobResult_equiv: "equiv_by JobResult_less a b \<longleftrightarrow> JobResult_eq a b"
  by (auto simp: equiv_by_def JobResult_less_def JobResult_eq_def)

definition JobResult_serialize :: "uuid_io \<Rightarrow> JobResult \<Rightarrow> string" where
  "JobResult_serialize io r =
     uuid_show io (res_id r) @ [nl] @ show_nat (int_of_ContentFormat (res_formatType r)) @ [nl] @
     show_nat (length (res_data r)) @ [nl] @ writeString (res_data r)"

definition JobResult_read :: "uuid_io \<Rightarrow> istream \<Rightarrow> (JobResult \<times> istream) result" where
  "JobResult_read io s0 =
     (let (jid, s1) = uuid_extract io s0; (ftype, s2) = read_int s1 in
      bindE (ContentFormat_of_int ftype) (\<lambda>format.
      let (contentsSize, s3) = read_size s2 in
      bindE (read_contents contentsSize s3) (\<lambda>(contents, s4).
      Inr (\<lparr>res_id = jid, res_formatType = format, res_data = contents\<rparr>, s4))))"

definition JobResult_to_string :: "uuid_io \<Rightarrow> JobResult \<Rightarrow> string" where
  "JobResult_to_string io r = JobResult_serialize io r"

definition to_JobResult :: "uuid_io \<Rightarrow> string \<Rightarrow> JobResult result" where
  "to_JobResult io data =
     bindE (JobResult_read io (istream_of (writeString data))) (\<lambda>(r, _). Inr r)"

section \<open>Job\<close>

record Job =
  job_id :: uuid
  job_type :: MeshIOType
  job_cached :: string

definition make_serialized_form :: "uuid_io \<Rightarrow> uuid \<Rightarrow> MeshIOType \<Rightarrow> string" where
  "make_serialized_form io jid ty = MeshIOType_serialize ty @ [nl] @ uuid_show io jid @ [nl]"

definition Job_mk :: "uuid_io \<Rightarrow> uuid \<Rightarrow> MeshIOType \<Rightarrow> Job" where
  "Job_mk io jid ty =
     \<lparr>job_id = jid, job_type = ty, job_cached = make_serialized_form io jid ty\<rparr>"

definition Job_valid :: "Job \<Rightarrow> bool" where
  "Job_valid j \<longleftrightarrow> MeshIOType_valid (job_type j)"

definition Job_serialize :: "Job \<Rightarrow> string" where
  "Job_serialize j = job_cached j @ [nl]"

text \<open>
  \<open>deserialize\<close> reads type and id, then rewrites the cached form from what the cache held
  before: the message for \<open>Job(std::string)\<close>, nothing for \<open>Job(std::istream&)\<close>. A word
  that is no uuid makes \<open>string_generator\<close> throw.
\<close>

definition Job_deserialize :: "uuid_io \<Rightarrow> string \<Rightarrow> istream \<Rightarrow> (Job \<times> istream) result" where
  "Job_deserialize io cached s0 =
     bindE (MeshIOType_read s0) (\<lambda>(ty, s1).
     let (id_as_string, s2) = read_word s1 in
     case uuid_generate io id_as_string of
       None \<Rightarrow> Inl RuntimeError
     | Some jid \<Rightarrow>
         Inr (\<lparr>job_id = jid, job_type = ty,
               job_cached = Job_serialize \<lparr>job_id = jid, job_type = ty, job_cached = cached\<rparr>\<rparr>, s2))"

definition Job_read :: "uuid_io \<Rightarrow> istream \<Rightarrow> (Job \<times> istream) result" where
  "Job_read io s = Job_deserialize io '''' s"

definition Job_to_string :: "Job \<Rightarrow> string" where
  "Job_to_string j = Job_serialize j"

definition to_Job :: "uuid_io \<Rightarrow> string \<Rightarrow> Job result" where
  "to_Job io msg = bindE (Job_deserialize io msg (istream_of msg)) (\<lambda>(j, _). Inr j)"

definition make_invalidJob :: "uuid_io \<Rightarrow> Job" where
  "make_invalidJob io = Job_mk io 0 \<lparr>inputType = '''', outputType = ''''\<rparr>"

section \<open>Progress values and merging\<close>

lemma valid_progress_value_range: "0 \<le> valid_progress_value v \<and> valid_progress_value v \<le> 100"
  by (simp add: valid_progress_value_def)

lemma valid_progress_value_id: "0 \<le> v \<Longrightarrow> v \<le> 100 \<Longrightarrow> valid_progress_value v = v"
  by (simp add: valid_progress_value_def)

lemmas status_preds [simp] =
  js_inProgress_def js_queued_def js_good_def js_failed_def js_finished_def

lemma mergeStatus_fields [simp]:
  "js_id (mergeStatus s js) = js_id js"
  "js_status (mergeStatus s js) = js_status s"
  by (simp_all add: mergeStatus_def Let_def)

lemma clearProgress_fields [simp]:
  "js_id (clearProgress js) = js_id js"
  "js_status (clearProgress js) = js_status js"
  "prog_value (js_progress (clearProgress js)) = prog_value (js_progress js)"
  "prog_message (js_progress (clearProgress js)) = ''''"
  by (simp_all add: clearProgress_def setMessage_def)

lemma JobStatus_mk_fields [simp]:
  "js_id (JobStatus_mk jid st) = jid"
  "js_status (JobStatus_mk jid st) = st"
  by (simp_all add: JobStatus_mk_def)

text \<open>
  Progress stays a percentage: every way to set a progress value clamps it to 0..100,
  values already in range are kept, and a merge takes the new value and appends the new
  message after the unread ones, separated by exactly one newline.
\<close>

theorem progress_clamped_and_appended:
  "prog_value (JobProgress_mk v msg) = max 0 (min v 100) \<and>
   prog_value (js_progress (mergeStatus s js)) = max 0 (min (prog_value (js_progress s)) 100) \<and>
   prog_message (js_progress (mergeStatus s js)) =
     (if prog_message (js_progress js) = [] then prog_message (js_progress s)
      else if prog_message (js_progress s) = [] then prog_message (js_progress js)
      else prog_message (js_progress js) @ nl # prog_message (js_progress s)) \<and>
   js_status (mergeStatus s js) = js_status s \<and> js_id (mergeStatus s js) = js_id js"
  by (simp add: JobProgress_mk_def valid_progress_value_def mergeStatus_def setValue_def
      appendMessage_def Let_def max.commute)

section \<open>Round trips\<close>

definition JobProgress_wf :: "JobProgress \<Rightarrow> bool" where
  "JobProgress_wf p \<longleftrightarrow>
     - (2 ^ 31) \<le> prog_value p \<and> prog_value p < 2 ^ 31 \<and> length (prog_message p) < 2 ^ 31"

interpretation progress_codec: stream_codec JobProgress_serialize JobProgress_read
  JobProgress_wf "\<lambda>_. [nl]"
proof
  fix x :: JobProgress and ws r
  assume "JobProgress_wf x" and "spaces ws"
  then show "JobProgress_read (istream_of (ws @ JobProgress_serialize x @ r)) =
      Inr (x, istream_of ([nl] @ r))"
    by (simp add: JobProgress_read_def JobProgress_serialize_def JobProgress_wf_def
        codec_unfolds codec_simps)
qed simp

lemma JobStatus_wire:
  assumes "uuid_io_ok io" and "JobProgress_wf (js_progress js)"
  shows "to_JobStatus io (JobStatus_to_string io js) = Inr js"
  using assms(2) progress_codec.get_put_nl [OF assms(2), of "[nl]"]
  by (simp add: to_JobStatus_def JobStatus_read_def JobStatus_to_string_def JobStatus_serialize_def
      codec_unfolds codec_simps uuid_extract_show [OF assms(1)])

lemma JobResult_wire:
  assumes "uuid_io_ok io" and "length (res_data res) \<le> max_object_size"
  shows "to_JobResult io (JobResult_to_string io res) = Inr res"
  using assms(2)
  by (simp add: to_JobResult_def JobResult_read_def JobResult_to_string_def JobResult_serialize_def
      codec_unfolds codec_simps uuid_extract_show [OF assms(1)])

text \<open>
  A status and a result survive the wire: the receiver rebuilds the id, the status
  with its progress value and its (possibly multi-line) message, and the result bytes.
\<close>

theorem JobStatus_JobResult_roundtrip:
  assumes "uuid_io_ok io" and "JobProgress_wf (js_progress js)"
    and "length (res_data res) \<le> max_object_size"
  shows "to_JobStatus io (JobStatus_to_string io js) = Inr js \<and>
    to_JobResult io (JobResult_to_string io res) = Inr res"
  using JobStatus_wire [OF assms(1,2)] JobResult_wire [OF assms(1,3)] by simp

theorem JobStatus_JobResult_roundtrip_witness:
  "to_JobStatus hex_uuid_io (JobStatus_to_string hex_uuid_io
     (JobStatus_progress 5 (JobProgress_mk 40 (''two'' @ nl # ''lines'')))) =
   Inr (JobStatus_progress 5 (JobProgress_mk 40 (''two'' @ nl # ''lines''))) \<and>
   to_JobResult hex_uuid_io (JobResult_to_string hex_uuid_io (JobResult_mk 5 JSON (nl # ''data''))) =
   Inr (JobResult_mk 5 JSON (nl # ''data''))"
proof (rule JobStatus_JobResult_roundtrip [OF hex_uuid_io_ok])
  show "JobProgress_wf (js_progress
      (JobStatus_progress 5 (JobProgress_mk 40 (''two'' @ nl # ''lines''))))"
    by (simp add: JobProgress_wf_def JobStatus_progress_def JobProgress_mk_def
        valid_progress_value_def)
  show "length (res_data (JobResult_mk 5 JSON (nl # ''data''))) \<le> max_object_size"
    by (simp add: JobResult_mk_def max_object_size_def)
qed

lemma Job_deserialize_serialized:
  assumes io: "uuid_io_ok io" and wf: "MeshIOType_wf ty"
  shows "Job_deserialize io cached (istream_of (make_serialized_form io jid ty @ r)) =
    Inr (\<lparr>job_id = jid, job_type = ty, job_cached = cached @ [nl]\<rparr>, istream_of (nl # r))"
  using meshio_codec.get_put0 [OF wf]
  by (simp add: Job_deserialize_def make_serialized_form_def Job_serialize_def codec_unfolds
      codec_simps uuid_show_word [OF io] uuid_generate_show [OF io])

fun job_hops :: "uuid_io \<Rightarrow> nat \<Rightarrow> Job \<Rightarrow> Job result" where
  "job_hops io 0 j = Inr j"
| "job_hops io (Suc n) j = bindE (to_Job io (Job_to_string j)) (job_hops io n)"

lemma to_Job_hop:
  assumes "uuid_io_ok io" and "MeshIOType_wf ty"
    and "job_cached j = make_serialized_form io jid ty @ t"
  shows "to_Job io (Job_to_string j) = Inr \<lparr>job_id = jid, job_type = ty,
    job_cached = make_serialized_form io jid ty @ t @ [nl, nl]\<rparr>"
  using Job_deserialize_serialized [OF assms(1,2), of _ jid "t @ [nl]"] assms(3)
  by (simp add: to_Job_def Job_to_string_def Job_serialize_def)

lemma Job_wire:
  assumes "uuid_io_ok io" and "MeshIOType_wf ty"
  shows "\<exists>j. to_Job io (Job_to_string (Job_mk io jid ty)) = Inr j \<and> job_id j = jid \<and> job_type j = ty"
  using to_Job_hop [OF assms, of "Job_mk io jid ty" jid "[]"] by (simp add: Job_mk_def)

lemma job_hops_form:
  assumes "uuid_io_ok io" and "MeshIOType_wf ty"
  shows "\<exists>t'. job_hops io n \<lparr>job_id = jid, job_type = ty,
      job_cached = make_serialized_form io jid ty @ t\<rparr> =
    Inr \<lparr>job_id = jid, job_type = ty, job_cached = make_serialized_form io jid ty @ t'\<rparr>"
proof (induction n arbitrary: t)
  case (Suc n)
  then show ?case
    using to_Job_hop [OF assms, of "\<lparr>job_id = jid, job_type = ty,
        job_cached = make_serialized_form io jid ty @ t\<rparr>" jid t] by simp
qed simp

text \<open>
  A job handle the server returns is understood by the client and still understood
  after the client sends it back: any number of \<open>to_string\<close>/\<open>to_Job\<close> hops succeed and
  keep id and type. A handle read through \<open>operator>>\<close> instead has the same id and type
  but prints as two newlines, because the cached text it is printed from was never filled.
\<close>

theorem Job_roundtrip:
  assumes "uuid_io_ok io" and "MeshIOType_wf ty"
  shows "(\<exists>j. job_hops io n (Job_mk io jid ty) = Inr j \<and> job_id j = jid \<and> job_type j = ty) \<and>
    (\<exists>j s. Job_read io (istream_of (Job_to_string (Job_mk io jid ty))) = Inr (j, s) \<and>
       job_id j = jid \<and> job_type j = ty \<and> Job_to_string j = [nl, nl])"
proof
  show "\<exists>j. job_hops io n (Job_mk io jid ty) = Inr j \<and> job_id j = jid \<and> job_type j = ty"
    using job_hops_form [OF assms, of n jid "[]"] by (auto simp: Job_mk_def)
  show "\<exists>j s. Job_read io (istream_of (Job_to_string (Job_mk io jid ty))) = Inr (j, s) \<and>
       job_id j = jid \<and> job_type j = ty \<and> Job_to_string j = [nl, nl]"
    using Job_deserialize_serialized [OF assms, of "[]" jid "[nl]"]
    by (simp add: Job_read_def Job_to_string_def Job_mk_def Job_serialize_def)
qed

theorem Job_roundtrip_witness:
  "\<exists>j. job_hops hex_uuid_io 3 (Job_mk hex_uuid_io 9 \<lparr>inputType = ''Model'', outputType = ''Mesh3D''\<rparr>) =
     Inr j \<and> job_id j = 9 \<and> job_type j = \<lparr>inputType = ''Model'', outputType = ''Mesh3D''\<rparr>"
proof -
  have "MeshIOType_wf \<lparr>inputType = ''Model'', outputType = ''Mesh3D''\<rparr>"
    by (simp add: MeshIOType_wf_def max_object_size_def)
  from Job_roundtrip [OF hex_uuid_io_ok this, of 3 9] show ?thesis by blast
qed

end
