(* ===== verification/Remus_Router.thy ===== *)
theory Remus_Router
  imports Remus_WorkerQueue Remus_Polling Remus_Jobs
begin

text \<open>
  \<open>remus/worker/detail/MessageRouter.cxx\<close>: the thread between a worker, its job queue and the
  server. The router's state carries logs of what it put on its three sockets. Sends whose
  result the code ignores reach their peer when \<open>router_env\<close> says so.
  \<open>OutstandingResults\<close> is a \<open>std::size_t\<close>: it wraps around.
\<close>

record router =
  OutstandingResults :: "64 word"
  rt_PollMonitor :: PollingMonitor
  rt_ContinuePolling :: bool
  ContinueForwardingToServer :: bool
  ContinueForwardingToWorker :: bool
  rt_to_server :: "Message list"
  rt_to_queue :: "Response list"
  rt_to_worker :: "Response list"

record router_env =
  re_io :: uuid_io
  re_now :: ptime
  re_server_ok :: bool
  re_queue_ok :: bool
  re_worker_ok :: bool

definition router_mk :: "ptime \<Rightarrow> router" where
  "router_mk now =
     \<lparr>OutstandingResults = 0, rt_PollMonitor = PollingMonitor_init 250 60000 now,
      rt_ContinuePolling = False, ContinueForwardingToServer = True,
      ContinueForwardingToWorker = True, rt_to_server = [], rt_to_queue = [], rt_to_worker = []\<rparr>"

definition setIsTalking :: "bool \<Rightarrow> router \<Rightarrow> router" where
  "setIsTalking t r = r\<lparr>rt_ContinuePolling := t\<rparr>"

definition isTalking :: "router \<Rightarrow> bool" where
  "isTalking r = rt_ContinuePolling r"

definition isForwardingToServer :: "router \<Rightarrow> bool" where
  "isForwardingToServer r = ContinueForwardingToServer r"

text \<open>
  \<open>startTalking\<close>, told whether the router has a thread. The polling thread it launches
  announces itself before anything else. \<open>None\<close>: the caller waits for a thread that no
  longer starts.
\<close>

definition startTalking :: "bool \<Rightarrow> router \<Rightarrow> (bool \<times> router) option" where
  "startTalking threadIsRunning r =
     (let launchThread = (\<not> rt_ContinuePolling r \<and> \<not> threadIsRunning);
          r1 = (if launchThread then setIsTalking True r else r) in
      if rt_ContinuePolling r1 then Some (isTalking r1, r1) else None)"

definition router_stop :: "router \<Rightarrow> router" where
  "router_stop r = (if isTalking r then setIsTalking False r else r)"

definition forward_Message :: "router_env \<Rightarrow> Message \<Rightarrow> router \<Rightarrow> router" where
  "forward_Message env m r =
     (if msg_valid m \<and> re_server_ok env then r\<lparr>rt_to_server := rt_to_server r @ [m]\<rparr> else r)"

definition to_queue :: "router_env \<Rightarrow> Response \<Rightarrow> router \<Rightarrow> router" where
  "to_queue env rsp r = (if re_queue_ok env then r\<lparr>rt_to_queue := rt_to_queue r @ [rsp]\<rparr> else r)"

definition to_worker :: "router_env \<Rightarrow> Response \<Rightarrow> router \<Rightarrow> router" where
  "to_worker env rsp r = (if re_worker_ok env then r\<lparr>rt_to_worker := rt_to_worker r @ [rsp]\<rparr> else r)"

definition handleWorkerMessage :: "router_env \<Rightarrow> Message \<Rightarrow> router \<Rightarrow> router" where
  "handleWorkerMessage env m r =
     (if ContinueForwardingToServer r then
        let r1 = forward_Message env m r in
        if msg_serviceType m = TERMINATE_WORKER then
          let r2 = to_queue env \<lparr>rsp_serviceType = TERMINATE_WORKER, rsp_valid = True,
                     rsp_data = WorkerJob_to_string (re_io env) WorkerJob_default\<rparr> r1 in
          r2\<lparr>ContinueForwardingToWorker := False\<rparr>
        else if msg_serviceType m = RETRIEVE_RESULT then
          r1\<lparr>OutstandingResults := OutstandingResults r1 + 1\<rparr>
        else r1
      else r)"

text \<open>The answer the router makes up for a result the server will not acknowledge any more.\<close>

definition spoofed_result :: Response where
  "spoofed_result = \<lparr>rsp_serviceType = RETRIEVE_RESULT, rsp_valid = True, rsp_data = INVALID_MSG\<rparr>"

function release_results :: "router_env \<Rightarrow> router \<Rightarrow> router" where
  "release_results env r =
     (if OutstandingResults r > 0
      then release_results env
        ((to_worker env spoofed_result r)\<lparr>OutstandingResults := OutstandingResults r - 1\<rparr>)
      else r)"
  by pat_completeness auto

termination release_results
  by (relation "measure (\<lambda>(env, r). unat (OutstandingResults r))")
     (auto simp: unat_mono word_gt_0 unat_minus_one unat_gt_0)

declare release_results.simps [simp del]

definition handleServerMessage :: "router_env \<Rightarrow> Response \<Rightarrow> router \<Rightarrow> router" where
  "handleServerMessage env response r =
     (let goodToForward = rsp_valid response;
          goodToForwardToQueue = (goodToForward \<and> ContinueForwardingToWorker r) in
      if goodToForward then
        if rsp_serviceType response = TERMINATE_WORKER then
          let r1 = (if goodToForwardToQueue then to_queue env response r else r);
              r2 = release_results env r1 in
          r2\<lparr>ContinueForwardingToServer := False\<rparr>
        else if goodToForwardToQueue \<and> rsp_serviceType response \<in> {TERMINATE_JOB, MAKE_MESH} then
          to_queue env response r
        else if rsp_serviceType response = RETRIEVE_RESULT then
          let r1 = to_worker env response r in
          r1\<lparr>OutstandingResults := OutstandingResults r1 - 1\<rparr>
        else r
      else r)"

definition heartbeat_message :: "int \<Rightarrow> Message" where
  "heartbeat_message polldur =
     \<lparr>msg_MeshIOType = MeshIOType_default, msg_serviceType = HEARTBEAT, msg_valid = True,
      msg_storage = Some (show_int polldur)\<rparr>"

definition sendHeartBeat :: "router_env \<Rightarrow> router \<Rightarrow> router" where
  "sendHeartBeat env r =
     (if ContinueForwardingToServer r
      then forward_Message env (heartbeat_message (PollingMonitor_maxTimeOut (rt_PollMonitor r))) r
      else r)"

text \<open>One round of \<open>poll\<close>, with what the server and the worker have sent.\<close>

definition router_turn ::
  "router_env \<Rightarrow> poll_event list \<Rightarrow> Response option \<Rightarrow> Message option \<Rightarrow> router \<Rightarrow> router result" where
  "router_turn env polls server worker r =
     bindE (poll_safely (PollingMonitor_current (rt_PollMonitor r)) polls) (\<lambda>_.
     let r1 = r\<lparr>rt_PollMonitor := pollOccurred (re_now env) (rt_PollMonitor r)\<rparr>;
         r2 = (case server of None \<Rightarrow> r1 | Some response \<Rightarrow> handleServerMessage env response r1) in
     case worker of
       Some m \<Rightarrow>
         let r3 = handleWorkerMessage env m r2 in
         Inr (if \<not> ContinueForwardingToServer r3 then setIsTalking False r3 else r3)
     | None \<Rightarrow> Inr (sendHeartBeat env r2))"

fun router_rounds ::
  "(router_env \<times> poll_event list \<times> Response option \<times> Message option) list \<Rightarrow> router \<Rightarrow> router result" where
  "router_rounds [] r = Inr r"
| "router_rounds ((env, polls, server, worker) # is) r =
     (if isTalking r then bindE (router_turn env polls server worker r) (router_rounds is) else Inr r)"

definition router_poll ::
  "(router_env \<times> poll_event list \<times> Response option \<times> Message option) list \<Rightarrow> router \<Rightarrow> router result" where
  "router_poll is r = router_rounds is (setIsTalking True r)"

section \<open>What a round keeps\<close>

lemma to_worker_fields [simp]:
  "OutstandingResults (to_worker env rsp r) = OutstandingResults r"
  "rt_PollMonitor (to_worker env rsp r) = rt_PollMonitor r"
  "rt_ContinuePolling (to_worker env rsp r) = rt_ContinuePolling r"
  "ContinueForwardingToServer (to_worker env rsp r) = ContinueForwardingToServer r"
  "ContinueForwardingToWorker (to_worker env rsp r) = ContinueForwardingToWorker r"
  "rt_to_server (to_worker env rsp r) = rt_to_server r"
  "rt_to_queue (to_worker env rsp r) = rt_to_queue r"
  by (simp_all add: to_worker_def)

lemma to_queue_fields [simp]:
  "OutstandingResults (to_queue env rsp r) = OutstandingResults r"
  "rt_PollMonitor (to_queue env rsp r) = rt_PollMonitor r"
  "rt_ContinuePolling (to_queue env rsp r) = rt_ContinuePolling r"
  "ContinueForwardingToServer (to_queue env rsp r) = ContinueForwardingToServer r"
  "ContinueForwardingToWorker (to_queue env rsp r) = ContinueForwardingToWorker r"
  "rt_to_server (to_queue env rsp r) = rt_to_server r"
  "rt_to_worker (to_queue env rsp r) = rt_to_worker r"
  by (simp_all add: to_queue_def)

lemma forward_Message_fields [simp]:
  "OutstandingResults (forward_Message env m r) = OutstandingResults r"
  "rt_PollMonitor (forward_Message env m r) = rt_PollMonitor r"
  "rt_ContinuePolling (forward_Message env m r) = rt_ContinuePolling r"
  "ContinueForwardingToServer (forward_Message env m r) = ContinueForwardingToServer r"
  "ContinueForwardingToWorker (forward_Message env m r) = ContinueForwardingToWorker r"
  "rt_to_queue (forward_Message env m r) = rt_to_queue r"
  "rt_to_worker (forward_Message env m r) = rt_to_worker r"
  by (simp_all add: forward_Message_def)

text \<open>Releasing the results answers each of them and touches nothing else.\<close>

lemma release_results_fields [simp]:
  "OutstandingResults (release_results env r) = 0"
  "rt_PollMonitor (release_results env r) = rt_PollMonitor r"
  "rt_ContinuePolling (release_results env r) = rt_ContinuePolling r"
  "ContinueForwardingToServer (release_results env r) = ContinueForwardingToServer r"
  "ContinueForwardingToWorker (release_results env r) = ContinueForwardingToWorker r"
  "rt_to_server (release_results env r) = rt_to_server r"
  "rt_to_queue (release_results env r) = rt_to_queue r"
  by (induction env r rule: release_results.induct; subst release_results.simps; simp add: word_gt_0)+

lemma release_results_worker:
  "re_worker_ok env \<Longrightarrow>
   rt_to_worker (release_results env r) =
     rt_to_worker r @ replicate (unat (OutstandingResults r)) spoofed_result"
proof (induction env r rule: release_results.induct)
  case (1 env r)
  show ?case
  proof (cases "OutstandingResults r > 0")
    case True
    then have "unat (OutstandingResults r) = Suc (unat (OutstandingResults r - 1))"
      by (metis Suc_pred' unat_gt_0 unat_minus_one word_gt_0)
    with 1 True show ?thesis
      by (subst release_results.simps) (simp add: to_worker_def)
  next
    case False
    then show ?thesis by (subst release_results.simps) (simp add: word_gt_0)
  qed
qed

lemma handleServerMessage_keeps [simp]:
  "rt_to_server (handleServerMessage env rsp r) = rt_to_server r"
  "rt_ContinuePolling (handleServerMessage env rsp r) = rt_ContinuePolling r"
  "rt_PollMonitor (handleServerMessage env rsp r) = rt_PollMonitor r"
  by (simp_all add: handleServerMessage_def Let_def)

lemma handleWorkerMessage_keeps [simp]:
  "rt_to_worker (handleWorkerMessage env m r) = rt_to_worker r"
  "ContinueForwardingToServer (handleWorkerMessage env m r) = ContinueForwardingToServer r"
  by (simp_all add: handleWorkerMessage_def Let_def)

lemma sendHeartBeat_keeps [simp]:
  "rt_to_worker (sendHeartBeat env r) = rt_to_worker r"
  "rt_to_queue (sendHeartBeat env r) = rt_to_queue r"
  "OutstandingResults (sendHeartBeat env r) = OutstandingResults r"
  "ContinueForwardingToServer (sendHeartBeat env r) = ContinueForwardingToServer r"
  "rt_ContinuePolling (sendHeartBeat env r) = rt_ContinuePolling r"
  by (simp_all add: sendHeartBeat_def)

lemma silent_turn:
  assumes "router_turn env polls server worker r = Inr r'" and "\<not> ContinueForwardingToServer r"
  shows "\<not> ContinueForwardingToServer r' \<and> rt_to_server r' = rt_to_server r"
proof -
  have "\<not> ContinueForwardingToServer (handleServerMessage env rsp q)"
    if "\<not> ContinueForwardingToServer q" for rsp q
    using that by (simp add: handleServerMessage_def Let_def)
  with assms show ?thesis
    by (auto simp: router_turn_def bindE_eq_Inr Let_def setIsTalking_def handleWorkerMessage_def
        sendHeartBeat_def split: option.splits if_splits)
qed

text \<open>A rule for what every round of the router keeps.\<close>

lemma router_rounds_inv:
  assumes "router_rounds is r = Inr r'" and "P r" and "\<forall>i\<in>set is. ok i"
    and "\<And>env polls server worker q q'. ok (env, polls, server, worker) \<Longrightarrow> P q \<Longrightarrow>
      router_turn env polls server worker q = Inr q' \<Longrightarrow> P q'"
  shows "P r'"
  using assms(1-3)
proof (induction "is" r rule: router_rounds.induct)
  case (2 env polls server worker "is" r)
  show ?case
  proof (cases "isTalking r")
    case True
    with "2.prems"(1) obtain q where q: "router_turn env polls server worker r = Inr q"
        "router_rounds is q = Inr r'" by (auto simp: bindE_eq_Inr)
    have "P q" using assms(4) [OF _ "2.prems"(2) q(1)] "2.prems"(3) by simp
    from "2.IH" [OF True q(2) this] "2.prems"(3) show ?thesis by simp
  next
    case False
    with "2.prems" show ?thesis by simp
  qed
qed simp

text \<open>
  C17: the server's order to terminate. Every result still waiting for its acknowledgement is
  answered by the router itself, once each, the worker's queue is told unless the worker is
  already gone, and from then on, whatever the worker and the server send, the router puts
  nothing more on its socket to the server.
\<close>

theorem router_terminated_by_server:
  assumes "rsp_valid response" and "rsp_serviceType response = TERMINATE_WORKER"
    and "re_worker_ok env" and "re_queue_ok env"
    and "r1 = handleServerMessage env response r" and "router_rounds is r1 = Inr r2"
  shows "OutstandingResults r1 = 0 \<and>
    rt_to_worker r1 = rt_to_worker r @ replicate (unat (OutstandingResults r)) spoofed_result \<and>
    rt_to_queue r1 = rt_to_queue r @ (if ContinueForwardingToWorker r then [response] else []) \<and>
    rt_to_server r2 = rt_to_server r"
proof -
  have r1: "r1 = (release_results env (if ContinueForwardingToWorker r
      then to_queue env response r else r))\<lparr>ContinueForwardingToServer := False\<rparr>"
    using assms(1,2,5) by (simp add: handleServerMessage_def Let_def)
  have "\<not> ContinueForwardingToServer r2 \<and> rt_to_server r2 = rt_to_server r"
    by (rule router_rounds_inv [OF assms(6), where ok = "\<lambda>_. True"])
       (use silent_turn in \<open>auto simp: r1\<close>)
  moreover have "rt_to_worker r1 = rt_to_worker r @ replicate (unat (OutstandingResults r)) spoofed_result"
    using assms(3) by (simp add: r1 release_results_worker)
  ultimately show ?thesis
    using assms(4) by (simp add: r1 to_queue_def)
qed

section \<open>The count of outstanding results\<close>

definition results_forwarded :: "router \<Rightarrow> nat" where
  "results_forwarded r = length (filter (\<lambda>m. msg_serviceType m = RETRIEVE_RESULT) (rt_to_server r))"

definition results_answered :: "router \<Rightarrow> nat" where
  "results_answered r = length (filter (\<lambda>p. rsp_serviceType p = RETRIEVE_RESULT) (rt_to_worker r))"

definition delivers :: "router_env \<times> poll_event list \<times> Response option \<times> Message option \<Rightarrow> bool" where
  "delivers = (\<lambda>(env, polls, server, worker). re_server_ok env \<and> re_worker_ok env \<and>
     (case worker of None \<Rightarrow> True | Some m \<Rightarrow> msg_valid m))"

definition accounted :: "router \<Rightarrow> bool" where
  "accounted r \<longleftrightarrow> of_nat (results_answered r) + OutstandingResults r = of_nat (results_forwarded r)"

lemma accounted_unfold:
  "accounted r \<longleftrightarrow>
     of_nat (length (filter (\<lambda>p. rsp_serviceType p = RETRIEVE_RESULT) (rt_to_worker r))) + OutstandingResults r =
     of_nat (length (filter (\<lambda>m. msg_serviceType m = RETRIEVE_RESULT) (rt_to_server r)))"
  by (simp add: accounted_def results_answered_def results_forwarded_def)

lemma accounted_server:
  assumes "accounted r" and "re_worker_ok env"
  shows "accounted (handleServerMessage env rsp r)"
proof (cases "rsp_valid rsp \<and> rsp_serviceType rsp = TERMINATE_WORKER")
  case True
  have "rsp_serviceType spoofed_result = RETRIEVE_RESULT" by (simp add: spoofed_result_def)
  with True assms show ?thesis
    by (simp add: handleServerMessage_def Let_def accounted_unfold release_results_worker)
next
  case False
  with assms show ?thesis
    by (auto simp: handleServerMessage_def Let_def accounted_unfold to_worker_def algebra_simps)
qed

lemma accounted_worker:
  assumes "accounted r" and "re_server_ok env" and "msg_valid m"
  shows "accounted (handleWorkerMessage env m r)"
  using assms by (auto simp: handleWorkerMessage_def Let_def accounted_unfold forward_Message_def algebra_simps)

lemma accounted_heartbeat: "accounted (sendHeartBeat env r) = accounted r"
  by (simp add: accounted_unfold sendHeartBeat_def forward_Message_def heartbeat_message_def)

lemma accounted_poll:
  "accounted (r\<lparr>rt_PollMonitor := m\<rparr>) = accounted r" "accounted (setIsTalking t r) = accounted r"
  by (simp_all add: accounted_unfold setIsTalking_def)

lemma accounted_turn:
  assumes "delivers (env, polls, server, worker)" and "accounted r"
    and "router_turn env polls server worker r = Inr r'"
  shows "accounted r'"
  using assms
  by (auto simp: router_turn_def bindE_eq_Inr Let_def delivers_def accounted_poll accounted_heartbeat
      accounted_server accounted_worker split: option.splits if_splits)

text \<open>
  C16: the count of outstanding results. On sockets that deliver, the answers the worker has
  got and the counter add up to the results forwarded, modulo the width of the counter. So
  the counter is exactly the number of results not answered yet, as long as the server
  acknowledges no result twice: one acknowledgement more than results makes it wrap around
  to its largest value.
\<close>

theorem router_result_count:
  assumes "router_poll is (router_mk now) = Inr r" and "\<forall>i\<in>set is. delivers i"
    and "results_forwarded r < 2 ^ 64" and "results_answered r \<le> Suc (results_forwarded r)"
  shows "if results_answered r \<le> results_forwarded r
    then unat (OutstandingResults r) = results_forwarded r - results_answered r
    else OutstandingResults r = - 1"
proof -
  let ?a = "results_answered r" and ?f = "results_forwarded r"
  have "accounted (setIsTalking True (router_mk now))"
    by (simp add: accounted_unfold router_mk_def setIsTalking_def)
  then have "accounted r"
    using router_rounds_inv [OF _ _ assms(2), where P = accounted] assms(1) accounted_turn
    by (metis router_poll_def)
  then have eq: "OutstandingResults r = of_nat ?f - of_nat ?a"
    by (simp add: accounted_def algebra_simps)
  show ?thesis
  proof (cases "?a \<le> ?f")
    case True
    then have "OutstandingResults r = of_nat (?f - ?a)" by (simp add: eq of_nat_diff)
    then have "unat (OutstandingResults r) = (?f - ?a) mod 2 ^ 64" by (simp only: unat_of_nat) simp
    with True assms(3) show ?thesis by simp
  next
    case False
    then have "?a = Suc ?f" using assms(4) by simp
    then show ?thesis using False by (simp add: eq)
  qed
qed

section \<open>Heartbeats\<close>

text \<open>The monitor of a router never asks for a poll shorter than a millisecond.\<close>

definition ready_monitor :: "PollingMonitor \<Rightarrow> bool" where
  "ready_monitor m \<longleftrightarrow> polling_inv m \<and> milliseconds 1 \<le> MinTimeOut m"

lemma ready_monitor_poll: "ready_monitor m \<Longrightarrow> ready_monitor (pollOccurred t m)"
  by (simp add: ready_monitor_def polling_inv_poll)

lemma ready_monitor_current: "ready_monitor m \<Longrightarrow> 0 < PollingMonitor_current m"
proof -
  assume "ready_monitor m"
  then have "milliseconds 1 \<le> CurrentPollRate m" by (auto simp: ready_monitor_def polling_inv_def)
  then have "total_milliseconds (milliseconds 1) \<le> PollingMonitor_current m"
    unfolding PollingMonitor_current_def by (rule total_milliseconds_mono [rotated]) (simp add: milliseconds_def)
  then show ?thesis by simp
qed

lemma ready_poll: "ready_monitor m \<Longrightarrow> poll_safely (PollingMonitor_current m) (PollReturned n # es) = Inr (int n)"
  using ready_monitor_current [of m] by (simp add: poll_safely_def)

lemma router_mk_ready: "ready_monitor (rt_PollMonitor (router_mk now))"
  using polling_inv_init [of 250 60000 now]
  by (simp add: ready_monitor_def router_mk_def PollingMonitor_init_def Let_def milliseconds_def)

lemma router_mk_max: "PollingMonitor_maxTimeOut (rt_PollMonitor (router_mk now)) = 60000"
  by (simp add: router_mk_def PollingMonitor_maxTimeOut_def PollingMonitor_init_def Let_def)

definition idle :: "router_env \<times> poll_event list \<times> Response option \<times> Message option \<Rightarrow> bool" where
  "idle = (\<lambda>(env, polls, server, worker). re_server_ok env \<and> polls = [PollReturned 0] \<and>
     server = None \<and> worker = None)"

lemma idle_turn:
  assumes "idle (env, polls, server, worker)" and "ready_monitor (rt_PollMonitor r)"
    and "ContinueForwardingToServer r"
  shows "router_turn env polls server worker r = Inr
    (r\<lparr>rt_PollMonitor := pollOccurred (re_now env) (rt_PollMonitor r),
       rt_to_server := rt_to_server r @ [heartbeat_message (PollingMonitor_maxTimeOut (rt_PollMonitor r))]\<rparr>)"
  using assms
  by (simp add: idle_def router_turn_def ready_poll Let_def sendHeartBeat_def forward_Message_def
      heartbeat_message_def PollingMonitor_maxTimeOut_def)

lemma idle_rounds:
  assumes "\<forall>i\<in>set is. idle i" and "ready_monitor (rt_PollMonitor r)"
    and "ContinueForwardingToServer r" and "isTalking r"
  shows "\<exists>r'. router_rounds is r = Inr r' \<and> isTalking r' \<and>
    rt_to_server r' = rt_to_server r @
      replicate (length is) (heartbeat_message (PollingMonitor_maxTimeOut (rt_PollMonitor r))) \<and>
    rt_to_queue r' = rt_to_queue r \<and> rt_to_worker r' = rt_to_worker r"
  using assms
proof (induction "is" r rule: router_rounds.induct)
  case (2 env polls server worker "is" r)
  let ?r = "r\<lparr>rt_PollMonitor := pollOccurred (re_now env) (rt_PollMonitor r),
     rt_to_server := rt_to_server r @ [heartbeat_message (PollingMonitor_maxTimeOut (rt_PollMonitor r))]\<rparr>"
  have turn: "router_turn env polls server worker r = Inr ?r" using idle_turn 2(2-4) by simp
  have "\<exists>r'. router_rounds is ?r = Inr r' \<and> isTalking r' \<and>
      rt_to_server r' = rt_to_server ?r @
        replicate (length is) (heartbeat_message (PollingMonitor_maxTimeOut (rt_PollMonitor ?r))) \<and>
      rt_to_queue r' = rt_to_queue ?r \<and> rt_to_worker r' = rt_to_worker ?r"
    by (rule "2.IH" [OF "2.prems"(4)])
       (use "2.prems" in \<open>auto simp: ready_monitor_poll isTalking_def\<close>)
  then show ?case
    using "2.prems"(4) by (simp add: turn PollingMonitor_maxTimeOut_def)
qed simp

text \<open>
  A new router that hears nothing never stops polling and sends one heartbeat per round,
  each promising the longest polling interval of its monitor, and nothing else to anybody.
\<close>

theorem idle_router_heartbeats:
  assumes "\<forall>i\<in>set is. idle i"
  shows "\<exists>r. router_poll is (router_mk now) = Inr r \<and> isTalking r \<and>
    rt_to_server r = replicate (length is) (heartbeat_message 60000) \<and>
    rt_to_queue r = [] \<and> rt_to_worker r = []"
  using idle_rounds [OF assms, of "setIsTalking True (router_mk now)"] router_mk_ready [of now]
    router_mk_max [of now]
  by (auto simp: router_poll_def setIsTalking_def isTalking_def router_mk_def)

text \<open>
  A result the worker hands over after the server ended the conversation is taken off its
  socket, not forwarded and not answered: the router stops with it, and no later round will
  answer it either.
\<close>

theorem late_result_unanswered:
  assumes "\<not> ContinueForwardingToServer r" and "isTalking r" and "ready_monitor (rt_PollMonitor r)"
    and "msg_serviceType m = RETRIEVE_RESULT"
  shows "\<exists>r'. router_rounds ((env, [PollReturned 1], None, Some m) # is) r = Inr r' \<and>
    \<not> isTalking r' \<and> rt_to_worker r' = rt_to_worker r \<and> rt_to_server r' = rt_to_server r"
proof -
  have stop: "router_rounds is q = Inr q" if "\<not> isTalking q" for q
    using that by (cases "is") auto
  show ?thesis
    using assms
    by (simp add: router_turn_def ready_poll Let_def handleWorkerMessage_def setIsTalking_def
        stop isTalking_def)
qed

section \<open>Examples\<close>

definition calm_router_env :: router_env where
  "calm_router_env = \<lparr>re_io = hex_uuid_io, re_now = 0, re_server_ok = True, re_queue_ok = True,
     re_worker_ok = True\<rparr>"

definition result_message :: Message where
  "result_message = \<lparr>msg_MeshIOType = example_type, msg_serviceType = RETRIEVE_RESULT,
     msg_valid = True, msg_storage = Some ''r''\<rparr>"

definition order_of :: "SERVICE_TYPE \<Rightarrow> Response" where
  "order_of service = \<lparr>rsp_serviceType = service, rsp_valid = True, rsp_data = ''''\<rparr>"

theorem router_result_count_witness:
  "\<exists>r. router_poll
      [(calm_router_env, [PollReturned 1], None, Some result_message),
       (calm_router_env, [PollReturned 1], Some (order_of RETRIEVE_RESULT), Some result_message)]
      (router_mk 0) = Inr r \<and>
    results_forwarded r = 2 \<and> results_answered r = 1 \<and> unat (OutstandingResults r) = 1"
proof -
  let ?is = "[(calm_router_env, [PollReturned 1], None, Some result_message),
     (calm_router_env, [PollReturned 1], Some (order_of RETRIEVE_RESULT), Some result_message)]"
  have ready: "ready_monitor (PollingMonitor_init 250 60000 0)"
    using router_mk_ready [of 0] by (simp add: router_mk_def)
  obtain r where r: "router_poll ?is (router_mk 0) = Inr r"
      "results_forwarded r = 2" "results_answered r = 1"
    by (simp add: router_poll_def router_turn_def router_mk_def setIsTalking_def isTalking_def
        Let_def handleServerMessage_def handleWorkerMessage_def forward_Message_def
        to_worker_def calm_router_env_def result_message_def order_of_def results_forwarded_def
        results_answered_def ready_poll ready_monitor_poll ready)
  moreover have "\<forall>i\<in>set ?is. delivers i"
    by (simp add: delivers_def calm_router_env_def result_message_def)
  ultimately show ?thesis using router_result_count [OF r(1)] by auto
qed

theorem router_terminated_by_server_witness:
  "\<exists>r2. router_rounds [(calm_router_env, [PollReturned 1], None, Some result_message)]
      (handleServerMessage calm_router_env (order_of TERMINATE_WORKER)
        ((setIsTalking True (router_mk 0))\<lparr>OutstandingResults := 2\<rparr>)) = Inr r2 \<and>
    rt_to_server r2 = [] \<and>
    rt_to_worker (handleServerMessage calm_router_env (order_of TERMINATE_WORKER)
        ((setIsTalking True (router_mk 0))\<lparr>OutstandingResults := 2\<rparr>)) =
      [spoofed_result, spoofed_result]"
proof -
  let ?r = "(setIsTalking True (router_mk 0))\<lparr>OutstandingResults := 2\<rparr>"
  let ?r1 = "handleServerMessage calm_router_env (order_of TERMINATE_WORKER) ?r"
  obtain r2 where r2: "router_rounds [(calm_router_env, [PollReturned 1], None, Some result_message)] ?r1 = Inr r2"
    using router_mk_ready [of 0]
    by (simp add: router_turn_def isTalking_def ready_poll Let_def setIsTalking_def)
  have "unat (2 :: 64 word) = 2" by simp
  then show ?thesis
    using router_terminated_by_server [of "order_of TERMINATE_WORKER" calm_router_env, OF _ _ _ _ refl r2] r2
    by (auto simp: order_of_def calm_router_env_def router_mk_def setIsTalking_def numeral_2_eq_2)
qed

theorem idle_router_heartbeats_witness:
  "\<exists>r. router_poll [(calm_router_env, [PollReturned 0], None, None),
      (calm_router_env, [PollReturned 0], None, None)] (router_mk 0) = Inr r \<and>
    map msg_data (rt_to_server r) = [''60000'', ''60000'']"
proof -
  have "\<forall>i\<in>set [(calm_router_env, [PollReturned 0], None, None),
      (calm_router_env, [PollReturned 0], None, None)]. idle i"
    by (simp add: idle_def calm_router_env_def)
  moreover have "digit 6 = CHR ''6''" "digit 0 = CHR ''0''" by code_simp+
  then have "msg_data (heartbeat_message 60000) = ''60000''"
    by (simp add: heartbeat_message_def msg_data_def show_int_def show_nat.simps)
  ultimately show ?thesis using idle_router_heartbeats [of _ 0] by fastforce
qed

theorem late_result_unanswered_witness:
  "\<exists>r'. router_rounds [(calm_router_env, [PollReturned 1], None, Some result_message)]
      (handleServerMessage calm_router_env (order_of TERMINATE_WORKER) (setIsTalking True (router_mk 0))) = Inr r' \<and>
    rt_to_worker r' = []"
proof -
  let ?r = "handleServerMessage calm_router_env (order_of TERMINATE_WORKER) (setIsTalking True (router_mk 0))"
  have "release_results env (setIsTalking True (router_mk 0)) = setIsTalking True (router_mk 0)" for env
    by (subst release_results.simps) (simp add: setIsTalking_def router_mk_def)
  moreover have "release_results env (to_queue env rsp (setIsTalking True (router_mk 0))) =
      to_queue env rsp (setIsTalking True (router_mk 0))" for env rsp
    by (subst release_results.simps) (simp add: setIsTalking_def router_mk_def)
  ultimately have "\<not> ContinueForwardingToServer ?r" "isTalking ?r" "rt_to_worker ?r = []"
    by (simp_all add: handleServerMessage_def order_of_def Let_def isTalking_def setIsTalking_def router_mk_def)
  moreover have "ready_monitor (rt_PollMonitor ?r)" using router_mk_ready by (simp add: setIsTalking_def)
  ultimately show ?thesis
    using late_result_unanswered [of ?r result_message calm_router_env "[]"]
    by (auto simp: result_message_def)
qed

end
