(* ===== verification/Remus_Ledger.thy ===== *)
theory Remus_Ledger
  imports Remus_Prelude
begin

text \<open>
  The interface the server uses of both its job tables (\<open>detail::JobQueue\<close> and
  \<open>detail::ActiveJobs\<close>): jobs are added under a fresh id, looked up and removed by id, and
  every call tells whether it changed the table. The locale \<open>job_ledger\<close> states that
  contract over the set of ids a table holds; its lemmas say that any sequence of calls
  behaves like the same sequence on a plain set of ids.
\<close>

datatype 'a ledger_op = LAdd 'a uuid | LRemove uuid

fun set_step :: "'a ledger_op \<Rightarrow> uuid set \<Rightarrow> bool \<times> uuid set" where
  "set_step (LAdd a i) S = (i \<notin> S, insert i S)"
| "set_step (LRemove i) S = (i \<in> S, S - {i})"

fun run_ops :: "('o \<Rightarrow> 's \<Rightarrow> bool \<times> 's) \<Rightarrow> 'o list \<Rightarrow> 's \<Rightarrow> bool list \<times> 's" where
  "run_ops step [] s = ([], s)"
| "run_ops step (p # ps) s =
     (let (b, s') = step p s; (bs, s'') = run_ops step ps s' in (b # bs, s''))"

locale job_ledger =
  fixes inv :: "'s \<Rightarrow> bool"
    and ids :: "'s \<Rightarrow> uuid set"
    and add :: "'a \<Rightarrow> uuid \<Rightarrow> 's \<Rightarrow> bool \<times> 's"
    and remove :: "uuid \<Rightarrow> 's \<Rightarrow> bool \<times> 's"
    and have_id :: "uuid \<Rightarrow> 's \<Rightarrow> bool"
  assumes have_iff: "inv s \<Longrightarrow> have_id i s \<longleftrightarrow> i \<in> ids s"
    and add_inv: "inv s \<Longrightarrow> inv (snd (add a i s))"
    and add_ids: "inv s \<Longrightarrow> ids (snd (add a i s)) = insert i (ids s)"
    and add_flag: "inv s \<Longrightarrow> fst (add a i s) \<longleftrightarrow> i \<notin> ids s"
    and remove_inv: "inv s \<Longrightarrow> inv (snd (remove i s))"
    and remove_ids: "inv s \<Longrightarrow> ids (snd (remove i s)) = ids s - {i}"
    and remove_flag: "inv s \<Longrightarrow> fst (remove i s) \<longleftrightarrow> i \<in> ids s"
begin

definition step :: "'a ledger_op \<Rightarrow> 's \<Rightarrow> bool \<times> 's" where
  "step p s = (case p of LAdd a i \<Rightarrow> add a i s | LRemove i \<Rightarrow> remove i s)"

lemma step_refines:
  assumes "inv s"
  shows "inv (snd (step p s))"
    and "set_step p (ids s) = (fst (step p s), ids (snd (step p s)))"
  using assms
  by (cases p; simp add: step_def add_inv add_ids add_flag remove_inv remove_ids remove_flag)+

theorem run_refines:
  "inv s \<Longrightarrow> inv (snd (run_ops step ps s)) \<and>
     run_ops set_step ps (ids s) = (fst (run_ops step ps s), ids (snd (run_ops step ps s)))"
proof (induction ps arbitrary: s)
  case (Cons p ps)
  obtain b s' where st: "step p s = (b, s')" by force
  with step_refines [OF Cons.prems, of p] Cons.IH [of s'] show ?case
    by (auto simp: Let_def split: prod.splits)
qed simp

lemma added_is_found: "inv s \<Longrightarrow> have_id i (snd (add a i s))"
  by (simp add: have_iff add_inv add_ids)

lemma removed_is_gone: "inv s \<Longrightarrow> \<not> have_id i (snd (remove i s))"
  by (simp add: have_iff remove_inv remove_ids)

lemma others_stay:
  "inv s \<Longrightarrow> j \<noteq> i \<Longrightarrow>
   have_id j (snd (add a i s)) = have_id j s \<and> have_id j (snd (remove i s)) = have_id j s"
  by (simp add: have_iff add_inv add_ids remove_inv remove_ids)

end

end
