(* ===== verification/Remus_JobQueue.thy ===== *)
theory Remus_JobQueue
  imports Remus_Requirements Remus_Ledger
begin

text \<open>
  \<open>remus/server/detail/JobQueue.cxx\<close>: the jobs that no worker has yet. \<open>QueuedJobs\<close> is kept
  sorted by id, \<open>JobsWaitingForWorker\<close> in the order in which workers were dispatched for
  them, \<open>QueuedIds\<close> holds the ids of both, and \<open>CachedQueuedJobRequirements\<close> memoises
  \<open>queuedJobRequirements\<close>.
\<close>

record QueuedJob =
  qj_Id :: uuid
  qj_Submission :: JobSubmission

definition QueuedJob_less :: "QueuedJob \<Rightarrow> QueuedJob \<Rightarrow> bool" where
  "QueuedJob_less a b \<longleftrightarrow> qj_Id a < qj_Id b"

definition JobIdMatches :: "uuid \<Rightarrow> QueuedJob \<Rightarrow> bool" where
  "JobIdMatches i job \<longleftrightarrow> qj_Id job = i"

definition JobTypeMatches :: "JobRequirements \<Rightarrow> QueuedJob \<Rightarrow> bool" where
  "JobTypeMatches reqs job \<longleftrightarrow> JobRequirements_eq reqs (sub_requirements (qj_Submission job))"

record JobQueue =
  QueuedJobs :: "QueuedJob list"
  JobsWaitingForWorker :: "QueuedJob list"
  QueuedIds :: "uuid list"
  CachedQueuedJobRequirements :: "JobRequirements list"

definition JobQueue_empty :: JobQueue where
  "JobQueue_empty = \<lparr>QueuedJobs = [], JobsWaitingForWorker = [], QueuedIds = [],
     CachedQueuedJobRequirements = []\<rparr>"

definition jq_addJob :: "JobSubmission \<Rightarrow> uuid \<Rightarrow> JobQueue \<Rightarrow> bool \<times> JobQueue" where
  "jq_addJob submission i q =
     (if set_count (<) i (QueuedIds q) = 0 then
        let newQueuedJob = \<lparr>qj_Id = i, qj_Submission = submission\<rparr> in
        (True, q\<lparr>QueuedJobs := insert_at (lower_bound QueuedJob_less (QueuedJobs q) newQueuedJob)
                                 newQueuedJob (QueuedJobs q),
                 QueuedIds := set_insert (<) i (QueuedIds q),
                 CachedQueuedJobRequirements :=
                   set_insert JobRequirements_less (sub_requirements submission)
                     (CachedQueuedJobRequirements q)\<rparr>)
      else (False, q))"

definition jq_takeJob :: "JobRequirements \<Rightarrow> JobQueue \<Rightarrow> WorkerJob \<times> JobQueue" where
  "jq_takeJob reqs q =
     (let item = find_if (JobTypeMatches reqs) (JobsWaitingForWorker q) in
      if item = length (JobsWaitingForWorker q) then
        let item2 = find_if (JobTypeMatches reqs) (QueuedJobs q) in
        if item2 = length (QueuedJobs q) then (WorkerJob_default, q)
        else
          let qj = QueuedJobs q ! item2; job = WorkerJob_mk (qj_Id qj) (qj_Submission qj) in
          (job, q\<lparr>CachedQueuedJobRequirements := [],
                  QueuedJobs := filter (\<lambda>x. \<not> JobIdMatches (wj_id job) x) (QueuedJobs q),
                  QueuedIds := set_erase (<) (wj_id job) (QueuedIds q)\<rparr>)
      else
        let qj = JobsWaitingForWorker q ! item; job = WorkerJob_mk (qj_Id qj) (qj_Submission qj) in
        (job, q\<lparr>JobsWaitingForWorker :=
                  filter (\<lambda>x. \<not> JobIdMatches (wj_id job) x) (JobsWaitingForWorker q),
                QueuedIds := set_erase (<) (wj_id job) (QueuedIds q)\<rparr>))"

definition requirements_of :: "QueuedJob list \<Rightarrow> JobRequirements list" where
  "requirements_of js = map (sub_requirements \<circ> qj_Submission) js"

definition jq_waitingJobRequirements :: "JobQueue \<Rightarrow> JobRequirementsSet" where
  "jq_waitingJobRequirements q =
     JobRequirementsSet_insert_range (requirements_of (JobsWaitingForWorker q)) []"

definition jq_queuedJobRequirements :: "JobQueue \<Rightarrow> JobRequirementsSet \<times> JobQueue" where
  "jq_queuedJobRequirements q =
     (let cache = (if length (CachedQueuedJobRequirements q) = 0
                   then set_insert_range JobRequirements_less (requirements_of (QueuedJobs q))
                          (CachedQueuedJobRequirements q)
                   else CachedQueuedJobRequirements q) in
      (cache, q\<lparr>CachedQueuedJobRequirements := cache\<rparr>))"

definition jq_workerDispatched :: "JobRequirements \<Rightarrow> JobQueue \<Rightarrow> bool \<times> JobQueue" where
  "jq_workerDispatched reqs q =
     (let item = find_if (JobTypeMatches reqs) (QueuedJobs q); found = item \<noteq> length (QueuedJobs q) in
      if found then
        (found, q\<lparr>JobsWaitingForWorker := JobsWaitingForWorker q @ [QueuedJobs q ! item],
                  QueuedJobs := erase_at item (QueuedJobs q),
                  CachedQueuedJobRequirements := []\<rparr>)
      else (found, q))"

definition jq_haveUUID :: "uuid \<Rightarrow> JobQueue \<Rightarrow> bool" where
  "jq_haveUUID i q \<longleftrightarrow> set_count (<) i (QueuedIds q) = 1"

definition jq_remove :: "uuid \<Rightarrow> JobQueue \<Rightarrow> bool \<times> JobQueue" where
  "jq_remove i q =
     (let kept = filter (\<lambda>x. \<not> JobIdMatches i x) (QueuedJobs q);
          id_found = length kept \<noteq> length (QueuedJobs q);
          q1 = (if id_found then q\<lparr>QueuedJobs := kept, CachedQueuedJobRequirements := []\<rparr>
                else q\<lparr>JobsWaitingForWorker :=
                         filter (\<lambda>x. \<not> JobIdMatches i x) (JobsWaitingForWorker q)\<rparr>) in
      (set_count (<) i (QueuedIds q1) = 1, q1\<lparr>QueuedIds := set_erase (<) i (QueuedIds q1)\<rparr>))"

definition jq_clear :: "JobQueue \<Rightarrow> JobQueue" where
  "jq_clear q = q\<lparr>QueuedIds := [], QueuedJobs := [], CachedQueuedJobRequirements := []\<rparr>"

definition jq_numJobsWaitingForWorkers :: "JobQueue \<Rightarrow> nat" where
  "jq_numJobsWaitingForWorkers q = length (JobsWaitingForWorker q)"

definition jq_numJobsJustQueued :: "JobQueue \<Rightarrow> nat" where
  "jq_numJobsJustQueued q = length (QueuedJobs q)"

section \<open>The ids of the queue\<close>

definition ids_of :: "QueuedJob list \<Rightarrow> uuid set" where
  "ids_of js = qj_Id ` set js"

definition queue_ids :: "JobQueue \<Rightarrow> uuid set" where
  "queue_ids q = ids_of (QueuedJobs q) \<union> ids_of (JobsWaitingForWorker q)"

definition queue_inv :: "JobQueue \<Rightarrow> bool" where
  "queue_inv q \<longleftrightarrow>
     sorted_wrt QueuedJob_less (QueuedJobs q) \<and>
     distinct (map qj_Id (JobsWaitingForWorker q)) \<and>
     ids_of (QueuedJobs q) \<inter> ids_of (JobsWaitingForWorker q) = {} \<and>
     sorted_wrt (<) (QueuedIds q) \<and>
     set (QueuedIds q) = queue_ids q"

lemma queue_inv_empty [simp]: "queue_inv JobQueue_empty"
  by (simp add: queue_inv_def queue_ids_def ids_of_def JobQueue_empty_def)

lemma lower_bound_insert_sorted:
  assumes "sorted_wrt QueuedJob_less xs" and "qj_Id x \<notin> ids_of xs"
  shows "sorted_wrt QueuedJob_less (insert_at (lower_bound QueuedJob_less xs x) x xs)"
proof -
  have "insert_at (lower_bound QueuedJob_less xs x) x xs =
      takeWhile (\<lambda>y. QueuedJob_less y x) xs @ x # dropWhile (\<lambda>y. QueuedJob_less y x) xs"
    by (induction xs) (auto simp: insert_at_def lower_bound_def)
  moreover have "sorted_wrt QueuedJob_less
      (takeWhile (\<lambda>y. QueuedJob_less y x) xs @ x # dropWhile (\<lambda>y. QueuedJob_less y x) xs)"
    using assms
    by (induction xs) (auto simp: QueuedJob_less_def ids_of_def dest: set_takeWhileD set_dropWhileD)
  ultimately show ?thesis by simp
qed

lemma ids_of_simps [simp]:
  "ids_of [] = {}"
  "ids_of (x # xs) = insert (qj_Id x) (ids_of xs)"
  "ids_of (xs @ ys) = ids_of xs \<union> ids_of ys"
  "ids_of (insert_at n x xs) = insert (qj_Id x) (ids_of xs)"
  "ids_of (filter (\<lambda>x. \<not> JobIdMatches i x) xs) = ids_of xs - {i}"
  by (auto simp: ids_of_def set_insert_at JobIdMatches_def)

lemma remove_absent: "i \<notin> ids_of xs \<Longrightarrow> filter (\<lambda>x. \<not> JobIdMatches i x) xs = xs"
  by (rule filter_True) (auto simp: JobIdMatches_def ids_of_def)

lemma remove_found:
  "length (filter (\<lambda>x. \<not> JobIdMatches i x) xs) = length xs \<longleftrightarrow> i \<notin> ids_of xs"
proof
  assume "length (filter (\<lambda>x. \<not> JobIdMatches i x) xs) = length xs"
  then have "\<forall>x\<in>set xs. \<not> JobIdMatches i x"
    using length_filter_less [of _ xs "\<lambda>x. \<not> JobIdMatches i x"] by fastforce
  then show "i \<notin> ids_of xs" by (auto simp: JobIdMatches_def ids_of_def)
qed (simp add: remove_absent)

lemma queued_distinct:
  "sorted_wrt QueuedJob_less xs \<Longrightarrow> distinct (map qj_Id xs)"
  by (induction xs) (auto simp: QueuedJob_less_def)

lemma queue_ids_QueuedIds: "queue_inv q \<Longrightarrow> set (QueuedIds q) = queue_ids q"
  by (simp add: queue_inv_def)

lemma addJob_inv: "queue_inv q \<Longrightarrow> queue_inv (snd (jq_addJob sub i q))"
  by (auto simp: jq_addJob_def uuid_order.set_count_iff queue_inv_def queue_ids_def Let_def
      lower_bound_insert_sorted uuid_order.set_insert_sorted uuid_order.set_set_insert)

lemma addJob_ids: "queue_inv q \<Longrightarrow> queue_ids (snd (jq_addJob sub i q)) = insert i (queue_ids q)"
  by (auto simp: jq_addJob_def uuid_order.set_count_iff queue_inv_def queue_ids_def Let_def)

lemma jq_remove_eq:
  assumes "queue_inv q"
  shows "snd (jq_remove i q) =
    q\<lparr>QueuedJobs := filter (\<lambda>x. \<not> JobIdMatches i x) (QueuedJobs q),
      JobsWaitingForWorker := filter (\<lambda>x. \<not> JobIdMatches i x) (JobsWaitingForWorker q),
      QueuedIds := set_erase (<) i (QueuedIds q),
      CachedQueuedJobRequirements :=
        (if i \<in> ids_of (QueuedJobs q) then [] else CachedQueuedJobRequirements q)\<rparr>"
proof -
  have "i \<notin> ids_of (JobsWaitingForWorker q)" if "i \<in> ids_of (QueuedJobs q)"
    using that assms by (auto simp: queue_inv_def)
  then show ?thesis
    by (auto simp: jq_remove_def Let_def remove_found remove_absent)
qed

lemma remove_inv: "queue_inv q \<Longrightarrow> queue_inv (snd (jq_remove i q))"
  by (auto simp: jq_remove_eq) 
     (auto simp: queue_inv_def queue_ids_def sorted_wrt_filter distinct_map_filter
      uuid_order.set_erase_sorted uuid_order.set_set_erase)

interpretation queue: job_ledger queue_inv queue_ids jq_addJob jq_remove jq_haveUUID
proof
  fix q :: JobQueue and i :: uuid and sub
  assume inv: "queue_inv q"
  show "jq_haveUUID i q \<longleftrightarrow> i \<in> queue_ids q"
    using inv by (simp add: jq_haveUUID_def uuid_order.set_count_iff queue_ids_QueuedIds)
  show "fst (jq_addJob sub i q) \<longleftrightarrow> i \<notin> queue_ids q"
    using inv by (simp add: jq_addJob_def uuid_order.set_count_iff queue_ids_QueuedIds Let_def)
  show "queue_ids (snd (jq_remove i q)) = queue_ids q - {i}"
    using inv by (auto simp: jq_remove_eq queue_ids_def)
  show "fst (jq_remove i q) \<longleftrightarrow> i \<in> queue_ids q"
    using inv by (simp add: jq_remove_def uuid_order.set_count_iff queue_ids_QueuedIds Let_def)
qed (simp_all add: addJob_inv addJob_ids remove_inv)

section \<open>Taking jobs\<close>

text \<open>
  The abstract queue: the jobs a worker was dispatched for, in that order, and then the
  others by id. Taking a job takes the first one with the wanted requirements.
\<close>

definition pending :: "JobQueue \<Rightarrow> QueuedJob list" where
  "pending q = JobsWaitingForWorker q @ QueuedJobs q"

lemma find_if_find:
  "find_if p xs = length xs \<longleftrightarrow> find p xs = None"
  "find p xs = Some x \<Longrightarrow> xs ! find_if p xs = x \<and> x \<in> set xs \<and> p x"
  by (induction xs) auto

lemma find_first_split:
  "find p xs = Some x \<Longrightarrow> \<exists>ys zs. xs = ys @ x # zs \<and> (\<forall>y\<in>set ys. \<not> p y) \<and>
     erase_at (find_if p xs) xs = ys @ zs"
proof (induction xs)
  case (Cons a xs)
  show ?case
  proof (cases "p a")
    case True
    then show ?thesis using Cons.prems by (auto simp: erase_at_def intro: exI [of _ "[]"])
  next
    case False
    then obtain ys zs where "xs = ys @ x # zs" "\<forall>y\<in>set ys. \<not> p y"
      "erase_at (find_if p xs) xs = ys @ zs" using Cons by auto
    then show ?thesis
      using False by (intro exI [of _ "a # ys"] exI [of _ zs]) (auto simp: erase_at_def)
  qed
qed simp

lemma takeJob_eq:
  "jq_takeJob reqs q =
    (case find (JobTypeMatches reqs) (JobsWaitingForWorker q) of
       Some x \<Rightarrow> (WorkerJob_mk (qj_Id x) (qj_Submission x),
         q\<lparr>JobsWaitingForWorker := filter (\<lambda>y. \<not> JobIdMatches (qj_Id x) y) (JobsWaitingForWorker q),
           QueuedIds := set_erase (<) (qj_Id x) (QueuedIds q)\<rparr>)
     | None \<Rightarrow>
        (case find (JobTypeMatches reqs) (QueuedJobs q) of
           Some x \<Rightarrow> (WorkerJob_mk (qj_Id x) (qj_Submission x),
             q\<lparr>CachedQueuedJobRequirements := [],
               QueuedJobs := filter (\<lambda>y. \<not> JobIdMatches (qj_Id x) y) (QueuedJobs q),
               QueuedIds := set_erase (<) (qj_Id x) (QueuedIds q)\<rparr>)
         | None \<Rightarrow> (WorkerJob_default, q)))"
  by (auto simp: jq_takeJob_def Let_def find_if_find(1) WorkerJob_mk_def
      dest!: find_if_find(2) split: option.split)

lemma find_in_ids: "find p xs = Some x \<Longrightarrow> qj_Id x \<in> ids_of xs"
  by (auto simp: ids_of_def dest: find_if_find(2))

text \<open>Taking a job removes it the way \<open>remove\<close> does.\<close>

lemma takeJob_remove:
  assumes "queue_inv q"
  shows "jq_takeJob reqs q =
    (case find (JobTypeMatches reqs) (pending q) of
       None \<Rightarrow> (WorkerJob_default, q)
     | Some x \<Rightarrow> (WorkerJob_mk (qj_Id x) (qj_Submission x), snd (jq_remove (qj_Id x) q)))"
proof -
  have disj: "ids_of (QueuedJobs q) \<inter> ids_of (JobsWaitingForWorker q) = {}"
    using assms by (simp add: queue_inv_def)
  show ?thesis
  proof (cases "find (JobTypeMatches reqs) (JobsWaitingForWorker q)")
    case None
    show ?thesis
    proof (cases "find (JobTypeMatches reqs) (QueuedJobs q)")
      case (Some x)
      then have "qj_Id x \<in> ids_of (QueuedJobs q)" "qj_Id x \<notin> ids_of (JobsWaitingForWorker q)"
        using disj find_in_ids by blast+
      with None Some show ?thesis
        by (simp add: takeJob_eq pending_def find_append jq_remove_eq [OF assms] remove_absent)
    qed (simp add: None takeJob_eq pending_def find_append)
  next
    case (Some x)
    then have "qj_Id x \<in> ids_of (JobsWaitingForWorker q)" "qj_Id x \<notin> ids_of (QueuedJobs q)"
      using disj find_in_ids by blast+
    with Some show ?thesis
      by (simp add: takeJob_eq pending_def find_append jq_remove_eq [OF assms] remove_absent)
  qed
qed

lemma takeJob_inv: "queue_inv q \<Longrightarrow> queue_inv (snd (jq_takeJob reqs q))"
  by (auto simp: takeJob_remove queue.remove_inv split: option.split)

lemma pending_remove:
  "queue_inv q \<Longrightarrow> pending (snd (jq_remove i q)) = filter (\<lambda>y. qj_Id y \<noteq> i) (pending q)"
  by (simp add: jq_remove_eq pending_def JobIdMatches_def)

lemma find_sorted_least:
  assumes "sorted_wrt QueuedJob_less xs" and "find p xs = Some x" and "y \<in> set xs" and "p y"
  shows "qj_Id x \<le> qj_Id y"
proof -
  from find_first_split [OF assms(2)] obtain ys zs
    where "xs = ys @ x # zs" and "\<forall>y\<in>set ys. \<not> p y" by blast
  with assms show ?thesis by (auto simp: sorted_wrt_append QueuedJob_less_def less_imp_le)
qed

lemma takeJob_least:
  assumes "queue_inv q" and "find (JobTypeMatches reqs) (pending q) = Some x"
    and "x \<in> set (QueuedJobs q)" and "y \<in> set (QueuedJobs q)" and "JobTypeMatches reqs y"
  shows "qj_Id x \<le> qj_Id y"
proof -
  have "qj_Id x \<notin> ids_of (JobsWaitingForWorker q)"
    using assms(1,3) by (auto simp: queue_inv_def ids_of_def)
  then have "find (JobTypeMatches reqs) (QueuedJobs q) = Some x"
    using assms(2) by (auto simp: pending_def find_append split: option.splits dest: find_in_ids)
  then show ?thesis using assms find_sorted_least by (auto simp: queue_inv_def)
qed

text \<open>
  C21: \<open>takeJob\<close> takes from the abstract queue: with no pending job of the wanted
  requirements it returns the invalid job and changes nothing; otherwise it returns the
  first such job (one a worker was dispatched for before any other, else the one with the
  smallest id), with its own submission, and removes exactly that job.
\<close>

theorem takeJob_refines:
  assumes "queue_inv q" and "jq_takeJob reqs q = (job, q')"
  shows "case find (JobTypeMatches reqs) (pending q) of
      None \<Rightarrow> job = WorkerJob_default \<and> q' = q
    | Some x \<Rightarrow>
        job = WorkerJob_mk (qj_Id x) (qj_Submission x) \<and>
        JobRequirements_eq reqs (sub_requirements (wj_submission job)) \<and>
        pending q' = filter (\<lambda>y. qj_Id y \<noteq> qj_Id x) (pending q) \<and>
        queue_inv q' \<and> queue_ids q' = queue_ids q - {qj_Id x} \<and> \<not> jq_haveUUID (qj_Id x) q' \<and>
        (x \<in> set (QueuedJobs q) \<longrightarrow>
          (\<forall>y\<in>set (QueuedJobs q). JobTypeMatches reqs y \<longrightarrow> qj_Id x \<le> qj_Id y))"
proof (cases "find (JobTypeMatches reqs) (pending q)")
  case None
  then show ?thesis using assms by (simp add: takeJob_remove)
next
  case (Some x)
  then have "JobTypeMatches reqs x" by (auto dest: find_if_find(2))
  with Some assms show ?thesis
    by (auto simp: takeJob_remove pending_remove queue.remove_inv queue.remove_ids
        queue.removed_is_gone JobTypeMatches_def WorkerJob_mk_def takeJob_least)
qed

definition other_reqs :: JobRequirements where
  "other_reqs = example_reqs\<lparr>req_workerName := ''tetgen''\<rparr>"

definition example_queue :: JobQueue where
  "example_queue =
     snd (jq_workerDispatched other_reqs
       (snd (jq_addJob (JobSubmission_reqs other_reqs) 9
         (snd (jq_addJob example_submission 3
           (snd (jq_addJob example_submission 5 JobQueue_empty)))))))"

lemma example_queue_eval:
  "example_queue =
     \<lparr>QueuedJobs = [\<lparr>qj_Id = 3, qj_Submission = example_submission\<rparr>,
                    \<lparr>qj_Id = 5, qj_Submission = example_submission\<rparr>],
      JobsWaitingForWorker = [\<lparr>qj_Id = 9, qj_Submission = JobSubmission_reqs other_reqs\<rparr>],
      QueuedIds = [3, 5, 9], CachedQueuedJobRequirements = []\<rparr>"
  by (simp add: example_queue_def jq_addJob_def JobQueue_empty_def set_count_def Let_def
      lower_bound_def insert_at_def QueuedJob_less_def jq_workerDispatched_def JobTypeMatches_def
      example_submission_def JobSubmission_content_def JobSubmission_reqs_def other_reqs_def
      JobRequirements_eq_def example_reqs_def erase_at_def equiv_by_def JobRequirements_less_def)

lemma dispatched_eq:
  assumes "queue_inv q"
  shows "jq_workerDispatched reqs q =
    (case find (JobTypeMatches reqs) (QueuedJobs q) of
       None \<Rightarrow> (False, q)
     | Some x \<Rightarrow> (True, q\<lparr>JobsWaitingForWorker := JobsWaitingForWorker q @ [x],
         QueuedJobs := filter (\<lambda>y. qj_Id y \<noteq> qj_Id x) (QueuedJobs q),
         CachedQueuedJobRequirements := []\<rparr>))"
proof (cases "find (JobTypeMatches reqs) (QueuedJobs q)")
  case None
  then show ?thesis by (simp add: jq_workerDispatched_def Let_def find_if_find(1))
next
  case (Some x)
  let ?item = "find_if (JobTypeMatches reqs) (QueuedJobs q)"
  from find_first_split [OF Some] obtain ys zs
    where split: "QueuedJobs q = ys @ x # zs" and erased: "erase_at ?item (QueuedJobs q) = ys @ zs"
    by blast
  have "sorted_wrt QueuedJob_less (ys @ x # zs)"
    using assms split by (simp add: queue_inv_def)
  then have "filter (\<lambda>y. qj_Id y \<noteq> qj_Id x) (QueuedJobs q) = ys @ zs"
    by (auto simp: split sorted_wrt_append QueuedJob_less_def
        intro!: arg_cong2 [of _ _ _ _ append] filter_True)
  moreover have "?item \<noteq> length (QueuedJobs q)" and "QueuedJobs q ! ?item = x"
    using find_if_find(2) [OF Some] find_if_find(1) [of "JobTypeMatches reqs" "QueuedJobs q"] Some
    by simp_all
  ultimately show ?thesis
    using Some erased by (simp add: jq_workerDispatched_def Let_def)
qed

lemma dispatched_inv:
  assumes "queue_inv q"
  shows "queue_inv (snd (jq_workerDispatched reqs q))"
    and "queue_ids (snd (jq_workerDispatched reqs q)) = queue_ids q"
proof -
  have "queue_inv (snd (jq_workerDispatched reqs q)) \<and>
      queue_ids (snd (jq_workerDispatched reqs q)) = queue_ids q"
  proof (cases "find (JobTypeMatches reqs) (QueuedJobs q)")
    case (Some x)
    have ids: "ids_of (filter (\<lambda>y. qj_Id y \<noteq> qj_Id x) xs) = ids_of xs - {qj_Id x}" for xs
      by (auto simp: ids_of_def)
    show ?thesis
      using assms Some find_in_ids [OF Some]
      by (auto simp: dispatched_eq queue_inv_def queue_ids_def ids sorted_wrt_filter)
         (auto simp: ids_of_def)
  qed (simp add: assms dispatched_eq)
  then show "queue_inv (snd (jq_workerDispatched reqs q))"
    and "queue_ids (snd (jq_workerDispatched reqs q)) = queue_ids q" by auto
qed

text \<open>
  \<open>workerDispatched\<close> moves the smallest-id queued job of the wanted requirements to the
  end of the jobs waiting for a worker, and nothing else; it says whether there was one.
\<close>

theorem workerDispatched_spec:
  assumes "queue_inv q" and "jq_workerDispatched reqs q = (found, q')"
  shows "queue_inv q' \<and> queue_ids q' = queue_ids q \<and>
    (case find (JobTypeMatches reqs) (QueuedJobs q) of
       None \<Rightarrow> \<not> found \<and> q' = q
     | Some x \<Rightarrow> found \<and>
         JobsWaitingForWorker q' = JobsWaitingForWorker q @ [x] \<and>
         QueuedJobs q' = filter (\<lambda>y. qj_Id y \<noteq> qj_Id x) (QueuedJobs q) \<and>
         (\<forall>y\<in>set (QueuedJobs q). JobTypeMatches reqs y \<longrightarrow> qj_Id x \<le> qj_Id y))"
proof -
  have "qj_Id x \<le> qj_Id y" if "find (JobTypeMatches reqs) (QueuedJobs q) = Some x"
    "y \<in> set (QueuedJobs q)" "JobTypeMatches reqs y" for x y
    using that assms(1) find_sorted_least by (auto simp: queue_inv_def)
  with dispatched_inv [OF assms(1), of reqs] assms show ?thesis
    by (auto simp: dispatched_eq split: option.splits)
qed

lemma example_queue_inv: "queue_inv example_queue"
  unfolding example_queue_def by (intro dispatched_inv queue.add_inv queue_inv_empty)

theorem workerDispatched_spec_witness:
  "queue_inv example_queue \<and>
   map qj_Id (JobsWaitingForWorker (snd (jq_workerDispatched example_reqs example_queue))) = [9, 3] \<and>
   map qj_Id (QueuedJobs (snd (jq_workerDispatched example_reqs example_queue))) = [5]"
  using workerDispatched_spec [OF example_queue_inv prod.collapse [symmetric], of example_reqs]
    example_queue_inv
  by (auto simp: example_queue_eval JobTypeMatches_def example_submission_def
      JobSubmission_content_def)

theorem takeJob_refines_witness:
  "queue_inv example_queue \<and> wj_id (fst (jq_takeJob example_reqs example_queue)) = 3 \<and>
   wj_id (fst (jq_takeJob other_reqs example_queue)) = 9 \<and>
   wj_validity (fst (jq_takeJob JobRequirements_default example_queue)) = JV_INVALID"
  using takeJob_refines [OF example_queue_inv prod.collapse [symmetric], of example_reqs]
    takeJob_refines [OF example_queue_inv prod.collapse [symmetric], of other_reqs]
    takeJob_refines [OF example_queue_inv prod.collapse [symmetric], of JobRequirements_default]
    example_queue_inv
  by (simp add: example_queue_eval pending_def JobTypeMatches_def example_submission_def
      JobSubmission_content_def JobSubmission_reqs_def JobRequirements_eq_def other_reqs_def
      example_reqs_def JobRequirements_default_def MeshIOType_eq_def MeshIOType_default_def
      WorkerJob_mk_def WorkerJob_default_def)

text \<open>
  Any sequence of \<open>addJob\<close> and \<open>remove\<close> calls, from any state of the queue, answers and
  leaves the ids exactly as the same calls on a plain set of ids: a job is accepted once,
  found until it is removed, and removed once.
\<close>

theorem queue_refines_id_set:
  assumes "queue_inv q"
  shows "run_ops set_step ps (queue_ids q) =
      (fst (run_ops queue.step ps q), queue_ids (snd (run_ops queue.step ps q))) \<and>
    queue_inv (snd (run_ops queue.step ps q))"
  using queue.run_refines [OF assms] by simp

theorem queue_refines_id_set_witness:
  "fst (run_ops queue.step
     [LAdd example_submission 5, LAdd example_submission 5, LRemove 5, LRemove 5] JobQueue_empty) =
     [True, False, True, False]"
  using queue_refines_id_set [OF queue_inv_empty,
      of "[LAdd example_submission 5, LAdd example_submission 5, LRemove 5, LRemove 5]"]
  by (simp add: queue_ids_def JobQueue_empty_def)

section \<open>The cached requirements\<close>

datatype queue_op =
    QAdd uuid JobSubmission
  | QTake JobRequirements
  | QDispatched JobRequirements
  | QRemove uuid
  | QRequirements

fun queue_step :: "queue_op \<Rightarrow> JobQueue \<Rightarrow> JobQueue" where
  "queue_step (QAdd i sub) q = snd (jq_addJob sub i q)"
| "queue_step (QTake reqs) q = snd (jq_takeJob reqs q)"
| "queue_step (QDispatched reqs) q = snd (jq_workerDispatched reqs q)"
| "queue_step (QRemove i) q = snd (jq_remove i q)"
| "queue_step QRequirements q = snd (jq_queuedJobRequirements q)"

definition cache_sound :: "JobQueue \<Rightarrow> bool" where
  "cache_sound q \<longleftrightarrow>
     sorted_wrt JobRequirements_less (CachedQueuedJobRequirements q) \<and>
     (\<forall>r\<in>set (CachedQueuedJobRequirements q). \<exists>j\<in>set (QueuedJobs q). JobTypeMatches r j)"

lemma queuedJobRequirements_snd:
  "queue_inv q \<Longrightarrow> queue_inv (snd (jq_queuedJobRequirements q))"
  by (simp add: jq_queuedJobRequirements_def Let_def queue_inv_def queue_ids_def)

lemma cache_sound_step:
  assumes "queue_inv q" and "cache_sound q"
  shows "cache_sound (queue_step p q)"
proof (cases p)
  case (QAdd i sub)
  then show ?thesis
    using assms reqs_order.set_insert_subset
    by (fastforce simp: cache_sound_def jq_addJob_def Let_def set_insert_at JobTypeMatches_def
        reqs_order.set_insert_sorted)
next
  case (QTake reqs)
  then show ?thesis
    using assms by (auto simp: cache_sound_def takeJob_eq split: option.split)
next
  case (QDispatched reqs)
  then show ?thesis using assms by (auto simp: cache_sound_def jq_workerDispatched_def Let_def)
next
  case (QRemove i)
  then show ?thesis
    using assms by (simp add: cache_sound_def jq_remove_eq remove_absent del: set_filter)
next
  case QRequirements
  then show ?thesis
    using assms reqs_order.set_insert_range_subset [of "requirements_of (QueuedJobs q)" "[]"]
    by (force simp: cache_sound_def jq_queuedJobRequirements_def Let_def requirements_of_def
        JobTypeMatches_def reqs_order.set_insert_range_sorted)
qed

inductive queue_reach :: "JobQueue \<Rightarrow> bool" where
  queue_start: "queue_reach JobQueue_empty"
| queue_next: "queue_reach q \<Longrightarrow> queue_reach (queue_step p q)"

lemma queue_reach_inv: "queue_reach q \<Longrightarrow> queue_inv q \<and> cache_sound q"
proof (induction rule: queue_reach.induct)
  case queue_start
  show ?case by (simp add: cache_sound_def) (simp add: JobQueue_empty_def)
next
  case (queue_next q p)
  then show ?case
    using cache_sound_step [of q p]
    by (cases p) (auto simp: queue.add_inv queue.remove_inv takeJob_inv dispatched_inv
        queuedJobRequirements_snd)
qed

text \<open>
  The requirements the server dispatches workers for are those of jobs that are really
  queued, and there is at least one while any job is queued: no worker is started for
  nothing, and some queued job always gets its turn.
\<close>

theorem queuedJobRequirements_sound:
  assumes "queue_reach q" and "jq_queuedJobRequirements q = (reqs, q')"
  shows "(\<forall>r\<in>set reqs. \<exists>j\<in>set (QueuedJobs q). JobTypeMatches r j) \<and>
    (reqs = [] \<longleftrightarrow> QueuedJobs q = []) \<and> pending q' = pending q"
proof -
  have "cache_sound (queue_step QRequirements q)"
    using queue_reach_inv [OF assms(1)] cache_sound_step by blast
  then have sound: "\<forall>r\<in>set reqs. \<exists>j\<in>set (QueuedJobs q). JobTypeMatches r j"
    using assms(2) by (auto simp: cache_sound_def jq_queuedJobRequirements_def Let_def)
  moreover have "reqs \<noteq> []" if "QueuedJobs q \<noteq> []"
  proof -
    from that obtain j where "j \<in> set (QueuedJobs q)" by (cases "QueuedJobs q") auto
    then have "sub_requirements (qj_Submission j) \<in> set (requirements_of (QueuedJobs q))"
      by (auto simp: requirements_of_def)
    from reqs_order.set_insert_range_has [OF this, of "[]"] assms(2) show ?thesis
      by (auto simp: jq_queuedJobRequirements_def Let_def split: if_splits)
  qed
  ultimately show ?thesis
    using assms(2) by (force simp: jq_queuedJobRequirements_def Let_def pending_def)
qed

lemma example_queue_reach: "queue_reach example_queue"
proof -
  have "queue_reach (queue_step (QDispatched other_reqs)
    (queue_step (QAdd 9 (JobSubmission_reqs other_reqs))
      (queue_step (QAdd 3 example_submission) (queue_step (QAdd 5 example_submission) JobQueue_empty))))"
    by (intro queue_start queue_next)
  then show ?thesis by (simp add: example_queue_def)
qed

theorem queuedJobRequirements_sound_witness:
  "queue_reach example_queue \<and> fst (jq_queuedJobRequirements example_queue) \<noteq> []"
  using queuedJobRequirements_sound [OF example_queue_reach prod.collapse [symmetric]]
    example_queue_reach
  by (simp add: example_queue_eval)

text \<open>
  The cache is complete only when it was filled from the queue. Once an operation has
  cleared it, the next \<open>addJob\<close> leaves a cache with just the new job's requirements, and
  \<open>queuedJobRequirements\<close> answers with that although other jobs are queued: their
  requirements are missing until the cache is cleared again.
\<close>

theorem queuedJobRequirements_misses:
  assumes "queue_reach q" and "CachedQueuedJobRequirements q = []" and "i \<notin> queue_ids q"
    and "j \<in> set (QueuedJobs q)"
    and "\<not> JobRequirements_eq (sub_requirements sub) (sub_requirements (qj_Submission j))"
  shows "fst (jq_queuedJobRequirements q) \<noteq> [] \<and>
    set_count JobRequirements_less (sub_requirements (qj_Submission j))
      (fst (jq_queuedJobRequirements q)) = 1 \<and>
    j \<in> set (QueuedJobs (snd (jq_addJob sub i q))) \<and>
    fst (jq_queuedJobRequirements (snd (jq_addJob sub i q))) = [sub_requirements sub] \<and>
    set_count JobRequirements_less (sub_requirements (qj_Submission j))
      (fst (jq_queuedJobRequirements (snd (jq_addJob sub i q)))) = 0"
proof -
  have inv: "queue_inv q" using queue_reach_inv [OF assms(1)] by simp
  have "sub_requirements (qj_Submission j) \<in> set (requirements_of (QueuedJobs q))"
    using assms(4) by (auto simp: requirements_of_def)
  from reqs_order.set_insert_range_has [OF this, of "[]"] assms(2)
  have "\<exists>y\<in>set (fst (jq_queuedJobRequirements q)).
      JobRequirements_eq (sub_requirements (qj_Submission j)) y"
    by (simp add: jq_queuedJobRequirements_def Let_def)
  moreover have "fst (jq_queuedJobRequirements (snd (jq_addJob sub i q))) = [sub_requirements sub]"
    and "j \<in> set (QueuedJobs (snd (jq_addJob sub i q)))"
    using assms inv
    by (simp_all add: jq_addJob_def jq_queuedJobRequirements_def Let_def uuid_order.set_count_iff
        queue_ids_QueuedIds set_insert_at)
  ultimately show ?thesis
    using assms(5) by (auto simp: set_count_def list_ex_iff JobRequirements_eq_sym)
qed

theorem queuedJobRequirements_misses_witness:
  "queue_reach example_queue \<and>
   fst (jq_queuedJobRequirements (snd (jq_addJob (JobSubmission_reqs other_reqs) 4 example_queue))) =
     [other_reqs] \<and>
   length (QueuedJobs (snd (jq_addJob (JobSubmission_reqs other_reqs) 4 example_queue))) = 3"
proof -
  let ?j = "\<lparr>qj_Id = 3, qj_Submission = example_submission\<rparr>"
  have h: "CachedQueuedJobRequirements example_queue = []" "4 \<notin> queue_ids example_queue"
    "?j \<in> set (QueuedJobs example_queue)"
    "\<not> JobRequirements_eq (sub_requirements (JobSubmission_reqs other_reqs))
         (sub_requirements (qj_Submission ?j))"
    by (simp_all add: example_queue_eval queue_ids_def JobSubmission_reqs_def other_reqs_def
        example_submission_def JobSubmission_content_def JobRequirements_eq_def example_reqs_def)
  show ?thesis
    using queuedJobRequirements_misses [OF example_queue_reach h] example_queue_reach
    by (simp add: JobSubmission_reqs_def)
       (simp add: example_queue_eval jq_addJob_def set_count_def equiv_by_def Let_def)
qed

text \<open>
  \<open>clear\<close> does not empty the queue. The jobs waiting for a worker stay: their ids are
  no longer known, yet \<open>takeJob\<close> still hands them out.
\<close>

theorem clear_keeps_waiting_jobs:
  assumes "queue_inv q" and "find (JobTypeMatches reqs) (JobsWaitingForWorker q) = Some x"
  shows "\<not> jq_haveUUID (qj_Id x) (jq_clear q) \<and>
    jq_numJobsJustQueued (jq_clear q) = 0 \<and>
    jq_numJobsWaitingForWorkers (jq_clear q) = jq_numJobsWaitingForWorkers q \<and>
    fst (jq_takeJob reqs (jq_clear q)) = WorkerJob_mk (qj_Id x) (qj_Submission x)"
  using assms
  by (simp add: jq_haveUUID_def jq_clear_def set_count_def takeJob_eq jq_numJobsJustQueued_def
      jq_numJobsWaitingForWorkers_def)

theorem clear_keeps_waiting_jobs_witness:
  "queue_inv example_queue \<and> \<not> jq_haveUUID 9 (jq_clear example_queue) \<and>
   wj_id (fst (jq_takeJob other_reqs (jq_clear example_queue))) = 9"
proof -
  have "find (JobTypeMatches other_reqs) (JobsWaitingForWorker example_queue) =
      Some \<lparr>qj_Id = 9, qj_Submission = JobSubmission_reqs other_reqs\<rparr>"
    by (simp add: example_queue_eval JobTypeMatches_def JobSubmission_reqs_def)
  from clear_keeps_waiting_jobs [OF example_queue_inv this] example_queue_inv show ?thesis
    by (simp add: WorkerJob_mk_def)
qed

end
