(* ===== verification/Remus_SocketMonitor.thy ===== *)
theory Remus_SocketMonitor
  imports Remus_Sockets
begin

text \<open>
  \<open>remus/server/detail/SocketMonitor.cxx\<close>: when each worker was last heard of and how
  long the server waits for it. The monitor holds a \<open>PollingMonitor\<close> (a shared handle in the
  sources: the model keeps it in the record and whoever changes it updates this one field).
  The current time is an argument. Durations are 64-bit counts of milliseconds and times
  64-bit counts of microseconds in the code; the model takes both as unbounded integers and is
  faithful while \<open>LastOccurrence\<close> plus \<open>milliseconds (Duration * 2)\<close> stays below \<open>2 ^ 63 - 2\<close>
  microseconds, that is for durations up to about 146 thousand years.

  The contract the server relies on is the locale \<open>liveness_monitor\<close>, interpreted for
  \<open>refresh\<close> and \<open>heartbeat\<close>, the two ways a worker is heard of.
\<close>

record BeatInfo =
  Duration :: int
  LastOccurrence :: ptime

definition BeatInfo_default :: BeatInfo where
  "BeatInfo_default = \<lparr>Duration = 0, LastOccurrence = 0\<rparr>"

record SocketMonitor =
  PollMonitor :: PollingMonitor
  HeartBeats :: "(SocketIdentity \<times> BeatInfo) list"

definition SocketMonitor_mk :: "PollingMonitor \<Rightarrow> SocketMonitor" where
  "SocketMonitor_mk p = \<lparr>PollMonitor = p, HeartBeats = []\<rparr>"

definition SocketMonitor_default :: "ptime \<Rightarrow> SocketMonitor" where
  "SocketMonitor_default now = SocketMonitor_mk (PollingMonitor_init 25 60000 now)"

definition beat_exists :: "SocketIdentity \<Rightarrow> SocketMonitor \<Rightarrow> bool" where
  "beat_exists sock m \<longleftrightarrow> map_count SocketIdentity_less sock (HeartBeats m) > 0"

text \<open>\<open>HeartBeats.insert(key_value).first\<close>: the entry of the socket, made when missing.\<close>

definition insert_beat ::
  "SocketIdentity \<Rightarrow> SocketMonitor \<Rightarrow> BeatInfo \<times> (SocketIdentity \<times> BeatInfo) list" where
  "insert_beat sock m =
     (let hb = map_insert SocketIdentity_less sock BeatInfo_default (HeartBeats m) in
      (case map_find SocketIdentity_less sock hb of
         Some beat \<Rightarrow> beat | None \<Rightarrow> BeatInfo_default, hb))"

definition refresh :: "ptime \<Rightarrow> SocketIdentity \<Rightarrow> SocketMonitor \<Rightarrow> SocketMonitor" where
  "refresh now sock m =
     (let (beat, hb) = insert_beat sock m;
          beat' = beat\<lparr>LastOccurrence := now,
                       Duration := max (Duration beat) (PollingMonitor_maxTimeOut (PollMonitor m))\<rparr> in
      m\<lparr>HeartBeats := map_assign SocketIdentity_less sock beat' hb\<rparr>)"

definition heartbeat :: "ptime \<Rightarrow> SocketIdentity \<Rightarrow> int \<Rightarrow> SocketMonitor \<Rightarrow> SocketMonitor" where
  "heartbeat now sock dur m =
     (let (beat, hb) = insert_beat sock m;
          beat' = beat\<lparr>LastOccurrence := now,
                       Duration := max dur (PollingMonitor_maxTimeOut (PollMonitor m))\<rparr> in
      m\<lparr>HeartBeats := map_assign SocketIdentity_less sock beat' hb\<rparr>)"

definition heartbeatInterval :: "SocketIdentity \<Rightarrow> SocketMonitor \<Rightarrow> int" where
  "heartbeatInterval sock m =
     (if beat_exists sock m then Duration (fst (insert_beat sock m)) else 0)"

definition markAsDead :: "SocketIdentity \<Rightarrow> SocketMonitor \<Rightarrow> SocketMonitor" where
  "markAsDead sock m = m\<lparr>HeartBeats := map_erase SocketIdentity_less sock (HeartBeats m)\<rparr>"

definition isDead :: "SocketIdentity \<Rightarrow> SocketMonitor \<Rightarrow> bool" where
  "isDead sock m \<longleftrightarrow> \<not> beat_exists sock m"

definition isUnresponsive :: "ptime \<Rightarrow> SocketIdentity \<Rightarrow> SocketMonitor \<Rightarrow> bool" where
  "isUnresponsive now sock m =
     (case map_find SocketIdentity_less sock (HeartBeats m) of
        Some beat \<Rightarrow>
          if hasAbnormalEvent (PollMonitor m) then False
          else now > LastOccurrence beat + milliseconds (Duration beat * 2)
      | None \<Rightarrow> True)"

section \<open>The contract\<close>

definition monitor_inv :: "SocketMonitor \<Rightarrow> bool" where
  "monitor_inv m \<longleftrightarrow> sorted_wrt SocketIdentity_less (map fst (HeartBeats m))"

text \<open>
  A monitor tells, from the order in which workers were heard of and declared dead, which
  ones are dead. Identities are compared by their bytes.
\<close>

locale liveness_monitor =
  fixes inv :: "'m \<Rightarrow> bool"
    and touch :: "'t \<Rightarrow> SocketIdentity \<Rightarrow> 'm \<Rightarrow> 'm"
    and kill :: "SocketIdentity \<Rightarrow> 'm \<Rightarrow> 'm"
    and dead :: "SocketIdentity \<Rightarrow> 'm \<Rightarrow> bool"
  assumes inv_touch: "inv m \<Longrightarrow> inv (touch t s m)"
    and inv_kill: "inv m \<Longrightarrow> inv (kill s m)"
    and dead_touch: "inv m \<Longrightarrow> dead s (touch t s' m) \<longleftrightarrow> si_data s \<noteq> si_data s' \<and> dead s m"
    and dead_kill: "inv m \<Longrightarrow> dead s (kill s' m) \<longleftrightarrow> si_data s = si_data s' \<or> dead s m"
begin

definition perform :: "'t \<times> SocketIdentity + SocketIdentity \<Rightarrow> 'm \<Rightarrow> 'm" where
  "perform e m = (case e of Inl (t, s) \<Rightarrow> touch t s m | Inr s \<Rightarrow> kill s m)"

lemma inv_perform: "inv m \<Longrightarrow> inv (perform e m)"
  by (auto simp: perform_def inv_touch inv_kill split: sum.split)

lemma inv_run: "inv m \<Longrightarrow> inv (fold perform es m)"
  by (induction es arbitrary: m) (auto simp: inv_perform)

text \<open>Only the last thing said about a worker counts.\<close>

lemma dead_run:
  assumes "inv m"
  shows "dead s (fold perform es m) =
    (case filter (\<lambda>e. case e of Inl (t, s') \<Rightarrow> si_data s = si_data s' | Inr s' \<Rightarrow> si_data s = si_data s')
       (rev es) of
       [] \<Rightarrow> dead s m
     | e # _ \<Rightarrow> (case e of Inl _ \<Rightarrow> False | Inr _ \<Rightarrow> True))"
proof (induction es rule: rev_induct)
  case (snoc e es)
  have "inv (fold perform es m)" by (rule inv_run [OF assms])
  then have "dead s (perform e (fold perform es m)) =
      (case e of Inl (t, s') \<Rightarrow> si_data s \<noteq> si_data s' \<and> dead s (fold perform es m)
       | Inr s' \<Rightarrow> si_data s = si_data s' \<or> dead s (fold perform es m))"
    by (auto simp: perform_def [of e] dead_touch dead_kill split: sum.split)
  with snoc show ?case by (auto split: sum.split)
qed simp

end

lemma insert_beat_eq:
  assumes "monitor_inv m"
  shows "fst (insert_beat sock m) =
      (case map_find SocketIdentity_less sock (HeartBeats m) of
         Some beat \<Rightarrow> beat | None \<Rightarrow> BeatInfo_default)"
    and "sorted_wrt SocketIdentity_less (map fst (snd (insert_beat sock m)))"
    and "map_find SocketIdentity_less s (map_assign SocketIdentity_less sock b (snd (insert_beat sock m))) =
      (if si_data s = si_data sock then Some b
       else map_find SocketIdentity_less s (HeartBeats m))"
  using assms
  by (auto simp: insert_beat_def monitor_inv_def identity_order.find_insert
      identity_order.find_assign identity_order.insert_sorted split: option.split)

lemma refresh_simps [simp]:
  "PollMonitor (refresh now sock m) = PollMonitor m"
  "PollMonitor (heartbeat now sock d m) = PollMonitor m"
  "PollMonitor (markAsDead sock m) = PollMonitor m"
  by (simp_all add: refresh_def heartbeat_def markAsDead_def Let_def split: prod.split)

lemma refresh_find:
  assumes "monitor_inv m"
  shows "map_find SocketIdentity_less s (HeartBeats (refresh now sock m)) =
    (if si_data s = si_data sock
     then Some \<lparr>Duration = max (heartbeatInterval sock m) (PollingMonitor_maxTimeOut (PollMonitor m)),
                LastOccurrence = now\<rparr>
     else map_find SocketIdentity_less s (HeartBeats m))"
  using insert_beat_eq(1,2) [OF assms, of sock] insert_beat_eq(3) [OF assms, of s sock]
  by (auto simp: refresh_def heartbeatInterval_def beat_exists_def map_count_def
      BeatInfo_default_def Let_def split: prod.split option.split)

lemma heartbeat_find:
  assumes "monitor_inv m"
  shows "map_find SocketIdentity_less s (HeartBeats (heartbeat now sock d m)) =
    (if si_data s = si_data sock
     then Some \<lparr>Duration = max d (PollingMonitor_maxTimeOut (PollMonitor m)), LastOccurrence = now\<rparr>
     else map_find SocketIdentity_less s (HeartBeats m))"
  using insert_beat_eq(1,2) [OF assms, of sock] insert_beat_eq(3) [OF assms, of s sock]
  by (auto simp: heartbeat_def Let_def split: prod.split option.split)

lemma markAsDead_find:
  "map_find SocketIdentity_less s (HeartBeats (markAsDead sock m)) =
    (if si_data s = si_data sock then None else map_find SocketIdentity_less s (HeartBeats m))"
  by (simp add: markAsDead_def identity_order.find_erase)

lemma monitor_inv_steps:
  "monitor_inv m \<Longrightarrow> monitor_inv (refresh now sock m)"
  "monitor_inv m \<Longrightarrow> monitor_inv (heartbeat now sock d m)"
  "monitor_inv m \<Longrightarrow> monitor_inv (markAsDead sock m)"
  using insert_beat_eq(2) [of m sock]
  by (auto simp: monitor_inv_def refresh_def heartbeat_def markAsDead_def Let_def
      identity_order.assign_sorted identity_order.erase_sorted split: prod.split)

lemma monitor_inv_init [simp]: "monitor_inv (SocketMonitor_mk p)"
  by (simp add: monitor_inv_def SocketMonitor_mk_def)

lemma isDead_find: "isDead s m \<longleftrightarrow> map_find SocketIdentity_less s (HeartBeats m) = None"
  by (simp add: isDead_def beat_exists_def map_count_def)

text \<open>Both ways of hearing of a worker, in any order.\<close>

definition monitor_touch ::
  "ptime \<times> int option \<Rightarrow> SocketIdentity \<Rightarrow> SocketMonitor \<Rightarrow> SocketMonitor" where
  "monitor_touch t sock m =
     (case t of (now, None) \<Rightarrow> refresh now sock m | (now, Some d) \<Rightarrow> heartbeat now sock d m)"

interpretation socket_monitor: liveness_monitor monitor_inv monitor_touch markAsDead isDead
  by unfold_locales
     (auto simp: monitor_touch_def monitor_inv_steps isDead_find refresh_find heartbeat_find
       markAsDead_find split: option.splits if_splits)

section \<open>Dead and unresponsive workers\<close>

datatype monitor_event =
    Refresh ptime SocketIdentity
  | Heartbeat ptime SocketIdentity int
  | MarkAsDead SocketIdentity

fun monitor_step :: "monitor_event \<Rightarrow> SocketMonitor \<Rightarrow> SocketMonitor" where
  "monitor_step (Refresh now s) m = refresh now s m"
| "monitor_step (Heartbeat now s d) m = heartbeat now s d m"
| "monitor_step (MarkAsDead s) m = markAsDead s m"

fun event_socket :: "monitor_event \<Rightarrow> SocketIdentity" where
  "event_socket (Refresh now s) = s"
| "event_socket (Heartbeat now s d) = s"
| "event_socket (MarkAsDead s) = s"

fun event_kills :: "monitor_event \<Rightarrow> bool" where
  "event_kills (MarkAsDead s) = True"
| "event_kills _ = False"

fun monitor_call :: "monitor_event \<Rightarrow> (ptime \<times> int option) \<times> SocketIdentity + SocketIdentity" where
  "monitor_call (Refresh now s) = Inl ((now, None), s)"
| "monitor_call (Heartbeat now s d) = Inl ((now, Some d), s)"
| "monitor_call (MarkAsDead s) = Inr s"

lemma monitor_step_perform: "monitor_step e m = socket_monitor.perform (monitor_call e) m"
  by (cases e) (simp_all add: socket_monitor.perform_def monitor_touch_def)

lemma monitor_run_perform:
  "fold monitor_step es m = fold socket_monitor.perform (map monitor_call es) m"
  by (induction es arbitrary: m) (simp_all add: monitor_step_perform)

lemma isDead_run_last:
  assumes "monitor_inv m"
  shows "isDead s (fold monitor_step es m) =
    (case filter (\<lambda>e. si_data (event_socket e) = si_data s) (rev es) of
       [] \<Rightarrow> isDead s m | e # _ \<Rightarrow> event_kills e)"
proof -
  let ?P = "\<lambda>e. case e of Inl (t, s') \<Rightarrow> si_data s = si_data s' | Inr s' \<Rightarrow> si_data s = si_data s'"
  have "?P (monitor_call e) \<longleftrightarrow> si_data (event_socket e) = si_data s" for e
    by (cases e) auto
  then have "filter ?P (map monitor_call (rev es)) =
      map monitor_call (filter (\<lambda>e. si_data (event_socket e) = si_data s) (rev es))"
    by (simp add: filter_map comp_def)
  moreover have "(case monitor_call e of Inl _ \<Rightarrow> False | Inr _ \<Rightarrow> True) = event_kills e" for e
    by (cases e) auto
  ultimately show ?thesis
    using socket_monitor.dead_run [OF assms, of s "map monitor_call es"]
    by (simp add: monitor_run_perform rev_map split: list.split)
qed

text \<open>
  Whether a worker is dead depends only on the last thing the monitor was told about
  it, in any interleaving with other workers: dead if it was marked as dead or never heard
  of, alive after a refresh or a heartbeat.
\<close>

theorem isDead_last_event:
  "isDead s (fold monitor_step es (SocketMonitor_mk p)) =
    (case filter (\<lambda>e. si_data (event_socket e) = si_data s) (rev es) of
       [] \<Rightarrow> True | e # _ \<Rightarrow> event_kills e)"
  by (simp add: isDead_run_last) (simp add: isDead_find SocketMonitor_mk_def split: list.split)

lemma isUnresponsive_heard:
  "map_find SocketIdentity_less s (HeartBeats m) = Some b \<Longrightarrow>
   isUnresponsive now s m \<longleftrightarrow>
     \<not> hasAbnormalEvent (PollMonitor m) \<and> LastOccurrence b + milliseconds (Duration b * 2) < now"
  by (simp add: isUnresponsive_def)

lemma isUnresponsive_dead: "isDead s m \<Longrightarrow> isUnresponsive now s m"
  by (simp add: isDead_find isUnresponsive_def)

text \<open>
  After a heartbeat announcing the next one within \<open>d\<close> milliseconds, the worker is
  unresponsive exactly when twice the larger of \<open>d\<close> and the server's slowest poll rate has
  passed and the server's own polling was not abnormal; a refresh never shortens that wait;
  other workers are not affected; a dead worker is always unresponsive.
\<close>

theorem worker_responsiveness:
  assumes "monitor_inv m" and "si_data s' \<noteq> si_data s"
  shows "(isUnresponsive later s (heartbeat now s d m) \<longleftrightarrow>
      \<not> hasAbnormalEvent (PollMonitor m) \<and>
      now + milliseconds (2 * max d (PollingMonitor_maxTimeOut (PollMonitor m))) < later) \<and>
    (isUnresponsive later s (refresh now s m) \<longleftrightarrow>
      \<not> hasAbnormalEvent (PollMonitor m) \<and>
      now + milliseconds (2 * max (heartbeatInterval s m)
        (PollingMonitor_maxTimeOut (PollMonitor m))) < later) \<and>
    isUnresponsive later s' (heartbeat now s d m) = isUnresponsive later s' m \<and>
    isUnresponsive later s' (refresh now s m) = isUnresponsive later s' m \<and>
    isUnresponsive later s' (markAsDead s m) = isUnresponsive later s' m \<and>
    isUnresponsive later s (markAsDead s m)"
  using assms
  by (simp add: isUnresponsive_def heartbeat_find refresh_find markAsDead_find mult.commute
      split: option.split)

definition example_worker :: SocketIdentity where
  "example_worker = \<lparr>si_data = ''worker-1'', si_name = ''worker-1''\<rparr>"

theorem worker_responsiveness_witness:
  "monitor_inv (SocketMonitor_default 0) \<and>
   \<not> isUnresponsive (milliseconds 120000) example_worker
       (heartbeat 0 example_worker 5000 (SocketMonitor_default 0)) \<and>
   isUnresponsive (milliseconds 120001) example_worker
       (heartbeat 0 example_worker 5000 (SocketMonitor_default 0)) \<and>
   isUnresponsive 1 example_worker (markAsDead example_worker (SocketMonitor_default 0))"
proof -
  have inv: "monitor_inv (SocketMonitor_default 0)" by (simp add: SocketMonitor_default_def)
  have "PollingMonitor_maxTimeOut (PollMonitor (SocketMonitor_default 0)) = 60000"
    and "\<not> hasAbnormalEvent (PollMonitor (SocketMonitor_default 0))"
    by (simp_all add: SocketMonitor_default_def SocketMonitor_mk_def PollingMonitor_init_def
        PollingMonitor_maxTimeOut_def hasAbnormalEvent_def Let_def)
  with worker_responsiveness [OF inv, of "SocketIdentity_default" example_worker] inv show ?thesis
    by (simp add: milliseconds_def example_worker_def SocketIdentity_default_def)
qed

end
