(* ===== verification/Remus_ActiveJobs.thy ===== *)
theory Remus_ActiveJobs
  imports Remus_SocketMonitor Remus_Jobs Remus_Ledger
begin

text \<open>
  \<open>remus/server/detail/ActiveJobs.cxx\<close>: the jobs that were handed to a worker, with the
  worker's address, the last status and the result. \<open>Info\<close> is a \<open>std::map\<close> ordered by id.
  \<open>status\<close>, \<open>result\<close> and \<open>clearStatus\<close> dereference \<open>end()\<close> when the id is unknown, which
  is undefined behaviour.
\<close>

record JobState =
  WorkerAddress :: SocketIdentity
  jstatus :: JobStatus
  jresult :: JobResult
  have_result :: bool

definition JobState_mk :: "SocketIdentity \<Rightarrow> uuid \<Rightarrow> STATUS_TYPE \<Rightarrow> JobState" where
  "JobState_mk workerIdentity i stat =
     \<lparr>WorkerAddress = workerIdentity, jstatus = JobStatus_mk i stat,
      jresult = JobResult_empty i, have_result = False\<rparr>"

definition canUpdateStatusTo :: "JobState \<Rightarrow> JobStatus \<Rightarrow> bool" where
  "canUpdateStatusTo st s \<longleftrightarrow>
     js_good (jstatus st) \<and> \<not> js_finished s \<and> (js_failed s \<or> js_inProgress s)"

type_synonym ActiveJobs = "(uuid \<times> JobState) list"

definition aj_haveUUID :: "uuid \<Rightarrow> ActiveJobs \<Rightarrow> bool" where
  "aj_haveUUID i info \<longleftrightarrow> map_count (<) i info \<noteq> 0"

definition aj_add :: "SocketIdentity \<Rightarrow> uuid \<Rightarrow> ActiveJobs \<Rightarrow> bool \<times> ActiveJobs" where
  "aj_add workerIdentity i info =
     (if \<not> aj_haveUUID i info
      then (True, map_insert (<) i (JobState_mk workerIdentity i QUEUED) info)
      else (False, info))"

definition aj_remove :: "uuid \<Rightarrow> ActiveJobs \<Rightarrow> bool \<times> ActiveJobs" where
  "aj_remove i info =
     (if aj_haveUUID i info then (True, map_erase (<) i info) else (False, info))"

definition aj_workerAddress :: "uuid \<Rightarrow> ActiveJobs \<Rightarrow> SocketIdentity" where
  "aj_workerAddress i info =
     (case map_find (<) i info of None \<Rightarrow> SocketIdentity_default | Some st \<Rightarrow> WorkerAddress st)"

definition aj_haveResult :: "uuid \<Rightarrow> ActiveJobs \<Rightarrow> bool" where
  "aj_haveResult i info =
     (case map_find (<) i info of None \<Rightarrow> False | Some st \<Rightarrow> have_result st)"

definition aj_status :: "uuid \<Rightarrow> ActiveJobs \<Rightarrow> JobStatus result" where
  "aj_status i info =
     (case map_find (<) i info of None \<Rightarrow> Inl UndefinedBehaviour | Some st \<Rightarrow> Inr (jstatus st))"

definition aj_clearStatus :: "uuid \<Rightarrow> ActiveJobs \<Rightarrow> ActiveJobs result" where
  "aj_clearStatus i info =
     (case map_find (<) i info of
        None \<Rightarrow> Inl UndefinedBehaviour
      | Some st \<Rightarrow> Inr (map_assign (<) i (st\<lparr>jstatus := clearProgress (jstatus st)\<rparr>) info))"

definition aj_result :: "uuid \<Rightarrow> ActiveJobs \<Rightarrow> JobResult result" where
  "aj_result i info =
     (case map_find (<) i info of None \<Rightarrow> Inl UndefinedBehaviour | Some st \<Rightarrow> Inr (jresult st))"

definition aj_updateStatus :: "JobStatus \<Rightarrow> ActiveJobs \<Rightarrow> ActiveJobs" where
  "aj_updateStatus s info =
     (case map_find (<) (js_id s) info of
        None \<Rightarrow> info
      | Some st \<Rightarrow>
          if canUpdateStatusTo st s
          then map_assign (<) (js_id s) (st\<lparr>jstatus := mergeStatus s (jstatus st)\<rparr>) info
          else info)"

definition aj_updateResult :: "JobResult \<Rightarrow> ActiveJobs \<Rightarrow> ActiveJobs" where
  "aj_updateResult r info =
     (case map_find (<) (res_id r) info of
        None \<Rightarrow> info
      | Some st \<Rightarrow>
          let st1 = (if js_status (jstatus st) \<noteq> FAILED
                     then st\<lparr>jstatus := JobStatus_mk (res_id r) FINISHED\<rparr> else st) in
          map_assign (<) (res_id r) (st1\<lparr>jresult := r, have_result := True\<rparr>) info)"

text \<open>\<open>markExpiredJobs\<close>: one pass over the map in id order.\<close>

definition expires :: "ptime \<Rightarrow> SocketMonitor \<Rightarrow> JobState \<Rightarrow> bool" where
  "expires now monitor st \<longleftrightarrow>
     (js_queued (jstatus st) \<or> js_inProgress (jstatus st)) \<and>
     isUnresponsive now (WorkerAddress st) monitor"

fun aj_markExpiredJobs :: "ptime \<Rightarrow> SocketMonitor \<Rightarrow> ActiveJobs \<Rightarrow> JobStatus list \<times> ActiveJobs" where
  "aj_markExpiredJobs now monitor [] = ([], [])"
| "aj_markExpiredJobs now monitor ((i, st) # info) =
     (let (expired, rest) = aj_markExpiredJobs now monitor info in
      if expires now monitor st
      then let st' = st\<lparr>jstatus := JobStatus_mk (js_id (jstatus st)) EXPIRED\<rparr> in
           (jstatus st' # expired, (i, st') # rest)
      else (expired, (i, st) # rest))"

definition aj_activeWorkers :: "ActiveJobs \<Rightarrow> SocketIdentity list" where
  "aj_activeWorkers info =
     set_insert_range SocketIdentity_less (map (WorkerAddress \<circ> snd) info) []"

section \<open>The table as a map from ids\<close>

definition info_inv :: "ActiveJobs \<Rightarrow> bool" where
  "info_inv info \<longleftrightarrow> sorted_wrt (<) (map fst info)"

lemmas find_simps = uuid_order.find_insert uuid_order.find_assign uuid_order.find_erase
  uuid_order.equiv_iff_eq

lemma info_inv_assign [simp]: "info_inv info \<Longrightarrow> info_inv (map_assign (<) i st info)"
  by (simp add: info_inv_def uuid_order.assign_sorted)

lemma aj_haveUUID_iff: "aj_haveUUID i info \<longleftrightarrow> map_find (<) i info \<noteq> None"
  by (simp add: aj_haveUUID_def map_count_def)

lemma aj_add_find:
  assumes "info_inv info"
  shows "map_find (<) j (snd (aj_add w i info)) =
    (if j = i \<and> map_find (<) i info = None then Some (JobState_mk w i QUEUED)
     else map_find (<) j info)"
  using assms by (auto simp: aj_add_def aj_haveUUID_iff info_inv_def find_simps)

lemma aj_remove_find:
  "map_find (<) j (snd (aj_remove i info)) = (if j = i then None else map_find (<) j info)"
  by (auto simp: aj_remove_def aj_haveUUID_iff find_simps)

lemma aj_markExpired_fst: "map fst (snd (aj_markExpiredJobs now m info)) = map fst info"
  by (induction now m info rule: aj_markExpiredJobs.induct) (auto simp: Let_def split: prod.split)

definition expire :: "ptime \<Rightarrow> SocketMonitor \<Rightarrow> JobState \<Rightarrow> JobState" where
  "expire now m st =
     (if expires now m st then st\<lparr>jstatus := JobStatus_mk (js_id (jstatus st)) EXPIRED\<rparr> else st)"

lemma aj_markExpiredJobs_eq:
  "aj_markExpiredJobs now m info =
     (map (\<lambda>(i, st). jstatus (expire now m st)) (filter (\<lambda>(i, st). expires now m st) info),
      map (\<lambda>(i, st). (i, expire now m st)) info)"
  by (induction now m info rule: aj_markExpiredJobs.induct) (auto simp: Let_def expire_def)

lemma map_find_map:
  "map_find lt i (map (\<lambda>(i, st). (i, f st)) info) = map_option f (map_find lt i info)"
  by (induction info) auto

lemma aj_markExpired_find:
  "map_find (<) i (snd (aj_markExpiredJobs now m info)) = map_option (expire now m) (map_find (<) i info)"
  by (simp add: aj_markExpiredJobs_eq map_find_map)

definition info_ids :: "ActiveJobs \<Rightarrow> uuid set" where
  "info_ids info = {i. map_find (<) i info \<noteq> None}"

interpretation active: job_ledger info_inv info_ids aj_add aj_remove aj_haveUUID
proof
  fix info :: ActiveJobs and i :: uuid and w
  assume inv: "info_inv info"
  show "aj_haveUUID i info \<longleftrightarrow> i \<in> info_ids info"
    by (simp add: aj_haveUUID_iff info_ids_def)
  show "info_inv (snd (aj_add w i info))"
    using inv by (simp add: aj_add_def info_inv_def uuid_order.insert_sorted)
  show "info_ids (snd (aj_add w i info)) = insert i (info_ids info)"
    using inv by (auto simp: info_ids_def aj_add_find)
  show "fst (aj_add w i info) \<longleftrightarrow> i \<notin> info_ids info"
    by (simp add: aj_add_def aj_haveUUID_iff info_ids_def)
  show "info_inv (snd (aj_remove i info))"
    using inv by (simp add: aj_remove_def info_inv_def uuid_order.erase_sorted)
  show "info_ids (snd (aj_remove i info)) = info_ids info - {i}"
    by (auto simp: info_ids_def aj_remove_find)
  show "fst (aj_remove i info) \<longleftrightarrow> i \<in> info_ids info"
    by (simp add: aj_remove_def aj_haveUUID_iff info_ids_def)
qed

section \<open>The life of a job\<close>

datatype active_op =
    AAdd SocketIdentity uuid
  | ARemove uuid
  | AUpdateStatus JobStatus
  | AUpdateResult JobResult
  | AClearStatus uuid
  | AMarkExpired ptime SocketMonitor

fun active_step :: "active_op \<Rightarrow> ActiveJobs \<Rightarrow> ActiveJobs result" where
  "active_step (AAdd w i) info = Inr (snd (aj_add w i info))"
| "active_step (ARemove i) info = Inr (snd (aj_remove i info))"
| "active_step (AUpdateStatus s) info = Inr (aj_updateStatus s info)"
| "active_step (AUpdateResult r) info = Inr (aj_updateResult r info)"
| "active_step (AClearStatus i) info = aj_clearStatus i info"
| "active_step (AMarkExpired now m) info = Inr (snd (aj_markExpiredJobs now m info))"

text \<open>
  What an entry always satisfies: it is filed under its own id, it is \<open>FINISHED\<close> only once
  the result has arrived, and once the result is there it is \<open>FINISHED\<close> or \<open>FAILED\<close>.
\<close>

definition entry_ok :: "uuid \<Rightarrow> JobState \<Rightarrow> bool" where
  "entry_ok i st \<longleftrightarrow>
     js_id (jstatus st) = i \<and> res_id (jresult st) = i \<and>
     (js_status (jstatus st) = FINISHED \<longrightarrow> have_result st) \<and>
     (have_result st \<longrightarrow> js_status (jstatus st) \<in> {FINISHED, FAILED})"

definition active_inv :: "ActiveJobs \<Rightarrow> bool" where
  "active_inv info \<longleftrightarrow>
     info_inv info \<and> (\<forall>i st. map_find (<) i info = Some st \<longrightarrow> entry_ok i st)"

text \<open>The status changes a single operation can make to a job that stays in the table.\<close>

inductive status_moves :: "STATUS_TYPE \<Rightarrow> STATUS_TYPE \<Rightarrow> bool" where
  stays: "status_moves s s"
| reported: "s \<in> {QUEUED, IN_PROGRESS} \<Longrightarrow> t \<notin> {QUEUED, FINISHED} \<Longrightarrow> status_moves s t"
| uploaded: "s \<noteq> FAILED \<Longrightarrow> status_moves s FINISHED"

inductive_simps status_moves_iff: "status_moves s t"

inductive active_reach :: "ActiveJobs \<Rightarrow> bool" where
  reach_empty: "active_reach []"
| reach_step: "active_reach info \<Longrightarrow> active_step p info = Inr info' \<Longrightarrow> active_reach info'"

lemma status_progress_simps [simp]:
  "js_id (mergeStatus s js) = js_id js"
  "js_status (mergeStatus s js) = js_status s"
  "js_id (clearProgress js) = js_id js"
  "js_status (clearProgress js) = js_status js"
  "js_id (JobStatus_mk i t) = i"
  "js_status (JobStatus_mk i t) = t"
  "res_id (JobResult_empty i) = i"
  by (simp_all add: mergeStatus_def clearProgress_def JobStatus_mk_def JobResult_empty_def Let_def)

lemmas status_defs = js_good_def js_queued_def js_inProgress_def js_finished_def js_failed_def

lemma active_step_find:
  assumes "active_step p info = Inr info'" and "info_inv info"
  shows "map_find (<) j info' =
    (case p of
       AAdd w i \<Rightarrow> if j = i \<and> map_find (<) i info = None then Some (JobState_mk w i QUEUED)
                   else map_find (<) j info
     | ARemove i \<Rightarrow> if j = i then None else map_find (<) j info
     | AUpdateStatus s \<Rightarrow> map_option (\<lambda>st. if j = js_id s \<and> canUpdateStatusTo st s
         then st\<lparr>jstatus := mergeStatus s (jstatus st)\<rparr> else st) (map_find (<) j info)
     | AUpdateResult r \<Rightarrow> map_option (\<lambda>st. if j = res_id r
         then (if js_status (jstatus st) \<noteq> FAILED
               then st\<lparr>jstatus := JobStatus_mk (res_id r) FINISHED\<rparr> else st)
              \<lparr>jresult := r, have_result := True\<rparr> else st) (map_find (<) j info)
     | AClearStatus i \<Rightarrow> map_option (\<lambda>st. if j = i
         then st\<lparr>jstatus := clearProgress (jstatus st)\<rparr> else st) (map_find (<) j info)
     | AMarkExpired now m \<Rightarrow> map_option (expire now m) (map_find (<) j info))"
  using assms
  by (cases p)
     (auto simp: aj_add_find aj_remove_find aj_markExpired_find aj_updateStatus_def
       aj_updateResult_def aj_clearStatus_def find_simps Let_def map_option_case
       split: option.splits if_splits)

lemma info_inv_step:
  assumes "active_step p info = Inr info'" and "info_inv info"
  shows "info_inv info'"
  using assms active.add_inv active.remove_inv
  by (cases p)
     (auto simp: aj_updateStatus_def aj_updateResult_def aj_clearStatus_def Let_def
       info_inv_def [of "snd (aj_markExpiredJobs _ _ _)"] aj_markExpired_fst
       split: option.splits if_splits simp flip: info_inv_def)

lemma active_inv_step:
  assumes "active_step p info = Inr info'" and "active_inv info"
  shows "active_inv info'"
proof -
  have inv: "info_inv info" and ok: "map_find (<) i info = Some st \<Longrightarrow> entry_ok i st" for i st
    using assms(2) by (auto simp: active_inv_def)
  have "entry_ok i st'" if "map_find (<) i info' = Some st'" for i st'
    using that ok [of i] unfolding active_step_find [OF assms(1) inv]
    by (cases p)
       (auto simp: JobState_mk_def expire_def expires_def entry_ok_def canUpdateStatusTo_def status_defs
         split: if_splits)
  then show ?thesis using info_inv_step [OF assms(1) inv] by (simp add: active_inv_def)
qed

text \<open>Only \<open>add\<close> and \<open>remove\<close> change which jobs are in the table.\<close>

lemma info_ids_step:
  assumes "active_step p info = Inr info'" and "info_inv info"
  shows "info_ids info' =
    (case p of AAdd w i \<Rightarrow> insert i (info_ids info) | ARemove i \<Rightarrow> info_ids info - {i} | _ \<Rightarrow> info_ids info)"
  unfolding info_ids_def active_step_find [OF assms]
  by (cases p) auto

lemma active_inv_ops:
  assumes "active_inv info"
  shows "active_inv (snd (aj_add w i info))"
    and "active_inv (snd (aj_remove i info))"
    and "active_inv (aj_updateStatus s info)" and "info_ids (aj_updateStatus s info) = info_ids info"
    and "active_inv (aj_updateResult r info)" and "info_ids (aj_updateResult r info) = info_ids info"
    and "aj_clearStatus i info = Inr info' \<Longrightarrow> active_inv info'"
    and "aj_clearStatus i info = Inr info' \<Longrightarrow> info_ids info' = info_ids info"
    and "active_inv (snd (aj_markExpiredJobs now m info))"
    and "info_ids (snd (aj_markExpiredJobs now m info)) = info_ids info"
proof -
  have inv: "info_inv info" using assms by (simp add: active_inv_def)
  show "active_inv (snd (aj_add w i info))"
    by (rule active_inv_step [of "AAdd w i" info]) (simp_all add: assms)
  show "active_inv (snd (aj_remove i info))"
    by (rule active_inv_step [of "ARemove i" info]) (simp_all add: assms)
  show "active_inv (aj_updateStatus s info)"
    by (rule active_inv_step [of "AUpdateStatus s" info]) (simp_all add: assms)
  show "active_inv (aj_updateResult r info)"
    by (rule active_inv_step [of "AUpdateResult r" info]) (simp_all add: assms)
  show "active_inv (snd (aj_markExpiredJobs now m info))"
    by (rule active_inv_step [of "AMarkExpired now m" info]) (simp_all add: assms)
  show "active_inv info'" if "aj_clearStatus i info = Inr info'"
    by (rule active_inv_step [of "AClearStatus i" info]) (simp_all add: assms that)
  show "info_ids (aj_updateStatus s info) = info_ids info"
    using info_ids_step [of "AUpdateStatus s" info] inv by simp
  show "info_ids (aj_updateResult r info) = info_ids info"
    using info_ids_step [of "AUpdateResult r" info] inv by simp
  show "info_ids info' = info_ids info" if "aj_clearStatus i info = Inr info'"
    using info_ids_step [of "AClearStatus i" info] inv that by simp
  show "info_ids (snd (aj_markExpiredJobs now m info)) = info_ids info"
    using info_ids_step [of "AMarkExpired now m" info] inv by simp
qed

lemma active_info_inv: "active_inv info \<Longrightarrow> info_inv info"
  by (simp add: active_inv_def)

lemma active_reach_inv: "active_reach info \<Longrightarrow> active_inv info"
proof (induction rule: active_reach.induct)
  case reach_empty
  show ?case by (simp add: active_inv_def info_inv_def)
next
  case (reach_step info p info')
  then show ?case by (auto intro: active_inv_step)
qed

text \<open>
  In every table the server can reach, a job is reported \<open>FINISHED\<close> only when its
  result is there, a job with a result is \<open>FINISHED\<close> or \<open>FAILED\<close>, and status and result
  carry the id they are filed under. A worker can therefore never make a job look finished
  by sending a status.
\<close>

theorem finished_means_result:
  assumes "active_reach info" and "map_find (<) i info = Some st"
  shows "(js_status (jstatus st) = FINISHED \<longrightarrow> have_result st) \<and>
    (have_result st \<longrightarrow> js_status (jstatus st) \<in> {FINISHED, FAILED}) \<and>
    js_id (jstatus st) = i \<and> res_id (jresult st) = i"
  using active_reach_inv [OF assms(1)] assms(2) by (auto simp: active_inv_def entry_ok_def)

lemma status_moves_step:
  assumes "active_step p info = Inr info'" and "info_inv info"
    and "map_find (<) i info = Some st" and "map_find (<) i info' = Some st'"
  shows "status_moves (js_status (jstatus st)) (js_status (jstatus st'))"
  using assms(3,4) unfolding active_step_find [OF assms(1,2)]
  by (cases p)
     (auto simp: status_moves_iff expire_def expires_def canUpdateStatusTo_def status_defs
       split: if_splits)

text \<open>
  C22: the state machine of a job. One operation on the table moves the status of a job
  that stays in it only along \<open>status_moves\<close>: never back to \<open>QUEUED\<close>; to \<open>FINISHED\<close> only by
  a result; out of \<open>FAILED\<close> and \<open>FINISHED\<close> never; and an \<open>EXPIRED\<close> job can still be rescued
  by a late result.
\<close>

theorem job_status_transitions:
  assumes "active_reach info" and "active_step p info = Inr info'"
    and "map_find (<) i info = Some st" and "map_find (<) i info' = Some st'"
  shows "status_moves (js_status (jstatus st)) (js_status (jstatus st')) \<and>
    (js_status (jstatus st') = QUEUED \<longrightarrow> js_status (jstatus st) = QUEUED) \<and>
    (js_status (jstatus st) \<in> {FAILED, FINISHED} \<longrightarrow>
       js_status (jstatus st') = js_status (jstatus st)) \<and>
    (js_status (jstatus st') = FINISHED \<and> js_status (jstatus st) \<noteq> FINISHED \<longrightarrow>
       (\<exists>r. p = AUpdateResult r \<and> res_id r = i \<and> jresult st' = r))"
proof -
  have inv: "info_inv info" using active_reach_inv [OF assms(1)] by (simp add: active_inv_def)
  have moves: "status_moves (js_status (jstatus st)) (js_status (jstatus st'))"
    using status_moves_step [OF assms(2) inv assms(3,4)] .
  have "\<exists>r. p = AUpdateResult r \<and> res_id r = i \<and> jresult st' = r"
    if "js_status (jstatus st') = FINISHED" "js_status (jstatus st) \<noteq> FINISHED"
    using that assms(3,4) unfolding active_step_find [OF assms(2) inv]
    by (cases p)
       (auto simp: expire_def expires_def canUpdateStatusTo_def status_defs split: if_splits)
  with moves show ?thesis by (auto simp: status_moves_iff)
qed

definition example_result :: JobResult where
  "example_result = JobResult_mk 7 XML ''<mesh/>''"

text \<open>A table with one job whose worker uploads its result after the job expired.\<close>

definition expired_info :: ActiveJobs where
  "expired_info = [(7, (JobState_mk example_worker 7 QUEUED)\<lparr>jstatus := JobStatus_mk 7 EXPIRED\<rparr>)]"

lemma expired_info_reach: "active_reach expired_info"
proof (rule reach_step [OF reach_step [OF reach_empty]])
  show "active_step (AAdd example_worker 7) [] = Inr [(7, JobState_mk example_worker 7 QUEUED)]"
    by (simp add: aj_add_def aj_haveUUID_def map_count_def)
  show "active_step (AMarkExpired 0 (SocketMonitor_default 0))
      [(7, JobState_mk example_worker 7 QUEUED)] = Inr expired_info"
    by (simp add: expired_info_def expires_def JobState_mk_def js_queued_def isUnresponsive_def
        SocketMonitor_default_def SocketMonitor_mk_def)
qed

definition rescued_info :: ActiveJobs where
  "rescued_info = [(7, (JobState_mk example_worker 7 FINISHED)
     \<lparr>jresult := example_result, have_result := True\<rparr>)]"

lemma rescue_step: "active_step (AUpdateResult example_result) expired_info = Inr rescued_info"
  by (simp add: aj_updateResult_def expired_info_def rescued_info_def example_result_def
      JobResult_mk_def JobState_mk_def JobStatus_mk_def equiv_by_def)

theorem job_status_transitions_witness:
  "active_reach expired_info \<and>
   active_step (AUpdateResult example_result) expired_info = Inr rescued_info \<and>
   status_moves EXPIRED FINISHED \<and> \<not> status_moves FAILED FINISHED"
proof (intro conjI)
  have "map_find (<) 7 expired_info = Some (snd (hd expired_info))"
    and "map_find (<) 7 rescued_info = Some (snd (hd rescued_info))"
    by (simp_all add: expired_info_def rescued_info_def equiv_by_def)
  from job_status_transitions [OF expired_info_reach rescue_step this]
  show "status_moves EXPIRED FINISHED"
    by (simp add: expired_info_def rescued_info_def JobState_mk_def)
  show "\<not> status_moves FAILED FINISHED" by (simp add: status_moves_iff)
qed (rule expired_info_reach rescue_step)+

theorem finished_means_result_witness:
  "active_reach rescued_info \<and> map_find (<) 7 rescued_info = Some (snd (hd rescued_info)) \<and>
   js_status (jstatus (snd (hd rescued_info))) = FINISHED \<and> have_result (snd (hd rescued_info))"
proof -
  have reach: "active_reach rescued_info"
    by (rule reach_step [OF expired_info_reach rescue_step])
  have found: "map_find (<) 7 rescued_info = Some (snd (hd rescued_info))"
    by (simp add: rescued_info_def equiv_by_def)
  have finished: "js_status (jstatus (snd (hd rescued_info))) = FINISHED"
    by (simp add: rescued_info_def JobState_mk_def)
  show ?thesis using finished_means_result [OF reach found] reach found finished by blast
qed

text \<open>
  \<open>markExpiredJobs\<close> expires exactly the queued and running jobs whose worker is
  unresponsive: those become \<open>EXPIRED\<close> and their new statuses are returned in id order;
  every other job, and everything else about these, is left as it was.
\<close>

theorem markExpiredJobs_spec:
  assumes "active_reach info"
  shows "map_find (<) i (snd (aj_markExpiredJobs now m info)) =
      map_option (\<lambda>st. if expires now m st then st\<lparr>jstatus := JobStatus_mk i EXPIRED\<rparr> else st)
        (map_find (<) i info) \<and>
    map js_id (fst (aj_markExpiredJobs now m info)) =
      map fst (filter (\<lambda>(i, st). expires now m st) info) \<and>
    sorted_wrt (<) (map js_id (fst (aj_markExpiredJobs now m info))) \<and>
    (\<forall>s\<in>set (fst (aj_markExpiredJobs now m info)). js_status s = EXPIRED)"
proof -
  have inv: "active_inv info" by (rule active_reach_inv [OF assms])
  then have sorted: "sorted_wrt (<) (map fst info)" by (simp add: active_inv_def info_inv_def)
  have id: "js_id (jstatus st) = i" if "(i, st) \<in> set info" for i st
    using inv that sorted
    by (auto simp: active_inv_def entry_ok_def uuid_order.map_find_map_of
        dest!: map_of_is_SomeI [rotated] simp: strict_sorted_iff)
  then have ids: "map js_id (fst (aj_markExpiredJobs now m info)) =
      map fst (filter (\<lambda>(i, st). expires now m st) info)"
    by (auto simp: aj_markExpiredJobs_eq expire_def)
  have "sorted_wrt (<) (map fst (filter (\<lambda>(i, st). expires now m st) info))"
    using sorted by (simp add: sorted_wrt_map sorted_wrt_filter)
  moreover have "map_find (<) i (snd (aj_markExpiredJobs now m info)) =
      map_option (\<lambda>st. if expires now m st then st\<lparr>jstatus := JobStatus_mk i EXPIRED\<rparr> else st)
        (map_find (<) i info)"
    using inv
    by (auto simp: aj_markExpired_find expire_def map_option_case active_inv_def entry_ok_def
        split: option.split)
  moreover have "\<forall>s\<in>set (fst (aj_markExpiredJobs now m info)). js_status s = EXPIRED"
    by (auto simp: aj_markExpiredJobs_eq expire_def)
  ultimately show ?thesis by (simp add: ids)
qed

theorem markExpiredJobs_spec_witness:
  "active_reach rescued_info \<and>
   fst (aj_markExpiredJobs 0 (SocketMonitor_default 0) rescued_info) = []"
proof -
  have reach: "active_reach rescued_info"
    by (rule reach_step [OF expired_info_reach rescue_step])
  show ?thesis
    using markExpiredJobs_spec [OF reach, of 7 0 "SocketMonitor_default 0"] reach
    by (simp add: rescued_info_def expires_def JobState_mk_def status_defs)
qed

end
