(* ===== verification/Remus_WorkerPool.thy ===== *)
theory Remus_WorkerPool
  imports Remus_SocketMonitor Remus_Requirements
begin

text \<open>
  \<open>remus/server/detail/WorkerPool.cxx\<close>: the workers that registered, once per kind of job
  they take, with the number of jobs each still wants. \<open>NumberOfDesiredJobs\<close> is an \<open>int\<close>
  in the code and an unbounded integer here: the two agree while no worker is owed \<open>2 ^ 31\<close> jobs
  or more, which a theorem that states the number exactly has as a hypothesis.
\<close>

record WorkerInfo =
  NumberOfDesiredJobs :: int
  wi_Reqs :: JobRequirements
  wi_Address :: SocketIdentity
  IsResponsive :: bool

definition WorkerInfo_mk :: "SocketIdentity \<Rightarrow> JobRequirements \<Rightarrow> WorkerInfo" where
  "WorkerInfo_mk address reqs =
     \<lparr>NumberOfDesiredJobs = 0, wi_Reqs = reqs, wi_Address = address, IsResponsive = True\<rparr>"

definition isWaitingForWork :: "WorkerInfo \<Rightarrow> bool" where
  "isWaitingForWork w \<longleftrightarrow> NumberOfDesiredJobs w > 0 \<and> IsResponsive w"

definition wi_addJob :: "WorkerInfo \<Rightarrow> WorkerInfo" where
  "wi_addJob w = w\<lparr>NumberOfDesiredJobs := NumberOfDesiredJobs w + 1\<rparr>"

definition takesJob :: "WorkerInfo \<Rightarrow> WorkerInfo" where
  "takesJob w = w\<lparr>NumberOfDesiredJobs := NumberOfDesiredJobs w - 1\<rparr>"

type_synonym WorkerPool = "WorkerInfo list"

definition is_worker :: "SocketIdentity \<Rightarrow> JobRequirements \<Rightarrow> WorkerInfo \<Rightarrow> bool" where
  "is_worker address reqs w \<longleftrightarrow>
     SocketIdentity_eq (wi_Address w) address \<and> JobRequirements_eq (wi_Reqs w) reqs"

definition wants_job :: "JobRequirements \<Rightarrow> WorkerInfo \<Rightarrow> bool" where
  "wants_job reqs w \<longleftrightarrow> JobRequirements_eq (wi_Reqs w) reqs \<and> isWaitingForWork w"

definition haveWorker :: "SocketIdentity \<Rightarrow> JobRequirements \<Rightarrow> WorkerPool \<Rightarrow> bool" where
  "haveWorker address reqs pool = list_ex (is_worker address reqs) pool"

definition addWorker :: "SocketIdentity \<Rightarrow> JobRequirements \<Rightarrow> WorkerPool \<Rightarrow> bool \<times> WorkerPool" where
  "addWorker workerIdentity reqs pool =
     (True, if \<not> haveWorker workerIdentity reqs pool
            then pool @ [WorkerInfo_mk workerIdentity reqs] else pool)"

definition wp_supportedIOTypes :: "WorkerPool \<Rightarrow> MeshIOTypeSet" where
  "wp_supportedIOTypes pool =
     MeshIOTypeSet_insert_range (map (req_meshTypes \<circ> wi_Reqs) (filter IsResponsive pool)) []"

definition waitingWorkerRequirements :: "MeshIOType \<Rightarrow> WorkerPool \<Rightarrow> JobRequirementsSet" where
  "waitingWorkerRequirements type pool =
     JobRequirementsSet_insert_range
       (map wi_Reqs
         (filter (\<lambda>w. MeshIOType_eq (req_meshTypes (wi_Reqs w)) type \<and> isWaitingForWork w) pool)) []"

definition haveWaitingWorker :: "JobRequirements \<Rightarrow> WorkerPool \<Rightarrow> bool" where
  "haveWaitingWorker reqs pool = list_ex (wants_job reqs) pool"

definition readyForWork :: "SocketIdentity \<Rightarrow> JobRequirements \<Rightarrow> WorkerPool \<Rightarrow> bool \<times> WorkerPool" where
  "readyForWork address reqs pool =
     (length (filter (is_worker address reqs) pool) > 0,
      map (\<lambda>w. if is_worker address reqs w then wi_addJob (w\<lparr>IsResponsive := True\<rparr>) else w) pool)"

text \<open>
  \<open>takeWorker\<close>: the loop stops one past the worker it found and steps back. Rotating moves
  the first entry of the pool, whichever worker was taken.
\<close>

definition takeWorker :: "JobRequirements \<Rightarrow> WorkerPool \<Rightarrow> SocketIdentity \<times> WorkerPool" where
  "takeWorker reqs pool =
     (let i = find_if (wants_job reqs) pool in
      if i < length pool
      then (wi_Address (pool ! i), rotate_left_one (pool[i := takesJob (pool ! i)]))
      else (SocketIdentity_default, pool))"

definition purgeDeadWorkers :: "ptime \<Rightarrow> SocketMonitor \<Rightarrow> WorkerPool \<Rightarrow> WorkerPool" where
  "purgeDeadWorkers now monitor pool =
     map (\<lambda>w. w\<lparr>IsResponsive := \<not> isUnresponsive now (wi_Address w) monitor\<rparr>)
       (filter (\<lambda>w. \<not> isDead (wi_Address w) monitor) pool)"

definition address_set :: "SocketIdentity list \<Rightarrow> SocketIdentity list" where
  "address_set as = set_insert_range SocketIdentity_less as []"

definition allWorkers :: "WorkerPool \<Rightarrow> SocketIdentity list" where
  "allWorkers pool = address_set (map wi_Address pool)"

definition allResponsiveWorkers :: "WorkerPool \<Rightarrow> SocketIdentity list" where
  "allResponsiveWorkers pool = address_set (map wi_Address (filter IsResponsive pool))"

definition allWorkersWantingWork :: "WorkerPool \<Rightarrow> SocketIdentity list" where
  "allWorkersWantingWork pool = address_set (map wi_Address (filter isWaitingForWork pool))"

section \<open>Credits\<close>

text \<open>
  A worker gets work because it asked for it. Whatever hands out work keeps, per worker
  and kind of job, a credit that only asking raises and that every job handed out uses up.
\<close>

locale work_credits =
  fixes inv :: "'s \<Rightarrow> bool"
    and credit :: "'k \<Rightarrow> 's \<Rightarrow> nat"
    and step :: "'o \<Rightarrow> 's \<Rightarrow> 's"
    and asked :: "'k \<Rightarrow> 'o \<Rightarrow> nat"
    and granted :: "'k \<Rightarrow> 'o \<Rightarrow> 's \<Rightarrow> nat"
  assumes inv_step: "inv s \<Longrightarrow> inv (step p s)"
    and credit_step: "inv s \<Longrightarrow> granted k p s + credit k (step p s) \<le> credit k s + asked k p"
begin

primrec total_granted :: "'k \<Rightarrow> 'o list \<Rightarrow> 's \<Rightarrow> nat" where
  "total_granted k [] s = 0"
| "total_granted k (p # ps) s = granted k p s + total_granted k ps (step p s)"

lemma inv_steps: "inv s \<Longrightarrow> inv (fold step ps s)"
  by (induction ps arbitrary: s) (auto simp: inv_step)

lemma granted_le_asked:
  "inv s \<Longrightarrow> total_granted k ps s + credit k (fold step ps s) \<le>
     credit k s + sum_list (map (asked k) ps)"
proof (induction ps arbitrary: s)
  case (Cons p ps)
  have "total_granted k ps (step p s) + credit k (fold step ps (step p s)) \<le>
      credit k (step p s) + sum_list (map (asked k) ps)"
    using Cons inv_step by blast
  with credit_step [OF Cons.prems, of k p] show ?case by simp
qed simp

end

datatype pool_op =
    PAdd SocketIdentity JobRequirements
  | PReady SocketIdentity JobRequirements
  | PTake JobRequirements
  | PPurge ptime SocketMonitor

fun pool_step :: "pool_op \<Rightarrow> WorkerPool \<Rightarrow> WorkerPool" where
  "pool_step (PAdd a r) pool = snd (addWorker a r pool)"
| "pool_step (PReady a r) pool = snd (readyForWork a r pool)"
| "pool_step (PTake r) pool = snd (takeWorker r pool)"
| "pool_step (PPurge now m) pool = purgeDeadWorkers now m pool"

text \<open>Each worker is registered once per kind of job and never wants a negative number.\<close>

definition pool_key_eq :: "WorkerInfo \<Rightarrow> WorkerInfo \<Rightarrow> bool" where
  "pool_key_eq v w \<longleftrightarrow> is_worker (wi_Address v) (wi_Reqs v) w"

definition pool_inv :: "WorkerPool \<Rightarrow> bool" where
  "pool_inv pool \<longleftrightarrow>
     (\<forall>w\<in>set pool. 0 \<le> NumberOfDesiredJobs w) \<and>
     sorted_wrt (\<lambda>v w. \<not> pool_key_eq v w) pool"

definition pool_credit :: "SocketIdentity \<times> JobRequirements \<Rightarrow> WorkerPool \<Rightarrow> nat" where
  "pool_credit k pool =
     (\<Sum>w\<leftarrow>pool. if is_worker (fst k) (snd k) w then nat (NumberOfDesiredJobs w) else 0)"

fun pool_asked :: "SocketIdentity \<times> JobRequirements \<Rightarrow> pool_op \<Rightarrow> nat" where
  "pool_asked k (PReady a r) =
     (if si_data a = si_data (fst k) \<and> JobRequirements_eq r (snd k) then 1 else 0)"
| "pool_asked k _ = 0"

fun pool_granted :: "SocketIdentity \<times> JobRequirements \<Rightarrow> pool_op \<Rightarrow> WorkerPool \<Rightarrow> nat" where
  "pool_granted k (PTake r) pool =
     (if haveWaitingWorker r pool \<and> si_data (fst (takeWorker r pool)) = si_data (fst k) \<and>
         JobRequirements_eq r (snd k) then 1 else 0)"
| "pool_granted k _ pool = 0"

lemma pool_key_eq_iff:
  "pool_key_eq v w \<longleftrightarrow>
     si_data (wi_Address v) = si_data (wi_Address w) \<and> JobRequirements_eq (wi_Reqs v) (wi_Reqs w)"
  by (auto simp: pool_key_eq_def is_worker_def JobRequirements_eq_sym)

lemma sorted_key_map:
  assumes "\<And>w. wi_Address (f w) = wi_Address w" and "\<And>w. wi_Reqs (f w) = wi_Reqs w"
  shows "sorted_wrt (\<lambda>v w. \<not> pool_key_eq v w) (map f pool) \<longleftrightarrow>
    sorted_wrt (\<lambda>v w. \<not> pool_key_eq v w) pool"
  by (simp add: sorted_wrt_map pool_key_eq_iff assms)

definition worker_key :: "WorkerInfo \<Rightarrow> string \<times> JobRequirements" where
  "worker_key w = (si_data (wi_Address w), wi_Reqs w)"

definition keys_distinct :: "(string \<times> JobRequirements) list \<Rightarrow> bool" where
  "keys_distinct ks \<longleftrightarrow>
     sorted_wrt (\<lambda>(a, r) (b, s). \<not> (a = b \<and> JobRequirements_eq r s)) ks"

lemma pool_inv_keys:
  "pool_inv pool \<longleftrightarrow>
     (\<forall>w\<in>set pool. 0 \<le> NumberOfDesiredJobs w) \<and> keys_distinct (map worker_key pool)"
  by (simp add: pool_inv_def keys_distinct_def sorted_wrt_map pool_key_eq_iff worker_key_def)

lemma keys_distinct_rotate: "keys_distinct ks \<Longrightarrow> keys_distinct (rotate1 ks)"
  by (cases ks) (auto simp: keys_distinct_def sorted_wrt_append JobRequirements_eq_sym)

lemma worker_key_simps [simp]:
  "worker_key (w\<lparr>NumberOfDesiredJobs := n\<rparr>) = worker_key w"
  "worker_key (w\<lparr>IsResponsive := b\<rparr>) = worker_key w"
  "worker_key (wi_addJob w) = worker_key w"
  "worker_key (takesJob w) = worker_key w"
  by (simp_all add: worker_key_def wi_addJob_def takesJob_def)

lemma is_worker_key:
  "is_worker a r w \<longleftrightarrow> fst (worker_key w) = si_data a \<and> JobRequirements_eq (snd (worker_key w)) r"
  by (simp add: is_worker_def worker_key_def)

lemma map_key_update: "i < length pool \<Longrightarrow>
  map worker_key (pool[i := takesJob (pool ! i)]) = map worker_key pool"
  by (metis list_update_id map_update worker_key_simps(4))

lemma pool_inv_add: "pool_inv pool \<Longrightarrow> pool_inv (snd (addWorker a r pool))"
  by (auto simp: addWorker_def haveWorker_def list_ex_iff pool_inv_keys keys_distinct_def
      sorted_wrt_append WorkerInfo_mk_def worker_key_def is_worker_def)

lemma map_key_ready: "map worker_key (snd (readyForWork a r pool)) = map worker_key pool"
  by (simp add: readyForWork_def)

lemma pool_inv_ready: "pool_inv pool \<Longrightarrow> pool_inv (snd (readyForWork a r pool))"
  by (auto simp: pool_inv_keys map_key_ready) (auto simp: readyForWork_def wi_addJob_def)

lemma set_take_update:
  assumes "i < length pool" and "w \<in> set (pool[i := takesJob (pool ! i)])"
  shows "w \<in> set pool \<or> w = takesJob (pool ! i)"
  using assms set_update_subset_insert [of pool i "takesJob (pool ! i)"] by blast

lemma pool_inv_take:
  assumes "pool_inv pool"
  shows "pool_inv (snd (takeWorker r pool))"
proof (cases "find_if (wants_job r) pool < length pool")
  case True
  let ?i = "find_if (wants_job r) pool"
  have "0 < NumberOfDesiredJobs (pool ! ?i)"
    using find_if_holds [OF True] by (simp add: wants_job_def isWaitingForWork_def)
  then have "\<forall>w\<in>set (pool[?i := takesJob (pool ! ?i)]). 0 \<le> NumberOfDesiredJobs w"
    using assms set_take_update [OF True] by (fastforce simp: pool_inv_def takesJob_def)
  moreover have "keys_distinct (rotate1 (map worker_key (pool[?i := takesJob (pool ! ?i)])))"
    using assms True by (simp add: pool_inv_keys map_key_update keys_distinct_rotate)
  ultimately show ?thesis
    using True by (simp add: takeWorker_def Let_def pool_inv_keys rotate_left_one_def rotate1_map)
qed (use assms in \<open>simp add: takeWorker_def Let_def\<close>)

lemma keys_distinct_filter: "keys_distinct (map worker_key pool) \<Longrightarrow>
  keys_distinct (map worker_key (filter P pool))"
  by (simp add: keys_distinct_def sorted_wrt_map sorted_wrt_filter)

lemma pool_inv_purge: "pool_inv pool \<Longrightarrow> pool_inv (purgeDeadWorkers now m pool)"
  by (auto simp: pool_inv_keys purgeDeadWorkers_def comp_def keys_distinct_filter)

lemma pool_inv_step: "pool_inv pool \<Longrightarrow> pool_inv (pool_step p pool)"
  by (cases p) (simp_all add: pool_inv_add pool_inv_ready pool_inv_take pool_inv_purge)

lemma pool_credit_simps [simp]:
  "pool_credit k [] = 0"
  "pool_credit k (w # pool) =
     (if is_worker (fst k) (snd k) w then nat (NumberOfDesiredJobs w) else 0) + pool_credit k pool"
  "pool_credit k (pool @ pool') = pool_credit k pool + pool_credit k pool'"
  by (simp_all add: pool_credit_def)

lemma credit_ready:
  assumes "pool_inv pool"
  shows "pool_credit k (snd (readyForWork a r pool)) \<le> pool_credit k pool + pool_asked k (PReady a r)"
  using assms
proof (induction pool)
  case (Cons w pool)
  have inv: "pool_inv pool" and n: "0 \<le> NumberOfDesiredJobs w"
    using Cons.prems by (auto simp: pool_inv_def)
  show ?case
  proof (cases "is_worker a r w")
    case True
    then have "\<not> is_worker a r v" if "v \<in> set pool" for v
      using that Cons.prems
      by (auto simp: pool_inv_def pool_key_eq_iff is_worker_def JobRequirements_eq_key)
    then have "snd (readyForWork a r pool) = pool"
      by (auto simp: readyForWork_def intro: map_idI)
    with True n show ?thesis
      by (auto simp: readyForWork_def is_worker_def wi_addJob_def
          JobRequirements_eq_key nat_add_distrib)
  next
    case False
    with Cons.IH [OF inv] show ?thesis by (auto simp: readyForWork_def)
  qed
qed (simp add: readyForWork_def)

lemma credit_rotate: "pool_credit k (rotate_left_one pool) = pool_credit k pool"
  by (cases pool) (simp_all add: rotate_left_one_def)

lemma credit_update:
  "i < length pool \<Longrightarrow> 0 < NumberOfDesiredJobs (pool ! i) \<Longrightarrow>
   pool_credit k (pool[i := takesJob (pool ! i)]) +
     (if is_worker (fst k) (snd k) (pool ! i) then 1 else 0) = pool_credit k pool"
proof (induction pool arbitrary: i)
  case (Cons w pool)
  then show ?case
    by (cases i) (auto simp: is_worker_def takesJob_def nat_diff_distrib)
qed simp

lemma takeWorker_found:
  "haveWaitingWorker r pool \<longleftrightarrow> find_if (wants_job r) pool < length pool"
  by (simp add: haveWaitingWorker_def find_if_less list_ex_iff)

lemma credit_take:
  "pool_granted k (PTake r) pool + pool_credit k (snd (takeWorker r pool)) = pool_credit k pool"
proof (cases "haveWaitingWorker r pool")
  case True
  let ?i = "find_if (wants_job r) pool"
  have i: "?i < length pool" using True by (simp add: takeWorker_found)
  have w: "JobRequirements_eq (wi_Reqs (pool ! ?i)) r" "0 < NumberOfDesiredJobs (pool ! ?i)"
    using find_if_holds [OF i] by (auto simp: wants_job_def isWaitingForWork_def)
  have "is_worker (fst k) (snd k) (pool ! ?i) \<longleftrightarrow>
      si_data (wi_Address (pool ! ?i)) = si_data (fst k) \<and> JobRequirements_eq r (snd k)"
    using w(1) by (simp add: is_worker_def JobRequirements_eq_key)
  with credit_update [OF i w(2), of k] True i show ?thesis
    by (simp add: takeWorker_def Let_def credit_rotate)
qed (simp add: takeWorker_def Let_def takeWorker_found)

lemma credit_purge: "pool_credit k (purgeDeadWorkers now m pool) \<le> pool_credit k pool"
  by (induction pool) (auto simp: purgeDeadWorkers_def is_worker_def)

interpretation pool: work_credits pool_inv pool_credit pool_step pool_asked pool_granted
proof
  fix pool :: WorkerPool and p k
  assume inv: "pool_inv pool"
  then show "pool_inv (pool_step p pool)" by (rule pool_inv_step)
  show "pool_granted k p pool + pool_credit k (pool_step p pool) \<le> pool_credit k pool + pool_asked k p"
  proof (cases p)
    case (PAdd a r)
    then show ?thesis by (auto simp: addWorker_def WorkerInfo_mk_def)
  next
    case (PReady a r)
    then show ?thesis using credit_ready [OF inv] by simp
  next
    case (PTake r)
    then show ?thesis using credit_take [of k r pool] by simp
  next
    case (PPurge now m)
    then show ?thesis using credit_purge by simp
  qed
qed

text \<open>
  C23: a worker is never given more work than it asked for. Over any sequence of pool
  operations, the number of times \<open>takeWorker\<close> hands out a worker for a kind of job, plus
  what the pool still owes it, is at most the number of times that worker said it was ready
  for that kind of job.
\<close>

theorem granted_at_most_asked:
  "pool.total_granted k ps [] + pool_credit k (fold pool_step ps []) \<le>
     sum_list (map (pool_asked k) ps) \<and>
   pool_inv (fold pool_step ps [])"
proof -
  have "pool_inv []" by (simp add: pool_inv_def)
  from pool.granted_le_asked [OF this] pool.inv_steps [OF this] show ?thesis by simp
qed

text \<open>
  \<open>takeWorker\<close> hands out the first waiting worker of the pool for the wanted
  requirements: it is responsive, wants at least one job and gets one fewer, every other
  entry stays, and nobody is handed out (the empty identity, the pool unchanged) exactly
  when \<open>haveWaitingWorker\<close> says there is none.
\<close>

theorem takeWorker_spec:
  assumes "takeWorker reqs pool = (a, pool')"
  shows "if haveWaitingWorker reqs pool
    then \<exists>ys w zs. pool = ys @ w # zs \<and> (\<forall>y\<in>set ys. \<not> wants_job reqs y) \<and> wants_job reqs w \<and>
           IsResponsive w \<and> 0 < NumberOfDesiredJobs w \<and> a = wi_Address w \<and>
           pool' = rotate1 (ys @ takesJob w # zs)
    else a = SocketIdentity_default \<and> pool' = pool"
proof (cases "haveWaitingWorker reqs pool")
  case True
  let ?i = "find_if (wants_job reqs) pool"
  have i: "?i < length pool" using True by (simp add: takeWorker_found)
  obtain ys w zs where ys: "ys = take ?i pool" and w: "w = pool ! ?i" and zs: "zs = drop (Suc ?i) pool"
    by blast
  have eq: "pool = ys @ w # zs"
    unfolding ys w zs using i by (rule id_take_nth_drop)
  have before: "\<forall>y\<in>set ys. \<not> wants_job reqs y"
    using find_if_first [of _ "wants_job reqs" pool] by (auto simp: ys in_set_conv_nth)
  have wants: "wants_job reqs w" unfolding w using find_if_holds [OF i] .
  have pool': "pool' = rotate1 (ys @ takesJob w # zs)" and a: "a = wi_Address w"
    using assms i unfolding ys w zs
    by (auto simp: takeWorker_def Let_def rotate_left_one_def upd_conv_take_nth_drop)
  have "IsResponsive w \<and> 0 < NumberOfDesiredJobs w"
    using wants by (simp add: wants_job_def isWaitingForWork_def)
  with True eq before wants pool' a show ?thesis by (simp, metis)
qed (use assms in \<open>simp add: takeWorker_def Let_def takeWorker_found\<close>)

definition second_worker :: SocketIdentity where
  "second_worker = \<lparr>si_data = ''worker-2'', si_name = ''worker-2''\<rparr>"

definition third_worker :: SocketIdentity where
  "third_worker = \<lparr>si_data = ''worker-3'', si_name = ''worker-3''\<rparr>"

text \<open>One worker of another kind in front of two that want the same kind of job.\<close>

definition example_pool :: WorkerPool where
  "example_pool =
     [WorkerInfo_mk example_worker JobRequirements_default,
      (WorkerInfo_mk second_worker example_reqs)\<lparr>NumberOfDesiredJobs := 2\<rparr>,
      (WorkerInfo_mk third_worker example_reqs)\<lparr>NumberOfDesiredJobs := 1\<rparr>]"

lemma example_pool_take:
  "takeWorker example_reqs example_pool =
     (second_worker,
      [(WorkerInfo_mk second_worker example_reqs)\<lparr>NumberOfDesiredJobs := 1\<rparr>,
       (WorkerInfo_mk third_worker example_reqs)\<lparr>NumberOfDesiredJobs := 1\<rparr>,
       WorkerInfo_mk example_worker JobRequirements_default])"
  by (simp add: takeWorker_def example_pool_def wants_job_def isWaitingForWork_def WorkerInfo_mk_def
      takesJob_def rotate_left_one_def Let_def)

theorem takeWorker_spec_witness:
  "haveWaitingWorker example_reqs example_pool \<and>
   (\<exists>ys w zs. example_pool = ys @ w # zs \<and> wants_job example_reqs w \<and> wi_Address w = second_worker)"
proof -
  have waiting: "haveWaitingWorker example_reqs example_pool"
    by (simp add: haveWaitingWorker_def example_pool_def wants_job_def isWaitingForWork_def
        WorkerInfo_mk_def)
  with takeWorker_spec [OF example_pool_take] show ?thesis by (simp, metis)
qed

text \<open>
  Taking a worker does not move it to the back of the pool; what moves is the pool's
  first entry. A worker that stood second is first afterwards, so that when it still wants
  a job it is handed out again before the workers behind it.
\<close>

theorem takeWorker_not_round_robin:
  assumes "\<not> wants_job reqs v" and "wants_job reqs w" and "1 < NumberOfDesiredJobs w"
  shows "fst (takeWorker reqs (v # w # pool)) = wi_Address w \<and>
    snd (takeWorker reqs (v # w # pool)) = takesJob w # pool @ [v] \<and>
    fst (takeWorker reqs (snd (takeWorker reqs (v # w # pool)))) = wi_Address w"
  using assms
  by (simp add: takeWorker_def Let_def rotate_left_one_def)
     (simp add: wants_job_def isWaitingForWork_def takesJob_def)

theorem takeWorker_not_round_robin_witness:
  "fst (takeWorker example_reqs (snd (takeWorker example_reqs example_pool))) = second_worker"
proof -
  have pool: "example_pool = [example_pool ! 0, example_pool ! 1, example_pool ! 2]"
    by (simp add: example_pool_def)
  have "\<not> wants_job example_reqs (example_pool ! 0)" "wants_job example_reqs (example_pool ! 1)"
    "1 < NumberOfDesiredJobs (example_pool ! 1)" "wi_Address (example_pool ! 1) = second_worker"
    by (simp_all add: example_pool_def wants_job_def isWaitingForWork_def WorkerInfo_mk_def)
  with takeWorker_not_round_robin [of example_reqs "example_pool ! 0" "example_pool ! 1"
      "[example_pool ! 2]"] show ?thesis
    by (metis pool)
qed

text \<open>
  \<open>purgeDeadWorkers\<close> keeps exactly the workers that are not dead, in their order and
  with their credits, and marks each as responsive as the monitor says; the workers offered
  to clients afterwards are alive and responsive.
\<close>

theorem purgeDeadWorkers_spec:
  "map wi_Address (purgeDeadWorkers now m pool) =
     filter (\<lambda>a. \<not> isDead a m) (map wi_Address pool) \<and>
   map NumberOfDesiredJobs (purgeDeadWorkers now m pool) =
     map NumberOfDesiredJobs (filter (\<lambda>w. \<not> isDead (wi_Address w) m) pool) \<and>
   set (allResponsiveWorkers (purgeDeadWorkers now m pool)) \<subseteq>
     {a \<in> wi_Address ` set pool. \<not> isDead a m \<and> \<not> isUnresponsive now a m} \<and>
   (pool_inv pool \<longrightarrow> pool_inv (purgeDeadWorkers now m pool))"
  using identity_order.set_insert_range_subset
    [of "map wi_Address (filter IsResponsive (purgeDeadWorkers now m pool))" "[]"]
  by (auto simp: purgeDeadWorkers_def filter_map comp_def allResponsiveWorkers_def address_set_def
      pool_inv_purge [unfolded purgeDeadWorkers_def])

theorem purgeDeadWorkers_spec_witness:
  "pool_inv example_pool \<and> purgeDeadWorkers 0 (SocketMonitor_default 0) example_pool = []"
proof -
  have "pool_inv example_pool"
    by (simp add: pool_inv_def example_pool_def WorkerInfo_mk_def pool_key_eq_iff
        example_worker_def second_worker_def third_worker_def)
  then show ?thesis
    using purgeDeadWorkers_spec [of 0 "SocketMonitor_default 0" example_pool]
    by (simp add: isDead_find SocketMonitor_default_def SocketMonitor_mk_def)
qed

end
