(* ===== verification/Remus_Factory.thy ===== *)
theory Remus_Factory
  imports Remus_Requirements
begin

text \<open>
  The worker factories: \<open>remus/server/WorkerFactoryBase\<close>, \<open>WorkerFactory.cxx\<close>,
  \<open>ThreadWorkerFactory.cxx\<close>, \<open>FactoryWorkerSpecification.cxx\<close>, \<open>detail/WorkerFinder.cxx\<close> and
  the way \<open>common/ExecuteProcess.cxx\<close> builds a command and its environment.

  \<open>WorkerFactoryBase\<close> is an abstract class: its virtual methods are the record
  \<open>factory_ops\<close>, its contract the locale \<open>worker_factory\<close>, interpreted for both factories.
  Which started processes are still alive, what a directory holds and what the parser
  makes of a file are arguments.
\<close>

datatype FactoryDeletionBehavior = LiveOnFactoryDeletion | KillOnFactoryDeletion

definition unsigned_int :: "nat \<Rightarrow> nat" where
  "unsigned_int n = n mod 2 ^ 32"

record 'f factory_ops =
  fo_supportedIOTypes :: "'f \<Rightarrow> MeshIOTypeSet"
  fo_workerRequirements :: "MeshIOType \<Rightarrow> 'f \<Rightarrow> JobRequirementsSet"
  fo_haveSupport :: "JobRequirements \<Rightarrow> 'f \<Rightarrow> bool"
  fo_createWorker :: "JobRequirements \<Rightarrow> FactoryDeletionBehavior \<Rightarrow> 'f \<Rightarrow> bool \<times> 'f"
  fo_updateWorkerCount :: "'f \<Rightarrow> 'f"
  fo_setMaxWorkerCount :: "nat \<Rightarrow> 'f \<Rightarrow> 'f"
  fo_maxWorkerCount :: "'f \<Rightarrow> nat"
  fo_currentWorkerCount :: "'f \<Rightarrow> nat"

section \<open>FactoryWorkerSpecification and WorkerFinder\<close>

record FactoryWorkerSpecification =
  spec_Requirements :: JobRequirements
  spec_ExecutionPath :: string
  spec_ExtraCommandLineArguments :: "string list"
  spec_EnvironmentVariables :: "(string \<times> string) list"
  spec_isValid :: bool

definition FactoryWorkerSpecification_default :: FactoryWorkerSpecification where
  "FactoryWorkerSpecification_default =
     \<lparr>spec_Requirements = JobRequirements_default, spec_ExecutionPath = '''',
      spec_ExtraCommandLineArguments = [], spec_EnvironmentVariables = [], spec_isValid = False\<rparr>"

text \<open>The file system: which paths are regular files, and their canonical form.\<close>

record file_system =
  fs_is_regular_file :: "string \<Rightarrow> bool"
  fs_canonical :: "string \<Rightarrow> string"

definition FactoryWorkerSpecification_mk ::
  "file_system \<Rightarrow> string \<Rightarrow> string list \<Rightarrow> (string \<times> string) list \<Rightarrow> JobRequirements \<Rightarrow>
   FactoryWorkerSpecification" where
  "FactoryWorkerSpecification_mk fs exec_path extra_args environment r =
     (let spec = \<lparr>spec_Requirements = r, spec_ExecutionPath = '''',
                  spec_ExtraCommandLineArguments = extra_args,
                  spec_EnvironmentVariables = environment, spec_isValid = False\<rparr> in
      if fs_is_regular_file fs exec_path
      then spec\<lparr>spec_ExecutionPath := fs_canonical fs exec_path, spec_isValid := True\<rparr>
      else spec)"

definition to_upper :: "string \<Rightarrow> string" where
  "to_upper s =
     map (\<lambda>c. if (97::nat) \<le> of_char c \<and> (of_char c :: nat) \<le> 122
              then char_of (of_char c - 32 :: nat) else c) s"

record dir_entry =
  de_path :: string
  de_regular :: bool
  de_extension :: "string option"

text \<open>\<open>WorkerFinder\<close>: \<open>None\<close> for a path that is no directory.\<close>

definition parseFile ::
  "(string \<Rightarrow> FactoryWorkerSpecification) \<Rightarrow> string \<Rightarrow> FactoryWorkerSpecification list \<Rightarrow>
   FactoryWorkerSpecification list" where
  "parseFile parser file found =
     (let spec = parser file in if spec_isValid spec then found @ [spec] else found)"

definition parseDirectory ::
  "(string \<Rightarrow> FactoryWorkerSpecification) \<Rightarrow> string \<Rightarrow> dir_entry list option \<Rightarrow>
   FactoryWorkerSpecification list \<Rightarrow> FactoryWorkerSpecification list" where
  "parseDirectory parser fileExt dir found =
     (case dir of
        None \<Rightarrow> found
      | Some entries \<Rightarrow>
          fold (\<lambda>e acc.
            if de_regular e then
              (case de_extension e of
                 None \<Rightarrow> acc
               | Some ext \<Rightarrow> if to_upper ext = fileExt then parseFile parser (de_path e) acc else acc)
            else acc) entries found)"

definition WorkerFinder ::
  "(string \<Rightarrow> FactoryWorkerSpecification) \<Rightarrow> dir_entry list option \<Rightarrow> string \<Rightarrow>
   FactoryWorkerSpecification list" where
  "WorkerFinder parser dir ext = parseDirectory parser (to_upper ext) dir []"

section \<open>ExecuteProcess\<close>

text \<open>
  The environment of the server process around \<open>execute\<close>: every requested variable is set,
  the child is started with that environment, and the values that were there and not empty
  are put back. The result is the environment the child sees and the one left behind.
\<close>

definition execute_environment ::
  "(string \<times> string) list \<Rightarrow> (string \<rightharpoonup> string) \<Rightarrow> (string \<rightharpoonup> string) \<times> (string \<rightharpoonup> string)" where
  "execute_environment requested env =
     (let (tmp, child) =
        fold (\<lambda>(k, v) (tmp, env).
          (case env k of
             Some old \<Rightarrow> if old \<noteq> '''' then map_assign string_less k old tmp else tmp
           | None \<Rightarrow> tmp,
           env(k \<mapsto> v))) requested ([], env) in
      (child, fold (\<lambda>(k, v) env. env(k \<mapsto> v)) tmp child))"

section \<open>WorkerFactory\<close>

record RunningProcess =
  rp_handle :: nat
  rp_command :: string
  rp_arguments :: "string list"
  rp_environment :: "(string \<times> string) list"
  rp_lifespan :: FactoryDeletionBehavior

record WorkerFactory =
  MaxWorkers :: nat
  WorkerEndpoint :: string
  GlobalCommandLineArguments :: "string list"
  WorkerExtension :: string
  PossibleWorkers :: "FactoryWorkerSpecification list"
  CurrentProcesses :: "RunningProcess list"
  wf_next_handle :: nat

definition WorkerFactory_mk ::
  "string \<Rightarrow> (string \<Rightarrow> FactoryWorkerSpecification) \<Rightarrow> dir_entry list option \<Rightarrow> WorkerFactory" where
  "WorkerFactory_mk ext parser cwd =
     \<lparr>MaxWorkers = 1, WorkerEndpoint = '''', GlobalCommandLineArguments = [],
      WorkerExtension = ext, PossibleWorkers = WorkerFinder parser cwd ext,
      CurrentProcesses = [], wf_next_handle = 0\<rparr>"

definition portForWorkersToUse :: "string \<Rightarrow> WorkerFactory \<Rightarrow> WorkerFactory" where
  "portForWorkersToUse endpoint f = f\<lparr>WorkerEndpoint := endpoint\<rparr>"

definition addCommandLineArgument :: "string \<Rightarrow> WorkerFactory \<Rightarrow> WorkerFactory" where
  "addCommandLineArgument argument f =
     f\<lparr>GlobalCommandLineArguments := GlobalCommandLineArguments f @ [argument]\<rparr>"

definition addWorkerSearchDirectory ::
  "(string \<Rightarrow> FactoryWorkerSpecification) \<Rightarrow> dir_entry list option \<Rightarrow> WorkerFactory \<Rightarrow>
   WorkerFactory" where
  "addWorkerSearchDirectory parser dir f =
     f\<lparr>PossibleWorkers := PossibleWorkers f @ WorkerFinder parser dir (WorkerExtension f)\<rparr>"

definition find_worker_path ::
  "JobRequirements \<Rightarrow> FactoryWorkerSpecification list \<Rightarrow> FactoryWorkerSpecification option" where
  "find_worker_path reqs container =
     (let result = find_if (\<lambda>info. JobRequirements_eq (spec_Requirements info) reqs) container in
      if result \<noteq> length container then Some (container ! result) else None)"

definition wf_supportedIOTypes :: "WorkerFactory \<Rightarrow> MeshIOTypeSet" where
  "wf_supportedIOTypes f =
     MeshIOTypeSet_insert_range (map (req_meshTypes \<circ> spec_Requirements) (PossibleWorkers f)) []"

definition wf_workerRequirements :: "MeshIOType \<Rightarrow> WorkerFactory \<Rightarrow> JobRequirementsSet" where
  "wf_workerRequirements type f =
     JobRequirementsSet_insert_range
       (map spec_Requirements
         (filter (\<lambda>i. MeshIOType_eq (req_meshTypes (spec_Requirements i)) type) (PossibleWorkers f))) []"

definition wf_haveSupport :: "JobRequirements \<Rightarrow> WorkerFactory \<Rightarrow> bool" where
  "wf_haveSupport reqs f \<longleftrightarrow> find_worker_path reqs (PossibleWorkers f) \<noteq> None"

definition wf_updateWorkerCount :: "(nat \<Rightarrow> bool) \<Rightarrow> WorkerFactory \<Rightarrow> WorkerFactory" where
  "wf_updateWorkerCount alive f =
     f\<lparr>CurrentProcesses := filter (\<lambda>p. alive (rp_handle p)) (CurrentProcesses f)\<rparr>"

definition wf_currentWorkerCount :: "WorkerFactory \<Rightarrow> nat" where
  "wf_currentWorkerCount f = unsigned_int (length (CurrentProcesses f))"

definition wf_addWorker ::
  "FactoryWorkerSpecification \<Rightarrow> FactoryDeletionBehavior \<Rightarrow> WorkerFactory \<Rightarrow> bool \<times> WorkerFactory" where
  "wf_addWorker spec lifespan f =
     (if lifespan = LiveOnFactoryDeletion then (False, f)
      else
        let arguments = (if WorkerEndpoint f \<noteq> '''' then [WorkerEndpoint f] else []) @
              GlobalCommandLineArguments f @ spec_ExtraCommandLineArguments spec;
            ep = \<lparr>rp_handle = wf_next_handle f, rp_command = spec_ExecutionPath spec,
                  rp_arguments = arguments, rp_environment = spec_EnvironmentVariables spec,
                  rp_lifespan = lifespan\<rparr> in
        (True, f\<lparr>CurrentProcesses := CurrentProcesses f @ [ep], wf_next_handle := wf_next_handle f + 1\<rparr>))"

definition wf_createWorker ::
  "(nat \<Rightarrow> bool) \<Rightarrow> JobRequirements \<Rightarrow> FactoryDeletionBehavior \<Rightarrow> WorkerFactory \<Rightarrow>
   bool \<times> WorkerFactory" where
  "wf_createWorker alive reqs lifespan f =
     (case find_worker_path reqs (PossibleWorkers f) of
        Some spec \<Rightarrow>
          let f1 = wf_updateWorkerCount alive f in
          if wf_currentWorkerCount f1 < MaxWorkers f1 then wf_addWorker spec lifespan f1
          else (False, f1)
      | None \<Rightarrow> (False, f))"

text \<open>The handles the destructor kills.\<close>

definition wf_destroy :: "(nat \<Rightarrow> bool) \<Rightarrow> WorkerFactory \<Rightarrow> nat list" where
  "wf_destroy alive f =
     map rp_handle
       (filter (\<lambda>p. rp_lifespan p = KillOnFactoryDeletion \<and> alive (rp_handle p)) (CurrentProcesses f))"

definition WorkerFactory_ops :: "(nat \<Rightarrow> bool) \<Rightarrow> WorkerFactory factory_ops" where
  "WorkerFactory_ops alive =
     \<lparr>fo_supportedIOTypes = wf_supportedIOTypes, fo_workerRequirements = wf_workerRequirements,
      fo_haveSupport = wf_haveSupport, fo_createWorker = wf_createWorker alive,
      fo_updateWorkerCount = wf_updateWorkerCount alive,
      fo_setMaxWorkerCount = (\<lambda>n f. f\<lparr>MaxWorkers := unsigned_int n\<rparr>),
      fo_maxWorkerCount = MaxWorkers, fo_currentWorkerCount = wf_currentWorkerCount\<rparr>"

section \<open>ThreadWorkerFactory\<close>

text \<open>
  \<open>WorkerThreadTypes\<close> maps requirements to a functor, here a name. A thread that was started
  has a key in \<open>Futures\<close> until a later \<open>run_task\<close> harvests it; \<open>tf_started\<close> records what each
  was started with.
\<close>

record ThreadWorkerFactory =
  tf_WorkerEndpoint :: string
  WorkerThreadTypes :: "(JobRequirements \<times> string) list"
  PoolSize :: nat
  Futures :: "(nat \<times> bool) list"
  tf_key :: nat
  tf_started :: "(nat \<times> string \<times> JobRequirements \<times> string) list"

definition ThreadWorkerFactory_mk :: ThreadWorkerFactory where
  "ThreadWorkerFactory_mk = \<lparr>tf_WorkerEndpoint = '''', WorkerThreadTypes = [], PoolSize = 1,
     Futures = [], tf_key = 0, tf_started = []\<rparr>"

definition number_of_active_threads :: "ThreadWorkerFactory \<Rightarrow> nat" where
  "number_of_active_threads f = length (filter (\<lambda>(k, completed). \<not> completed) (Futures f))"

definition run_task ::
  "string \<times> JobRequirements \<times> string \<Rightarrow> ThreadWorkerFactory \<Rightarrow> bool \<times> ThreadWorkerFactory" where
  "run_task task f =
     (let running = filter (\<lambda>(k, completed). \<not> completed) (Futures f) in
      if length running \<ge> PoolSize f then (False, f\<lparr>Futures := running\<rparr>)
      else (True, f\<lparr>Futures := map_assign (<) (tf_key f) False running, tf_key := tf_key f + 1,
                    tf_started := tf_started f @ [(tf_key f, task)]\<rparr>))"

text \<open>The end of \<open>wrap_task\<close>: the thread's future is marked as completed.\<close>

definition complete_task :: "nat \<Rightarrow> ThreadWorkerFactory \<Rightarrow> ThreadWorkerFactory" where
  "complete_task k f = f\<lparr>Futures := map_assign (<) k True (Futures f)\<rparr>"

definition registerWorkerType ::
  "JobRequirements \<Rightarrow> string \<Rightarrow> ThreadWorkerFactory \<Rightarrow> bool \<times> ThreadWorkerFactory" where
  "registerWorkerType requirements worker f =
     (True, f\<lparr>WorkerThreadTypes :=
                map_assign JobRequirements_less requirements worker (WorkerThreadTypes f)\<rparr>)"

definition tf_supportedIOTypes :: "ThreadWorkerFactory \<Rightarrow> MeshIOTypeSet" where
  "tf_supportedIOTypes f =
     MeshIOTypeSet_insert_range (map (req_meshTypes \<circ> fst) (WorkerThreadTypes f)) []"

definition tf_workerRequirements :: "MeshIOType \<Rightarrow> ThreadWorkerFactory \<Rightarrow> JobRequirementsSet" where
  "tf_workerRequirements type f =
     JobRequirementsSet_insert_range
       (map fst (filter (\<lambda>c. MeshIOType_eq (req_meshTypes (fst c)) type) (WorkerThreadTypes f))) []"

definition tf_haveSupport :: "JobRequirements \<Rightarrow> ThreadWorkerFactory \<Rightarrow> bool" where
  "tf_haveSupport reqs f = list_ex (\<lambda>worker. JobRequirements_eq reqs (fst worker)) (WorkerThreadTypes f)"

definition tf_setMaxWorkerCount :: "nat \<Rightarrow> ThreadWorkerFactory \<Rightarrow> ThreadWorkerFactory" where
  "tf_setMaxWorkerCount n f = f\<lparr>PoolSize := unsigned_int n\<rparr>"

definition tf_maxWorkerCount :: "ThreadWorkerFactory \<Rightarrow> nat" where
  "tf_maxWorkerCount f = unsigned_int (PoolSize f)"

definition tf_currentWorkerCount :: "ThreadWorkerFactory \<Rightarrow> nat" where
  "tf_currentWorkerCount f = unsigned_int (number_of_active_threads f)"

definition launchWorkerThread ::
  "JobRequirements \<Rightarrow> ThreadWorkerFactory \<Rightarrow> bool \<times> ThreadWorkerFactory" where
  "launchWorkerThread requirements f =
     (if tf_currentWorkerCount f \<ge> tf_maxWorkerCount f then (False, f)
      else case map_find JobRequirements_less requirements (WorkerThreadTypes f) of
        None \<Rightarrow> (False, f)
      | Some worker \<Rightarrow> run_task (worker, requirements, tf_WorkerEndpoint f) f)"

definition tf_createWorker ::
  "JobRequirements \<Rightarrow> FactoryDeletionBehavior \<Rightarrow> ThreadWorkerFactory \<Rightarrow> bool \<times> ThreadWorkerFactory" where
  "tf_createWorker reqs lifespan f =
     (if lifespan = LiveOnFactoryDeletion then (False, f) else launchWorkerThread reqs f)"

definition ThreadWorkerFactory_ops :: "ThreadWorkerFactory factory_ops" where
  "ThreadWorkerFactory_ops =
     \<lparr>fo_supportedIOTypes = tf_supportedIOTypes, fo_workerRequirements = tf_workerRequirements,
      fo_haveSupport = tf_haveSupport, fo_createWorker = tf_createWorker,
      fo_updateWorkerCount = (\<lambda>f. f), fo_setMaxWorkerCount = tf_setMaxWorkerCount,
      fo_maxWorkerCount = tf_maxWorkerCount, fo_currentWorkerCount = tf_currentWorkerCount\<rparr>"

section \<open>The contract of a factory\<close>

text \<open>
  \<open>env\<close> is what happens outside between two requests (a worker thread ends), and \<open>ops\<close> may
  depend on what the outside looks like (which processes are alive).
\<close>

locale worker_factory =
  fixes ok :: "'f \<Rightarrow> bool"
    and env :: "'e \<Rightarrow> 'f \<Rightarrow> 'f"
    and ops :: "'e \<Rightarrow> 'f factory_ops"
    and max_count :: "'f \<Rightarrow> nat"
    and cur_count :: "'f \<Rightarrow> nat"
    and support :: "JobRequirements \<Rightarrow> 'f \<Rightarrow> bool"
  assumes accessors: "fo_maxWorkerCount (ops e) = max_count"
      "fo_currentWorkerCount (ops e) = cur_count" "fo_haveSupport (ops e) = support"
    and env_keeps: "ok f \<Longrightarrow> ok (env e f)" "max_count (env e f) = max_count f"
      "support r (env e f) = support r f" "ok f \<Longrightarrow> cur_count (env e f) \<le> cur_count f"
    and create_keeps: "ok f \<Longrightarrow> fo_createWorker (ops e) r l f = (b, f') \<Longrightarrow>
      ok f' \<and> max_count f' = max_count f \<and> (\<forall>r. support r f' = support r f)"
    and create_started: "ok f \<Longrightarrow> fo_createWorker (ops e) r l f = (True, f') \<Longrightarrow>
      support r f \<and> l = KillOnFactoryDeletion \<and> cur_count f' \<le> max_count f'"
    and create_refused: "ok f \<Longrightarrow> fo_createWorker (ops e) r l f = (False, f') \<Longrightarrow>
      cur_count f' \<le> cur_count f"
begin

primrec serve ::
  "('e \<times> JobRequirements \<times> FactoryDeletionBehavior) list \<Rightarrow> 'f \<Rightarrow> bool list \<times> 'f" where
  "serve [] f = ([], f)"
| "serve (q # qs) f =
     (let (e, r, l) = q; (b, f1) = fo_createWorker (ops e) r l (env e f); (bs, f2) = serve qs f1 in
      (b # bs, f2))"

lemma serve_bounded:
  assumes "ok f" and "cur_count f \<le> max_count f"
  shows "ok (snd (serve qs f)) \<and> max_count (snd (serve qs f)) = max_count f \<and>
    cur_count (snd (serve qs f)) \<le> max_count f \<and>
    list_all2 (\<lambda>b (e, r, l). b \<longrightarrow> support r f \<and> l = KillOnFactoryDeletion) (fst (serve qs f)) qs"
  using assms
proof (induction qs arbitrary: f)
  case (Cons q qs)
  obtain e r l where q: "q = (e, r, l)" by (cases q)
  obtain b f1 where c: "fo_createWorker (ops e) r l (env e f) = (b, f1)" by force
  have ok: "ok (env e f)" using Cons.prems(1) by (rule env_keeps)
  note keeps = create_keeps [OF ok c]
  have env: "max_count (env e f) = max_count f" "\<And>r. support r (env e f) = support r f"
    "cur_count (env e f) \<le> cur_count f"
    using env_keeps Cons.prems(1) by auto
  have "cur_count f1 \<le> max_count f1"
    using create_started [OF ok, of e r l f1] create_refused [OF ok, of e r l f1] c keeps env Cons.prems
    by (cases b) auto
  with Cons.IH [of f1] keeps env Cons.prems create_started [OF ok, of e r l f1] c q show ?case
    by (auto simp: Let_def split: prod.splits)
qed simp

end

lemma find_worker_path_iff:
  "find_worker_path reqs c \<noteq> None \<longleftrightarrow> (\<exists>i\<in>set c. JobRequirements_eq (spec_Requirements i) reqs)"
  "find_worker_path reqs c = Some spec \<Longrightarrow>
     spec \<in> set c \<and> JobRequirements_eq (spec_Requirements spec) reqs"
proof -
  let ?p = "\<lambda>info. JobRequirements_eq (spec_Requirements info) reqs"
  have le: "find_if ?p c \<noteq> length c \<longleftrightarrow> find_if ?p c < length c"
    using find_if_le [of ?p c] by auto
  show "find_worker_path reqs c \<noteq> None \<longleftrightarrow> (\<exists>i\<in>set c. JobRequirements_eq (spec_Requirements i) reqs)"
    by (auto simp: find_worker_path_def Let_def find_if_end)
  show "find_worker_path reqs c = Some spec \<Longrightarrow>
     spec \<in> set c \<and> JobRequirements_eq (spec_Requirements spec) reqs"
    using find_if_holds [of ?p c] by (auto simp: find_worker_path_def Let_def le split: if_splits)
qed

definition wf_ok :: "WorkerFactory \<Rightarrow> bool" where
  "wf_ok f \<longleftrightarrow> length (CurrentProcesses f) < 2 ^ 32 \<and> MaxWorkers f < 2 ^ 32"

lemma wf_update_simps [simp]:
  "PossibleWorkers (wf_updateWorkerCount alive f) = PossibleWorkers f"
  "MaxWorkers (wf_updateWorkerCount alive f) = MaxWorkers f"
  "WorkerEndpoint (wf_updateWorkerCount alive f) = WorkerEndpoint f"
  "GlobalCommandLineArguments (wf_updateWorkerCount alive f) = GlobalCommandLineArguments f"
  "wf_next_handle (wf_updateWorkerCount alive f) = wf_next_handle f"
  by (simp_all add: wf_updateWorkerCount_def)

lemma wf_ok_update: "wf_ok f \<Longrightarrow> wf_ok (wf_updateWorkerCount alive f)"
  by (auto simp: wf_ok_def wf_updateWorkerCount_def intro: le_less_trans [OF length_filter_le])

lemma wf_count: "wf_ok f \<Longrightarrow> wf_currentWorkerCount f = length (CurrentProcesses f)"
  by (simp add: wf_currentWorkerCount_def unsigned_int_def wf_ok_def)

lemma wf_count_update:
  "wf_ok f \<Longrightarrow> wf_currentWorkerCount (wf_updateWorkerCount alive f) \<le> wf_currentWorkerCount f"
  using length_filter_le [of "\<lambda>p. alive (rp_handle p)" "CurrentProcesses f"]
  by (simp add: wf_count wf_ok_update) (simp add: wf_updateWorkerCount_def)

interpretation process_factory: worker_factory wf_ok "\<lambda>alive f. f" WorkerFactory_ops
  MaxWorkers wf_currentWorkerCount wf_haveSupport
proof
  fix f f' :: WorkerFactory and e r l b
  assume ok: "wf_ok f"
  note ok' = wf_ok_update [OF ok, of e] and len = wf_count [OF wf_ok_update [OF ok, of e]]
  show "wf_ok f' \<and> MaxWorkers f' = MaxWorkers f \<and> (\<forall>r. wf_haveSupport r f' = wf_haveSupport r f)"
    if "fo_createWorker (WorkerFactory_ops e) r l f = (b, f')"
    using that ok ok' len
    by (auto simp: WorkerFactory_ops_def wf_createWorker_def wf_addWorker_def Let_def wf_ok_def
        wf_haveSupport_def split: option.splits if_splits)
  show "wf_haveSupport r f \<and> l = KillOnFactoryDeletion \<and> wf_currentWorkerCount f' \<le> MaxWorkers f'"
    if "fo_createWorker (WorkerFactory_ops e) r l f = (True, f')"
    using that ok' len
    by (cases l)
       (auto simp: WorkerFactory_ops_def wf_createWorker_def wf_addWorker_def Let_def wf_ok_def
        wf_haveSupport_def wf_currentWorkerCount_def unsigned_int_def split: option.splits if_splits)
  show "wf_currentWorkerCount f' \<le> wf_currentWorkerCount f"
    if "fo_createWorker (WorkerFactory_ops e) r l f = (False, f')"
    using that wf_count_update [OF ok, of e]
    by (auto simp: WorkerFactory_ops_def wf_createWorker_def wf_addWorker_def Let_def
        split: option.splits if_splits)
qed (simp_all add: WorkerFactory_ops_def)

definition tf_ok :: "ThreadWorkerFactory \<Rightarrow> bool" where
  "tf_ok f \<longleftrightarrow> number_of_active_threads f < 2 ^ 32 \<and> PoolSize f < 2 ^ 32 \<and>
     sorted_wrt (<) (map fst (Futures f))"

definition active_futures :: "(nat \<times> bool) list \<Rightarrow> nat" where
  "active_futures fs = length (filter (\<lambda>(k, completed). \<not> completed) fs)"

lemma active_assign:
  "active_futures (map_assign (<) k True fs) \<le> active_futures fs"
  "active_futures (map_assign (<) k False fs) \<le> Suc (active_futures fs)"
  by (induction fs) (auto simp: active_futures_def split: if_splits)

interpretation nat_order: strict_total_order "(<) :: nat \<Rightarrow> nat \<Rightarrow> bool"
  by (rule strict_total_order_nat)

lemma number_of_active_futures: "number_of_active_threads f = active_futures (Futures f)"
  by (simp add: number_of_active_threads_def active_futures_def)

lemma run_task_eq:
  assumes "run_task t f = (b, f')" and "tf_ok f"
  shows "tf_ok f' \<and> PoolSize f' = PoolSize f \<and> WorkerThreadTypes f' = WorkerThreadTypes f \<and>
    (if b then number_of_active_threads f' \<le> PoolSize f
     else number_of_active_threads f' \<le> number_of_active_threads f)"
proof -
  let ?running = "filter (\<lambda>(k, completed). \<not> completed) (Futures f)"
  have idem: "active_futures ?running = active_futures (Futures f)"
    and len: "length ?running = active_futures (Futures f)"
    by (simp_all add: active_futures_def)
  have sorted: "sorted_wrt (<) (map fst ?running)"
    using assms(2) by (simp add: tf_ok_def sorted_wrt_map sorted_wrt_filter)
  have "active_futures (map_assign (<) (tf_key f) False ?running) \<le> Suc (active_futures (Futures f))"
    using active_assign(2) [of "tf_key f" ?running] idem by simp
  then show ?thesis
    using assms sorted len idem
    by (auto simp: run_task_def Let_def tf_ok_def number_of_active_futures
        nat_order.assign_sorted split: if_splits)
qed

lemma tf_haveSupport_find:
  "tf_haveSupport r f \<longleftrightarrow> map_find JobRequirements_less r (WorkerThreadTypes f) \<noteq> None"
proof -
  have "list_ex (\<lambda>w. JobRequirements_eq r (fst w)) m \<longleftrightarrow> map_find JobRequirements_less r m \<noteq> None"
    for m :: "(JobRequirements \<times> string) list"
    by (induction m) auto
  then show ?thesis by (simp add: tf_haveSupport_def)
qed

lemma tf_counts: "tf_ok f \<Longrightarrow> tf_currentWorkerCount f = number_of_active_threads f \<and>
    tf_maxWorkerCount f = PoolSize f"
  by (simp add: tf_ok_def tf_currentWorkerCount_def tf_maxWorkerCount_def unsigned_int_def)

lemma launch_eq:
  assumes "launchWorkerThread r f = (b, f')" and "tf_ok f"
  shows "tf_ok f' \<and> PoolSize f' = PoolSize f \<and> WorkerThreadTypes f' = WorkerThreadTypes f \<and>
    (if b then tf_haveSupport r f \<and> number_of_active_threads f' \<le> PoolSize f
     else number_of_active_threads f' \<le> number_of_active_threads f)"
  using assms run_task_eq [of _ f b f']
  by (auto simp: launchWorkerThread_def tf_haveSupport_find split: if_splits option.splits)

lemma complete_ok: "tf_ok f \<Longrightarrow> tf_ok (complete_task k f)"
  using active_assign(1) [of k "Futures f"]
  by (auto simp: tf_ok_def complete_task_def number_of_active_futures nat_order.assign_sorted)

lemma complete_count:
  "number_of_active_threads (complete_task k f) \<le> number_of_active_threads f"
  using active_assign(1) [of k "Futures f"]
  by (simp add: complete_task_def number_of_active_futures)

interpretation thread_factory: worker_factory tf_ok complete_task "\<lambda>k. ThreadWorkerFactory_ops"
  tf_maxWorkerCount tf_currentWorkerCount tf_haveSupport
proof
  fix f f' :: ThreadWorkerFactory and e r l b
  show "tf_maxWorkerCount (complete_task e f) = tf_maxWorkerCount f"
    and "tf_haveSupport r (complete_task e f) = tf_haveSupport r f"
    by (simp_all add: tf_maxWorkerCount_def tf_haveSupport_def complete_task_def)
  assume ok: "tf_ok f"
  show "tf_ok (complete_task e f)" using ok by (rule complete_ok)
  show "tf_currentWorkerCount (complete_task e f) \<le> tf_currentWorkerCount f"
    using tf_counts [OF ok] tf_counts [OF complete_ok [OF ok]] complete_count by simp
  show "tf_ok f' \<and> tf_maxWorkerCount f' = tf_maxWorkerCount f \<and>
      (\<forall>r. tf_haveSupport r f' = tf_haveSupport r f)"
    if "fo_createWorker ThreadWorkerFactory_ops r l f = (b, f')"
    using that ok launch_eq [of r f b f']
    by (auto simp: ThreadWorkerFactory_ops_def tf_createWorker_def tf_maxWorkerCount_def
        tf_haveSupport_def split: if_splits)
  show "tf_haveSupport r f \<and> l = KillOnFactoryDeletion \<and>
      tf_currentWorkerCount f' \<le> tf_maxWorkerCount f'"
    if "fo_createWorker ThreadWorkerFactory_ops r l f = (True, f')"
    using that ok launch_eq [of r f True f'] tf_counts [of f']
    by (cases l) (auto simp: ThreadWorkerFactory_ops_def tf_createWorker_def)
  show "tf_currentWorkerCount f' \<le> tf_currentWorkerCount f"
    if "fo_createWorker ThreadWorkerFactory_ops r l f = (False, f')"
    using that ok launch_eq [of r f False f'] tf_counts [of f'] tf_counts [of f]
    by (auto simp: ThreadWorkerFactory_ops_def tf_createWorker_def split: if_splits)
qed (simp_all add: ThreadWorkerFactory_ops_def)

section \<open>What the factories guarantee\<close>

text \<open>
  C24: however many workers are requested and whichever processes die in between, a process
  factory never has more workers than its maximum, and it only ever accepts requests for
  requirements some worker description matches and for workers that die with the factory.
\<close>

theorem process_factory_bounded:
  assumes "wf_ok f" and "wf_currentWorkerCount f \<le> MaxWorkers f"
  shows "wf_currentWorkerCount (snd (process_factory.serve qs f)) \<le> MaxWorkers f \<and>
    length (CurrentProcesses (snd (process_factory.serve qs f))) \<le> MaxWorkers f \<and>
    list_all2 (\<lambda>b (e, r, l). b \<longrightarrow> wf_haveSupport r f \<and> l = KillOnFactoryDeletion)
      (fst (process_factory.serve qs f)) qs"
  using process_factory.serve_bounded [OF assms, of qs] wf_count by auto

definition example_spec :: FactoryWorkerSpecification where
  "example_spec = \<lparr>spec_Requirements = example_reqs, spec_ExecutionPath = ''/bin/triangle'',
     spec_ExtraCommandLineArguments = [''-v''], spec_EnvironmentVariables = [(''LANG'', ''C'')],
     spec_isValid = True\<rparr>"

definition example_factory :: WorkerFactory where
  "example_factory = \<lparr>MaxWorkers = 1, WorkerEndpoint = ''tcp://127.0.0.1:50510'',
     GlobalCommandLineArguments = [''--quiet''], WorkerExtension = ''.RW'',
     PossibleWorkers = [example_spec], CurrentProcesses = [], wf_next_handle = 0\<rparr>"

theorem process_factory_bounded_witness:
  "wf_ok example_factory \<and>
   length (CurrentProcesses (snd (process_factory.serve
     (replicate 3 (\<lambda>_. True, example_reqs, KillOnFactoryDeletion)) example_factory))) \<le> 1"
  using process_factory_bounded [of example_factory
      "replicate 3 (\<lambda>_. True, example_reqs, KillOnFactoryDeletion)"]
  by (simp add: wf_ok_def example_factory_def wf_currentWorkerCount_def unsigned_int_def)

text \<open>
  The thread factory never runs more worker threads than its pool size, and accepts
  only requests for registered requirements.
\<close>

theorem thread_factory_bounded:
  assumes "tf_ok f" and "number_of_active_threads f \<le> PoolSize f"
  shows "number_of_active_threads (snd (thread_factory.serve qs f)) \<le> PoolSize f \<and>
    list_all2 (\<lambda>b (k, r, l). b \<longrightarrow> tf_haveSupport r f \<and> l = KillOnFactoryDeletion)
      (fst (thread_factory.serve qs f)) qs"
  using thread_factory.serve_bounded [OF assms(1), of qs] assms tf_counts [OF assms(1)]
    tf_counts [of "snd (thread_factory.serve qs f)"]
  by auto

definition example_threads :: ThreadWorkerFactory where
  "example_threads = snd (registerWorkerType example_reqs ''mesher'' ThreadWorkerFactory_mk)"

theorem thread_factory_bounded_witness:
  "tf_ok example_threads \<and> tf_haveSupport example_reqs example_threads \<and>
   number_of_active_threads (snd (thread_factory.serve
     (replicate 3 (7, example_reqs, KillOnFactoryDeletion)) example_threads)) \<le> 1"
  using thread_factory_bounded [of example_threads
      "replicate 3 (7, example_reqs, KillOnFactoryDeletion)"]
  by (simp add: example_threads_def registerWorkerType_def ThreadWorkerFactory_mk_def tf_ok_def
      number_of_active_threads_def tf_haveSupport_def)

text \<open>
  What \<open>createWorker\<close> starts. It succeeds exactly when a worker description matches,
  there is room once the dead processes are gone, and the worker is to die with the
  factory; then it starts one process, the first matching description's executable, with
  the endpoint (when there is one), the factory's arguments and the description's own, in
  that order, and with the description's environment.
\<close>

theorem createWorker_command:
  assumes "wf_ok f" and "wf_createWorker alive reqs lifespan f = (started, f')"
  shows "(started \<longleftrightarrow>
      wf_haveSupport reqs f \<and> lifespan = KillOnFactoryDeletion \<and>
      length (filter (\<lambda>p. alive (rp_handle p)) (CurrentProcesses f)) < MaxWorkers f) \<and>
    (started \<longrightarrow> (\<exists>spec. find_worker_path reqs (PossibleWorkers f) = Some spec \<and>
      JobRequirements_eq (spec_Requirements spec) reqs \<and>
      CurrentProcesses f' =
        filter (\<lambda>p. alive (rp_handle p)) (CurrentProcesses f) @
        [\<lparr>rp_handle = wf_next_handle f, rp_command = spec_ExecutionPath spec,
          rp_arguments = (if WorkerEndpoint f = '''' then [] else [WorkerEndpoint f]) @
            GlobalCommandLineArguments f @ spec_ExtraCommandLineArguments spec,
          rp_environment = spec_EnvironmentVariables spec, rp_lifespan = lifespan\<rparr>]))"
proof (cases "find_worker_path reqs (PossibleWorkers f)")
  case None
  then show ?thesis using assms(2) by (simp add: wf_createWorker_def wf_haveSupport_def)
next
  case (Some spec)
  have len: "wf_currentWorkerCount (wf_updateWorkerCount alive f) =
      length (filter (\<lambda>p. alive (rp_handle p)) (CurrentProcesses f))"
    using wf_count [OF wf_ok_update [OF assms(1)]] by (simp add: wf_updateWorkerCount_def)
  show ?thesis
    using assms(2) Some find_worker_path_iff(2) [OF Some]
    by (cases lifespan)
       (auto simp: wf_createWorker_def wf_addWorker_def Let_def wf_haveSupport_def len
         wf_updateWorkerCount_def [of alive f, THEN arg_cong [of _ _ CurrentProcesses]]
         split: if_splits)
qed

theorem createWorker_command_witness:
  "wf_ok example_factory \<and>
   map rp_arguments (CurrentProcesses (snd (wf_createWorker (\<lambda>_. True) example_reqs
     KillOnFactoryDeletion example_factory))) = [[''tcp://127.0.0.1:50510'', ''--quiet'', ''-v'']]"
proof -
  have ok: "wf_ok example_factory" by (simp add: wf_ok_def example_factory_def)
  have find: "find_worker_path example_reqs (PossibleWorkers example_factory) = Some example_spec"
    by (simp add: find_worker_path_def example_factory_def example_spec_def)
  from createWorker_command [OF ok prod.collapse [symmetric],
      of "\<lambda>_. True" example_reqs KillOnFactoryDeletion] ok find show ?thesis
    by (auto simp: wf_haveSupport_def) (auto simp: example_factory_def example_spec_def)
qed

text \<open>
  \<open>WorkerFinder\<close> finds the valid worker descriptions of a directory: those its parser
  makes of the regular files whose extension is the wanted one, upper and lower case alike,
  in directory order.
\<close>

theorem WorkerFinder_spec:
  "WorkerFinder parser (Some entries) ext =
     filter spec_isValid
       (map (parser \<circ> de_path)
         (filter (\<lambda>e. de_regular e \<and>
            (\<exists>x. de_extension e = Some x \<and> to_upper x = to_upper ext)) entries)) \<and>
   WorkerFinder parser None ext = []"
proof -
  have "parseDirectory parser u (Some entries) found =
     found @ filter spec_isValid
       (map (parser \<circ> de_path)
         (filter (\<lambda>e. de_regular e \<and> (\<exists>x. de_extension e = Some x \<and> to_upper x = u)) entries))"
    for u found
    by (induction entries arbitrary: found)
       (auto simp: parseDirectory_def parseFile_def Let_def split: option.splits)
  then show ?thesis by (simp add: WorkerFinder_def) (simp add: parseDirectory_def)
qed

definition save_and_set ::
  "string \<times> string \<Rightarrow> (string \<times> string) list \<times> (string \<rightharpoonup> string) \<Rightarrow>
   (string \<times> string) list \<times> (string \<rightharpoonup> string)" where
  "save_and_set kv st =
     (case st of (tmp, env) \<Rightarrow>
       (case env (fst kv) of
          Some old \<Rightarrow> if old \<noteq> '''' then map_assign string_less (fst kv) old tmp else tmp
        | None \<Rightarrow> tmp, env(fst kv \<mapsto> snd kv)))"

lemma save_and_set_fold:
  assumes "distinct (map fst requested)" and "sorted_wrt string_less (map fst tmp)"
    and "fold save_and_set requested (tmp, env) = (tmp', child)"
  shows "child k = (case map_of requested k of Some v \<Rightarrow> Some v | None \<Rightarrow> env k) \<and>
    sorted_wrt string_less (map fst tmp') \<and>
    map_of tmp' k = (if map_of requested k \<noteq> None \<and> env k \<noteq> None \<and> env k \<noteq> Some ''''
                     then env k else map_of tmp k)"
  using assms
proof (induction requested arbitrary: tmp env)
  case (Cons kv requested)
  let ?tmp1 = "fst (save_and_set kv (tmp, env))"
  have tmp1: "sorted_wrt string_less (map fst ?tmp1)"
    using Cons.prems(2) by (auto simp: save_and_set_def string_order.assign_sorted split: option.split)
  have env1: "snd (save_and_set kv (tmp, env)) = env(fst kv \<mapsto> snd kv)"
    by (simp add: save_and_set_def)
  have find1: "map_of ?tmp1 k = (if k = fst kv \<and> env k \<noteq> None \<and> env k \<noteq> Some '''' then env k else map_of tmp k)"
    using Cons.prems(2)
    by (auto simp: save_and_set_def string_order.map_of_map_assign split: option.split)
  have notin: "map_of requested (fst kv) = None" and dist: "distinct (map fst requested)"
    using Cons.prems(1) by (auto simp: map_of_eq_None_iff)
  have "fold save_and_set requested (?tmp1, env(fst kv \<mapsto> snd kv)) = (tmp', child)"
    using Cons.prems(3) env1 by (simp, metis prod.collapse)
  from Cons.IH [OF dist tmp1 this] notin find1 show ?case
    by (cases kv) (auto split: option.split)
qed auto

lemma fold_put_back:
  "distinct (map fst m) \<Longrightarrow> fold (\<lambda>(k, v) env. env(k \<mapsto> v)) m env = env ++ map_of m"
proof (induction m arbitrary: env)
  case (Cons kv m)
  then have "map_of m (fst kv) = None" by (simp add: map_of_eq_None_iff)
  with Cons show ?case
    by (cases kv) (auto simp: fun_eq_iff map_add_def split: option.split)
qed simp

lemma string_sorted_distinct: "sorted_wrt string_less ks \<Longrightarrow> distinct ks"
  by (induction ks) (auto simp: string_order.total_irrefl)

lemma execute_environment_fold:
  "execute_environment requested env =
     (let (tmp, child) = fold save_and_set requested ([], env) in
      (child, fold (\<lambda>(k, v) env. env(k \<mapsto> v)) tmp child))"
proof -
  have "(\<lambda>(k, v) (tmp, env).
          (case env k of
             Some old \<Rightarrow> if old \<noteq> '''' then map_assign string_less k old tmp else tmp
           | None \<Rightarrow> tmp, env(k \<mapsto> v))) = save_and_set"
    by (auto simp: fun_eq_iff save_and_set_def split: option.split)
  then show ?thesis by (simp only: execute_environment_def)
qed

text \<open>
  A worker's environment is not undone completely. The worker sees every requested
  variable; afterwards a variable that had a value gets it back, but one that was not set
  before stays set in the server and is inherited by every later worker.
\<close>

theorem execute_environment_leaks:
  assumes "distinct (map fst requested)" and "map_of requested k = Some v"
  shows "fst (execute_environment requested env) k = Some v \<and>
    (env k \<noteq> None \<and> env k \<noteq> Some '''' \<longrightarrow> snd (execute_environment requested env) k = env k) \<and>
    (env k = None \<longrightarrow> snd (execute_environment requested env) k = Some v)"
proof -
  obtain tmp child where fold: "fold save_and_set requested ([], env) = (tmp, child)" by force
  note spec = save_and_set_fold [OF assms(1) _ fold, of k]
  have "fold (\<lambda>(k, v) env. env(k \<mapsto> v)) tmp child = child ++ map_of tmp"
    using spec by (intro fold_put_back string_sorted_distinct) simp
  with spec assms(2) fold show ?thesis
    by (auto simp: execute_environment_fold map_add_def split: option.split)
qed

theorem execute_environment_leaks_witness:
  "snd (execute_environment [(''A'', ''1''), (''B'', ''2'')] [''A'' \<mapsto> ''0'']) ''A'' = Some ''0'' \<and>
   snd (execute_environment [(''A'', ''1''), (''B'', ''2'')] [''A'' \<mapsto> ''0'']) ''B'' = Some ''2''"
  using execute_environment_leaks [of "[(''A'', ''1''), (''B'', ''2'')]" "''A''" "''1''" "[''A'' \<mapsto> ''0'']"]
    execute_environment_leaks [of "[(''A'', ''1''), (''B'', ''2'')]" "''B''" "''2''" "[''A'' \<mapsto> ''0'']"]
  by simp

end
