(* ===== verification/Remus_Events.thy ===== *)
theory Remus_Events
  imports Remus_Sockets Remus_Jobs Remus_Requirements
begin

text \<open>
  \<open>remus/proto/EventTypes.h\<close> and \<open>remus/server/detail/EventPublisher.cxx\<close>: what the server
  publishes on its status socket. A publication is a subscription key and a JSON object;
  printing the object is left to the bundled cJSON, and \<open>cJSON_CreateString\<close> copies a C
  string, so a value ends at its first NUL character.
\<close>

section \<open>Event types\<close>

datatype job_event = JE_INVALID | JE_QUEUED | JE_JOB_STATUS | JE_TERMINATED | JE_EXPIRED | JE_COMPLETED

fun job_event_string :: "job_event \<Rightarrow> string" where
  "job_event_string JE_INVALID = ''INVALID''"
| "job_event_string JE_QUEUED = ''QUEUED''"
| "job_event_string JE_JOB_STATUS = ''CURRENT JOB STATUS''"
| "job_event_string JE_TERMINATED = ''TERMINATED''"
| "job_event_string JE_EXPIRED = ''EXPIRED''"
| "job_event_string JE_COMPLETED = ''COMPLETED''"

datatype work_event =
    WE_INVALID | WE_NOT_USED_1 | WE_JOB_STATUS | WE_TERMINATED | WE_NOT_USED_4 | WE_COMPLETED
  | WE_ASSIGNED_TO_WORKER | WE_REGISTER | WE_ASKING_FOR_JOB | WE_HEARTBEAT | WE_WORKER_STATE
  | WE_TERMINATED_WORKER

fun work_event_string :: "work_event \<Rightarrow> string" where
  "work_event_string WE_INVALID = ''INVALID''"
| "work_event_string WE_NOT_USED_1 = ''NOT USED''"
| "work_event_string WE_JOB_STATUS = ''CURRENT JOB STATUS''"
| "work_event_string WE_TERMINATED = ''TERMINATED''"
| "work_event_string WE_NOT_USED_4 = ''NOT USED''"
| "work_event_string WE_COMPLETED = ''COMPLETED''"
| "work_event_string WE_ASSIGNED_TO_WORKER = ''ASSIGNED TO WORKER''"
| "work_event_string WE_REGISTER = ''REGISTER''"
| "work_event_string WE_ASKING_FOR_JOB = ''ASKING_FOR_JOB''"
| "work_event_string WE_HEARTBEAT = ''HEARTBEAT''"
| "work_event_string WE_WORKER_STATE = ''WORKER STATE''"
| "work_event_string WE_TERMINATED_WORKER = ''TERMINATED WORKER''"

section \<open>Publications\<close>

datatype json = JString string | JObject "(string \<times> json) list"

type_synonym publication = "string \<times> json"

definition c_str :: "string \<Rightarrow> string" where
  "c_str s = takeWhile (\<lambda>c. c \<noteq> CHR 0x00) s"

definition json_string :: "string \<Rightarrow> json" where
  "json_string s = JString (c_str s)"

definition pubJob :: "string \<Rightarrow> string \<Rightarrow> (string \<times> json) list \<Rightarrow> publication" where
  "pubJob st suid root = (''job:'' @ st @ '':'' @ suid, JObject root)"

definition pubWorker :: "string \<Rightarrow> string \<Rightarrow> (string \<times> json) list \<Rightarrow> publication" where
  "pubWorker st suid root = (''worker:'' @ st @ '':'' @ suid, JObject root)"

text \<open>The requirements as the publisher prints them, enumerators as numbers.\<close>

definition json_requirements :: "JobRequirements \<Rightarrow> json" where
  "json_requirements reqs = JObject
     [(''source_type'', json_string (show_nat (int_of_ContentSource (req_sourceType reqs)))),
      (''format_type'', json_string (show_nat (int_of_ContentFormat (req_formatType reqs)))),
      (''mesh_type'', json_string (MeshIOType_serialize (req_meshTypes reqs))),
      (''worker_name'', json_string (req_workerName reqs)),
      (''tag'', json_string (req_tag reqs))]"

definition jobQueued :: "uuid_io \<Rightarrow> Job \<Rightarrow> JobRequirements \<Rightarrow> publication list" where
  "jobQueued io j reqs =
     (let suid = uuid_show io (job_id j); serv_t = job_event_string JE_QUEUED in
      [pubJob serv_t suid
        [(''job_id'', json_string suid), (''msg_type'', json_string serv_t),
         (''worker_id'', json_string ''''), (''requirements'', json_requirements reqs)]])"

definition publish_jobStatus :: "uuid_io \<Rightarrow> JobStatus \<Rightarrow> SocketIdentity \<Rightarrow> publication list" where
  "publish_jobStatus io s si =
     (let suid = uuid_show io (js_id s); work_t = si_name si;
          serv_t = job_event_string JE_JOB_STATUS;
          root = [(''job_id'', json_string suid), (''msg_type'', json_string serv_t),
                  (''worker_id'', json_string work_t),
                  (''status_type'', json_string (status_to_string (js_status s))),
                  (''progress'', json_string (JobProgress_serialize (js_progress s)))] in
      [pubJob serv_t suid root, pubWorker serv_t work_t root])"

definition last_status_fields :: "JobStatus \<Rightarrow> (string \<times> json) list" where
  "last_status_fields s =
     [(''last_status_type'', json_string (status_to_string (js_status s))),
      (''last_progress'', json_string (JobProgress_serialize (js_progress s)))]"

definition jobTerminated_worker :: "uuid_io \<Rightarrow> JobStatus \<Rightarrow> SocketIdentity \<Rightarrow> publication list" where
  "jobTerminated_worker io s si =
     (let suid = uuid_show io (js_id s); work_t = si_name si;
          serv_t = job_event_string JE_TERMINATED;
          root = [(''job_id'', json_string suid), (''msg_type'', json_string serv_t),
                  (''worker_id'', json_string work_t)] @ last_status_fields s in
      [pubJob serv_t suid root, pubWorker serv_t work_t root])"

definition jobTerminated_queued :: "uuid_io \<Rightarrow> JobStatus \<Rightarrow> publication list" where
  "jobTerminated_queued io s =
     (let suid = uuid_show io (js_id s); serv_t = job_event_string JE_TERMINATED in
      [pubJob serv_t suid
        ([(''job_id'', json_string suid), (''msg_type'', json_string serv_t),
          (''worker_id'', json_string '''')] @ last_status_fields s)])"

definition jobExpired :: "uuid_io \<Rightarrow> JobStatus \<Rightarrow> publication list" where
  "jobExpired io s =
     (let suid = uuid_show io (js_id s); serv_t = job_event_string JE_EXPIRED;
          root = [(''job_id'', json_string suid), (''msg_type'', json_string serv_t),
                  (''worker_id'', json_string '''')];
          root2 = root @ [(''status_type'', json_string (status_to_string (js_status s))),
                          (''progress'', json_string (JobProgress_serialize (js_progress s)))] in
      [pubJob serv_t suid root, pubJob (job_event_string JE_JOB_STATUS) suid root2])"

definition jobsExpired :: "uuid_io \<Rightarrow> JobStatus list \<Rightarrow> publication list" where
  "jobsExpired io expired_status = concat (map (jobExpired io) expired_status)"

definition jobFinished :: "uuid_io \<Rightarrow> JobResult \<Rightarrow> SocketIdentity \<Rightarrow> publication list" where
  "jobFinished io r si =
     (let suid = uuid_show io (res_id r); work_t = si_name si;
          serv_t = job_event_string JE_COMPLETED;
          root = [(''job_id'', json_string suid), (''msg_type'', json_string serv_t),
                  (''worker_id'', json_string work_t)] in
      [pubJob serv_t suid root, pubWorker serv_t work_t root])"

definition jobSentToWorker :: "uuid_io \<Rightarrow> WorkerJob \<Rightarrow> SocketIdentity \<Rightarrow> publication list" where
  "jobSentToWorker io j si =
     (let suid = uuid_show io (wj_id j); work_t = si_name si;
          serv_t = work_event_string WE_ASSIGNED_TO_WORKER;
          root = [(''job_id'', json_string suid), (''msg_type'', json_string serv_t),
                  (''worker_id'', json_string work_t)] in
      [pubJob serv_t suid root, pubWorker serv_t work_t root])"

definition workerReady :: "SocketIdentity \<Rightarrow> JobRequirements \<Rightarrow> publication list" where
  "workerReady si reqs =
     (let work_t = si_name si; serv_t = work_event_string WE_REGISTER in
      [pubWorker serv_t work_t
        [(''worker_id'', json_string work_t), (''msg_type'', json_string serv_t),
         (''requirements'', json_requirements reqs)]])"

definition workerRegistered :: "SocketIdentity \<Rightarrow> JobRequirements \<Rightarrow> publication list" where
  "workerRegistered si reqs =
     (let work_t = si_name si; serv_t = work_event_string WE_ASKING_FOR_JOB in
      [pubWorker serv_t work_t
        [(''worker_id'', json_string work_t), (''msg_type'', json_string serv_t),
         (''requirements'', json_requirements reqs)]])"

definition workerHeartbeat :: "SocketIdentity \<Rightarrow> publication list" where
  "workerHeartbeat si =
     (let work_t = si_name si; serv_t = work_event_string WE_HEARTBEAT in
      [pubWorker serv_t work_t
        [(''worker_id'', json_string work_t), (''msg_type'', json_string serv_t)]])"

definition worker_state :: "SocketIdentity \<Rightarrow> string \<Rightarrow> publication" where
  "worker_state si state_t =
     (let work_t = si_name si; serv_t = work_event_string WE_WORKER_STATE in
      pubWorker serv_t work_t
        [(''worker_id'', json_string work_t), (''msg_type'', json_string serv_t),
         (''state'', json_string state_t)])"

definition workerResponsive :: "SocketIdentity \<Rightarrow> publication list" where
  "workerResponsive si = [worker_state si ''Responsive'']"

definition workerUnresponsive :: "SocketIdentity \<Rightarrow> publication list" where
  "workerUnresponsive si = [worker_state si ''Unresponsive'']"

definition workerTerminated :: "SocketIdentity \<Rightarrow> publication list" where
  "workerTerminated si =
     (let work_t = si_name si; serv_t = service_to_string TERMINATE_WORKER in
      [pubWorker serv_t work_t
        [(''worker_id'', json_string work_t), (''msg_type'', json_string serv_t)],
       worker_state si ''Unresponsive''])"

definition unresponsiveWorkers :: "SocketIdentity list \<Rightarrow> publication list" where
  "unresponsiveWorkers workers = concat (map workerUnresponsive workers)"

text \<open>\<open>error\<close> and \<open>stop\<close> send plain text.\<close>

definition publish_error :: "string \<Rightarrow> publication list" where
  "publish_error msg = [(''error:server'', JString msg)]"

definition publish_stop :: "publication list" where
  "publish_stop = publish_error ''END'' @ [(''stop'', JString ''END'')]"

section \<open>Subscriptions\<close>

text \<open>ZeroMQ delivers a publication to the subscribers whose filter is a prefix of its key.\<close>

definition subscribed :: "string \<Rightarrow> publication \<Rightarrow> bool" where
  "subscribed topic p \<longleftrightarrow> take (length topic) (fst p) = topic"

definition json_field :: "string \<Rightarrow> publication \<Rightarrow> json option" where
  "json_field f p = (case snd p of JObject fs \<Rightarrow> map_of fs f | JString _ \<Rightarrow> None)"

datatype server_event =
    SE_jobQueued Job JobRequirements
  | SE_jobStatus JobStatus SocketIdentity
  | SE_jobTerminated_worker JobStatus SocketIdentity
  | SE_jobTerminated_queued JobStatus
  | SE_jobExpired JobStatus
  | SE_jobFinished JobResult SocketIdentity
  | SE_jobSentToWorker WorkerJob SocketIdentity
  | SE_workerReady SocketIdentity JobRequirements
  | SE_workerRegistered SocketIdentity JobRequirements
  | SE_workerHeartbeat SocketIdentity
  | SE_workerTerminated SocketIdentity

fun publish :: "uuid_io \<Rightarrow> server_event \<Rightarrow> publication list" where
  "publish io (SE_jobQueued j r) = jobQueued io j r"
| "publish io (SE_jobStatus s si) = publish_jobStatus io s si"
| "publish io (SE_jobTerminated_worker s si) = jobTerminated_worker io s si"
| "publish io (SE_jobTerminated_queued s) = jobTerminated_queued io s"
| "publish io (SE_jobExpired s) = jobExpired io s"
| "publish io (SE_jobFinished r si) = jobFinished io r si"
| "publish io (SE_jobSentToWorker j si) = jobSentToWorker io j si"
| "publish io (SE_workerReady si r) = workerReady si r"
| "publish io (SE_workerRegistered si r) = workerRegistered si r"
| "publish io (SE_workerHeartbeat si) = workerHeartbeat si"
| "publish io (SE_workerTerminated si) = workerTerminated si"

fun event_job :: "server_event \<Rightarrow> uuid option" where
  "event_job (SE_jobQueued j r) = Some (job_id j)"
| "event_job (SE_jobStatus s si) = Some (js_id s)"
| "event_job (SE_jobTerminated_worker s si) = Some (js_id s)"
| "event_job (SE_jobTerminated_queued s) = Some (js_id s)"
| "event_job (SE_jobExpired s) = Some (js_id s)"
| "event_job (SE_jobFinished r si) = Some (res_id r)"
| "event_job (SE_jobSentToWorker j si) = Some (wj_id j)"
| "event_job _ = None"

fun event_worker :: "server_event \<Rightarrow> SocketIdentity option" where
  "event_worker (SE_jobStatus s si) = Some si"
| "event_worker (SE_jobTerminated_worker s si) = Some si"
| "event_worker (SE_jobFinished r si) = Some si"
| "event_worker (SE_jobSentToWorker j si) = Some si"
| "event_worker (SE_workerReady si r) = Some si"
| "event_worker (SE_workerRegistered si r) = Some si"
| "event_worker (SE_workerHeartbeat si) = Some si"
| "event_worker (SE_workerTerminated si) = Some si"
| "event_worker _ = None"

lemmas publisher_defs = jobQueued_def publish_jobStatus_def jobTerminated_worker_def
  jobTerminated_queued_def jobExpired_def jobFinished_def jobSentToWorker_def workerReady_def
  workerRegistered_def workerHeartbeat_def workerTerminated_def worker_state_def pubJob_def
  pubWorker_def last_status_fields_def Let_def

text \<open>
  Every event about a job is published to the subscribers of \<open>job:\<close> with that job's id,
  and every event about a worker to the subscribers of \<open>worker:\<close> with that worker's name;
  an expired job is published both as expired and as a status change.
\<close>

theorem publish_reaches_subscribers:
  "(event_job e = Some i \<longrightarrow>
      (\<exists>p\<in>set (publish io e). subscribed ''job:'' p \<and>
         json_field ''job_id'' p = Some (json_string (uuid_show io i)))) \<and>
   (event_worker e = Some si \<longrightarrow>
      (\<exists>p\<in>set (publish io e). subscribed ''worker:'' p \<and>
         json_field ''worker_id'' p = Some (json_string (si_name si)))) \<and>
   map fst (publish io (SE_jobExpired s)) =
     [''job:EXPIRED:'' @ uuid_show io (js_id s), ''job:CURRENT JOB STATUS:'' @ uuid_show io (js_id s)]"
  by (cases e) (auto simp: publisher_defs subscribed_def json_field_def)

theorem publish_reaches_subscribers_witness:
  "event_job (SE_jobFinished (JobResult_empty 7) SocketIdentity_default) = Some 7 \<and>
   (\<exists>p\<in>set (publish hex_uuid_io (SE_jobFinished (JobResult_empty 7) SocketIdentity_default)).
      subscribed ''job:'' p \<and>
      json_field ''job_id'' p = Some (json_string (uuid_show hex_uuid_io 7)))"
  using publish_reaches_subscribers
    [of "SE_jobFinished (JobResult_empty 7) SocketIdentity_default" 7 hex_uuid_io]
  by (simp add: JobResult_empty_def)

text \<open>
  The two worker announcements are exchanged. A worker that registers is published
  under \<open>ASKING_FOR_JOB\<close> and one that asks for a job under \<open>REGISTER\<close>, in the key as well as
  in the object, so a subscriber of either topic gets only the events of the other.
\<close>

theorem worker_topics_swapped:
  "(\<forall>p\<in>set (workerRegistered si reqs). subscribed ''worker:ASKING_FOR_JOB:'' p \<and>
      \<not> subscribed ''worker:REGISTER:'' p \<and>
      json_field ''msg_type'' p = Some (JString (work_event_string WE_ASKING_FOR_JOB))) \<and>
   (\<forall>p\<in>set (workerReady si reqs). subscribed ''worker:REGISTER:'' p \<and>
      \<not> subscribed ''worker:ASKING_FOR_JOB:'' p \<and>
      json_field ''msg_type'' p = Some (JString (work_event_string WE_REGISTER))) \<and>
   workerRegistered si reqs \<noteq> [] \<and> workerReady si reqs \<noteq> []"
  by (simp add: publisher_defs subscribed_def json_field_def json_string_def c_str_def)

theorem worker_topics_swapped_witness:
  "subscribed ''worker:ASKING_FOR_JOB:'' (hd (workerRegistered SocketIdentity_default example_reqs)) \<and>
   subscribed ''worker:REGISTER:'' (hd (workerReady SocketIdentity_default example_reqs))"
  using worker_topics_swapped [of SocketIdentity_default example_reqs] by (simp add: publisher_defs)

end
