(* ===== verification/Remus_Server.thy ===== *)
theory Remus_Server
  imports Remus_JobQueue Remus_ActiveJobs Remus_WorkerPool Remus_Factory Remus_Events
begin

text \<open>
  \<open>remus/server/Server.cxx\<close>: the broker. Its state holds the job queue, the active jobs, the
  worker pool, the socket monitor and the worker factory, and logs what it sent to clients,
  to workers and to subscribers.

  The outside is \<open>server_env\<close>: how uuids are printed and drawn, the virtual methods of the
  factory, the clock (one reading per step) and which peers a non-blocking send reaches. A
  message is what \<open>receive_Message\<close> returned (the framing is in \<open>Remus_Sockets\<close>), an exception
  that leaves the broker is \<open>Inl\<close>.
\<close>

section \<open>State and environment\<close>

type_synonym response = "SocketIdentity \<times> SERVICE_TYPE \<times> string"

record 'f Server =
  srv_QueuedJobs :: JobQueue
  srv_SocketMonitor :: SocketMonitor
  srv_WorkerPool :: WorkerPool
  srv_ActiveJobs :: ActiveJobs
  srv_WorkerFactory :: 'f
  srv_uuids :: nat
  srv_client_out :: "response list"
  srv_worker_out :: "response list"
  srv_Publish :: "publication list"

record 'f server_env =
  env_io :: uuid_io
  env_generate :: "nat \<Rightarrow> uuid"
  env_factory :: "'f factory_ops"
  env_now :: ptime
  env_send_ok :: "SocketIdentity \<Rightarrow> bool"

definition Server_mk :: "ptime \<Rightarrow> 'f \<Rightarrow> 'f Server" where
  "Server_mk now factory =
     \<lparr>srv_QueuedJobs = JobQueue_empty, srv_SocketMonitor = SocketMonitor_default now,
      srv_WorkerPool = [], srv_ActiveJobs = [], srv_WorkerFactory = factory, srv_uuids = 0,
      srv_client_out = [], srv_worker_out = [], srv_Publish = []\<rparr>"

definition srv_publish :: "publication list \<Rightarrow> 'f Server \<Rightarrow> 'f Server" where
  "srv_publish ps s = s\<lparr>srv_Publish := srv_Publish s @ ps\<rparr>"

text \<open>\<open>send_NonBlockingResponse\<close> on either channel: whether the response was sent.\<close>

definition send_client ::
  "'f server_env \<Rightarrow> SERVICE_TYPE \<Rightarrow> string \<Rightarrow> SocketIdentity \<Rightarrow> 'f Server \<Rightarrow> bool \<times> 'f Server" where
  "send_client env service data client s =
     (if env_send_ok env client
      then (True, s\<lparr>srv_client_out := srv_client_out s @ [(client, service, data)]\<rparr>)
      else (False, s))"

definition send_worker ::
  "'f server_env \<Rightarrow> SERVICE_TYPE \<Rightarrow> string \<Rightarrow> SocketIdentity \<Rightarrow> 'f Server \<Rightarrow> bool \<times> 'f Server" where
  "send_worker env service data worker s =
     (if env_send_ok env worker
      then (True, s\<lparr>srv_worker_out := srv_worker_out s @ [(worker, service, data)]\<rparr>)
      else (False, s))"

definition send_terminateWorker ::
  "'f server_env \<Rightarrow> uuid \<Rightarrow> SocketIdentity \<Rightarrow> 'f Server \<Rightarrow> 'f Server" where
  "send_terminateWorker env jobId workerId s =
     snd (send_worker env TERMINATE_WORKER
       (WorkerJob_to_string (env_io env) (WorkerJob_mk jobId JobSubmission_default)) workerId s)"

definition send_terminateJob ::
  "'f server_env \<Rightarrow> uuid \<Rightarrow> SocketIdentity \<Rightarrow> 'f Server \<Rightarrow> 'f Server" where
  "send_terminateJob env jobId workerId s =
     snd (send_worker env TERMINATE_JOB
       (WorkerJob_to_string (env_io env) (WorkerJob_mk jobId JobSubmission_default)) workerId s)"

definition draw_uuid :: "'f server_env \<Rightarrow> 'f Server \<Rightarrow> uuid \<times> 'f Server" where
  "draw_uuid env s = (env_generate env (srv_uuids s), s\<lparr>srv_uuids := srv_uuids s + 1\<rparr>)"

definition set_pollingRates :: "int \<Rightarrow> int \<Rightarrow> 'f Server \<Rightarrow> 'f Server" where
  "set_pollingRates minRate maxRate s =
     (let m = srv_SocketMonitor s in
      s\<lparr>srv_SocketMonitor := m\<lparr>PollMonitor := changeTimeOutRates minRate maxRate (PollMonitor m)\<rparr>\<rparr>)"

definition get_pollingRates :: "'f Server \<Rightarrow> int \<times> int" where
  "get_pollingRates s =
     (let m = PollMonitor (srv_SocketMonitor s) in
      (PollingMonitor_minTimeOut m, PollingMonitor_maxTimeOut m))"

section \<open>Requests of clients\<close>

definition show_bool :: "bool \<Rightarrow> string" where
  "show_bool b = (if b then ''1'' else ''0'')"

definition allSupportedMeshIOTypes :: "'f server_env \<Rightarrow> 'f Server \<Rightarrow> string" where
  "allSupportedMeshIOTypes env s =
     (let supportedTypes = fo_supportedIOTypes (env_factory env) (srv_WorkerFactory s);
          poolTypes = wp_supportedIOTypes (srv_WorkerPool s) in
      MeshIOTypeSet_serialize (MeshIOTypeSet_insert_range poolTypes supportedTypes) @ [nl])"

definition canMesh :: "'f server_env \<Rightarrow> Message \<Rightarrow> 'f Server \<Rightarrow> string" where
  "canMesh env msg s =
     (let workerSupport =
            length (fo_workerRequirements (env_factory env) (msg_MeshIOType msg) (srv_WorkerFactory s)) > 0 \<and>
            fo_maxWorkerCount (env_factory env) (srv_WorkerFactory s) > 0;
          poolSupport =
            length (waitingWorkerRequirements (msg_MeshIOType msg) (srv_WorkerPool s)) > 0 in
      show_bool (workerSupport \<or> poolSupport) @ [nl])"

definition canMeshRequirements :: "'f server_env \<Rightarrow> Message \<Rightarrow> 'f Server \<Rightarrow> string result" where
  "canMeshRequirements env msg s =
     bindE (to_JobRequirements (msg_data msg)) (\<lambda>reqs.
     let workerSupport =
           fo_haveSupport (env_factory env) reqs (srv_WorkerFactory s) \<and>
           fo_maxWorkerCount (env_factory env) (srv_WorkerFactory s) > 0;
         poolSupport = haveWaitingWorker reqs (srv_WorkerPool s) in
     Inr (show_bool (workerSupport \<or> poolSupport) @ [nl]))"

definition meshRequirements :: "'f server_env \<Rightarrow> Message \<Rightarrow> 'f Server \<Rightarrow> string" where
  "meshRequirements env msg s =
     (let reqSet = fo_workerRequirements (env_factory env) (msg_MeshIOType msg) (srv_WorkerFactory s);
          poolSet = waitingWorkerRequirements (msg_MeshIOType msg) (srv_WorkerPool s) in
      JobRequirementsSet_serialize (JobRequirementsSet_insert_range poolSet reqSet) @ [nl])"

definition meshStatus ::
  "'f server_env \<Rightarrow> Message \<Rightarrow> 'f Server \<Rightarrow> (string \<times> 'f Server) result" where
  "meshStatus env msg s =
     bindE (to_Job (env_io env) (msg_data msg)) (\<lambda>job.
     if jq_haveUUID (job_id job) (srv_QueuedJobs s)
     then Inr (JobStatus_to_string (env_io env) (JobStatus_mk (job_id job) QUEUED), s)
     else if aj_haveUUID (job_id job) (srv_ActiveJobs s)
     then bindE (aj_status (job_id job) (srv_ActiveJobs s)) (\<lambda>js.
          bindE (aj_clearStatus (job_id job) (srv_ActiveJobs s)) (\<lambda>active.
          Inr (JobStatus_to_string (env_io env) js, s\<lparr>srv_ActiveJobs := active\<rparr>)))
     else Inr (JobStatus_to_string (env_io env) (JobStatus_mk (job_id job) INVALID_STATUS), s))"

definition queueJob ::
  "'f server_env \<Rightarrow> Message \<Rightarrow> 'f Server \<Rightarrow> (string \<times> 'f Server) result" where
  "queueJob env msg s =
     (let (jobUUID, s1) = draw_uuid env s in
      bindE (to_JobSubmission (msg_data msg)) (\<lambda>submission.
      let s2 = s1\<lparr>srv_QueuedJobs := snd (jq_addJob submission jobUUID (srv_QueuedJobs s1))\<rparr>;
          validJob = Job_mk (env_io env) jobUUID (msg_MeshIOType msg);
          s3 = srv_publish (jobQueued (env_io env) validJob (sub_requirements submission)) s2 in
      Inr (Job_to_string validJob, s3)))"

definition retrieveResult ::
  "'f server_env \<Rightarrow> Message \<Rightarrow> 'f Server \<Rightarrow> (string \<times> 'f Server) result" where
  "retrieveResult env msg s =
     bindE (to_Job (env_io env) (msg_data msg)) (\<lambda>job.
     if aj_haveUUID (job_id job) (srv_ActiveJobs s) \<and> aj_haveResult (job_id job) (srv_ActiveJobs s)
     then bindE (aj_result (job_id job) (srv_ActiveJobs s)) (\<lambda>result.
          Inr (JobResult_to_string (env_io env) result,
               s\<lparr>srv_ActiveJobs := snd (aj_remove (job_id job) (srv_ActiveJobs s))\<rparr>))
     else Inr (JobResult_to_string (env_io env) (JobResult_empty (job_id job)), s))"

definition terminateJob ::
  "'f server_env \<Rightarrow> Message \<Rightarrow> 'f Server \<Rightarrow> (string \<times> 'f Server) result" where
  "terminateJob env msg s =
     bindE (to_Job (env_io env) (msg_data msg)) (\<lambda>job.
     let currentlyInQueue = jq_haveUUID (job_id job) (srv_QueuedJobs s);
         currentlyActive = aj_haveUUID (job_id job) (srv_ActiveJobs s) in
     if \<not> (currentlyInQueue \<or> currentlyActive)
     then Inr (JobStatus_to_string (env_io env) (JobStatus_mk (job_id job) INVALID_STATUS), s)
     else
       let jstatus = JobStatus_mk (job_id job) FAILED in
       if currentlyInQueue then
         let s1 = s\<lparr>srv_QueuedJobs := snd (jq_remove (job_id job) (srv_QueuedJobs s))\<rparr>;
             s2 = srv_publish (jobTerminated_queued (env_io env) (JobStatus_mk (job_id job) QUEUED)) s1 in
         Inr (JobStatus_to_string (env_io env) jstatus, s2)
       else
         let worker = aj_workerAddress (job_id job) (srv_ActiveJobs s) in
         bindE (aj_status (job_id job) (srv_ActiveJobs s)) (\<lambda>lastStatus.
         let s1 = send_terminateJob env (job_id job) worker s;
             s2 = srv_publish (jobTerminated_worker (env_io env) lastStatus worker) s1 in
         Inr (JobStatus_to_string (env_io env) jstatus, s2)))"

definition DetermineClientResponse ::
  "'f server_env \<Rightarrow> SocketIdentity \<Rightarrow> Message \<Rightarrow> 'f Server \<Rightarrow> 'f Server result" where
  "DetermineClientResponse env client msg s =
     (if \<not> msg_valid msg
      then Inr (snd (send_client env INVALID_SERVICE INVALID_MSG client s))
      else
        bindE (case msg_serviceType msg of
            SUPPORTED_IO_TYPES \<Rightarrow> Inr (SUPPORTED_IO_TYPES, allSupportedMeshIOTypes env s, s)
          | CAN_MESH_IO_TYPE \<Rightarrow> Inr (CAN_MESH_IO_TYPE, canMesh env msg s, s)
          | CAN_MESH_REQUIREMENTS \<Rightarrow>
              bindE (canMeshRequirements env msg s) (\<lambda>d. Inr (CAN_MESH_REQUIREMENTS, d, s))
          | MESH_REQUIREMENTS_FOR_IO_TYPE \<Rightarrow>
              Inr (MESH_REQUIREMENTS_FOR_IO_TYPE, meshRequirements env msg s, s)
          | MAKE_MESH \<Rightarrow> bindE (queueJob env msg s) (\<lambda>(d, s'). Inr (MAKE_MESH, d, s'))
          | MESH_STATUS \<Rightarrow> bindE (meshStatus env msg s) (\<lambda>(d, s'). Inr (MESH_STATUS, d, s'))
          | RETRIEVE_RESULT \<Rightarrow>
              bindE (retrieveResult env msg s) (\<lambda>(d, s'). Inr (RETRIEVE_RESULT, d, s'))
          | TERMINATE_JOB \<Rightarrow> bindE (terminateJob env msg s) (\<lambda>(d, s'). Inr (TERMINATE_JOB, d, s'))
          | _ \<Rightarrow> Inr (INVALID_SERVICE, INVALID_MSG, s))
        (\<lambda>(service, data, s'). Inr (snd (send_client env service data client s'))))"

section \<open>Messages of workers\<close>

text \<open>\<open>boost::lexical_cast<boost::int64_t>\<close>: a decimal number with an optional sign, or a throw.\<close>

definition lexical_cast_int64 :: "string \<Rightarrow> int result" where
  "lexical_cast_int64 str =
     (let neg = (str \<noteq> [] \<and> hd str = CHR ''-'');
          ds = (if str \<noteq> [] \<and> (hd str = CHR ''-'' \<or> hd str = CHR ''+'') then tl str else str);
          n = int (digits_value ds); z = (if neg then - n else n) in
      if ds = [] \<or> \<not> list_all isdigit ds \<or> z < - (2 ^ 63) \<or> 2 ^ 63 \<le> z
      then Inl BadCast else Inr z)"

definition storeMeshStatus ::
  "'f server_env \<Rightarrow> SocketIdentity \<Rightarrow> Message \<Rightarrow> 'f Server \<Rightarrow> 'f Server result" where
  "storeMeshStatus env worker msg s =
     bindE (to_JobStatus (env_io env) (msg_data msg)) (\<lambda>js.
     Inr (srv_publish (publish_jobStatus (env_io env) js worker)
       (s\<lparr>srv_ActiveJobs := aj_updateStatus js (srv_ActiveJobs s)\<rparr>)))"

definition storeMesh ::
  "'f server_env \<Rightarrow> SocketIdentity \<Rightarrow> Message \<Rightarrow> 'f Server \<Rightarrow> 'f Server result" where
  "storeMesh env worker msg s =
     bindE (to_JobResult (env_io env) (msg_data msg)) (\<lambda>jr.
     Inr (srv_publish (jobFinished (env_io env) jr worker)
       (s\<lparr>srv_ActiveJobs := aj_updateResult jr (srv_ActiveJobs s)\<rparr>)))"

text \<open>The result tells whether a worker announced that it is shutting down.\<close>

definition DetermineWorkerResponse ::
  "'f server_env \<Rightarrow> SocketIdentity \<Rightarrow> Message \<Rightarrow> 'f Server \<Rightarrow> (bool \<times> 'f Server) result" where
  "DetermineWorkerResponse env worker msg s =
     (if \<not> msg_valid msg then Inr (False, s)
      else if msg_serviceType msg \<noteq> TERMINATE_WORKER \<and> msg_dataSize msg = 0 then Inr (False, s)
      else
        bindE (case msg_serviceType msg of
            CAN_MESH_REQUIREMENTS \<Rightarrow>
              bindE (to_JobRequirements (msg_data msg)) (\<lambda>reqs.
              Inr (False, srv_publish (workerRegistered worker reqs)
                (s\<lparr>srv_WorkerPool := snd (addWorker worker reqs (srv_WorkerPool s))\<rparr>)))
          | MAKE_MESH \<Rightarrow>
              bindE (to_JobRequirements (msg_data msg)) (\<lambda>reqs.
              Inr (False, srv_publish (workerReady worker reqs)
                (s\<lparr>srv_WorkerPool := snd (readyForWork worker reqs (srv_WorkerPool s))\<rparr>)))
          | MESH_STATUS \<Rightarrow> bindE (storeMeshStatus env worker msg s) (\<lambda>s'. Inr (False, s'))
          | RETRIEVE_RESULT \<Rightarrow>
              bindE (storeMesh env worker msg (snd (send_worker env RETRIEVE_RESULT INVALID_MSG worker s)))
                (\<lambda>s'. Inr (False, s'))
          | HEARTBEAT \<Rightarrow>
              bindE (lexical_cast_int64 (msg_data msg)) (\<lambda>dur.
              Inr (False, srv_publish (workerHeartbeat worker)
                (s\<lparr>srv_SocketMonitor := heartbeat (env_now env) worker dur (srv_SocketMonitor s)\<rparr>)))
          | TERMINATE_WORKER \<Rightarrow>
              Inr (True, srv_publish (workerTerminated worker)
                (s\<lparr>srv_SocketMonitor := markAsDead worker (srv_SocketMonitor s)\<rparr>))
          | _ \<Rightarrow> Inr (False, s))
        (\<lambda>(terminated, s').
          Inr (terminated,
               if msg_serviceType msg \<noteq> HEARTBEAT \<and> msg_serviceType msg \<noteq> TERMINATE_WORKER
               then s'\<lparr>srv_SocketMonitor := refresh (env_now env) worker (srv_SocketMonitor s')\<rparr>
               else s')))"

section \<open>Handing jobs to workers\<close>

definition assignJobToWorker ::
  "'f server_env \<Rightarrow> SocketIdentity \<Rightarrow> WorkerJob \<Rightarrow> 'f Server \<Rightarrow> 'f Server" where
  "assignJobToWorker env worker job s =
     (let s1 = s\<lparr>srv_ActiveJobs := snd (aj_add worker (wj_id job) (srv_ActiveJobs s))\<rparr>;
          (sent, s2) = send_worker env MAKE_MESH (WorkerJob_to_string (env_io env) job) worker s1 in
      if sent
      then srv_publish (jobSentToWorker (env_io env) job worker)
        (s2\<lparr>srv_SocketMonitor := refresh (env_now env) worker (srv_SocketMonitor s2)\<rparr>)
      else s2)"

text \<open>One pass over a set of requirements, giving each to a waiting worker if there is one.\<close>

definition assign_type ::
  "'f server_env \<Rightarrow> JobRequirements \<Rightarrow> bool \<times> 'f Server \<Rightarrow> bool \<times> 'f Server" where
  "assign_type env type acc =
     (case acc of (assigned, s) \<Rightarrow>
       if haveWaitingWorker type (srv_WorkerPool s) then
         let (worker, pool) = takeWorker type (srv_WorkerPool s);
             (job, queue) = jq_takeJob type (srv_QueuedJobs s) in
         (True, assignJobToWorker env worker job
                  (s\<lparr>srv_WorkerPool := pool, srv_QueuedJobs := queue\<rparr>))
       else (assigned, s))"

definition dispatch_type ::
  "'f server_env \<Rightarrow> JobRequirements \<Rightarrow> 'f Server \<Rightarrow> 'f Server" where
  "dispatch_type env type s =
     (let (created, factory) =
            fo_createWorker (env_factory env) type KillOnFactoryDeletion (srv_WorkerFactory s);
          s1 = s\<lparr>srv_WorkerFactory := factory\<rparr> in
      if created
      then s1\<lparr>srv_QueuedJobs := snd (jq_workerDispatched type (srv_QueuedJobs s1))\<rparr>
      else s1)"

definition FindWorkerForQueuedJob :: "'f server_env \<Rightarrow> 'f Server \<Rightarrow> 'f Server" where
  "FindWorkerForQueuedJob env s =
     (if jq_numJobsWaitingForWorkers (srv_QueuedJobs s) = 0 \<and>
         jq_numJobsJustQueued (srv_QueuedJobs s) = 0 then s
      else
        let waiting_types = jq_waitingJobRequirements (srv_QueuedJobs s);
            (_, s1) = fold (assign_type env) waiting_types (False, s);
            (queued_types, q2) = jq_queuedJobRequirements (srv_QueuedJobs s1);
            s2 = s1\<lparr>srv_QueuedJobs := q2\<rparr>;
            (assignedJob, s3) = fold (assign_type env) queued_types (False, s2);
            workerFactoryHasSpace =
              fo_currentWorkerCount (env_factory env) (srv_WorkerFactory s3) <
              fo_maxWorkerCount (env_factory env) (srv_WorkerFactory s3) in
        if workerFactoryHasSpace then
          let (queued_types', s4) =
                (if assignedJob
                 then let (ts, q4) = jq_queuedJobRequirements (srv_QueuedJobs s3) in
                      (ts, s3\<lparr>srv_QueuedJobs := q4\<rparr>)
                 else (queued_types, s3)) in
          fold (dispatch_type env) queued_types' s4
        else s3)"

definition CheckForChangeInWorkersAndJobs :: "'f server_env \<Rightarrow> 'f Server \<Rightarrow> 'f Server" where
  "CheckForChangeInWorkersAndJobs env s =
     (let (expiredJobs, active) =
            aj_markExpiredJobs (env_now env) (srv_SocketMonitor s) (srv_ActiveJobs s);
          s1 = srv_publish (jobsExpired (env_io env) expiredJobs) (s\<lparr>srv_ActiveJobs := active\<rparr>) in
      s1\<lparr>srv_WorkerPool := purgeDeadWorkers (env_now env) (srv_SocketMonitor s1) (srv_WorkerPool s1),
         srv_WorkerFactory := fo_updateWorkerCount (env_factory env) (srv_WorkerFactory s1)\<rparr>)"

definition terminate_one :: "'f server_env \<Rightarrow> SocketIdentity \<Rightarrow> 'f Server \<Rightarrow> 'f Server" where
  "terminate_one env worker s =
     (let (jobId, s1) = draw_uuid env s in send_terminateWorker env jobId worker s1)"

definition TerminateAllWorkers :: "'f server_env \<Rightarrow> 'f Server \<Rightarrow> 'f Server" where
  "TerminateAllWorkers env s =
     (let pendingWorkers = allResponsiveWorkers (srv_WorkerPool s);
          s1 = fold (terminate_one env) pendingWorkers s;
          activeWorkers = aj_activeWorkers (srv_ActiveJobs s1) in
      fold (terminate_one env) activeWorkers s1)"

section \<open>The broker loop\<close>

text \<open>
  What one turn of the loop finds: the outcome of the poll, the messages that are ready,
  and whether brokering was stopped meanwhile. The loop variable
  \<open>whenToCheckForDeadOrCompletedWorkers\<close> is passed along.
\<close>

record broker_input =
  bi_poll :: "poll_event list"
  bi_client :: "(SocketIdentity \<times> Message) option"
  bi_worker :: "(SocketIdentity \<times> Message) option"
  bi_brokering :: bool

definition workerCheckInterval :: int where
  "workerCheckInterval = 250"

definition Brokering_turn ::
  "'f server_env \<Rightarrow> broker_input \<Rightarrow> ptime \<times> 'f Server \<Rightarrow> (ptime \<times> 'f Server) result" where
  "Brokering_turn env i st =
     (case st of (whenToCheck, s) \<Rightarrow>
      let m = srv_SocketMonitor s in
      bindE (poll_safely (PollingMonitor_current (PollMonitor m)) (bi_poll i)) (\<lambda>_.
      let s1 = s\<lparr>srv_SocketMonitor := m\<lparr>PollMonitor := pollOccurred (env_now env) (PollMonitor m)\<rparr>\<rparr> in
      bindE (case bi_client i of
               Some (client, msg) \<Rightarrow> DetermineClientResponse env client msg s1
             | None \<Rightarrow> Inr s1) (\<lambda>s2.
      bindE (case bi_worker i of
               Some (worker, msg) \<Rightarrow> DetermineWorkerResponse env worker msg s2
             | None \<Rightarrow> Inr (False, s2)) (\<lambda>(worker_shutting_down, s3).
      let (whenToCheck', s4) =
            (if whenToCheck \<le> env_now env \<or> worker_shutting_down
             then (env_now env + milliseconds workerCheckInterval, CheckForChangeInWorkersAndJobs env s3)
             else (whenToCheck, s3)) in
      Inr (whenToCheck', if bi_brokering i then FindWorkerForQueuedJob env s4 else s4)))))"

definition Brokering_end :: "'f server_env \<Rightarrow> 'f Server \<Rightarrow> 'f Server" where
  "Brokering_end env s =
     (let s1 = srv_publish publish_stop s;
          s2 = s1\<lparr>srv_WorkerFactory := fo_setMaxWorkerCount (env_factory env) 0 (srv_WorkerFactory s1)\<rparr> in
      TerminateAllWorkers env s2)"

section \<open>The invariant of the broker\<close>

definition job_ids :: "'f Server \<Rightarrow> uuid set" where
  "job_ids s = queue_ids (srv_QueuedJobs s) \<union> info_ids (srv_ActiveJobs s)"

definition server_inv :: "(nat \<Rightarrow> uuid) \<Rightarrow> 'f Server \<Rightarrow> bool" where
  "server_inv gen s \<longleftrightarrow>
     queue_inv (srv_QueuedJobs s) \<and> cache_sound (srv_QueuedJobs s) \<and>
     active_inv (srv_ActiveJobs s) \<and> pool_inv (srv_WorkerPool s) \<and>
     monitor_inv (srv_SocketMonitor s) \<and>
     queue_ids (srv_QueuedJobs s) \<inter> info_ids (srv_ActiveJobs s) = {} \<and>
     job_ids s \<subseteq> gen ` {..<srv_uuids s}"

lemma server_inv_mk: "server_inv gen (Server_mk now f)"
  by (simp add: server_inv_def Server_mk_def SocketMonitor_default_def job_ids_def)
     (simp add: JobQueue_empty_def cache_sound_def active_inv_def info_inv_def info_ids_def
       queue_ids_def pool_inv_def)

text \<open>Logs, the clock and the factory do not matter to the invariant.\<close>

lemma srv_publish_simps [simp]:
  "srv_QueuedJobs (srv_publish ps s) = srv_QueuedJobs s"
  "srv_SocketMonitor (srv_publish ps s) = srv_SocketMonitor s"
  "srv_WorkerPool (srv_publish ps s) = srv_WorkerPool s"
  "srv_ActiveJobs (srv_publish ps s) = srv_ActiveJobs s"
  "srv_WorkerFactory (srv_publish ps s) = srv_WorkerFactory s"
  "srv_uuids (srv_publish ps s) = srv_uuids s"
  "srv_client_out (srv_publish ps s) = srv_client_out s"
  "srv_worker_out (srv_publish ps s) = srv_worker_out s"
  by (simp_all add: srv_publish_def)

lemma send_simps [simp]:
  "srv_QueuedJobs (snd (send_worker env t d w s)) = srv_QueuedJobs s"
  "srv_SocketMonitor (snd (send_worker env t d w s)) = srv_SocketMonitor s"
  "srv_WorkerPool (snd (send_worker env t d w s)) = srv_WorkerPool s"
  "srv_ActiveJobs (snd (send_worker env t d w s)) = srv_ActiveJobs s"
  "srv_WorkerFactory (snd (send_worker env t d w s)) = srv_WorkerFactory s"
  "srv_uuids (snd (send_worker env t d w s)) = srv_uuids s"
  "srv_client_out (snd (send_worker env t d w s)) = srv_client_out s"
  "srv_QueuedJobs (snd (send_client env t d w s)) = srv_QueuedJobs s"
  "srv_SocketMonitor (snd (send_client env t d w s)) = srv_SocketMonitor s"
  "srv_WorkerPool (snd (send_client env t d w s)) = srv_WorkerPool s"
  "srv_ActiveJobs (snd (send_client env t d w s)) = srv_ActiveJobs s"
  "srv_WorkerFactory (snd (send_client env t d w s)) = srv_WorkerFactory s"
  "srv_uuids (snd (send_client env t d w s)) = srv_uuids s"
  "srv_worker_out (snd (send_client env t d w s)) = srv_worker_out s"
  by (simp_all add: send_worker_def send_client_def)

lemma server_inv_cong:
  "srv_QueuedJobs s' = srv_QueuedJobs s \<Longrightarrow> srv_SocketMonitor s' = srv_SocketMonitor s \<Longrightarrow>
   srv_WorkerPool s' = srv_WorkerPool s \<Longrightarrow> srv_ActiveJobs s' = srv_ActiveJobs s \<Longrightarrow>
   srv_uuids s' = srv_uuids s \<Longrightarrow> server_inv gen s' = server_inv gen s \<and> job_ids s' = job_ids s"
  by (simp add: server_inv_def job_ids_def)

lemma server_inv_send [simp]:
  "server_inv gen (snd (send_client env t d w s)) = server_inv gen s"
  "job_ids (snd (send_client env t d w s)) = job_ids s"
  "server_inv gen (snd (send_worker env t d w s)) = server_inv gen s"
  "job_ids (snd (send_worker env t d w s)) = job_ids s"
  "server_inv gen (srv_publish ps s) = server_inv gen s"
  "job_ids (srv_publish ps s) = job_ids s"
  by (simp_all add: server_inv_def job_ids_def)

lemma server_inv_parts:
  assumes "server_inv gen s"
  shows "queue_inv (srv_QueuedJobs s)" and "cache_sound (srv_QueuedJobs s)"
    and "active_inv (srv_ActiveJobs s)" and "pool_inv (srv_WorkerPool s)"
    and "monitor_inv (srv_SocketMonitor s)" and "info_inv (srv_ActiveJobs s)"
    and "queue_ids (srv_QueuedJobs s) \<inter> info_ids (srv_ActiveJobs s) = {}"
    and "job_ids s \<subseteq> gen ` {..<srv_uuids s}"
  using assms by (simp_all add: server_inv_def active_inv_def)

lemma server_inv_active:
  assumes "server_inv gen s" and "active_inv a" and "info_ids a = info_ids (srv_ActiveJobs s)"
  shows "server_inv gen (s\<lparr>srv_ActiveJobs := a\<rparr>)" and "job_ids (s\<lparr>srv_ActiveJobs := a\<rparr>) = job_ids s"
  using assms by (simp_all add: server_inv_def job_ids_def)

lemma server_inv_pool:
  "server_inv gen s \<Longrightarrow> pool_inv p \<Longrightarrow> server_inv gen (s\<lparr>srv_WorkerPool := p\<rparr>)"
  "job_ids (s\<lparr>srv_WorkerPool := p\<rparr>) = job_ids s"
  by (simp_all add: server_inv_def job_ids_def)

lemma server_inv_monitor:
  "server_inv gen s \<Longrightarrow> monitor_inv m \<Longrightarrow> server_inv gen (s\<lparr>srv_SocketMonitor := m\<rparr>)"
  "job_ids (s\<lparr>srv_SocketMonitor := m\<rparr>) = job_ids s"
  by (simp_all add: server_inv_def job_ids_def)

lemma monitor_inv_poll [simp]: "monitor_inv (m\<lparr>PollMonitor := p\<rparr>) = monitor_inv m"
  by (simp add: monitor_inv_def)

subsection \<open>Clients\<close>

lemma meshStatus_inv:
  assumes "server_inv gen s" and "meshStatus env msg s = Inr (d, s')"
  shows "server_inv gen s' \<and> job_ids s' = job_ids s"
  using assms active_inv_ops(7,8) [OF server_inv_parts(3) [OF assms(1)]]
  by (auto simp: meshStatus_def bindE_eq_Inr server_inv_active split: if_splits)

lemma fresh_uuid:
  assumes "server_inv gen s" and "inj_on gen {..<srv_uuids s + 1}"
  shows "gen (srv_uuids s) \<notin> job_ids s"
proof
  assume "gen (srv_uuids s) \<in> job_ids s"
  then obtain n where "n < srv_uuids s" "gen (srv_uuids s) = gen n"
    using server_inv_parts(8) [OF assms(1)] by auto
  with assms(2) show False by (auto dest: inj_onD)
qed

lemma queueJob_uuids: "queueJob env msg s = Inr (d, s') \<Longrightarrow> srv_uuids s' = srv_uuids s + 1"
  by (auto simp: queueJob_def draw_uuid_def bindE_eq_Inr Let_def)

lemma queueJob_inv:
  assumes "server_inv gen s" and "env_generate env = gen"
    and "queueJob env msg s = Inr (d, s')" and "inj_on gen {..<srv_uuids s'}"
  shows "server_inv gen s' \<and> job_ids s' = insert (gen (srv_uuids s)) (job_ids s)"
proof -
  let ?i = "gen (srv_uuids s)"
  obtain sub where s': "srv_QueuedJobs s' = snd (jq_addJob sub ?i (srv_QueuedJobs s))"
    "srv_SocketMonitor s' = srv_SocketMonitor s" "srv_WorkerPool s' = srv_WorkerPool s"
    "srv_ActiveJobs s' = srv_ActiveJobs s" "srv_uuids s' = srv_uuids s + 1"
    using assms(2,3) by (auto simp: queueJob_def draw_uuid_def bindE_eq_Inr Let_def)
  note parts = server_inv_parts [OF assms(1)]
  have fresh: "?i \<notin> job_ids s" using fresh_uuid [OF assms(1)] assms(4) s'(5) by simp
  have ids: "queue_ids (srv_QueuedJobs s') = insert ?i (queue_ids (srv_QueuedJobs s))"
    using s' queue.add_ids [OF parts(1)] by simp
  have "cache_sound (srv_QueuedJobs s')"
    using cache_sound_step [OF parts(1,2), of "QAdd ?i sub"] s' by simp
  moreover have "queue_inv (srv_QueuedJobs s')"
    using s' queue.add_inv [OF parts(1)] by simp
  moreover have "job_ids s' = insert ?i (job_ids s)" using ids s' by (auto simp: job_ids_def)
  moreover have "job_ids s' \<subseteq> gen ` {..<srv_uuids s'}"
    using parts(8) s' calculation by (auto simp: image_subset_iff less_Suc_eq)
  ultimately show ?thesis
    using parts fresh s' ids by (auto simp: server_inv_def job_ids_def)
qed

lemma retrieveResult_inv:
  assumes "server_inv gen s" and "retrieveResult env msg s = Inr (d, s')"
  shows "server_inv gen s' \<and> (\<exists>job. to_Job (env_io env) (msg_data msg) = Inr job \<and>
    job_ids s - {job_id job} \<subseteq> job_ids s' \<and> job_ids s' \<subseteq> job_ids s)"
proof -
  note parts = server_inv_parts [OF assms(1)]
  from assms(2) obtain job where job: "to_Job (env_io env) (msg_data msg) = Inr job"
    and s': "s' = s \<or> s' = s\<lparr>srv_ActiveJobs := snd (aj_remove (job_id job) (srv_ActiveJobs s))\<rparr>"
    by (auto simp: retrieveResult_def bindE_eq_Inr split: if_splits)
  have "server_inv gen s' \<and> job_ids s - {job_id job} \<subseteq> job_ids s' \<and> job_ids s' \<subseteq> job_ids s"
    using s' parts active.remove_ids [OF parts(6), of "job_id job"] active_inv_ops(2) [OF parts(3)] assms(1)
    by (auto simp: server_inv_def job_ids_def)
  with job show ?thesis by blast
qed

lemma server_inv_queue:
  assumes "server_inv gen s" and "queue_inv q" and "cache_sound q"
    and "queue_ids q \<subseteq> queue_ids (srv_QueuedJobs s)"
  shows "server_inv gen (s\<lparr>srv_QueuedJobs := q\<rparr>)"
  using assms by (auto simp: server_inv_def job_ids_def)

lemma terminateJob_inv:
  assumes "server_inv gen s" and "terminateJob env msg s = Inr (d, s')"
  shows "server_inv gen s' \<and> (\<exists>job. to_Job (env_io env) (msg_data msg) = Inr job \<and>
    job_ids s - {job_id job} \<subseteq> job_ids s' \<and> job_ids s' \<subseteq> job_ids s)"
proof -
  note parts = server_inv_parts [OF assms(1)]
  from assms(2) obtain job where job: "to_Job (env_io env) (msg_data msg) = Inr job"
    by (auto simp: terminateJob_def bindE_eq_Inr)
  let ?q = "snd (jq_remove (job_id job) (srv_QueuedJobs s))"
  have q: "queue_inv ?q" "cache_sound ?q" "queue_ids ?q = queue_ids (srv_QueuedJobs s) - {job_id job}"
    using parts(1,2) cache_sound_step [OF parts(1,2), of "QRemove (job_id job)"]
    by (simp_all add: queue.remove_inv queue.remove_ids)
  have inv: "server_inv gen (s\<lparr>srv_QueuedJobs := ?q\<rparr>)"
    by (rule server_inv_queue [OF assms(1) q(1,2)]) (auto simp: q(3))
  have "server_inv gen s' \<and> job_ids s - {job_id job} \<subseteq> job_ids s' \<and> job_ids s' \<subseteq> job_ids s"
    using assms job inv
    by (auto simp: terminateJob_def bindE_eq_Inr Let_def send_terminateJob_def split: if_splits)
       (auto simp: job_ids_def q(3))
  with job show ?thesis by blast
qed

text \<open>The jobs a client message asks the server to let go of.\<close>

definition drops :: "'f server_env \<Rightarrow> Message \<Rightarrow> uuid set" where
  "drops env msg =
     (if msg_valid msg \<and> msg_serviceType msg \<in> {RETRIEVE_RESULT, TERMINATE_JOB}
      then (case to_Job (env_io env) (msg_data msg) of Inl e \<Rightarrow> {} | Inr job \<Rightarrow> {job_id job})
      else {})"

lemma DetermineClientResponse_inv:
  assumes "server_inv gen s" and "env_generate env = gen"
    and "DetermineClientResponse env client msg s = Inr s'" and "inj_on gen {..<srv_uuids s'}"
  shows "server_inv gen s' \<and> job_ids s - drops env msg \<subseteq> job_ids s'"
  using assms(3,4)
  by (auto simp: DetermineClientResponse_def bindE_eq_Inr drops_def assms(1)
      split: if_splits SERVICE_TYPE.splits
      dest!: meshStatus_inv [OF assms(1)] queueJob_inv [OF assms(1,2)]
        retrieveResult_inv [OF assms(1)] terminateJob_inv [OF assms(1)])

subsection \<open>Workers\<close>

lemma storeMesh_inv:
  assumes "server_inv gen s"
  shows "storeMeshStatus env w msg s = Inr s' \<Longrightarrow> server_inv gen s' \<and> job_ids s' = job_ids s"
    and "storeMesh env w msg s = Inr s' \<Longrightarrow> server_inv gen s' \<and> job_ids s' = job_ids s"
  using assms active_inv_ops(3-6) [OF server_inv_parts(3) [OF assms]]
  by (auto simp: storeMeshStatus_def storeMesh_def bindE_eq_Inr server_inv_active)

lemma server_inv_refresh:
  "server_inv gen s \<Longrightarrow>
   server_inv gen (s\<lparr>srv_SocketMonitor := refresh now w (srv_SocketMonitor s)\<rparr>)"
  by (rule server_inv_monitor) (simp_all add: monitor_inv_steps server_inv_parts(5))

lemma DetermineWorkerResponse_inv:
  assumes "server_inv gen s" and "DetermineWorkerResponse env w msg s = Inr (b, s')"
  shows "server_inv gen s' \<and> job_ids s' = job_ids s"
proof (cases "msg_valid msg \<and> (msg_serviceType msg = TERMINATE_WORKER \<or> msg_dataSize msg \<noteq> 0)")
  case True
  note parts = server_inv_parts [OF assms(1)]
  have sent: "server_inv gen (snd (send_worker env t d w s))" for t d using assms(1) by simp
  note simps = DetermineWorkerResponse_def bindE_eq_Inr server_inv_pool server_inv_monitor
    server_inv_refresh pool_inv_add pool_inv_ready parts monitor_inv_steps
  show ?thesis
    using True assms storeMesh_inv(1) [OF assms(1)] storeMesh_inv(2) [OF sent]
    by (cases "msg_serviceType msg") (fastforce simp: simps)+
qed (use assms in \<open>auto simp: DetermineWorkerResponse_def split: if_splits\<close>)

end
