(* ===== verification/Remus_Broker.thy ===== *)
theory Remus_Broker
  imports Remus_Server
begin

text \<open>
  What \<open>remus/server/Server.cxx\<close> promises about jobs, as an abstract broker: the queued jobs
  and, for the others, the worker they were handed to. Jobs are submitted, handed to one
  worker and dropped; nothing else happens to them. Every handler and every turn of the
  broker loop of \<open>Remus_Server\<close> refines a run of the abstract broker.
\<close>

section \<open>The abstract broker\<close>

type_synonym abs_broker = "QueuedJob set \<times> (uuid \<rightharpoonup> SocketIdentity)"

datatype broker_event = Submit QueuedJob | Assign QueuedJob SocketIdentity | Drop uuid

inductive broker_step :: "broker_event \<Rightarrow> abs_broker \<Rightarrow> abs_broker \<Rightarrow> bool" where
  submit: "qj_Id x \<notin> qj_Id ` Q \<Longrightarrow> R (qj_Id x) = None \<Longrightarrow> broker_step (Submit x) (Q, R) (insert x Q, R)"
| assign: "x \<in> Q \<Longrightarrow> R (qj_Id x) = None \<Longrightarrow>
    broker_step (Assign x w) (Q, R) (Q - {x}, R(qj_Id x \<mapsto> w))"
| drop_queued: "x \<in> Q \<Longrightarrow> broker_step (Drop (qj_Id x)) (Q, R) (Q - {x}, R)"
| drop_running: "R i \<noteq> None \<Longrightarrow> broker_step (Drop i) (Q, R) (Q, R(i := None))"

inductive_cases broker_stepE: "broker_step e a b"

inductive broker_run :: "broker_event list \<Rightarrow> abs_broker \<Rightarrow> abs_broker \<Rightarrow> bool" where
  run_none: "broker_run [] a a"
| run_more: "broker_step e a b \<Longrightarrow> broker_run es b c \<Longrightarrow> broker_run (e # es) a c"

inductive_simps broker_run_Nil [simp]: "broker_run [] a b"
inductive_simps broker_run_Cons: "broker_run (e # es) a b"

lemma broker_run_append:
  "broker_run es a b \<Longrightarrow> broker_run fs b c \<Longrightarrow> broker_run (es @ fs) a c"
  by (induction rule: broker_run.induct) (auto intro: broker_run.intros)

lemma broker_run_one: "broker_step e a b \<Longrightarrow> broker_run [e] a b"
  by (rule run_more [OF _ run_none])

definition abs_ids :: "abs_broker \<Rightarrow> uuid set" where
  "abs_ids a = qj_Id ` fst a \<union> dom (snd a)"

lemma broker_step_ids:
  "broker_step e a b \<Longrightarrow> abs_ids a - {i. e = Drop i} \<subseteq> abs_ids b"
  by (auto elim!: broker_stepE simp: abs_ids_def split: if_splits)

lemma broker_run_ids:
  "broker_run es a b \<Longrightarrow> abs_ids a - {i. Drop i \<in> set es} \<subseteq> abs_ids b"
proof (induction rule: broker_run.induct)
  case (run_more e a b es c)
  then show ?case using broker_step_ids [of e a b] by auto
qed simp

text \<open>Once a job runs on a worker, it stays with that worker until it is dropped.\<close>

lemma broker_run_worker:
  "broker_run es a b \<Longrightarrow> snd a i = Some w \<Longrightarrow> Drop i \<notin> set es \<Longrightarrow>
   snd b i = Some w \<and> i \<notin> qj_Id ` {x. \<exists>w. Assign x w \<in> set es}"
proof (induction rule: broker_run.induct)
  case (run_more e a b es c)
  from run_more.hyps(1) run_more.prems have "snd b i = Some w \<and> (\<forall>x w. e = Assign x w \<longrightarrow> qj_Id x \<noteq> i)"
    by (cases rule: broker_step.cases) auto
  with run_more show ?case by auto
qed simp

section \<open>Abstraction of the server\<close>

definition running_of :: "ActiveJobs \<Rightarrow> uuid \<rightharpoonup> SocketIdentity" where
  "running_of info i = map_option WorkerAddress (map_find (<) i info)"

definition abs_of :: "'f Server \<Rightarrow> abs_broker" where
  "abs_of s = (set (pending (srv_QueuedJobs s)), running_of (srv_ActiveJobs s))"

lemma abs_ids_of: "abs_ids (abs_of s) = job_ids s"
  by (auto simp: abs_ids_def abs_of_def job_ids_def queue_ids_def ids_of_def info_ids_def
      running_of_def pending_def dom_def)

lemma abs_of_cong:
  "srv_QueuedJobs s' = srv_QueuedJobs s \<Longrightarrow> srv_ActiveJobs s' = srv_ActiveJobs s \<Longrightarrow>
   abs_of s' = abs_of s"
  by (simp add: abs_of_def)

lemma abs_of_simps [simp]:
  "abs_of (snd (send_client env t d w s)) = abs_of s"
  "abs_of (snd (send_worker env t d w s)) = abs_of s"
  "abs_of (srv_publish ps s) = abs_of s"
  "abs_of (s\<lparr>srv_WorkerPool := p\<rparr>) = abs_of s"
  "abs_of (s\<lparr>srv_SocketMonitor := m\<rparr>) = abs_of s"
  "abs_of (s\<lparr>srv_WorkerFactory := f\<rparr>) = abs_of s"
  by (simp_all add: abs_of_def)

lemma running_step:
  assumes "active_step p info = Inr info'" and "info_inv info"
  shows "running_of info' =
    (case p of
       AAdd w i \<Rightarrow> if running_of info i = None then (running_of info)(i \<mapsto> w) else running_of info
     | ARemove i \<Rightarrow> (running_of info)(i := None)
     | _ \<Rightarrow> running_of info)"
  unfolding running_of_def active_step_find [OF assms]
  by (cases p) (auto simp: fun_eq_iff JobState_mk_def expire_def option.map_comp
      intro!: option.map_cong)

lemma running_ops:
  assumes "info_inv info"
  shows "running_of (snd (aj_add w i info)) =
      (if running_of info i = None then (running_of info)(i \<mapsto> w) else running_of info)"
    and "running_of (snd (aj_remove i info)) = (running_of info)(i := None)"
    and "running_of (aj_updateStatus s info) = running_of info"
    and "running_of (aj_updateResult r info) = running_of info"
    and "aj_clearStatus i info = Inr info' \<Longrightarrow> running_of info' = running_of info"
    and "running_of (snd (aj_markExpiredJobs now m info)) = running_of info"
  using running_step [of "AAdd w i" info] running_step [of "ARemove i" info]
    running_step [of "AUpdateStatus s" info] running_step [of "AUpdateResult r" info]
    running_step [of "AClearStatus i" info] running_step [of "AMarkExpired now m" info] assms
  by simp_all

lemma pending_add:
  "queue_inv q \<Longrightarrow> i \<notin> queue_ids q \<Longrightarrow>
   set (pending (snd (jq_addJob sub i q))) = insert \<lparr>qj_Id = i, qj_Submission = sub\<rparr> (set (pending q))"
  by (auto simp: jq_addJob_def uuid_order.set_count_iff queue_ids_QueuedIds Let_def pending_def
      set_insert_at)

lemma pending_dispatched:
  "queue_inv q \<Longrightarrow> set (pending (snd (jq_workerDispatched reqs q))) = set (pending q)"
proof (cases "find (JobTypeMatches reqs) (QueuedJobs q)")
  case (Some x)
  assume inv: "queue_inv q"
  from Some have "x \<in> set (QueuedJobs q)" by (auto dest: find_if_find(2))
  moreover have "qj_Id y \<noteq> qj_Id x \<or> y = x" if "y \<in> set (QueuedJobs q)" for y
    using that calculation queued_distinct [of "QueuedJobs q"] inv
    by (auto simp: queue_inv_def distinct_map dest: inj_onD)
  ultimately show ?thesis using inv Some by (auto simp: dispatched_eq pending_def)
qed (simp add: dispatched_eq)

lemma pending_requirements [simp]: "pending (snd (jq_queuedJobRequirements q)) = pending q"
  by (simp add: jq_queuedJobRequirements_def Let_def pending_def)

lemma pending_ids: "qj_Id ` set (pending q) = queue_ids q"
  by (auto simp: pending_def queue_ids_def ids_of_def)

lemma pending_distinct:
  assumes "queue_inv q"
  shows "distinct (map qj_Id (pending q))"
proof -
  have "distinct (map qj_Id (QueuedJobs q))" "distinct (map qj_Id (JobsWaitingForWorker q))"
    "ids_of (QueuedJobs q) \<inter> ids_of (JobsWaitingForWorker q) = {}"
    using assms queued_distinct by (auto simp: queue_inv_def)
  then show ?thesis by (auto simp: pending_def ids_of_def)
qed

lemma pending_inj: "queue_inv q \<Longrightarrow> inj_on qj_Id (set (pending q))"
  using pending_distinct by (simp only: distinct_map)

lemma pending_remove_set:
  assumes "queue_inv q" and "x \<in> set (pending q)"
  shows "set (pending (snd (jq_remove (qj_Id x) q))) = set (pending q) - {x}"
  using assms pending_inj [OF assms(1)] by (auto simp: pending_remove dest: inj_onD)

section \<open>Handlers refine the abstract broker\<close>

lemma abs_of_active:
  "running_of a = running_of (srv_ActiveJobs s) \<Longrightarrow> abs_of (s\<lparr>srv_ActiveJobs := a\<rparr>) = abs_of s"
  by (simp add: abs_of_def)

lemma meshStatus_abs:
  assumes "server_inv gen s" and "meshStatus env msg s = Inr (d, s')"
  shows "abs_of s' = abs_of s"
  using assms running_ops(5) [OF server_inv_parts(6) [OF assms(1)]]
  by (auto simp: meshStatus_def bindE_eq_Inr abs_of_active split: if_splits)

lemma queueJob_abs:
  assumes "server_inv gen s" and "env_generate env = gen"
    and "queueJob env msg s = Inr (d, s')" and "inj_on gen {..<srv_uuids s'}"
  shows "\<exists>x. broker_step (Submit x) (abs_of s) (abs_of s') \<and> qj_Id x = gen (srv_uuids s) \<and>
    to_JobSubmission (msg_data msg) = Inr (qj_Submission x)"
proof -
  let ?i = "gen (srv_uuids s)"
  note parts = server_inv_parts [OF assms(1)]
  obtain sub where sub: "to_JobSubmission (msg_data msg) = Inr sub"
    and s': "srv_QueuedJobs s' = snd (jq_addJob sub ?i (srv_QueuedJobs s))"
      "srv_ActiveJobs s' = srv_ActiveJobs s"
    using assms(2,3) by (auto simp: queueJob_def draw_uuid_def bindE_eq_Inr Let_def)
  let ?x = "\<lparr>qj_Id = ?i, qj_Submission = sub\<rparr>"
  have fresh: "?i \<notin> job_ids s"
    using fresh_uuid [OF assms(1)] assms(4) queueJob_uuids [OF assms(3)] by simp
  then have "abs_of s' = (insert ?x (set (pending (srv_QueuedJobs s))), running_of (srv_ActiveJobs s))"
    using s' pending_add [OF parts(1)] by (simp add: abs_of_def job_ids_def)
  moreover have "qj_Id ?x \<notin> qj_Id ` set (pending (srv_QueuedJobs s))"
    "running_of (srv_ActiveJobs s) (qj_Id ?x) = None"
    using fresh by (simp_all add: job_ids_def pending_ids running_of_def info_ids_def)
  ultimately have "broker_step (Submit ?x) (abs_of s) (abs_of s')"
    using submit by (simp add: abs_of_def)
  with sub show ?thesis by force
qed

lemma retrieveResult_abs:
  assumes "server_inv gen s" and "retrieveResult env msg s = Inr (d, s')"
  shows "abs_of s' = abs_of s \<or> (\<exists>job. to_Job (env_io env) (msg_data msg) = Inr job \<and>
    broker_step (Drop (job_id job)) (abs_of s) (abs_of s'))"
  using assms(2) running_ops(2) [OF server_inv_parts(6) [OF assms(1)]]
  by (auto simp: retrieveResult_def bindE_eq_Inr abs_of_def aj_haveUUID_iff running_of_def
      split: if_splits intro!: drop_running)

lemma terminateJob_abs:
  assumes "server_inv gen s" and "terminateJob env msg s = Inr (d, s')"
  shows "abs_of s' = abs_of s \<or> (\<exists>job. to_Job (env_io env) (msg_data msg) = Inr job \<and>
    broker_step (Drop (job_id job)) (abs_of s) (abs_of s'))"
proof -
  note parts = server_inv_parts [OF assms(1)]
  from assms(2) obtain job where job: "to_Job (env_io env) (msg_data msg) = Inr job"
    by (auto simp: terminateJob_def bindE_eq_Inr)
  have s': "abs_of s' = abs_of s \<or> jq_haveUUID (job_id job) (srv_QueuedJobs s) \<and>
      abs_of s' = abs_of (s\<lparr>srv_QueuedJobs := snd (jq_remove (job_id job) (srv_QueuedJobs s))\<rparr>)"
    using assms(2) job
    by (auto simp: terminateJob_def bindE_eq_Inr Let_def send_terminateJob_def split: if_splits)
  have "broker_step (Drop (job_id job)) (abs_of s)
      (abs_of (s\<lparr>srv_QueuedJobs := snd (jq_remove (job_id job) (srv_QueuedJobs s))\<rparr>))"
    if "jq_haveUUID (job_id job) (srv_QueuedJobs s)"
  proof -
    from that obtain x where x: "x \<in> set (pending (srv_QueuedJobs s))" "job_id job = qj_Id x"
      using queue.have_iff [OF parts(1)] by (auto simp flip: pending_ids)
    with pending_remove_set [OF parts(1) x(1)] show ?thesis
      by (simp add: abs_of_def drop_queued)
  qed
  with s' job show ?thesis by auto
qed

text \<open>What clients and workers cause.\<close>

lemma DetermineClientResponse_abs:
  assumes "server_inv gen s" and "env_generate env = gen"
    and "DetermineClientResponse env client msg s = Inr s'" and "inj_on gen {..<srv_uuids s'}"
  shows "\<exists>es. broker_run es (abs_of s) (abs_of s') \<and>
    (\<forall>e\<in>set es. (\<exists>x. e = Submit x) \<or> (\<exists>i\<in>drops env msg. e = Drop i))"
proof -
  have "abs_of s' = abs_of s \<or> (\<exists>x. broker_step (Submit x) (abs_of s) (abs_of s')) \<or>
      (\<exists>i\<in>drops env msg. broker_step (Drop i) (abs_of s) (abs_of s'))"
    using assms(3,4)
    by (auto simp: DetermineClientResponse_def bindE_eq_Inr drops_def
        split: if_splits SERVICE_TYPE.splits
        dest!: meshStatus_abs [OF assms(1)] queueJob_abs [OF assms(1,2)]
          retrieveResult_abs [OF assms(1)] terminateJob_abs [OF assms(1)])
  then show ?thesis
    by (elim disjE exE bexE) (fastforce intro: broker_run_one run_none)+
qed

lemma storeMesh_abs:
  assumes "server_inv gen s"
  shows "storeMeshStatus env w msg s = Inr s' \<Longrightarrow> abs_of s' = abs_of s"
    and "storeMesh env w msg s = Inr s' \<Longrightarrow> abs_of s' = abs_of s"
  using running_ops(3,4) [OF server_inv_parts(6) [OF assms]]
  by (auto simp: storeMeshStatus_def storeMesh_def bindE_eq_Inr abs_of_active)

lemma DetermineWorkerResponse_abs:
  assumes "server_inv gen s" and "DetermineWorkerResponse env w msg s = Inr (b, s')"
  shows "abs_of s' = abs_of s"
proof (cases "msg_valid msg \<and> (msg_serviceType msg = TERMINATE_WORKER \<or> msg_dataSize msg \<noteq> 0)")
  case True
  have sent: "server_inv gen (snd (send_worker env t d w s))" for t d using assms(1) by simp
  show ?thesis
    using True assms storeMesh_abs(1) [OF assms(1)] storeMesh_abs(2) [OF sent]
    by (cases "msg_serviceType msg") (fastforce simp: DetermineWorkerResponse_def bindE_eq_Inr)+
qed (use assms in \<open>auto simp: DetermineWorkerResponse_def split: if_splits\<close>)

section \<open>Handing jobs to workers\<close>

definition pool_entry :: "WorkerInfo \<Rightarrow> SocketIdentity \<times> JobRequirements \<times> bool" where
  "pool_entry v = (wi_Address v, wi_Reqs v, IsResponsive v)"

lemma takeWorker_entry:
  assumes "haveWaitingWorker r pool"
  shows "\<exists>v\<in>set pool. wi_Address v = fst (takeWorker r pool) \<and> IsResponsive v \<and>
    JobRequirements_eq (wi_Reqs v) r"
proof -
  have i: "find_if (wants_job r) pool < length pool" using assms by (simp add: takeWorker_found)
  with find_if_holds [OF i] show ?thesis
    by (auto simp: takeWorker_def Let_def wants_job_def isWaitingForWork_def
        intro!: bexI [of _ "pool ! find_if (wants_job r) pool"])
qed

lemma takeWorker_entries: "pool_entry ` set (snd (takeWorker r pool)) \<subseteq> pool_entry ` set pool"
proof (cases "find_if (wants_job r) pool < length pool")
  case True
  have "pool_entry (takesJob v) = pool_entry v" for v by (simp add: pool_entry_def takesJob_def)
  with True set_take_update [OF True] show ?thesis
    by (auto simp: takeWorker_def Let_def rotate_left_one_def) (metis image_eqI nth_mem)
qed (simp add: takeWorker_def Let_def)

fun job_message :: "'f server_env \<Rightarrow> broker_event \<Rightarrow> response list" where
  "job_message env (Assign x w) =
     (if env_send_ok env w
      then [(w, MAKE_MESH, WorkerJob_to_string (env_io env) (WorkerJob_mk (qj_Id x) (qj_Submission x)))]
      else [])"
| "job_message env _ = []"

definition job_messages :: "'f server_env \<Rightarrow> broker_event list \<Rightarrow> response list" where
  "job_messages env es = concat (map (job_message env) es)"

text \<open>
  Between two states only hand-overs happened: each to a responsive worker of the pool
  whose requirements equal the job's, each announced to that worker.
\<close>

definition suits :: "WorkerPool \<Rightarrow> broker_event \<Rightarrow> bool" where
  "suits pool e \<longleftrightarrow>
     (case e of
        Assign x w \<Rightarrow> \<exists>v\<in>set pool. wi_Address v = w \<and> IsResponsive v \<and>
          JobRequirements_eq (wi_Reqs v) (sub_requirements (qj_Submission x))
      | _ \<Rightarrow> False)"

text \<open>Active jobs stay as they are, and new ones are at workers of the pool.\<close>

definition active_kept :: "'f Server \<Rightarrow> 'f Server \<Rightarrow> bool" where
  "active_kept s s' \<longleftrightarrow>
     (\<forall>i st. map_find (<) i (srv_ActiveJobs s) = Some st \<longrightarrow> map_find (<) i (srv_ActiveJobs s') = Some st) \<and>
     (\<forall>i st. map_find (<) i (srv_ActiveJobs s') = Some st \<longrightarrow>
        map_find (<) i (srv_ActiveJobs s) = Some st \<or> WorkerAddress st \<in> wi_Address ` set (srv_WorkerPool s))"

lemma active_kept_same: "srv_ActiveJobs s' = srv_ActiveJobs s \<Longrightarrow> active_kept s s'"
  by (simp add: active_kept_def)

lemma pool_entry_address:
  "pool_entry ` set p' \<subseteq> pool_entry ` set p \<Longrightarrow> wi_Address ` set p' \<subseteq> wi_Address ` set p"
  using image_mono [of "pool_entry ` set p'" "pool_entry ` set p" fst]
  by (simp add: image_image pool_entry_def)

lemma active_kept_trans:
  assumes "active_kept s s'" and "active_kept s' s''"
    and "pool_entry ` set (srv_WorkerPool s') \<subseteq> pool_entry ` set (srv_WorkerPool s)"
  shows "active_kept s s''"
  using assms(1,2) pool_entry_address [OF assms(3)] unfolding active_kept_def by blast

definition hand_over ::
  "(nat \<Rightarrow> uuid) \<Rightarrow> 'f server_env \<Rightarrow> 'f Server \<Rightarrow> broker_event list \<Rightarrow> 'f Server \<Rightarrow> bool" where
  "hand_over gen env s es s' \<longleftrightarrow>
     server_inv gen s' \<and> broker_run es (abs_of s) (abs_of s') \<and>
     srv_worker_out s' = srv_worker_out s @ job_messages env es \<and>
     srv_client_out s' = srv_client_out s \<and> srv_uuids s' = srv_uuids s \<and>
     pool_entry ` set (srv_WorkerPool s') \<subseteq> pool_entry ` set (srv_WorkerPool s) \<and>
     list_all (suits (srv_WorkerPool s)) es \<and> active_kept s s'"

lemma suits_mono:
  assumes "pool_entry ` set p' \<subseteq> pool_entry ` set p" and "suits p' e"
  shows "suits p e"
proof (cases e)
  case (Assign x w)
  with assms(2) obtain v where v: "v \<in> set p'" "wi_Address v = w" "IsResponsive v"
    "JobRequirements_eq (wi_Reqs v) (sub_requirements (qj_Submission x))"
    by (auto simp: suits_def)
  then obtain u where "u \<in> set p" "pool_entry u = pool_entry v" using assms(1) by force
  with v Assign show ?thesis by (auto simp: suits_def pool_entry_def)
qed (use assms in \<open>simp_all add: suits_def\<close>)

lemma hand_over_trans:
  "hand_over gen env s es s' \<Longrightarrow> hand_over gen env s' fs s'' \<Longrightarrow> hand_over gen env s (es @ fs) s''"
  using suits_mono [of "srv_WorkerPool s'" "srv_WorkerPool s"]
  by (auto simp: hand_over_def job_messages_def list_all_iff
      intro: broker_run_append order_trans active_kept_trans del: subsetI)

lemma hand_over_refl: "server_inv gen s \<Longrightarrow> hand_over gen env s [] s"
  by (simp add: hand_over_def job_messages_def active_kept_same)

definition has_pending :: "JobRequirements \<Rightarrow> 'f Server \<Rightarrow> bool" where
  "has_pending t s \<longleftrightarrow> (\<exists>j\<in>set (pending (srv_QueuedJobs s)). JobTypeMatches t j)"

lemma assignJobToWorker_simps:
  assumes "s' = assignJobToWorker env w job s"
  shows "srv_QueuedJobs s' = srv_QueuedJobs s" "srv_WorkerPool s' = srv_WorkerPool s"
    "srv_uuids s' = srv_uuids s" "srv_client_out s' = srv_client_out s"
    "srv_ActiveJobs s' = snd (aj_add w (wj_id job) (srv_ActiveJobs s))"
    "srv_worker_out s' = srv_worker_out s @
      (if env_send_ok env w then [(w, MAKE_MESH, WorkerJob_to_string (env_io env) job)] else [])"
    "monitor_inv (srv_SocketMonitor s) \<Longrightarrow> monitor_inv (srv_SocketMonitor s')"
  unfolding assms
  by (auto simp: assignJobToWorker_def send_worker_def Let_def monitor_inv_steps)

lemma take_and_assign:
  assumes "server_inv gen s" and "has_pending t s" and "haveWaitingWorker t (srv_WorkerPool s)"
    and "assign_type env t (b, s) = (b', s')"
  shows "\<exists>x. JobTypeMatches t x \<and> hand_over gen env s [Assign x (fst (takeWorker t (srv_WorkerPool s)))] s' \<and>
    set (pending (srv_QueuedJobs s')) = set (pending (srv_QueuedJobs s)) - {x}"
proof -
  note parts = server_inv_parts [OF assms(1)]
  let ?q = "srv_QueuedJobs s" and ?w = "fst (takeWorker t (srv_WorkerPool s))"
  have "find (JobTypeMatches t) (pending ?q) \<noteq> None"
    using assms(2) by (auto simp: has_pending_def find_None_iff)
  then obtain x where find: "find (JobTypeMatches t) (pending ?q) = Some x" by blast
  then have x: "x \<in> set (pending ?q)" "JobTypeMatches t x" by (auto dest: find_if_find(2))
  let ?q' = "snd (jq_remove (qj_Id x) ?q)"
  have take: "jq_takeJob t ?q = (WorkerJob_mk (qj_Id x) (qj_Submission x), ?q')"
    using find by (simp add: takeJob_remove [OF parts(1)])
  define s1 where "s1 = s\<lparr>srv_WorkerPool := snd (takeWorker t (srv_WorkerPool s)), srv_QueuedJobs := ?q'\<rparr>"
  define job where "job = WorkerJob_mk (qj_Id x) (qj_Submission x)"
  have s': "s' = assignJobToWorker env ?w job s1"
    using assms(3,4) by (simp add: assign_type_def take s1_def job_def split: prod.splits)
  note s'_simps = assignJobToWorker_simps [OF s']
  have pend: "set (pending ?q') = set (pending ?q) - {x}"
    by (rule pending_remove_set [OF parts(1) x(1)])
  have queued: "qj_Id x \<in> queue_ids ?q" using x(1) by (auto simp flip: pending_ids)
  then have notrun: "qj_Id x \<notin> info_ids (srv_ActiveJobs s)" using parts(7) by blast
  then have run: "running_of (srv_ActiveJobs s) (qj_Id x) = None"
    by (simp add: running_of_def info_ids_def)
  have wj: "wj_id job = qj_Id x" by (simp add: job_def WorkerJob_mk_def)
  have abs: "abs_of s' = (set (pending ?q) - {x}, (running_of (srv_ActiveJobs s))(qj_Id x \<mapsto> ?w))"
    using pend run by (simp add: abs_of_def s'_simps wj running_ops(1) [OF parts(6)] s1_def)
  have q': "queue_inv ?q'" "cache_sound ?q'" "queue_ids ?q' = queue_ids ?q - {qj_Id x}"
    using parts(1,2) cache_sound_step [OF parts(1,2), of "QRemove (qj_Id x)"]
    by (simp_all add: queue.remove_inv queue.remove_ids)
  have ids': "info_ids (srv_ActiveJobs s') = insert (qj_Id x) (info_ids (srv_ActiveJobs s))"
    by (simp add: s'_simps s1_def wj active.add_ids [OF parts(6)])
  have "server_inv gen s'"
    using parts queued s'_simps(7) q' ids'
    by (auto simp: server_inv_def job_ids_def s'_simps(1-6) s1_def pool_inv_take active_inv_ops(1))
  moreover have "broker_run [Assign x ?w] (abs_of s) (abs_of s')"
    unfolding abs using assign [of x "set (pending ?q)"] x(1) run
    by (auto simp: abs_of_def intro: broker_run_one)
  moreover have "suits (srv_WorkerPool s) (Assign x ?w)"
    using takeWorker_entry [OF assms(3)] x(2)
    by (auto simp: suits_def JobTypeMatches_def JobRequirements_eq_key)
  moreover have "?w \<in> wi_Address ` set (srv_WorkerPool s)"
    using takeWorker_entry [OF assms(3)] by (metis imageI)
  then have "active_kept s s'"
    by (auto simp: active_kept_def s'_simps(5) s1_def aj_add_find [OF parts(6)] JobState_mk_def split: if_splits)
  ultimately show ?thesis
    using x(2) pend takeWorker_entries
    by (intro exI [of _ x]) (auto simp: hand_over_def s'_simps(1-6) s1_def job_messages_def job_def)
qed

lemma list_ex_update: "i < length xs \<Longrightarrow> P y = P (xs ! i) \<Longrightarrow> list_ex P (xs[i := y]) = list_ex P xs"
  by (induction xs arbitrary: i) (auto simp: nth_Cons split: nat.splits)

lemma takeWorker_others:
  assumes "\<not> JobRequirements_eq t u"
  shows "haveWaitingWorker t (snd (takeWorker u pool)) = haveWaitingWorker t pool"
proof (cases "find_if (wants_job u) pool < length pool")
  case True
  let ?i = "find_if (wants_job u) pool"
  have "wants_job t (takesJob (pool ! ?i)) = wants_job t (pool ! ?i)"
    using find_if_holds [OF True] assms by (auto simp: wants_job_def takesJob_def JobRequirements_eq_key)
  note list_ex_update [OF True, of "wants_job t", OF this]
  moreover have "list_ex P (rotate1 xs) = list_ex P xs" for P and xs :: WorkerPool
    by (simp add: list_ex_iff)
  ultimately show ?thesis
    using True by (simp add: haveWaitingWorker_def takeWorker_def Let_def rotate_left_one_def)
qed (simp add: takeWorker_def Let_def)

lemma assign_type_pool:
  "assign_type env u (b, s) = (b', s') \<Longrightarrow>
   srv_WorkerPool s' = (if haveWaitingWorker u (srv_WorkerPool s)
     then snd (takeWorker u (srv_WorkerPool s)) else srv_WorkerPool s)"
  by (auto simp: assign_type_def assignJobToWorker_simps [OF refl] split: if_splits prod.splits)

lemma assign_one:
  assumes "server_inv gen s" and "has_pending u s" and "assign_type env u (b, s) = (b', s')"
  shows "\<exists>es. hand_over gen env s es s' \<and>
    (\<forall>t. \<not> JobRequirements_eq u t \<longrightarrow> has_pending t s \<longrightarrow> has_pending t s') \<and>
    (haveWaitingWorker u (srv_WorkerPool s) \<longrightarrow> (\<exists>x w. Assign x w \<in> set es \<and> JobTypeMatches u x))"
proof (cases "haveWaitingWorker u (srv_WorkerPool s)")
  case True
  from take_and_assign [OF assms(1,2) True assms(3)] obtain x where x: "JobTypeMatches u x"
    "hand_over gen env s [Assign x (fst (takeWorker u (srv_WorkerPool s)))] s'"
    "set (pending (srv_QueuedJobs s')) = set (pending (srv_QueuedJobs s)) - {x}" by blast
  have "has_pending t s'" if "\<not> JobRequirements_eq u t" "has_pending t s" for t
  proof -
    have "\<not> JobTypeMatches t x" using that x(1) by (auto simp: JobTypeMatches_def JobRequirements_eq_key)
    then show ?thesis using that x(3) by (auto simp: has_pending_def)
  qed
  with x show ?thesis by (intro exI conjI) auto
next
  case False
  with assms have "s' = s" by (simp add: assign_type_def)
  with False assms(1) show ?thesis by (auto intro: hand_over_refl)
qed

text \<open>One pass over a set of requirements that queued jobs have.\<close>

lemma assign_types:
  assumes "server_inv gen s" and "sorted_wrt (\<lambda>t u. \<not> JobRequirements_eq t u) ts"
    and "\<forall>t\<in>set ts. has_pending t s" and "fold (assign_type env) ts (b, s) = (b', s')"
  shows "\<exists>es. hand_over gen env s es s' \<and>
    (\<forall>t\<in>set ts. haveWaitingWorker t (srv_WorkerPool s) \<longrightarrow>
      (\<exists>x w. Assign x w \<in> set es \<and> JobTypeMatches t x))"
  using assms
proof (induction ts arbitrary: b s)
  case Nil
  then show ?case by (auto intro: hand_over_refl)
next
  case (Cons u ts)
  obtain b1 s1 where step: "assign_type env u (b, s) = (b1, s1)" by force
  have neq: "\<not> JobRequirements_eq u t" if "t \<in> set ts" for t using that Cons.prems(2) by auto
  have others: "haveWaitingWorker t (srv_WorkerPool s1) = haveWaitingWorker t (srv_WorkerPool s)"
    if "t \<in> set ts" for t
    using neq [OF that] takeWorker_others [of t u "srv_WorkerPool s"]
    by (auto simp: assign_type_pool [OF step] JobRequirements_eq_sym)
  obtain es where es: "hand_over gen env s es s1"
    "\<forall>t. \<not> JobRequirements_eq u t \<longrightarrow> has_pending t s \<longrightarrow> has_pending t s1"
    "haveWaitingWorker u (srv_WorkerPool s) \<longrightarrow> (\<exists>x w. Assign x w \<in> set es \<and> JobTypeMatches u x)"
    using assign_one [OF Cons.prems(1) _ step] Cons.prems(3) by auto
  have inv: "server_inv gen s1" using es(1) by (simp add: hand_over_def)
  have sorted: "sorted_wrt (\<lambda>t u. \<not> JobRequirements_eq t u) ts" using Cons.prems(2) by simp
  have pend: "\<forall>t\<in>set ts. has_pending t s1" using es(2) neq Cons.prems(3) by simp
  have rest: "fold (assign_type env) ts (b1, s1) = (b', s')" using Cons.prems(4) step by simp
  from Cons.IH [OF inv sorted pend rest] obtain fs where
    fs: "hand_over gen env s1 fs s'" "\<forall>t\<in>set ts. haveWaitingWorker t (srv_WorkerPool s1) \<longrightarrow>
      (\<exists>x w. Assign x w \<in> set fs \<and> JobTypeMatches t x)" by blast
  have "hand_over gen env s (es @ fs) s'" by (rule hand_over_trans [OF es(1) fs(1)])
  moreover have "\<exists>x w. Assign x w \<in> set (es @ fs) \<and> JobTypeMatches t x"
    if "t \<in> set (u # ts)" "haveWaitingWorker t (srv_WorkerPool s)" for t
    using that es(3) fs(2) others by (cases "t = u") fastforce+
  ultimately show ?case by blast
qed

lemma reqs_distinct:
  "sorted_wrt JobRequirements_less ts \<Longrightarrow> sorted_wrt (\<lambda>t u. \<not> JobRequirements_eq t u) ts"
  by (rule sorted_wrt_mono_rel [of _ JobRequirements_less])
     (auto simp flip: reqs_equiv_iff simp: equiv_by_def)

lemma waiting_types:
  "sorted_wrt (\<lambda>t u. \<not> JobRequirements_eq t u) (jq_waitingJobRequirements (srv_QueuedJobs s))"
  "\<forall>t\<in>set (jq_waitingJobRequirements (srv_QueuedJobs s)). has_pending t s"
  "x \<in> set (JobsWaitingForWorker (srv_QueuedJobs s)) \<Longrightarrow>
     \<exists>t\<in>set (jq_waitingJobRequirements (srv_QueuedJobs s)). JobTypeMatches t x"
proof -
  let ?xs = "requirements_of (JobsWaitingForWorker (srv_QueuedJobs s))"
  show "sorted_wrt (\<lambda>t u. \<not> JobRequirements_eq t u) (jq_waitingJobRequirements (srv_QueuedJobs s))"
    by (simp add: jq_waitingJobRequirements_def JobRequirementsSet_insert_range_def reqs_distinct
        reqs_order.set_insert_range_sorted)
  show "\<forall>t\<in>set (jq_waitingJobRequirements (srv_QueuedJobs s)). has_pending t s"
    using reqs_order.set_insert_range_subset [of ?xs "[]"]
    by (force simp: jq_waitingJobRequirements_def JobRequirementsSet_insert_range_def
        requirements_of_def has_pending_def pending_def JobTypeMatches_def)
  show "\<exists>t\<in>set (jq_waitingJobRequirements (srv_QueuedJobs s)). JobTypeMatches t x"
    if "x \<in> set (JobsWaitingForWorker (srv_QueuedJobs s))"
    using that reqs_order.set_insert_range_has [of "sub_requirements (qj_Submission x)" ?xs "[]"]
    by (auto simp: jq_waitingJobRequirements_def JobRequirementsSet_insert_range_def
        requirements_of_def JobTypeMatches_def JobRequirements_eq_sym)
qed

lemma queued_types:
  assumes "server_inv gen s" and "jq_queuedJobRequirements (srv_QueuedJobs s) = (ts, q)"
  shows "sorted_wrt (\<lambda>t u. \<not> JobRequirements_eq t u) ts"
    and "hand_over gen env s [] (s\<lparr>srv_QueuedJobs := q\<rparr>)"
    and "\<forall>t\<in>set ts. has_pending t (s\<lparr>srv_QueuedJobs := q\<rparr>)"
proof -
  note parts = server_inv_parts [OF assms(1)]
  have q: "q = snd (jq_queuedJobRequirements (srv_QueuedJobs s))" and ts: "ts = CachedQueuedJobRequirements q"
    using assms(2) by (auto simp: jq_queuedJobRequirements_def Let_def)
  have sound: "cache_sound q" using cache_sound_step [OF parts(1,2), of QRequirements] q by simp
  then show "sorted_wrt (\<lambda>t u. \<not> JobRequirements_eq t u) ts"
    by (simp add: cache_sound_def ts reqs_distinct)
  show "\<forall>t\<in>set ts. has_pending t (s\<lparr>srv_QueuedJobs := q\<rparr>)"
    using sound by (auto simp: cache_sound_def ts has_pending_def pending_def)
  have pend: "pending q = pending (srv_QueuedJobs s)" by (simp add: q)
  have "server_inv gen (s\<lparr>srv_QueuedJobs := q\<rparr>)"
    by (rule server_inv_queue [OF assms(1) _ sound])
       (simp_all add: q queuedJobRequirements_snd [OF parts(1)] flip: pending_ids)
  then show "hand_over gen env s [] (s\<lparr>srv_QueuedJobs := q\<rparr>)"
    by (simp add: hand_over_def job_messages_def abs_of_def pend active_kept_same)
qed

lemma dispatch_hand_over:
  assumes "server_inv gen s"
  shows "hand_over gen env s [] (dispatch_type env t s)"
proof -
  note parts = server_inv_parts [OF assms]
  let ?q = "snd (jq_workerDispatched t (srv_QueuedJobs s))"
  have "server_inv gen (s\<lparr>srv_QueuedJobs := ?q\<rparr>)"
    using cache_sound_step [OF parts(1,2), of "QDispatched t"]
    by (intro server_inv_queue [OF assms]) (simp_all add: dispatched_inv [OF parts(1)])
  with assms show ?thesis
    by (auto simp: dispatch_type_def hand_over_def job_messages_def abs_of_def Let_def active_kept_same
        pending_dispatched [OF parts(1)] server_inv_def job_ids_def split: prod.split)
qed

lemma dispatch_all:
  "server_inv gen s \<Longrightarrow> hand_over gen env s [] (fold (dispatch_type env) ts s)"
proof (induction ts arbitrary: s)
  case (Cons t ts)
  have step: "hand_over gen env s [] (dispatch_type env t s)" by (rule dispatch_hand_over [OF Cons.prems])
  then have "server_inv gen (dispatch_type env t s)" by (simp add: hand_over_def)
  from hand_over_trans [OF step Cons.IH [OF this]] show ?case by simp
qed (simp add: hand_over_refl)

lemma haveWaitingWorker_cong:
  "JobRequirements_eq t u \<Longrightarrow> haveWaitingWorker t pool = haveWaitingWorker u pool"
  by (simp add: haveWaitingWorker_def list_ex_iff wants_job_def JobRequirements_eq_key)

lemma hand_over_inv: "hand_over gen env s es s' \<Longrightarrow> server_inv gen s'"
  by (simp add: hand_over_def)

lemma assign_queued:
  assumes "server_inv gen s" and "jq_queuedJobRequirements (srv_QueuedJobs s) = (ts, q)"
    and "fold (assign_type env) ts (b, s\<lparr>srv_QueuedJobs := q\<rparr>) = (b', s')"
  shows "\<exists>es. hand_over gen env s es s'"
proof -
  note types = queued_types [OF assms(1,2)]
  have "server_inv gen (s\<lparr>srv_QueuedJobs := q\<rparr>)" by (rule hand_over_inv [OF types(2)])
  from assign_types [OF this types(1,3) assms(3)] hand_over_trans [OF types(2)] show ?thesis by blast
qed

lemma FindWorker_hand_over:
  assumes "server_inv gen s"
  shows "\<exists>es. hand_over gen env s es (FindWorkerForQueuedJob env s) \<and>
    (\<forall>x\<in>set (JobsWaitingForWorker (srv_QueuedJobs s)).
      haveWaitingWorker (sub_requirements (qj_Submission x)) (srv_WorkerPool s) \<longrightarrow>
      (\<exists>y w. Assign y w \<in> set es \<and>
        JobRequirements_eq (sub_requirements (qj_Submission x)) (sub_requirements (qj_Submission y))))"
proof (cases "jq_numJobsWaitingForWorkers (srv_QueuedJobs s) = 0 \<and>
    jq_numJobsJustQueued (srv_QueuedJobs s) = 0")
  case True
  then show ?thesis
    using assms by (intro exI [of _ "[]"])
      (auto simp: FindWorkerForQueuedJob_def hand_over_refl jq_numJobsWaitingForWorkers_def)
next
  case False
  obtain b1 s1 where s1: "fold (assign_type env) (jq_waitingJobRequirements (srv_QueuedJobs s)) (False, s) = (b1, s1)"
    by force
  obtain ts q where ts: "jq_queuedJobRequirements (srv_QueuedJobs s1) = (ts, q)" by force
  obtain b3 s3 where s3: "fold (assign_type env) ts (False, s1\<lparr>srv_QueuedJobs := q\<rparr>) = (b3, s3)" by force
  obtain ts' q' where ts': "jq_queuedJobRequirements (srv_QueuedJobs s3) = (ts', q')" by force
  obtain es where es: "hand_over gen env s es s1"
    "\<forall>t\<in>set (jq_waitingJobRequirements (srv_QueuedJobs s)). haveWaitingWorker t (srv_WorkerPool s) \<longrightarrow>
      (\<exists>x w. Assign x w \<in> set es \<and> JobTypeMatches t x)"
    using assign_types [OF assms waiting_types(1,2) s1] by blast
  obtain fs where fs: "hand_over gen env s1 fs s3"
    using assign_queued [OF hand_over_inv [OF es(1)] ts s3] by blast
  note inv3 = hand_over_inv [OF fs]
  have "hand_over gen env s3 [] (FindWorkerForQueuedJob env s)"
    using False dispatch_all [OF inv3] hand_over_refl [OF inv3]
      hand_over_trans [OF queued_types(2) [OF inv3 ts'] dispatch_all [OF hand_over_inv [OF queued_types(2) [OF inv3 ts']]]]
    by (auto simp: FindWorkerForQueuedJob_def s1 ts s3 ts' Let_def)
  from hand_over_trans [OF hand_over_trans [OF es(1) fs] this]
  have "hand_over gen env s (es @ fs) (FindWorkerForQueuedJob env s)" by simp
  moreover have "\<exists>y w. Assign y w \<in> set (es @ fs) \<and>
      JobRequirements_eq (sub_requirements (qj_Submission x)) (sub_requirements (qj_Submission y))"
    if x: "x \<in> set (JobsWaitingForWorker (srv_QueuedJobs s))"
      "haveWaitingWorker (sub_requirements (qj_Submission x)) (srv_WorkerPool s)" for x
  proof -
    from waiting_types(3) [OF x(1)] obtain t where t: "t \<in> set (jq_waitingJobRequirements (srv_QueuedJobs s))"
      "JobTypeMatches t x" by blast
    then have "haveWaitingWorker t (srv_WorkerPool s)"
      using x(2) haveWaitingWorker_cong by (simp add: JobTypeMatches_def)
    with es(2) t(1) obtain y w where "Assign y w \<in> set es" "JobTypeMatches t y" by blast
    with t(2) show ?thesis by (auto simp: JobTypeMatches_def JobRequirements_eq_key)
  qed
  ultimately show ?thesis by blast
qed

section \<open>Turns of the broker\<close>

lemma CheckForChange_simps:
  assumes "s' = CheckForChangeInWorkersAndJobs env s"
  shows "srv_QueuedJobs s' = srv_QueuedJobs s" "srv_SocketMonitor s' = srv_SocketMonitor s"
    "srv_ActiveJobs s' =
      snd (aj_markExpiredJobs (env_now env) (srv_SocketMonitor s) (srv_ActiveJobs s))"
    "srv_WorkerPool s' = purgeDeadWorkers (env_now env) (srv_SocketMonitor s) (srv_WorkerPool s)"
    "srv_uuids s' = srv_uuids s" "srv_worker_out s' = srv_worker_out s"
    "srv_client_out s' = srv_client_out s"
  unfolding assms CheckForChangeInWorkersAndJobs_def by (simp_all add: Let_def split_beta)

lemma CheckForChange_inv:
  assumes "server_inv gen s"
  shows "server_inv gen (CheckForChangeInWorkersAndJobs env s)"
    and "abs_of (CheckForChangeInWorkersAndJobs env s) = abs_of s"
proof -
  note parts = server_inv_parts [OF assms]
  show "server_inv gen (CheckForChangeInWorkersAndJobs env s)"
    using parts active_inv_ops(9,10) [OF parts(3)]
    by (simp add: server_inv_def job_ids_def CheckForChange_simps [OF refl] pool_inv_purge)
  show "abs_of (CheckForChangeInWorkersAndJobs env s) = abs_of s"
    by (simp add: abs_of_def CheckForChange_simps [OF refl] running_ops(6) [OF parts(6)])
qed

lemma terminate_one_inv:
  "server_inv gen s \<Longrightarrow> server_inv gen (terminate_one env w s)"
  "abs_of (terminate_one env w s) = abs_of s"
  by (auto simp: terminate_one_def draw_uuid_def send_terminateWorker_def server_inv_def job_ids_def
      abs_of_def less_Suc_eq)

lemma terminate_all_inv:
  "server_inv gen s \<Longrightarrow> server_inv gen (fold (terminate_one env) ws s)"
  "abs_of (fold (terminate_one env) ws s) = abs_of s"
  by (induction ws arbitrary: s) (auto simp: terminate_one_inv)

lemma Brokering_end_inv:
  assumes "server_inv gen s"
  shows "server_inv gen (Brokering_end env s)" and "abs_of (Brokering_end env s) = abs_of s"
proof -
  have "server_inv gen (s\<lparr>srv_WorkerFactory := f\<rparr>)" for f
    using assms by (simp add: server_inv_def job_ids_def)
  then have "server_inv gen ((srv_publish ps s)\<lparr>srv_WorkerFactory := f\<rparr>)" for ps f
    by (simp add: server_inv_def job_ids_def)
  then show "server_inv gen (Brokering_end env s)"
    by (simp add: Brokering_end_def TerminateAllWorkers_def Let_def terminate_all_inv(1))
  show "abs_of (Brokering_end env s) = abs_of s"
    by (simp add: Brokering_end_def TerminateAllWorkers_def Let_def terminate_all_inv(2))
qed

lemma DetermineWorkerResponse_uuids:
  assumes "DetermineWorkerResponse env w msg s = Inr (b, s')"
  shows "srv_uuids s' = srv_uuids s"
proof -
  have "storeMeshStatus env w msg t = Inr t' \<Longrightarrow> srv_uuids t' = srv_uuids t"
    "storeMesh env w msg t = Inr t' \<Longrightarrow> srv_uuids t' = srv_uuids t" for t t'
    by (auto simp: storeMeshStatus_def storeMesh_def bindE_eq_Inr)
  with assms show ?thesis
    by (cases "msg_serviceType msg")
       (fastforce simp: DetermineWorkerResponse_def bindE_eq_Inr split: if_splits)+
qed

text \<open>The jobs the client of a turn asks the server to let go of.\<close>

definition turn_drops :: "'f server_env \<Rightarrow> broker_input \<Rightarrow> uuid set" where
  "turn_drops env i = (case bi_client i of None \<Rightarrow> {} | Some (c, msg) \<Rightarrow> drops env msg)"

definition turn_ok :: "'f server_env \<Rightarrow> broker_input \<Rightarrow> broker_event \<Rightarrow> bool" where
  "turn_ok env i e \<longleftrightarrow> (case e of Drop j \<Rightarrow> j \<in> turn_drops env i | _ \<Rightarrow> True)"

lemma client_part:
  assumes "server_inv gen s" and "env_generate env = gen" and "inj_on gen {..<srv_uuids s'}"
    and "(case bi_client i of Some (c, msg) \<Rightarrow> DetermineClientResponse env c msg s | None \<Rightarrow> Inr s) = Inr s'"
  shows "server_inv gen s'" and "\<exists>es. broker_run es (abs_of s) (abs_of s') \<and> list_all (turn_ok env i) es"
proof -
  have "server_inv gen s' \<and> (\<exists>es. broker_run es (abs_of s) (abs_of s') \<and> list_all (turn_ok env i) es)"
  proof (cases "bi_client i")
    case None
    with assms show ?thesis by (auto intro: exI [of _ "[]"])
  next
    case (Some cm)
    obtain c msg where cm: "cm = (c, msg)" by force
    have d: "DetermineClientResponse env c msg s = Inr s'" using assms(4) Some cm by simp
    from DetermineClientResponse_abs [OF assms(1,2) d assms(3)] obtain es where
      "broker_run es (abs_of s) (abs_of s')"
      and "\<forall>e\<in>set es. (\<exists>x. e = Submit x) \<or> (\<exists>j\<in>drops env msg. e = Drop j)" by blast
    moreover from this(2) have "list_all (turn_ok env i) es"
      by (auto simp: list_all_iff turn_ok_def turn_drops_def Some cm)
    ultimately show ?thesis
      using DetermineClientResponse_inv [OF assms(1,2) d assms(3)] by blast
  qed
  then show "server_inv gen s'"
    and "\<exists>es. broker_run es (abs_of s) (abs_of s') \<and> list_all (turn_ok env i) es" by auto
qed

lemma worker_part:
  assumes "server_inv gen s"
    and "(case bi_worker i of Some (w, msg) \<Rightarrow> DetermineWorkerResponse env w msg s
          | None \<Rightarrow> Inr (False, s)) = Inr (b, s')"
  shows "server_inv gen s'" and "abs_of s' = abs_of s" and "srv_uuids s' = srv_uuids s"
  using assms DetermineWorkerResponse_inv [OF assms(1)] DetermineWorkerResponse_abs [OF assms(1)]
    DetermineWorkerResponse_uuids
  by (auto split: option.splits)

lemma find_uuids:
  "srv_uuids (snd (fold (assign_type env) ts acc)) = srv_uuids (snd acc)"
  "srv_uuids (fold (dispatch_type env) ts s) = srv_uuids s"
proof (induction ts arbitrary: acc s)
  case (Cons t ts)
  {
    case 1
    have "srv_uuids (snd (assign_type env t acc)) = srv_uuids (snd acc)"
      by (auto simp: assign_type_def assignJobToWorker_simps(3) [OF refl] split: prod.split)
    with Cons.IH(1) show ?case by simp
  next
    case 2
    have "srv_uuids (dispatch_type env t s) = srv_uuids s"
      by (auto simp: dispatch_type_def Let_def split: prod.split)
    with Cons.IH(2) show ?case by simp
  }
qed simp_all

lemma FindWorker_uuids: "srv_uuids (FindWorkerForQueuedJob env s) = srv_uuids s"
proof -
  have assign: "srv_uuids s' = srv_uuids s" if "fold (assign_type env) ts (b, s) = (b', s')" for ts b s b' s'
    using find_uuids(1) [of env ts "(b, s)"] that by simp
  show ?thesis
    by (auto simp: FindWorkerForQueuedJob_def Let_def find_uuids(2) dest!: assign split: prod.split)
qed

lemma Brokering_turn_parts:
  assumes "Brokering_turn env i (t, s) = Inr (t', s')"
  obtains s1 s2 b s3 s4 where
    "s1 = s\<lparr>srv_SocketMonitor := (srv_SocketMonitor s)
      \<lparr>PollMonitor := pollOccurred (env_now env) (PollMonitor (srv_SocketMonitor s))\<rparr>\<rparr>"
    "(case bi_client i of Some (c, msg) \<Rightarrow> DetermineClientResponse env c msg s1 | None \<Rightarrow> Inr s1) = Inr s2"
    "(case bi_worker i of Some (w, msg) \<Rightarrow> DetermineWorkerResponse env w msg s2
      | None \<Rightarrow> Inr (False, s2)) = Inr (b, s3)"
    "s4 = (if t \<le> env_now env \<or> b then CheckForChangeInWorkersAndJobs env s3 else s3)"
    "s' = (if bi_brokering i then FindWorkerForQueuedJob env s4 else s4)"
    "t' = (if t \<le> env_now env \<or> b then env_now env + milliseconds workerCheckInterval else t)"
  using assms by (auto simp: Brokering_turn_def bindE_eq_Inr Let_def split: if_splits)

lemma Brokering_turn_run:
  assumes "server_inv gen s" and "env_generate env = gen" and "inj_on gen {..<srv_uuids s'}"
    and "Brokering_turn env i (t, s) = Inr (t', s')"
  shows "server_inv gen s' \<and>
    (\<exists>es. broker_run es (abs_of s) (abs_of s') \<and> list_all (turn_ok env i) es)"
  using assms(4)
proof (rule Brokering_turn_parts)
  fix s1 s2 b s3 s4
  assume s1: "s1 = s\<lparr>srv_SocketMonitor := (srv_SocketMonitor s)
      \<lparr>PollMonitor := pollOccurred (env_now env) (PollMonitor (srv_SocketMonitor s))\<rparr>\<rparr>"
    and s2: "(case bi_client i of Some (c, msg) \<Rightarrow> DetermineClientResponse env c msg s1 | None \<Rightarrow> Inr s1) = Inr s2"
    and s3: "(case bi_worker i of Some (w, msg) \<Rightarrow> DetermineWorkerResponse env w msg s2
      | None \<Rightarrow> Inr (False, s2)) = Inr (b, s3)"
    and s4: "s4 = (if t \<le> env_now env \<or> b then CheckForChangeInWorkersAndJobs env s3 else s3)"
    and s': "s' = (if bi_brokering i then FindWorkerForQueuedJob env s4 else s4)"
  have inv1: "server_inv gen s1" and abs1: "abs_of s1 = abs_of s"
    using server_inv_monitor(1) [OF assms(1)] server_inv_parts(5) [OF assms(1)] by (simp_all add: s1)
  have "srv_uuids s2 = srv_uuids s'"
    using s3
    by (auto simp: s' s4 FindWorker_uuids CheckForChange_simps(5) [OF refl] split: option.splits
        dest: DetermineWorkerResponse_uuids)
  then have inj: "inj_on gen {..<srv_uuids s2}" using assms(3) by simp
  note inv2 = client_part(1) [OF inv1 assms(2) inj s2]
  note w = worker_part [OF inv2 s3]
  have inv4: "server_inv gen s4" and abs4: "abs_of s4 = abs_of s2"
    using w CheckForChange_inv [OF w(1)] by (simp_all add: s4)
  obtain fs where fs: "hand_over gen env s4 fs s'"
    using FindWorker_hand_over [OF inv4, of env] hand_over_refl [OF inv4, of env] s'
    by (cases "bi_brokering i") auto
  obtain es where es: "broker_run es (abs_of s1) (abs_of s2)" "list_all (turn_ok env i) es"
    using client_part(2) [OF inv1 assms(2) inj s2] by blast
  have "broker_run (es @ fs) (abs_of s) (abs_of s')"
    using es(1) fs abs1 abs4 by (auto simp: hand_over_def intro: broker_run_append)
  moreover have "list_all (turn_ok env i) fs"
    using fs by (auto simp: hand_over_def list_all_iff turn_ok_def suits_def split: broker_event.splits)
  ultimately show ?thesis using es(2) hand_over_inv [OF fs] by (intro conjI exI [of _ "es @ fs"]) simp_all
qed

section \<open>Runs of the broker\<close>

text \<open>
  A run of the server: turns of the loop with any input, new polling rates, and the end of
  brokering, after which it may be started again. The ids drawn so far are distinct, which
  is what the server relies on of random uuids. A run carries the ids it was asked to drop.
\<close>

type_synonym 'f broker = "ptime \<times> 'f Server"

inductive server_run :: "(nat \<Rightarrow> uuid) \<Rightarrow> uuid set \<Rightarrow> 'f broker \<Rightarrow> 'f broker \<Rightarrow> bool" for gen where
  idle: "server_run gen {} st st"
| turn: "server_run gen D st (t, s) \<Longrightarrow> env_generate env = gen \<Longrightarrow>
    Brokering_turn env i (t, s) = Inr (t', s') \<Longrightarrow> inj_on gen {..<srv_uuids s'} \<Longrightarrow>
    server_run gen (D \<union> turn_drops env i) st (t', s')"
| rates: "server_run gen D st (t, s) \<Longrightarrow> server_run gen D st (t, set_pollingRates lo hi s)"
| stop: "server_run gen D st (t, s) \<Longrightarrow> env_generate env = gen \<Longrightarrow>
    server_run gen D st (t', Brokering_end env s)"

definition server_reach :: "(nat \<Rightarrow> uuid) \<Rightarrow> 'f broker \<Rightarrow> bool" where
  "server_reach gen st \<longleftrightarrow> (\<exists>D t now f. server_run gen D (t, Server_mk now f) st)"

lemma server_run_sim:
  assumes "server_run gen D st st'" and "server_inv gen (snd st)"
  shows "server_inv gen (snd st') \<and> (\<exists>es. broker_run es (abs_of (snd st)) (abs_of (snd st')) \<and>
    {j. Drop j \<in> set es} \<subseteq> D)"
  using assms
proof (induction rule: server_run.induct)
  case (idle st)
  then show ?case by (auto intro: exI [of _ "[]"])
next
  case (turn D st t s env i t' s')
  then obtain es where es: "broker_run es (abs_of (snd st)) (abs_of s)" "{j. Drop j \<in> set es} \<subseteq> D"
    and inv: "server_inv gen s" by auto
  from Brokering_turn_run [OF inv turn.hyps(2,4,3)] obtain fs where
    inv': "server_inv gen s'" and fs: "broker_run fs (abs_of s) (abs_of s')" "list_all (turn_ok env i) fs"
    by blast
  have "{j. Drop j \<in> set fs} \<subseteq> turn_drops env i"
    using fs(2) by (auto simp: list_all_iff turn_ok_def)
  with es(2) have "{j. Drop j \<in> set (es @ fs)} \<subseteq> D \<union> turn_drops env i" by auto
  with inv' broker_run_append [OF es(1) fs(1)] show ?case by (metis snd_conv)
next
  case (rates D st t s lo hi)
  then show ?case by (auto simp: set_pollingRates_def Let_def server_inv_monitor(1) server_inv_parts(5))
next
  case (stop D st t s env t')
  then have "server_inv gen s" by auto
  with stop show ?case using Brokering_end_inv [of gen s env] by auto
qed

lemma server_reach_inv: "server_reach gen st \<Longrightarrow> server_inv gen (snd st)"
  by (auto simp: server_reach_def server_inv_mk dest!: server_run_sim)

end
