(* ===== verification/Remus_Service.thy ===== *)
theory Remus_Service
  imports Remus_Broker
begin

text \<open>
  What clients and workers can rely on of the server (\<open>remus/server/Server.cxx\<close>), for every
  state its broker loop reaches: the refinement of the abstract broker of \<open>Remus_Broker\<close>,
  where each job is, what the requests answer, and how jobs and results travel.
\<close>

section \<open>A server to evaluate\<close>

text \<open>A factory that starts no process, and distinct ids for the first jobs.\<close>

definition idle_factory :: "unit factory_ops" where
  "idle_factory = \<lparr>fo_supportedIOTypes = (\<lambda>_. []), fo_workerRequirements = (\<lambda>_ _. []),
     fo_haveSupport = (\<lambda>_ _. False), fo_createWorker = (\<lambda>_ _ _. (False, ())),
     fo_updateWorkerCount = (\<lambda>_. ()), fo_setMaxWorkerCount = (\<lambda>_ _. ()),
     fo_maxWorkerCount = (\<lambda>_. 0), fo_currentWorkerCount = (\<lambda>_. 0)\<rparr>"

definition counting_uuid :: "nat \<Rightarrow> uuid" where
  "counting_uuid n = of_nat (n + 1)"

definition example_env :: "unit server_env" where
  "example_env = \<lparr>env_io = hex_uuid_io, env_generate = counting_uuid, env_factory = idle_factory,
     env_now = 0, env_send_ok = (\<lambda>_. True)\<rparr>"

definition request :: "SERVICE_TYPE \<Rightarrow> string \<Rightarrow> Message" where
  "request service data = \<lparr>msg_MeshIOType = \<lparr>inputType = ''Model'', outputType = ''Mesh3D''\<rparr>,
     msg_serviceType = service, msg_valid = True, msg_storage = Some data\<rparr>"

definition example_client :: SocketIdentity where
  "example_client = \<lparr>si_data = ''client-1'', si_name = ''client-1''\<rparr>"

text \<open>One turn in which a client submits a job.\<close>

definition example_turn :: broker_input where
  "example_turn = \<lparr>bi_poll = [PollReturned 1],
     bi_client = Some (example_client, request MAKE_MESH (JobSubmission_serialize example_submission)),
     bi_worker = None, bi_brokering = True\<rparr>"

definition start_server :: "unit Server" where
  "start_server = Server_mk 0 ()"

lemma inj_counting: "n \<le> 3 \<Longrightarrow> inj_on counting_uuid {..<n}"
  by (auto simp: inj_on_def counting_uuid_def less_Suc_eq numeral_3_eq_3 le_Suc_eq)

lemma start_poll:
  "poll_safely (PollingMonitor_current (PollMonitor (SocketMonitor_default 0))) [PollReturned 1] = Inr 1"
  by (simp add: poll_safely_def SocketMonitor_default_def SocketMonitor_mk_def PollingMonitor_init_def
      PollingMonitor_current_def Let_def)

lemma find_no_workers:
  assumes "srv_WorkerPool s = []" and "\<not> fo_currentWorkerCount (env_factory env) (srv_WorkerFactory s) <
     fo_maxWorkerCount (env_factory env) (srv_WorkerFactory s)"
  shows "srv_QueuedJobs (FindWorkerForQueuedJob env s) = srv_QueuedJobs s \<or>
    srv_QueuedJobs (FindWorkerForQueuedJob env s) = snd (jq_queuedJobRequirements (srv_QueuedJobs s))"
    and "srv_WorkerPool (FindWorkerForQueuedJob env s) = []"
    and "srv_ActiveJobs (FindWorkerForQueuedJob env s) = srv_ActiveJobs s"
proof -
  have fold: "fold (assign_type env) ts (b, s') = (b, s')" if "srv_WorkerPool s' = []" for ts b and s' :: "'a Server"
    using that by (induction ts) (simp_all add: assign_type_def haveWaitingWorker_def)
  show "srv_QueuedJobs (FindWorkerForQueuedJob env s) = srv_QueuedJobs s \<or>
    srv_QueuedJobs (FindWorkerForQueuedJob env s) = snd (jq_queuedJobRequirements (srv_QueuedJobs s))"
    "srv_WorkerPool (FindWorkerForQueuedJob env s) = []"
    "srv_ActiveJobs (FindWorkerForQueuedJob env s) = srv_ActiveJobs s"
    using assms by (auto simp: FindWorkerForQueuedJob_def fold Let_def split: prod.splits)
qed

lemma example_submit:
  "to_JobSubmission (msg_data (request MAKE_MESH (JobSubmission_serialize example_submission))) =
     Inr example_submission"
  using JobSubmission_wire [OF example_submission_wf] by (simp add: request_def msg_data_def)

text \<open>What the submission leaves before jobs are handed out.\<close>

definition accepted :: "unit Server" where
  "accepted = (case DetermineClientResponse example_env example_client
      (request MAKE_MESH (JobSubmission_serialize example_submission))
      (start_server\<lparr>srv_SocketMonitor := (SocketMonitor_default 0)
        \<lparr>PollMonitor := pollOccurred 0 (PollMonitor (SocketMonitor_default 0))\<rparr>\<rparr>) of
    Inr s \<Rightarrow> s | Inl _ \<Rightarrow> start_server)"

lemma accepted_eq:
  "DetermineClientResponse example_env example_client
      (request MAKE_MESH (JobSubmission_serialize example_submission))
      (start_server\<lparr>srv_SocketMonitor := (SocketMonitor_default 0)
        \<lparr>PollMonitor := pollOccurred 0 (PollMonitor (SocketMonitor_default 0))\<rparr>\<rparr>) = Inr accepted"
  "srv_QueuedJobs accepted = snd (jq_addJob example_submission 1 JobQueue_empty)"
  "srv_ActiveJobs accepted = []" "srv_WorkerPool accepted = []" "srv_uuids accepted = 1"
proof -
  have v: "msg_valid (request x d)" "msg_serviceType (request x d) = x" for x d by (simp_all add: request_def)
  have e: "env_generate example_env n = of_nat (n + 1)" "env_send_ok example_env c" for n c
    by (simp_all add: example_env_def counting_uuid_def)
  note simps = DetermineClientResponse_def v queueJob_def draw_uuid_def e example_submit Let_def
    start_server_def Server_mk_def accepted_def send_client_def
  show "DetermineClientResponse example_env example_client
      (request MAKE_MESH (JobSubmission_serialize example_submission))
      (start_server\<lparr>srv_SocketMonitor := (SocketMonitor_default 0)
        \<lparr>PollMonitor := pollOccurred 0 (PollMonitor (SocketMonitor_default 0))\<rparr>\<rparr>) = Inr accepted"
    by (simp add: simps)
  show "srv_QueuedJobs accepted = snd (jq_addJob example_submission 1 JobQueue_empty)"
  "srv_ActiveJobs accepted = []" "srv_WorkerPool accepted = []" "srv_uuids accepted = 1"
    by (simp_all add: simps)
qed

lemma submitted_turn:
  "0 < t \<Longrightarrow> Brokering_turn example_env example_turn (t, start_server) =
     Inr (t, FindWorkerForQueuedJob example_env accepted)"
  using start_poll accepted_eq(1)
  by (simp add: Brokering_turn_def example_turn_def start_server_def Server_mk_def Let_def)
     (simp add: example_env_def)

definition submitted :: "unit Server" where
  "submitted = FindWorkerForQueuedJob example_env accepted"

lemma submitted_run: "server_run counting_uuid {} (1, start_server) (1, submitted)"
proof -
  have "turn_drops example_env example_turn = {}"
    by (simp add: turn_drops_def example_turn_def drops_def request_def)
  moreover have "srv_uuids submitted = 1"
    by (simp add: submitted_def FindWorker_uuids accepted_eq)
  ultimately show ?thesis
    using turn [OF idle _ submitted_turn [of 1], of counting_uuid] inj_counting [of 1]
    by (simp add: submitted_def [symmetric]) (simp add: example_env_def)
qed

lemma start_reach: "server_reach gen (1, start_server)"
  unfolding server_reach_def start_server_def using idle by blast

lemma submitted_reach: "server_reach counting_uuid (1, submitted)"
  unfolding server_reach_def using submitted_run [unfolded start_server_def] by blast

lemma submitted_queue: "jq_haveUUID 1 (srv_QueuedJobs submitted)"
proof -
  have "srv_QueuedJobs submitted = srv_QueuedJobs accepted \<or>
      srv_QueuedJobs submitted = snd (jq_queuedJobRequirements (srv_QueuedJobs accepted))"
    unfolding submitted_def
    by (rule find_no_workers(1)) (simp_all add: accepted_eq example_env_def idle_factory_def)
  moreover have "jq_haveUUID 1 (srv_QueuedJobs accepted)"
    by (simp add: accepted_eq(2) queue.added_is_found)
  ultimately show ?thesis by (auto simp: jq_haveUUID_def jq_queuedJobRequirements_def Let_def)
qed

section \<open>Jobs in the broker\<close>

lemma filter_key_count:
  "distinct (map f xs) \<Longrightarrow> length (filter (\<lambda>x. f x = i) xs) = 1 \<longleftrightarrow> i \<in> f ` set xs"
proof (induction xs)
  case (Cons x xs)
  have "i \<notin> f ` set xs \<Longrightarrow> filter (\<lambda>x. f x = i) xs = []" by (auto simp: filter_empty_conv)
  with Cons show ?case by auto
qed simp

lemma known_iff:
  "server_inv gen s \<Longrightarrow>
   i \<in> job_ids s \<longleftrightarrow> jq_haveUUID i (srv_QueuedJobs s) \<or> aj_haveUUID i (srv_ActiveJobs s)"
  using server_inv_parts(1,6) by (metis Un_iff active.have_iff job_ids_def queue.have_iff)

text \<open>
  C3: the server refines the abstract broker. Any run of the broker loop, whatever clients
  and workers send, however polling, clocks, the factory and sends behave, is a run of the
  abstract broker, in which jobs are submitted under fresh ids, handed to one worker, and
  dropped; the only jobs it drops are those a client asked to terminate or whose result a
  client asked for.
\<close>

theorem server_refines_broker:
  assumes "server_reach gen (t, s)" and "server_run gen D (t, s) (t', s')"
  shows "\<exists>es. broker_run es (abs_of s) (abs_of s') \<and> {i. Drop i \<in> set es} \<subseteq> D"
  using server_run_sim [OF assms(2)] server_reach_inv [OF assms(1)] by simp

theorem server_refines_broker_witness:
  "jq_haveUUID 1 (srv_QueuedJobs submitted) \<and>
   (\<exists>es. broker_run es (abs_of start_server) (abs_of submitted) \<and> {i. Drop i \<in> set es} \<subseteq> {})"
  using server_refines_broker [OF start_reach submitted_run] submitted_queue by simp

text \<open>
  C5: in every state the broker reaches, a job is in at most one of the two tables, each
  table holds it once and under its own id, and its id is one the server issued.
\<close>

theorem job_in_one_place:
  assumes "server_reach gen (t, s)"
  shows "\<not> (jq_haveUUID i (srv_QueuedJobs s) \<and> aj_haveUUID i (srv_ActiveJobs s)) \<and>
    (jq_haveUUID i (srv_QueuedJobs s) \<longleftrightarrow>
      length (filter (\<lambda>x. qj_Id x = i) (pending (srv_QueuedJobs s))) = 1) \<and>
    (aj_haveUUID i (srv_ActiveJobs s) \<longrightarrow>
      (\<exists>js. aj_status i (srv_ActiveJobs s) = Inr js \<and> js_id js = i)) \<and>
    (jq_haveUUID i (srv_QueuedJobs s) \<or> aj_haveUUID i (srv_ActiveJobs s) \<longrightarrow>
      (\<exists>n < srv_uuids s. i = gen n))"
proof -
  have inv: "server_inv gen s" using server_reach_inv [OF assms] by simp
  note parts = server_inv_parts [OF inv]
  have have_q: "jq_haveUUID i (srv_QueuedJobs s) \<longleftrightarrow> i \<in> queue_ids (srv_QueuedJobs s)"
    by (rule queue.have_iff [OF parts(1)])
  have have_a: "aj_haveUUID i (srv_ActiveJobs s) \<longleftrightarrow> i \<in> info_ids (srv_ActiveJobs s)"
    by (rule active.have_iff [OF parts(6)])
  have "distinct (map qj_Id (pending (srv_QueuedJobs s)))"
    by (rule pending_distinct [OF parts(1)])
  then have "length (filter (\<lambda>x. qj_Id x = i) (pending (srv_QueuedJobs s))) = 1 \<longleftrightarrow>
      i \<in> qj_Id ` set (pending (srv_QueuedJobs s))"
    by (rule filter_key_count)
  moreover have "\<exists>js. aj_status i (srv_ActiveJobs s) = Inr js \<and> js_id js = i"
    if "i \<in> info_ids (srv_ActiveJobs s)"
    using that parts(3) by (auto simp: info_ids_def aj_status_def active_inv_def entry_ok_def)
  ultimately show ?thesis
    using parts(7,8) by (auto simp: have_q have_a pending_ids job_ids_def)
qed

theorem job_in_one_place_witness:
  "jq_haveUUID 1 (srv_QueuedJobs submitted) \<and> \<not> aj_haveUUID 1 (srv_ActiveJobs submitted) \<and>
   (\<exists>n < srv_uuids submitted. 1 = counting_uuid n)"
  using job_in_one_place [OF submitted_reach, of 1] submitted_queue by blast

text \<open>
  C4: the server never loses a job. Over any run, a job it knows stays known unless a
  client asked for its termination or its result in between, and a job that was handed to a
  worker stays assigned to that worker.
\<close>

theorem no_job_lost:
  assumes "server_reach gen (t, s)" and "server_run gen D (t, s) (t', s')" and "i \<notin> D"
    and "jq_haveUUID i (srv_QueuedJobs s) \<or> aj_haveUUID i (srv_ActiveJobs s)"
  shows "(jq_haveUUID i (srv_QueuedJobs s') \<or> aj_haveUUID i (srv_ActiveJobs s')) \<and>
    (aj_haveUUID i (srv_ActiveJobs s) \<longrightarrow>
      aj_haveUUID i (srv_ActiveJobs s') \<and>
      aj_workerAddress i (srv_ActiveJobs s') = aj_workerAddress i (srv_ActiveJobs s))"
proof -
  have inv: "server_inv gen s" using server_reach_inv [OF assms(1)] by simp
  with server_run_sim [OF assms(2)] obtain es where inv': "server_inv gen s'"
    and es: "broker_run es (abs_of s) (abs_of s')" "{j. Drop j \<in> set es} \<subseteq> D" by auto
  have drop: "Drop i \<notin> set es" using es(2) assms(3) by blast
  have "i \<in> job_ids s'"
    using broker_run_ids [OF es(1)] drop assms(4) by (auto simp: abs_ids_of known_iff [OF inv])
  moreover have "running_of (srv_ActiveJobs s') i = Some w" if "running_of (srv_ActiveJobs s) i = Some w" for w
    using broker_run_worker [OF es(1) _ drop] that by (simp add: abs_of_def)
  ultimately show ?thesis
    by (auto simp: known_iff [OF inv'] aj_haveUUID_iff aj_workerAddress_def running_of_def)
qed

theorem no_job_lost_witness:
  "server_run counting_uuid {} (1, submitted) (1, set_pollingRates 100 1000 submitted) \<and>
   (jq_haveUUID 1 (srv_QueuedJobs (set_pollingRates 100 1000 submitted)) \<or>
    aj_haveUUID 1 (srv_ActiveJobs (set_pollingRates 100 1000 submitted)))"
proof -
  have run: "server_run counting_uuid {} (1, submitted) (1, set_pollingRates 100 1000 submitted)"
    by (rule rates [OF idle])
  with no_job_lost [OF submitted_reach run, of 1] submitted_queue show ?thesis by simp
qed

section \<open>Jobs meet workers\<close>

text \<open>
  C6: one search for workers hands over only queued jobs, each once, each to a responsive
  worker of the pool whose requirements equal the job's; each reachable worker is sent
  exactly its jobs. For every kind of job a worker was dispatched for, if a worker of that
  kind is waiting then a job of that kind is handed over.
\<close>

theorem FindWorkerForQueuedJob_spec:
  assumes "server_inv gen s"
  shows "\<exists>es. broker_run es (abs_of s) (abs_of (FindWorkerForQueuedJob env s)) \<and>
    srv_worker_out (FindWorkerForQueuedJob env s) = srv_worker_out s @ job_messages env es \<and>
    (\<forall>e\<in>set es. \<exists>x v. e = Assign x (wi_Address v) \<and> v \<in> set (srv_WorkerPool s) \<and> IsResponsive v \<and>
       JobRequirements_eq (wi_Reqs v) (sub_requirements (qj_Submission x))) \<and>
    (\<forall>x\<in>set (JobsWaitingForWorker (srv_QueuedJobs s)).
      haveWaitingWorker (sub_requirements (qj_Submission x)) (srv_WorkerPool s) \<longrightarrow>
      (\<exists>y w. Assign y w \<in> set es \<and>
        JobRequirements_eq (sub_requirements (qj_Submission x)) (sub_requirements (qj_Submission y))))"
proof -
  have "\<exists>x v. e = Assign x (wi_Address v) \<and> v \<in> set p \<and> IsResponsive v \<and>
       JobRequirements_eq (wi_Reqs v) (sub_requirements (qj_Submission x))" if "suits p e" for p e
    using that by (cases e) (auto simp: suits_def)
  note suited = this
  obtain es where es: "hand_over gen env s es (FindWorkerForQueuedJob env s)"
    and live: "\<forall>x\<in>set (JobsWaitingForWorker (srv_QueuedJobs s)).
      haveWaitingWorker (sub_requirements (qj_Submission x)) (srv_WorkerPool s) \<longrightarrow>
      (\<exists>y w. Assign y w \<in> set es \<and>
        JobRequirements_eq (sub_requirements (qj_Submission x)) (sub_requirements (qj_Submission y)))"
    using FindWorker_hand_over [OF assms] by blast
  from es have "broker_run es (abs_of s) (abs_of (FindWorkerForQueuedJob env s))"
    "srv_worker_out (FindWorkerForQueuedJob env s) = srv_worker_out s @ job_messages env es"
    "\<forall>e\<in>set es. suits (srv_WorkerPool s) e"
    by (simp_all add: hand_over_def list_all_iff)
  with live suited show ?thesis by (intro exI [of _ es] conjI ballI) simp_all
qed

definition waiting_server :: "unit Server" where
  "waiting_server = accepted\<lparr>srv_QueuedJobs :=
     snd (jq_workerDispatched example_reqs (srv_QueuedJobs accepted)), srv_WorkerPool := example_pool\<rparr>"

lemma example_pool_inv: "pool_inv example_pool"
  by (simp add: pool_inv_def example_pool_def WorkerInfo_mk_def pool_key_eq_iff
      example_worker_def second_worker_def third_worker_def)

lemma accepted_inv: "server_inv counting_uuid accepted"
proof -
  have "server_inv counting_uuid (start_server\<lparr>srv_SocketMonitor := (SocketMonitor_default 0)
        \<lparr>PollMonitor := pollOccurred 0 (PollMonitor (SocketMonitor_default 0))\<rparr>\<rparr>)"
    by (rule server_inv_monitor) (simp_all add: start_server_def server_inv_mk SocketMonitor_default_def)
  from DetermineClientResponse_inv [OF this _ accepted_eq(1)] show ?thesis
    by (simp add: accepted_eq inj_counting) (simp add: example_env_def)
qed

lemma waiting_server_inv: "server_inv counting_uuid waiting_server"
proof -
  note parts = server_inv_parts [OF accepted_inv]
  let ?q = "snd (jq_workerDispatched example_reqs (srv_QueuedJobs accepted))"
  have "server_inv counting_uuid (accepted\<lparr>srv_QueuedJobs := ?q\<rparr>)"
    using cache_sound_step [OF parts(1,2), of "QDispatched example_reqs"]
    by (intro server_inv_queue [OF accepted_inv]) (simp_all add: dispatched_inv [OF parts(1)])
  from server_inv_pool(1) [OF this example_pool_inv] show ?thesis by (simp add: waiting_server_def)
qed

lemma waiting_server_jobs:
  "JobsWaitingForWorker (srv_QueuedJobs waiting_server) = [\<lparr>qj_Id = 1, qj_Submission = example_submission\<rparr>]"
  by (simp add: waiting_server_def accepted_eq jq_workerDispatched_def jq_addJob_def JobQueue_empty_def
      set_count_def Let_def insert_at_def lower_bound_def JobTypeMatches_def example_submission_def
      JobSubmission_content_def)

theorem FindWorkerForQueuedJob_spec_witness:
  "server_inv counting_uuid waiting_server \<and>
   (\<exists>es y w. Assign y w \<in> set es \<and>
     broker_run es (abs_of waiting_server) (abs_of (FindWorkerForQueuedJob example_env waiting_server)))"
proof -
  have "haveWaitingWorker example_reqs (srv_WorkerPool waiting_server)"
    by (simp add: waiting_server_def haveWaitingWorker_def example_pool_def wants_job_def
        isWaitingForWork_def WorkerInfo_mk_def)
  moreover have "sub_requirements example_submission = example_reqs"
    by (simp add: example_submission_def JobSubmission_content_def)
  ultimately show ?thesis
    using FindWorkerForQueuedJob_spec [OF waiting_server_inv, of example_env] waiting_server_inv
    by (simp add: waiting_server_jobs) blast
qed

text \<open>
  C12: a job is taken out of the queue and recorded as \<open>QUEUED\<close> at its worker before the
  send is tried. When the send fails the worker never hears of the job, the job is in no
  queue any more, and the check for dead workers expires it only if the worker counts as
  unresponsive; a worker that stays responsive keeps it \<open>QUEUED\<close> for ever.
\<close>

theorem failed_send_strands_job:
  assumes "server_inv gen s" and "x \<in> set (pending (srv_QueuedJobs s))"
    and "\<not> env_send_ok env w"
    and "s1 = s\<lparr>srv_QueuedJobs := snd (jq_remove (qj_Id x) (srv_QueuedJobs s))\<rparr>"
    and "s2 = assignJobToWorker env w (WorkerJob_mk (qj_Id x) (qj_Submission x)) s1"
  shows "srv_worker_out s2 = srv_worker_out s \<and> \<not> jq_haveUUID (qj_Id x) (srv_QueuedJobs s2) \<and>
    aj_status (qj_Id x) (srv_ActiveJobs s2) = Inr (JobStatus_mk (qj_Id x) QUEUED) \<and>
    aj_workerAddress (qj_Id x) (srv_ActiveJobs s2) = w \<and>
    aj_status (qj_Id x) (srv_ActiveJobs (CheckForChangeInWorkersAndJobs env s2)) =
      Inr (JobStatus_mk (qj_Id x)
        (if isUnresponsive (env_now env) w (srv_SocketMonitor s) then EXPIRED else QUEUED))"
proof -
  note parts = server_inv_parts [OF assms(1)]
  note s2 = assignJobToWorker_simps [OF assms(5)]
  have "qj_Id x \<in> queue_ids (srv_QueuedJobs s)" using assms(2) by (auto simp flip: pending_ids)
  then have new: "map_find (<) (qj_Id x) (srv_ActiveJobs s) = None"
    using parts(7) by (auto simp: info_ids_def)
  have active: "map_find (<) (qj_Id x) (srv_ActiveJobs s2) = Some (JobState_mk w (qj_Id x) QUEUED)"
    using new by (simp add: s2 assms(4) WorkerJob_mk_def aj_add_find [OF parts(6)])
  have monitor: "srv_SocketMonitor s2 = srv_SocketMonitor s"
    using assms(3) by (simp add: assms(4,5) assignJobToWorker_def send_worker_def Let_def)
  have "map_find (<) (qj_Id x) (srv_ActiveJobs (CheckForChangeInWorkersAndJobs env s2)) =
      Some (expire (env_now env) (srv_SocketMonitor s) (JobState_mk w (qj_Id x) QUEUED))"
    by (simp add: CheckForChange_simps(3) [OF refl] aj_markExpired_find active monitor)
  with active show ?thesis
    using assms(3) queue.removed_is_gone [OF parts(1)]
    by (simp add: s2(1,6) assms(4) aj_status_def aj_workerAddress_def JobState_mk_def expire_def
        expires_def js_queued_def)
qed

theorem failed_send_strands_job_witness:
  "\<not> env_send_ok (example_env\<lparr>env_send_ok := \<lambda>_. False\<rparr>) example_worker \<and>
   aj_status 1 (srv_ActiveJobs (assignJobToWorker (example_env\<lparr>env_send_ok := \<lambda>_. False\<rparr>) example_worker
     (WorkerJob_mk 1 example_submission)
     (waiting_server\<lparr>srv_QueuedJobs := snd (jq_remove 1 (srv_QueuedJobs waiting_server))\<rparr>))) =
   Inr (JobStatus_mk 1 QUEUED)"
  using failed_send_strands_job [OF waiting_server_inv, of "\<lparr>qj_Id = 1, qj_Submission = example_submission\<rparr>"
      "example_env\<lparr>env_send_ok := \<lambda>_. False\<rparr>" example_worker, OF _ _ refl refl]
  by (simp add: pending_def waiting_server_jobs)

section \<open>Requests of clients\<close>

text \<open>
  C10: a status request of a known handle always has an answer: \<open>QUEUED\<close> for a job of the
  queue, the recorded status for an active job (whose progress text is then cleared, and
  nothing else), \<open>INVALID_STATUS\<close> for any other id. In no reachable state does it run into
  the undefined behaviour of an unknown id.
\<close>

theorem meshStatus_spec:
  assumes "server_inv gen s" and "to_Job (env_io env) (msg_data msg) = Inr job"
  shows "\<exists>js s'. meshStatus env msg s = Inr (JobStatus_to_string (env_io env) js, s') \<and>
    js_id js = job_id job \<and> abs_of s' = abs_of s \<and>
    (if jq_haveUUID (job_id job) (srv_QueuedJobs s) then js_status js = QUEUED \<and> s' = s
     else case map_find (<) (job_id job) (srv_ActiveJobs s) of
       None \<Rightarrow> js_status js = INVALID_STATUS \<and> s' = s
     | Some st \<Rightarrow> js = jstatus st \<and>
         map_find (<) (job_id job) (srv_ActiveJobs s') = Some (st\<lparr>jstatus := clearProgress js\<rparr>))"
proof -
  note parts = server_inv_parts [OF assms(1)]
  let ?i = "job_id job"
  show ?thesis
  proof (cases "jq_haveUUID ?i (srv_QueuedJobs s) \<or> map_find (<) ?i (srv_ActiveJobs s) = None")
    case True
    then show ?thesis using assms(2) by (auto simp: meshStatus_def aj_haveUUID_iff)
  next
    case False
    then obtain st where st: "map_find (<) ?i (srv_ActiveJobs s) = Some st" by auto
    let ?a = "map_assign (<) ?i (st\<lparr>jstatus := clearProgress (jstatus st)\<rparr>) (srv_ActiveJobs s)"
    have eq: "meshStatus env msg s = Inr (JobStatus_to_string (env_io env) (jstatus st), s\<lparr>srv_ActiveJobs := ?a\<rparr>)"
      using False st assms(2) by (simp add: meshStatus_def aj_haveUUID_iff aj_status_def aj_clearStatus_def)
    have "js_id (jstatus st) = ?i" using st parts(3) by (auto simp: active_inv_def entry_ok_def)
    moreover have "map_find (<) ?i ?a = Some (st\<lparr>jstatus := clearProgress (jstatus st)\<rparr>)"
      using parts(6) by (simp add: info_inv_def find_simps)
    ultimately show ?thesis
      using eq False st meshStatus_abs [OF assms(1) eq]
      by (intro exI [of _ "jstatus st"] exI [of _ "s\<lparr>srv_ActiveJobs := ?a\<rparr>"]) simp
  qed
qed

lemma example_handle:
  "\<exists>job. to_Job hex_uuid_io (msg_data (request x
      (Job_to_string (Job_mk hex_uuid_io 1 \<lparr>inputType = ''Model'', outputType = ''Mesh3D''\<rparr>)))) = Inr job \<and>
    job_id job = 1"
  using Job_wire [OF hex_uuid_io_ok, of "\<lparr>inputType = ''Model'', outputType = ''Mesh3D''\<rparr>" 1]
  by (auto simp: request_def msg_data_def MeshIOType_wf_def max_object_size_def)

definition handle_request :: "SERVICE_TYPE \<Rightarrow> Message" where
  "handle_request x = request x
     (Job_to_string (Job_mk hex_uuid_io 1 \<lparr>inputType = ''Model'', outputType = ''Mesh3D''\<rparr>))"

lemma handle_job: "\<exists>job. to_Job (env_io example_env) (msg_data (handle_request x)) = Inr job \<and> job_id job = 1"
  using example_handle by (simp add: handle_request_def example_env_def)

theorem meshStatus_spec_witness:
  "\<exists>js s'. meshStatus example_env (handle_request MESH_STATUS) waiting_server =
     Inr (JobStatus_to_string hex_uuid_io js, s') \<and> js_id js = 1 \<and> js_status js = QUEUED"
proof -
  obtain job where job: "to_Job (env_io example_env) (msg_data (handle_request MESH_STATUS)) = Inr job"
    and id: "job_id job = 1" using handle_job by blast
  have "jq_haveUUID 1 (srv_QueuedJobs waiting_server)"
    using queue.have_iff [OF server_inv_parts(1) [OF waiting_server_inv], of 1]
    by (simp add: queue_ids_def waiting_server_jobs)
  with meshStatus_spec [OF waiting_server_inv job] id show ?thesis by (auto simp: example_env_def)
qed

text \<open>
  C7: a result reaches the client unchanged and exactly once. Once the worker of an active
  job uploads its result, the request for that job returns exactly that result and forgets
  the job; a second request, or one for an id that has no result, returns the empty result
  and changes nothing. A job that had already failed still delivers what was uploaded.
\<close>

theorem result_delivered_once:
  assumes "server_inv gen s" and "aj_haveUUID (res_id r) (srv_ActiveJobs s)"
    and "to_JobResult (env_io env) (msg_data upload) = Inr r"
    and "to_Job (env_io env) (msg_data ask) = Inr job" and "job_id job = res_id r"
  shows "\<exists>s1 s2. storeMesh env w upload s = Inr s1 \<and>
    retrieveResult env ask s1 = Inr (JobResult_to_string (env_io env) r, s2) \<and>
    \<not> aj_haveUUID (res_id r) (srv_ActiveJobs s2) \<and>
    retrieveResult env ask s2 = Inr (JobResult_to_string (env_io env) (JobResult_empty (res_id r)), s2)"
proof -
  note parts = server_inv_parts [OF assms(1)]
  obtain st where st: "map_find (<) (res_id r) (srv_ActiveJobs s) = Some st"
    using assms(2) by (auto simp: aj_haveUUID_iff)
  let ?a = "aj_updateResult r (srv_ActiveJobs s)"
  have stored: "\<exists>st'. map_find (<) (res_id r) ?a = Some st' \<and> jresult st' = r \<and> have_result st'"
    using st parts(6) by (auto simp: aj_updateResult_def Let_def find_simps info_inv_def)
  let ?s1 = "srv_publish (jobFinished (env_io env) r w) (s\<lparr>srv_ActiveJobs := ?a\<rparr>)"
  have up: "storeMesh env w upload s = Inr ?s1" using assms(3) by (simp add: storeMesh_def)
  moreover have "retrieveResult env ask ?s1 =
      Inr (JobResult_to_string (env_io env) r, ?s1\<lparr>srv_ActiveJobs := snd (aj_remove (res_id r) ?a)\<rparr>)"
    using stored assms(4,5)
    by (auto simp: retrieveResult_def aj_haveUUID_iff aj_haveResult_def aj_result_def)
  moreover have "\<not> aj_haveUUID (res_id r) (snd (aj_remove (res_id r) ?a))"
    by (simp add: aj_haveUUID_iff aj_remove_find)
  ultimately show ?thesis
    using assms(4,5) by (intro exI conjI) (auto simp: retrieveResult_def)
qed

definition active_server :: "unit Server" where
  "active_server = accepted\<lparr>srv_QueuedJobs := snd (jq_remove 1 (srv_QueuedJobs accepted)),
     srv_ActiveJobs := snd (aj_add example_worker 1 [])\<rparr>"

lemma active_server_inv: "server_inv counting_uuid active_server"
proof -
  note parts = server_inv_parts [OF accepted_inv]
  have "active_inv []" by (simp add: active_inv_def info_inv_def)
  then have "active_inv (srv_ActiveJobs active_server)"
    by (simp add: active_server_def active_inv_ops(1))
  then show ?thesis
    using parts cache_sound_step [OF parts(1,2), of "QRemove 1"]
    by (auto simp: server_inv_def active_server_def job_ids_def queue.remove_inv queue.remove_ids
        aj_add_def aj_haveUUID_iff info_ids_def accepted_eq counting_uuid_def uuid_order.equiv_iff_eq
        split: if_splits)
qed

theorem result_delivered_once_witness:
  "\<exists>s1 s2. storeMesh example_env example_worker
      (request RETRIEVE_RESULT (JobResult_to_string hex_uuid_io (JobResult_mk 1 JSON ''mesh''))) active_server = Inr s1 \<and>
    retrieveResult example_env (handle_request RETRIEVE_RESULT) s1 =
      Inr (JobResult_to_string hex_uuid_io (JobResult_mk 1 JSON ''mesh''), s2)"
proof -
  have res: "res_id (JobResult_mk 1 JSON ''mesh'') = 1" by (simp add: JobResult_mk_def)
  have up: "to_JobResult (env_io example_env) (msg_data (request RETRIEVE_RESULT
      (JobResult_to_string hex_uuid_io (JobResult_mk 1 JSON ''mesh'')))) = Inr (JobResult_mk 1 JSON ''mesh'')"
    using JobResult_wire [OF hex_uuid_io_ok, of "JobResult_mk 1 JSON ''mesh''"]
    by (simp add: example_env_def request_def msg_data_def JobResult_mk_def max_object_size_def)
  obtain job where job: "to_Job (env_io example_env) (msg_data (handle_request RETRIEVE_RESULT)) = Inr job"
    and id: "job_id job = 1" using handle_job by blast
  have "aj_haveUUID (res_id (JobResult_mk 1 JSON ''mesh'')) (srv_ActiveJobs active_server)"
    by (simp add: res active_server_def aj_add_def aj_haveUUID_iff equiv_by_def)
  from result_delivered_once [OF active_server_inv this up job, of example_worker] id res
  show ?thesis by (auto simp: example_env_def)
qed

text \<open>
  C11: terminating a job answers \<open>FAILED\<close>. A queued job is gone from the server at once. An
  active job is only announced to its worker: the table of active jobs is unchanged, so the
  job keeps its status, a result that still arrives is stored and handed out, and a result that
  is already on the server is not deleted, as \<open>Client.h\<close> says it is, but can still be
  retrieved. For an id the server does not know the answer is \<open>INVALID_STATUS\<close> and nothing
  happens.
\<close>

theorem terminateJob_spec:
  assumes "server_inv gen s" and "to_Job (env_io env) (msg_data msg) = Inr job" and "i = job_id job"
  shows "\<exists>s' js. terminateJob env msg s = Inr (JobStatus_to_string (env_io env) js, s') \<and>
    (if jq_haveUUID i (srv_QueuedJobs s) then
       js = JobStatus_mk i FAILED \<and> i \<notin> job_ids s' \<and> job_ids s - {i} \<subseteq> job_ids s' \<and>
       srv_worker_out s' = srv_worker_out s
     else if aj_haveUUID i (srv_ActiveJobs s) then
       js = JobStatus_mk i FAILED \<and> srv_ActiveJobs s' = srv_ActiveJobs s \<and>
       srv_worker_out s' = srv_worker_out s @
         (if env_send_ok env (aj_workerAddress i (srv_ActiveJobs s))
          then [(aj_workerAddress i (srv_ActiveJobs s), TERMINATE_JOB,
                 WorkerJob_to_string (env_io env) (WorkerJob_mk i JobSubmission_default))] else []) \<and>
       (\<forall>res. aj_haveResult i (srv_ActiveJobs s) \<and> aj_result i (srv_ActiveJobs s) = Inr res \<longrightarrow>
          (\<exists>s''. retrieveResult env msg s' = Inr (JobResult_to_string (env_io env) res, s'')))
     else js = JobStatus_mk i INVALID_STATUS \<and> s' = s)"
proof -
  note parts = server_inv_parts [OF assms(1)]
  show ?thesis
  proof (cases "jq_haveUUID i (srv_QueuedJobs s)")
    case True
    let ?q = "snd (jq_remove i (srv_QueuedJobs s))"
    have "i \<in> queue_ids (srv_QueuedJobs s)" using True queue.have_iff [OF parts(1)] by simp
    then have "i \<notin> info_ids (srv_ActiveJobs s)" using parts(7) by blast
    moreover have "queue_ids ?q = queue_ids (srv_QueuedJobs s) - {i}" by (rule queue.remove_ids [OF parts(1)])
    ultimately show ?thesis
      using True assms(2,3) by (auto simp: terminateJob_def Let_def job_ids_def)
  next
    case False
    then show ?thesis
      using assms(2,3)
      by (auto simp: terminateJob_def retrieveResult_def Let_def aj_haveUUID_iff aj_status_def
          send_terminateJob_def send_worker_def)
  qed
qed

theorem terminateJob_spec_witness:
  "\<exists>s' js. terminateJob example_env (handle_request TERMINATE_JOB) active_server =
     Inr (JobStatus_to_string hex_uuid_io js, s') \<and> js = JobStatus_mk 1 FAILED \<and>
     srv_ActiveJobs s' = srv_ActiveJobs active_server"
proof -
  obtain job where job: "to_Job (env_io example_env) (msg_data (handle_request TERMINATE_JOB)) = Inr job"
    and id: "job_id job = 1" using handle_job by blast
  have "aj_haveUUID 1 (srv_ActiveJobs active_server)"
    by (simp add: active_server_def aj_add_def aj_haveUUID_iff equiv_by_def)
  moreover have "\<not> jq_haveUUID 1 (srv_QueuedJobs active_server)"
    by (simp add: active_server_def queue.removed_is_gone server_inv_parts(1) [OF accepted_inv])
  ultimately show ?thesis
    using terminateJob_spec [OF active_server_inv job refl] id by (auto simp: example_env_def)
qed

text \<open>Whether the payload of a client's message can be read.\<close>

definition payload_ok :: "'f server_env \<Rightarrow> Message \<Rightarrow> bool" where
  "payload_ok env msg \<longleftrightarrow>
     (case msg_serviceType msg of
        MAKE_MESH \<Rightarrow> \<not> isl (to_JobSubmission (msg_data msg))
      | CAN_MESH_REQUIREMENTS \<Rightarrow> \<not> isl (to_JobRequirements (msg_data msg))
      | MESH_STATUS \<Rightarrow> \<not> isl (to_Job (env_io env) (msg_data msg))
      | RETRIEVE_RESULT \<Rightarrow> \<not> isl (to_Job (env_io env) (msg_data msg))
      | TERMINATE_JOB \<Rightarrow> \<not> isl (to_Job (env_io env) (msg_data msg))
      | _ \<Rightarrow> True)"

definition client_services :: "SERVICE_TYPE list" where
  "client_services = [SUPPORTED_IO_TYPES, CAN_MESH_IO_TYPE, CAN_MESH_REQUIREMENTS,
     MESH_REQUIREMENTS_FOR_IO_TYPE, MAKE_MESH, MESH_STATUS, RETRIEVE_RESULT, TERMINATE_JOB]"

lemma not_isl_iff: "\<not> isl x \<longleftrightarrow> (\<exists>y. x = Inr y)"
  by (cases x) auto

lemma requests_total:
  assumes "\<not> isl (to_Job (env_io env) (msg_data msg))"
  shows "\<exists>d s'. meshStatus env msg s = Inr (d, s') \<and> srv_client_out s' = srv_client_out s"
    and "\<exists>d s'. retrieveResult env msg s = Inr (d, s') \<and> srv_client_out s' = srv_client_out s"
    and "\<exists>d s'. terminateJob env msg s = Inr (d, s') \<and> srv_client_out s' = srv_client_out s"
proof -
  obtain job where job: "to_Job (env_io env) (msg_data msg) = Inr job"
    using assms by (auto simp: not_isl_iff)
  have active: "\<exists>st. map_find (<) (job_id job) (srv_ActiveJobs s) = Some st"
    if "aj_haveUUID (job_id job) (srv_ActiveJobs s)" using that by (auto simp: aj_haveUUID_iff)
  show "\<exists>d s'. meshStatus env msg s = Inr (d, s') \<and> srv_client_out s' = srv_client_out s"
    using active by (auto simp: meshStatus_def job aj_status_def aj_clearStatus_def)
  show "\<exists>d s'. retrieveResult env msg s = Inr (d, s') \<and> srv_client_out s' = srv_client_out s"
    using active by (auto simp: retrieveResult_def job aj_result_def)
  show "\<exists>d s'. terminateJob env msg s = Inr (d, s') \<and> srv_client_out s' = srv_client_out s"
    using active by (auto simp: terminateJob_def job aj_status_def Let_def send_terminateJob_def)
qed

lemma queueJob_total:
  "\<not> isl (to_JobSubmission (msg_data msg)) \<Longrightarrow>
   \<exists>d s'. queueJob env msg s = Inr (d, s') \<and> srv_client_out s' = srv_client_out s"
  by (auto simp: not_isl_iff queueJob_def draw_uuid_def Let_def)

text \<open>
  C8: a client that can be reached always gets exactly one answer. An invalid message and a
  service clients do not have are answered \<open>INVALID_SERVICE\<close>; every other request is
  answered under its own service, whenever its payload can be read.
\<close>

theorem client_always_answered:
  assumes "env_send_ok env client" and "msg_valid msg \<longrightarrow> payload_ok env msg"
  shows "\<exists>s' d. DetermineClientResponse env client msg s = Inr s' \<and>
    srv_client_out s' = srv_client_out s @
      [(client, if msg_valid msg \<and> msg_serviceType msg \<in> set client_services
                then msg_serviceType msg else INVALID_SERVICE, d)]"
proof (cases "msg_valid msg")
  case True
  note total = queueJob_total [of msg env s] requests_total [of env msg s]
  have ok: "payload_ok env msg" using True assms(2) by simp
  have sent: "srv_client_out (snd (send_client env service d client s')) =
      srv_client_out s' @ [(client, service, d)]" for service d and s' :: "'a Server"
    using assms(1) by (simp add: send_client_def)
  show ?thesis
  proof (cases "msg_serviceType msg")
    case MAKE_MESH
    with True ok total(1) sent show ?thesis
      by (auto simp: DetermineClientResponse_def payload_ok_def client_services_def)
  next
    case MESH_STATUS
    with True ok total(2) sent show ?thesis
      by (auto simp: DetermineClientResponse_def payload_ok_def client_services_def)
  next
    case RETRIEVE_RESULT
    with True ok total(3) sent show ?thesis
      by (auto simp: DetermineClientResponse_def payload_ok_def client_services_def)
  next
    case TERMINATE_JOB
    with True ok total(4) sent show ?thesis
      by (auto simp: DetermineClientResponse_def payload_ok_def client_services_def)
  next
    case CAN_MESH_REQUIREMENTS
    with True ok sent show ?thesis
      by (auto simp: DetermineClientResponse_def payload_ok_def client_services_def
          canMeshRequirements_def not_isl_iff Let_def)
  qed (use True sent in \<open>auto simp: DetermineClientResponse_def client_services_def\<close>)
qed (use assms(1) in \<open>auto simp: DetermineClientResponse_def send_client_def\<close>)

theorem client_always_answered_witness:
  "\<exists>s' d. DetermineClientResponse example_env example_client (handle_request MESH_STATUS) submitted = Inr s' \<and>
     srv_client_out s' = srv_client_out submitted @ [(example_client, MESH_STATUS, d)]"
proof -
  have valid: "msg_valid (handle_request MESH_STATUS)" "msg_serviceType (handle_request MESH_STATUS) = MESH_STATUS"
    by (simp_all add: handle_request_def request_def)
  moreover have "payload_ok example_env (handle_request MESH_STATUS)"
    using handle_job by (auto simp: payload_ok_def valid not_isl_iff)
  moreover have "env_send_ok example_env example_client" by (simp add: example_env_def)
  ultimately show ?thesis
    using client_always_answered [of example_env example_client "handle_request MESH_STATUS" submitted]
    by (simp add: client_services_def)
qed

section \<open>Messages of workers\<close>

lemma terminate_message:
  assumes "msg_valid msg" and "msg_serviceType msg = TERMINATE_WORKER"
  shows "DetermineWorkerResponse env w msg s =
    Inr (True, srv_publish (workerTerminated w)
      (s\<lparr>srv_SocketMonitor := markAsDead w (srv_SocketMonitor s)\<rparr>))"
  using assms by (simp add: DetermineWorkerResponse_def)

text \<open>What the requests of a client do to the entry of an active job, unless they remove it.\<close>

definition same_entry :: "JobState \<Rightarrow> JobState \<Rightarrow> bool" where
  "same_entry st st' \<longleftrightarrow> WorkerAddress st' = WorkerAddress st \<and> js_status (jstatus st') = js_status (jstatus st) \<and>
     jresult st' = jresult st \<and> have_result st' = have_result st"

lemma same_entry_refl: "same_entry st st"
  by (simp add: same_entry_def)

definition entries_kept :: "uuid set \<Rightarrow> 'f Server \<Rightarrow> 'f Server \<Rightarrow> bool" where
  "entries_kept D s s' \<longleftrightarrow>
     srv_WorkerPool s' = srv_WorkerPool s \<and> srv_SocketMonitor s' = srv_SocketMonitor s \<and>
     (\<forall>j st'. map_find (<) j (srv_ActiveJobs s') = Some st' \<longrightarrow>
        (\<exists>st. map_find (<) j (srv_ActiveJobs s) = Some st \<and> same_entry st st')) \<and>
     (\<forall>j st. map_find (<) j (srv_ActiveJobs s) = Some st \<and> j \<notin> D \<longrightarrow>
        (\<exists>st'. map_find (<) j (srv_ActiveJobs s') = Some st' \<and> same_entry st st'))"

lemma entries_kept_same:
  "srv_WorkerPool s' = srv_WorkerPool s \<Longrightarrow> srv_SocketMonitor s' = srv_SocketMonitor s \<Longrightarrow>
   srv_ActiveJobs s' = srv_ActiveJobs s \<Longrightarrow> entries_kept D s s'"
  by (auto simp: entries_kept_def intro: same_entry_refl)

lemma meshStatus_entries:
  assumes "meshStatus env msg s = Inr (d, s')"
  shows "entries_kept D s s'"
proof (cases "srv_ActiveJobs s' = srv_ActiveJobs s")
  case False
  with assms obtain i st where "map_find (<) i (srv_ActiveJobs s) = Some st"
      "s' = s\<lparr>srv_ActiveJobs := map_assign (<) i (st\<lparr>jstatus := clearProgress (jstatus st)\<rparr>) (srv_ActiveJobs s)\<rparr>"
    by (auto simp: meshStatus_def bindE_eq_Inr aj_clearStatus_def split: if_splits option.splits)
  then show ?thesis
    by (auto simp: entries_kept_def find_simps same_entry_def)
next
  case True
  moreover from assms have "srv_WorkerPool s' = srv_WorkerPool s" "srv_SocketMonitor s' = srv_SocketMonitor s"
    by (auto simp: meshStatus_def bindE_eq_Inr split: if_splits)
  ultimately show ?thesis by (intro entries_kept_same)
qed

lemma retrieveResult_entries:
  assumes "retrieveResult env msg s = Inr (d, s')" and "msg_valid msg" and "msg_serviceType msg = RETRIEVE_RESULT"
  shows "entries_kept (drops env msg) s s'"
  using assms
  by (auto simp: retrieveResult_def bindE_eq_Inr entries_kept_def aj_remove_find drops_def
      intro: same_entry_refl split: if_splits)

lemma client_entries:
  assumes "DetermineClientResponse env c msg s = Inr s'"
  shows "entries_kept (drops env msg) s s'"
proof -
  have sent: "entries_kept D s (snd (send_client env service d c s1)) = entries_kept D s s1" for D service d s1
    by (simp add: entries_kept_def)
  show ?thesis
  proof (cases "msg_valid msg \<and> msg_serviceType msg \<in> {MESH_STATUS, RETRIEVE_RESULT}")
    case True
    with assms show ?thesis
      by (auto simp: DetermineClientResponse_def bindE_eq_Inr sent
          intro: meshStatus_entries retrieveResult_entries)
  next
    case False
    with assms show ?thesis
      by (auto simp: DetermineClientResponse_def bindE_eq_Inr sent queueJob_def draw_uuid_def terminateJob_def
          send_terminateJob_def Let_def split: if_splits SERVICE_TYPE.splits intro!: entries_kept_same)
  qed
qed

lemma shutdown_check:
  assumes "srv_SocketMonitor s1 = markAsDead w m" and "s' = CheckForChangeInWorkersAndJobs env s1"
  shows "\<forall>v\<in>set (srv_WorkerPool s'). si_data (wi_Address v) \<noteq> si_data w"
    and "\<exists>f. \<forall>j. map_find (<) j (srv_ActiveJobs s') = map_option f (map_find (<) j (srv_ActiveJobs s1)) \<and>
      (\<forall>st. WorkerAddress (f st) = WorkerAddress st \<and>
        (si_data (WorkerAddress st) = si_data w \<and> js_status (jstatus st) \<in> {QUEUED, IN_PROGRESS} \<longrightarrow>
          js_status (jstatus (f st)) = EXPIRED) \<and>
        (js_status (jstatus st) \<notin> {QUEUED, IN_PROGRESS} \<longrightarrow> f st = st))"
proof -
  have dead: "isDead a (markAsDead w m)" "isUnresponsive now a (markAsDead w m)"
    if "si_data a = si_data w" for a now
    using that markAsDead_find isUnresponsive_dead by (simp_all add: isDead_find)
  note s' = CheckForChange_simps [OF assms(2)]
  show "\<forall>v\<in>set (srv_WorkerPool s'). si_data (wi_Address v) \<noteq> si_data w"
    by (auto simp: s' assms(1) purgeDeadWorkers_def dead)
  show "\<exists>f. \<forall>j. map_find (<) j (srv_ActiveJobs s') = map_option f (map_find (<) j (srv_ActiveJobs s1)) \<and>
      (\<forall>st. WorkerAddress (f st) = WorkerAddress st \<and>
        (si_data (WorkerAddress st) = si_data w \<and> js_status (jstatus st) \<in> {QUEUED, IN_PROGRESS} \<longrightarrow>
          js_status (jstatus (f st)) = EXPIRED) \<and>
        (js_status (jstatus st) \<notin> {QUEUED, IN_PROGRESS} \<longrightarrow> f st = st))"
    by (rule exI [of _ "expire (env_now env) (markAsDead w m)"])
       (auto simp: s' assms(1) aj_markExpired_find expire_def expires_def dead status_defs)
qed

text \<open>
  C9: when a worker announces that it shuts down, the turn of the broker that hears of it looks
  for dead workers whether or not that was due. At its end the worker is not in the pool
  under any kind of job it took, no job queued or in progress is at it, even after the turn
  has handed out waiting jobs, and each job it still had has expired unless the client of the
  turn had it dropped; jobs that were over keep their status and result.
\<close>

theorem worker_shutdown:
  assumes "server_inv gen s" and "env_generate env = gen" and "inj_on gen {..<srv_uuids s'}"
    and "Brokering_turn env i (t, s) = Inr (t', s')"
    and "bi_worker i = Some (w, msg)" and "msg_valid msg" and "msg_serviceType msg = TERMINATE_WORKER"
  shows "t' = env_now env + milliseconds 250 \<and>
    (\<forall>v\<in>set (srv_WorkerPool s'). si_data (wi_Address v) \<noteq> si_data w) \<and>
    (\<forall>j st'. map_find (<) j (srv_ActiveJobs s') = Some st' \<and> si_data (WorkerAddress st') = si_data w \<longrightarrow>
      js_status (jstatus st') \<notin> {QUEUED, IN_PROGRESS}) \<and>
    (\<forall>j st. map_find (<) j (srv_ActiveJobs s) = Some st \<and> j \<notin> turn_drops env i \<longrightarrow>
      (\<exists>st'. map_find (<) j (srv_ActiveJobs s') = Some st' \<and> WorkerAddress st' = WorkerAddress st \<and>
        (si_data (WorkerAddress st) = si_data w \<and> js_status (jstatus st) \<in> {QUEUED, IN_PROGRESS} \<longrightarrow>
          js_status (jstatus st') = EXPIRED) \<and>
        (js_status (jstatus st) \<notin> {QUEUED, IN_PROGRESS} \<longrightarrow>
          js_status (jstatus st') = js_status (jstatus st) \<and> jresult st' = jresult st \<and>
          have_result st' = have_result st)))"
  using assms(4)
proof (rule Brokering_turn_parts)
  fix s1 s2 b s3 s4
  assume s1: "s1 = s\<lparr>srv_SocketMonitor := (srv_SocketMonitor s)
      \<lparr>PollMonitor := pollOccurred (env_now env) (PollMonitor (srv_SocketMonitor s))\<rparr>\<rparr>"
    and s2: "(case bi_client i of Some (c, msg) \<Rightarrow> DetermineClientResponse env c msg s1 | None \<Rightarrow> Inr s1) = Inr s2"
    and s3: "(case bi_worker i of Some (w, msg) \<Rightarrow> DetermineWorkerResponse env w msg s2
      | None \<Rightarrow> Inr (False, s2)) = Inr (b, s3)"
    and s4: "s4 = (if t \<le> env_now env \<or> b then CheckForChangeInWorkersAndJobs env s3 else s3)"
    and s': "s' = (if bi_brokering i then FindWorkerForQueuedJob env s4 else s4)"
    and t': "t' = (if t \<le> env_now env \<or> b then env_now env + milliseconds workerCheckInterval else t)"
  have down: "b" "srv_SocketMonitor s3 = markAsDead w (srv_SocketMonitor s2)" "srv_ActiveJobs s3 = srv_ActiveJobs s2"
    using s3 terminate_message [OF assms(6,7), of env w s2] by (auto simp: assms(5))
  have check: "s4 = CheckForChangeInWorkersAndJobs env s3" using down(1) by (simp add: s4)
  obtain f where f: "map_find (<) j (srv_ActiveJobs s4) = map_option f (map_find (<) j (srv_ActiveJobs s2))"
      "WorkerAddress (f st) = WorkerAddress st"
      "si_data (WorkerAddress st) = si_data w \<Longrightarrow> js_status (jstatus st) \<in> {QUEUED, IN_PROGRESS} \<Longrightarrow>
        js_status (jstatus (f st)) = EXPIRED"
      "js_status (jstatus st) \<notin> {QUEUED, IN_PROGRESS} \<Longrightarrow> f st = st" for j st
    using shutdown_check(2) [OF down(2) check] down(3) by auto
  have inv1: "server_inv gen s1"
    using server_inv_monitor(1) [OF assms(1)] server_inv_parts(5) [OF assms(1)] by (simp add: s1)
  have "srv_uuids s2 = srv_uuids s'"
    using s3
    by (auto simp: s' s4 FindWorker_uuids CheckForChange_simps(5) [OF refl] split: option.splits
        dest: DetermineWorkerResponse_uuids)
  then have "inj_on gen {..<srv_uuids s2}" using assms(3) by simp
  from worker_part(1) [OF client_part(1) [OF inv1 assms(2) this s2] s3]
  have inv4: "server_inv gen s4" unfolding check by (rule CheckForChange_inv(1))
  obtain es where "hand_over gen env s4 es s'"
    using FindWorker_hand_over [OF inv4, of env] hand_over_refl [OF inv4, of env] s'
    by (cases "bi_brokering i") auto
  then have found: "active_kept s4 s'"
      "wi_Address ` set (srv_WorkerPool s') \<subseteq> wi_Address ` set (srv_WorkerPool s4)"
    by (auto simp: hand_over_def intro: pool_entry_address del: subsetI)
  have kept: "entries_kept (turn_drops env i) s1 s2"
    using s2 client_entries by (auto simp: turn_drops_def intro: entries_kept_same split: option.splits)
  have same_jobs: "srv_ActiveJobs s1 = srv_ActiveJobs s" by (simp add: s1)
  note gone = shutdown_check(1) [OF down(2) check]
  show ?thesis
  proof (intro conjI allI impI)
    show "t' = env_now env + milliseconds 250" using down(1) by (simp add: t' workerCheckInterval_def)
    show "\<forall>v\<in>set (srv_WorkerPool s'). si_data (wi_Address v) \<noteq> si_data w"
      using gone found(2) by fastforce
  next
    fix j st'
    assume st': "map_find (<) j (srv_ActiveJobs s') = Some st' \<and> si_data (WorkerAddress st') = si_data w"
    then have "WorkerAddress st' \<notin> wi_Address ` set (srv_WorkerPool s4)" using gone by auto
    then obtain st where "st' = f st" using st' found(1) f(1) unfolding active_kept_def by fastforce
    then show "js_status (jstatus st') \<notin> {QUEUED, IN_PROGRESS}"
      using st' f(2-4) [of st] by (cases "js_status (jstatus st) \<in> {QUEUED, IN_PROGRESS}") auto
  next
    fix j st
    assume "map_find (<) j (srv_ActiveJobs s) = Some st \<and> j \<notin> turn_drops env i"
    then obtain st2 where st2: "map_find (<) j (srv_ActiveJobs s2) = Some st2" "same_entry st st2"
      using kept unfolding entries_kept_def same_jobs by blast
    then have "map_find (<) j (srv_ActiveJobs s') = Some (f st2)"
      using found(1) f(1) by (simp add: active_kept_def)
    with st2(2) f(2-4) [of st2] show "\<exists>st'. map_find (<) j (srv_ActiveJobs s') = Some st' \<and>
        WorkerAddress st' = WorkerAddress st \<and>
        (si_data (WorkerAddress st) = si_data w \<and> js_status (jstatus st) \<in> {QUEUED, IN_PROGRESS} \<longrightarrow>
          js_status (jstatus st') = EXPIRED) \<and>
        (js_status (jstatus st) \<notin> {QUEUED, IN_PROGRESS} \<longrightarrow>
          js_status (jstatus st') = js_status (jstatus st) \<and> jresult st' = jresult st \<and>
          have_result st' = have_result st)"
      by (intro exI [of _ "f st2"]) (simp add: same_entry_def)
  qed
qed

definition shutdown_message :: Message where
  "shutdown_message = \<lparr>msg_MeshIOType = MeshIOType_default, msg_serviceType = TERMINATE_WORKER,
     msg_valid = True, msg_storage = None\<rparr>"

text \<open>
  A turn in which the worker of a queued job shuts down, while waiting workers are in the pool
  and the next look at them is not due.
\<close>

definition shutdown_turn :: broker_input where
  "shutdown_turn = \<lparr>bi_poll = [PollReturned 1], bi_client = None,
     bi_worker = Some (example_worker, shutdown_message), bi_brokering = True\<rparr>"

definition busy_server :: "unit Server" where
  "busy_server = active_server\<lparr>srv_SocketMonitor := SocketMonitor_default 0, srv_WorkerPool := example_pool\<rparr>"

lemma busy_server_inv: "server_inv counting_uuid busy_server"
proof -
  have "monitor_inv (SocketMonitor_default 0)" by (simp add: SocketMonitor_default_def)
  then show ?thesis
    using active_server_inv example_pool_inv by (simp add: busy_server_def server_inv_def job_ids_def)
qed

theorem worker_shutdown_witness:
  "\<exists>t' s' st'. Brokering_turn example_env shutdown_turn (1, busy_server) = Inr (t', s') \<and>
     t' = milliseconds 250 \<and> map_find (<) 1 (srv_ActiveJobs s') = Some st' \<and> js_status (jstatus st') = EXPIRED"
proof -
  have m: "msg_valid shutdown_message" "msg_serviceType shutdown_message = TERMINATE_WORKER"
    by (simp_all add: shutdown_message_def)
  have turn: "bi_worker shutdown_turn = Some (example_worker, shutdown_message)" "turn_drops example_env shutdown_turn = {}"
    and env: "env_generate example_env = counting_uuid" "env_now example_env = 0"
    by (simp_all add: shutdown_turn_def turn_drops_def example_env_def)
  have "srv_SocketMonitor busy_server = SocketMonitor_default 0" by (simp add: busy_server_def)
  then obtain t' s' where run: "Brokering_turn example_env shutdown_turn (1, busy_server) = Inr (t', s')"
    using start_poll by (simp add: Brokering_turn_def shutdown_turn_def Let_def terminate_message [OF m])
  have "srv_uuids s' \<le> srv_uuids busy_server"
    using run start_poll \<open>srv_SocketMonitor busy_server = SocketMonitor_default 0\<close>
    by (auto simp: Brokering_turn_def shutdown_turn_def Let_def FindWorker_uuids CheckForChange_simps(5) [OF refl]
        terminate_message [OF m])
  moreover have "srv_uuids busy_server = 1" by (simp add: busy_server_def active_server_def accepted_eq)
  ultimately have inj: "inj_on counting_uuid {..<srv_uuids s'}" using inj_counting by simp
  let ?st = "JobState_mk example_worker 1 QUEUED"
  have "map_find (<) 1 (srv_ActiveJobs busy_server) = Some ?st"
    by (simp add: busy_server_def active_server_def aj_add_def aj_haveUUID_iff equiv_by_def)
  moreover have "si_data (WorkerAddress ?st) = si_data example_worker" "js_status (jstatus ?st) = QUEUED"
    by (simp_all add: JobState_mk_def)
  moreover note shut = worker_shutdown [OF busy_server_inv env(1) inj run turn(1) m]
  ultimately obtain st' where "map_find (<) 1 (srv_ActiveJobs s') = Some st'" "js_status (jstatus st') = EXPIRED"
    using shut [THEN conjunct2, THEN conjunct2, THEN conjunct2, rule_format, of 1 ?st] turn(2) by auto
  moreover have "t' = milliseconds 250" using shut [THEN conjunct1] env(2) by simp
  ultimately show ?thesis using run by blast
qed

text \<open>
  A worker message that is invalid, or has no payload where one is needed, changes
  nothing. Any other message of a worker keeps it from being taken for dead, except its own
  announcement that it shuts down; and no message of a worker adds, removes or reassigns a
  job.
\<close>

theorem worker_messages:
  assumes "server_inv gen s" and "DetermineWorkerResponse env w msg s = Inr (b, s')"
  shows "abs_of s' = abs_of s \<and> server_inv gen s' \<and> (b \<longrightarrow> msg_serviceType msg = TERMINATE_WORKER) \<and>
    (if \<not> msg_valid msg \<or> msg_serviceType msg \<noteq> TERMINATE_WORKER \<and> msg_dataSize msg = 0 then s' = s
     else isDead w (srv_SocketMonitor s') = (msg_serviceType msg = TERMINATE_WORKER))"
proof -
  note parts = server_inv_parts [OF assms(1)]
  have store: "monitor_inv (srv_SocketMonitor t')"
    if "storeMeshStatus env w msg t = Inr t' \<or> storeMesh env w msg t = Inr t'"
      "monitor_inv (srv_SocketMonitor t)" for t t' :: "'a Server"
    using that by (auto simp: storeMeshStatus_def storeMesh_def bindE_eq_Inr)
  have alive: "\<not> isDead w (refresh now w m)" "\<not> isDead w (heartbeat now w d m)"
    if "monitor_inv m" for now d and m :: SocketMonitor
    using that by (simp_all add: isDead_find refresh_find heartbeat_find)
  have gone: "isDead w (markAsDead w m)" for m :: SocketMonitor
    by (simp add: isDead_find markAsDead_find)
  have rest: "(b \<longrightarrow> msg_serviceType msg = TERMINATE_WORKER) \<and>
    (if \<not> msg_valid msg \<or> msg_serviceType msg \<noteq> TERMINATE_WORKER \<and> msg_dataSize msg = 0 then s' = s
     else isDead w (srv_SocketMonitor s') = (msg_serviceType msg = TERMINATE_WORKER))"
    using assms(2) parts(5) store
    by (cases "msg_serviceType msg")
       (fastforce simp: DetermineWorkerResponse_def bindE_eq_Inr alive gone split: if_splits)+
  with DetermineWorkerResponse_inv [OF assms] DetermineWorkerResponse_abs [OF assms] show ?thesis by blast
qed

theorem worker_messages_witness:
  "server_inv counting_uuid active_server \<and>
   (\<exists>s'. DetermineWorkerResponse example_env example_worker shutdown_message active_server = Inr (True, s') \<and>
     isDead example_worker (srv_SocketMonitor s') \<and> abs_of s' = abs_of active_server)"
proof -
  have m: "msg_valid shutdown_message" "msg_serviceType shutdown_message = TERMINATE_WORKER"
    by (simp_all add: shutdown_message_def)
  from worker_messages [OF active_server_inv terminate_message [OF m, of example_env example_worker active_server]]
    terminate_message [OF m, of example_env example_worker active_server] m active_server_inv
  show ?thesis by simp
qed

section \<open>The end of brokering\<close>

definition addressed :: "response list \<Rightarrow> (SocketIdentity \<times> SERVICE_TYPE) list" where
  "addressed rs = map (\<lambda>(w, service, d). (w, service)) rs"

lemma terminate_all_out:
  "addressed (srv_worker_out (fold (terminate_one env) ws s)) =
     addressed (srv_worker_out s) @ map (\<lambda>w. (w, TERMINATE_WORKER)) (filter (env_send_ok env) ws)"
proof (induction ws arbitrary: s)
  case (Cons w ws)
  have "addressed (srv_worker_out (terminate_one env w s)) = addressed (srv_worker_out s) @
      (if env_send_ok env w then [(w, TERMINATE_WORKER)] else [])"
    by (simp add: terminate_one_def draw_uuid_def send_terminateWorker_def send_worker_def addressed_def)
  with Cons.IH show ?case by simp
qed simp

lemma terminate_all_active: "srv_ActiveJobs (fold (terminate_one env) ws s) = srv_ActiveJobs s"
proof (induction ws arbitrary: s)
  case (Cons w ws)
  have "srv_ActiveJobs (terminate_one env w s) = srv_ActiveJobs s"
    by (simp add: terminate_one_def draw_uuid_def send_terminateWorker_def)
  with Cons.IH show ?case by simp
qed simp

lemma address_covered:
  "a \<in> set as \<Longrightarrow> \<exists>b\<in>set (set_insert_range SocketIdentity_less as []). si_data b = si_data a"
  using identity_order.set_insert_range_has [of a as "[]"] by auto

text \<open>
  When brokering ends every worker that is responsive or has a job is told to
  terminate, as far as it can be reached, and nobody else; the jobs stay where they are.
\<close>

theorem Brokering_end_spec:
  assumes "s' = Brokering_end env s"
  shows "\<exists>ws. addressed (srv_worker_out s') =
      addressed (srv_worker_out s) @ map (\<lambda>w. (w, TERMINATE_WORKER)) (filter (env_send_ok env) ws) \<and>
    (\<forall>v\<in>set (srv_WorkerPool s). IsResponsive v \<longrightarrow> (\<exists>w\<in>set ws. si_data w = si_data (wi_Address v))) \<and>
    (\<forall>(i, st)\<in>set (srv_ActiveJobs s). \<exists>w\<in>set ws. si_data w = si_data (WorkerAddress st)) \<and>
    set ws \<subseteq> wi_Address ` {v \<in> set (srv_WorkerPool s). IsResponsive v} \<union>
      WorkerAddress ` snd ` set (srv_ActiveJobs s) \<and>
    abs_of s' = abs_of s"
proof (intro exI conjI)
  let ?ws = "allResponsiveWorkers (srv_WorkerPool s) @ aj_activeWorkers (srv_ActiveJobs s)"
  show "addressed (srv_worker_out s') =
      addressed (srv_worker_out s) @ map (\<lambda>w. (w, TERMINATE_WORKER)) (filter (env_send_ok env) ?ws)"
    by (simp add: assms Brokering_end_def TerminateAllWorkers_def Let_def terminate_all_out terminate_all_active)
  show "\<forall>v\<in>set (srv_WorkerPool s). IsResponsive v \<longrightarrow> (\<exists>w\<in>set ?ws. si_data w = si_data (wi_Address v))"
    using address_covered [of _ "map wi_Address (filter IsResponsive (srv_WorkerPool s))"]
    by (fastforce simp: allResponsiveWorkers_def address_set_def)
  show "\<forall>(i, st)\<in>set (srv_ActiveJobs s). \<exists>w\<in>set ?ws. si_data w = si_data (WorkerAddress st)"
    using address_covered [of _ "map (WorkerAddress \<circ> snd) (srv_ActiveJobs s)"]
    by (force simp: aj_activeWorkers_def)
  show "set ?ws \<subseteq> wi_Address ` {v \<in> set (srv_WorkerPool s). IsResponsive v} \<union>
      WorkerAddress ` snd ` set (srv_ActiveJobs s)"
    using identity_order.set_insert_range_subset [of "map wi_Address (filter IsResponsive (srv_WorkerPool s))" "[]"]
      identity_order.set_insert_range_subset [of "map (WorkerAddress \<circ> snd) (srv_ActiveJobs s)" "[]"]
    by (auto simp: allResponsiveWorkers_def address_set_def aj_activeWorkers_def image_comp)
  show "abs_of s' = abs_of s"
    by (simp add: assms Brokering_end_def TerminateAllWorkers_def Let_def terminate_all_inv(2))
qed

theorem Brokering_end_spec_witness:
  "\<exists>ws. addressed (srv_worker_out (Brokering_end example_env active_server)) =
     addressed (srv_worker_out active_server) @ map (\<lambda>w. (w, TERMINATE_WORKER)) ws \<and>
     (\<exists>w\<in>set ws. si_data w = ''worker-1'')"
proof -
  have "srv_ActiveJobs active_server = [(1, JobState_mk example_worker 1 QUEUED)]"
    by (simp add: active_server_def aj_add_def aj_haveUUID_iff)
  with Brokering_end_spec [of _ example_env active_server, OF refl] show ?thesis
    by (auto simp: example_env_def JobState_mk_def example_worker_def)
qed

end
