(* ===== verification/Remus_Worker.thy ===== *)
theory Remus_Worker
  imports Remus_Router Remus_Service
begin

text \<open>
  \<open>remus/worker/Worker.cxx\<close>: what a program that meshes calls. A worker owns the socket to its
  message router (\<open>w_inbox\<close>: what the router has not read yet), the router and the job queue;
  the counters tell how much of the router's output the worker and its queue have read.
  \<open>router_reads\<close> and \<open>queue_reads\<close> are one round of the two threads behind it.
\<close>

record worker =
  w_MeshRequirements :: JobRequirements
  w_inbox :: "Message list"
  w_router :: router
  w_queue :: worker_queue
  w_queue_read :: nat
  w_answers_read :: nat

definition worker_message :: "MeshIOType \<Rightarrow> SERVICE_TYPE \<Rightarrow> string option \<Rightarrow> Message" where
  "worker_message mtype service data =
     \<lparr>msg_MeshIOType = mtype, msg_serviceType = service, msg_valid = True, msg_storage = data\<rparr>"

definition worker_send :: "SERVICE_TYPE \<Rightarrow> string option \<Rightarrow> worker \<Rightarrow> worker" where
  "worker_send service data w =
     w\<lparr>w_inbox := w_inbox w @ [worker_message (req_meshTypes (w_MeshRequirements w)) service data]\<rparr>"

text \<open>
  Both constructors start the thread of the queue, start the router and wait for its thread,
  then register.
\<close>

definition Worker_requirements :: "JobRequirements \<Rightarrow> ptime \<Rightarrow> worker" where
  "Worker_requirements requirements now =
     worker_send CAN_MESH_REQUIREMENTS (Some (JobRequirements_serialize requirements))
       \<lparr>w_MeshRequirements = requirements, w_inbox = [],
        w_router = setIsTalking True (router_mk now),
        w_queue = wq_mk, w_queue_read = 0, w_answers_read = 0\<rparr>"

definition Worker_mesh_type :: "MeshIOType \<Rightarrow> ptime \<Rightarrow> worker" where
  "Worker_mesh_type mtype now = Worker_requirements (make_JobRequirements mtype '''' '''') now"

definition Worker_destroy :: "worker \<Rightarrow> worker" where
  "Worker_destroy w = (if isTalking (w_router w) then worker_send TERMINATE_WORKER None w else w)"

definition set_worker_rates :: "int \<Rightarrow> int \<Rightarrow> worker \<Rightarrow> worker" where
  "set_worker_rates lo hi w =
     w\<lparr>w_router := (w_router w)\<lparr>rt_PollMonitor := changeTimeOutRates lo hi (rt_PollMonitor (w_router w))\<rparr>\<rparr>"

definition get_worker_rates :: "worker \<Rightarrow> int \<times> int" where
  "get_worker_rates w =
     (PollingMonitor_minTimeOut (rt_PollMonitor (w_router w)),
      PollingMonitor_maxTimeOut (rt_PollMonitor (w_router w)))"

definition light_requirements :: "JobRequirements \<Rightarrow> JobRequirements" where
  "light_requirements r =
     (JobRequirements_memory (req_formatType r) (req_meshTypes r) (req_workerName r) '''')
       \<lparr>req_sourceType := req_sourceType r, req_tag := req_tag r\<rparr>"

definition askForJobs :: "32 word \<Rightarrow> worker \<Rightarrow> worker" where
  "askForJobs numberOfJobs w =
     (if isForwardingToServer (w_router w)
      then (worker_send MAKE_MESH
             (Some (JobRequirements_serialize (light_requirements (w_MeshRequirements w)))) ^^ unat numberOfJobs) w
      else w)"

definition pendingJobCount :: "worker \<Rightarrow> nat" where
  "pendingJobCount w = wq_size (w_queue w)"

definition takePendingJob :: "worker \<Rightarrow> WorkerJob \<times> worker" where
  "takePendingJob w = (case wq_take (w_queue w) of (job, q) \<Rightarrow> (job, w\<lparr>w_queue := q\<rparr>))"

text \<open>
  \<open>getJob\<close> up to the point where it waits, and the wait: \<open>None\<close> while there is no job.
\<close>

definition getJob_ask :: "worker \<Rightarrow> worker" where
  "getJob_ask w = (if pendingJobCount w = 0 then askForJobs 1 w else w)"

definition getJob_wait :: "worker \<Rightarrow> (WorkerJob \<times> worker) option" where
  "getJob_wait w =
     (case wq_waitAndTakeJob (w_queue w) of
        None \<Rightarrow> None | Some (job, q) \<Rightarrow> Some (job, w\<lparr>w_queue := q\<rparr>))"

text \<open>Statuses are sent without blocking; \<open>sent\<close> tells whether the message got out.\<close>

definition updateStatus :: "uuid_io \<Rightarrow> bool \<Rightarrow> JobStatus \<Rightarrow> worker \<Rightarrow> worker" where
  "updateStatus io sent info w =
     (if isTalking (w_router w) \<and> sent
      then worker_send MESH_STATUS (Some (JobStatus_to_string io info)) w else w)"

definition sendProgress ::
  "uuid_io \<Rightarrow> bool \<Rightarrow> WorkerJob \<Rightarrow> int \<Rightarrow> string \<Rightarrow> worker \<Rightarrow> worker" where
  "sendProgress io sent j progress message w =
     updateStatus io sent (JobStatus_progress (wj_id j) (JobProgress_mk progress message)) w"

definition sendJobFailure :: "uuid_io \<Rightarrow> bool \<Rightarrow> WorkerJob \<Rightarrow> string \<Rightarrow> worker \<Rightarrow> worker" where
  "sendJobFailure io sent j reason w =
     updateStatus io sent
       (markAsFailed (JobStatus_progress (wj_id j) (JobProgress_message reason))) w"

text \<open>
  \<open>returnResult\<close> sends the result and then waits for an answer; when it waits, the call
  returns once the router has put one more answer on the socket.
\<close>

definition returnResult :: "uuid_io \<Rightarrow> JobResult \<Rightarrow> worker \<Rightarrow> bool \<times> worker" where
  "returnResult io res w =
     (if isTalking (w_router w)
      then (True, worker_send RETRIEVE_RESULT (Some (JobResult_to_string io res)) w)
      else (False, w))"

definition returnResult_wait :: "worker \<Rightarrow> (Response \<times> worker) option" where
  "returnResult_wait w =
     (if w_answers_read w < length (rt_to_worker (w_router w))
      then Some (rt_to_worker (w_router w) ! w_answers_read w, w\<lparr>w_answers_read := Suc (w_answers_read w)\<rparr>)
      else None)"

definition workerShouldTerminate :: "worker \<Rightarrow> bool" where
  "workerShouldTerminate w = wq_isShutdown (w_queue w)"

definition jobShouldBeTerminated :: "WorkerJob \<Rightarrow> worker \<Rightarrow> bool" where
  "jobShouldBeTerminated job w = wq_isATerminatedJob job (w_queue w)"

section \<open>The threads behind a worker\<close>

definition router_reads :: "router_env \<Rightarrow> poll_event list \<Rightarrow> Response option \<Rightarrow> worker \<Rightarrow> worker result" where
  "router_reads env polls server w =
     (if isTalking (w_router w)
      then bindE (router_turn env polls server
             (case w_inbox w of [] \<Rightarrow> None | m # _ \<Rightarrow> Some m) (w_router w)) (\<lambda>r.
           Inr (w\<lparr>w_router := r, w_inbox := tl (w_inbox w)\<rparr>))
      else Inr w)"

text \<open>The thread of the queue sets \<open>PollingStarted\<close> before its first round.\<close>

definition queue_reads :: "uuid_io \<Rightarrow> poll_event list \<Rightarrow> worker \<Rightarrow> worker result" where
  "queue_reads io polls w =
     (let ready = (if w_queue_read w < length (rt_to_queue (w_router w))
                   then Some (rt_to_queue (w_router w) ! w_queue_read w) else None) in
      if wq_ContinuePolling (w_queue w)
      then bindE (pollForJobs_turn io polls ready ((w_queue w)\<lparr>wq_PollingStarted := True\<rparr>)) (\<lambda>q.
           Inr (w\<lparr>w_queue := q, w_queue_read := w_queue_read w + (if ready = None then 0 else 1)\<rparr>))
      else Inr w)"

section \<open>Asking for work\<close>

text \<open>What the server makes of a sequence of messages of one worker.\<close>

fun server_hears ::
  "'f server_env \<Rightarrow> SocketIdentity \<Rightarrow> Message list \<Rightarrow> 'f Server \<Rightarrow> 'f Server result" where
  "server_hears env wid [] s = Inr s"
| "server_hears env wid (m # ms) s =
     bindE (DetermineWorkerResponse env wid m s) (\<lambda>(_, s'). server_hears env wid ms s')"

lemma worker_message_simps [simp]:
  "msg_valid (worker_message mt x d)" "msg_serviceType (worker_message mt x d) = x"
  "msg_data (worker_message mt x (Some str)) = str"
  "msg_dataSize (worker_message mt x (Some str)) = length str"
  by (simp_all add: worker_message_def msg_data_def msg_dataSize_def)

lemma worker_send_simps [simp]:
  "w_MeshRequirements (worker_send x d w) = w_MeshRequirements w"
  "w_router (worker_send x d w) = w_router w"
  "w_queue (worker_send x d w) = w_queue w"
  "w_inbox (worker_send x d w) =
     w_inbox w @ [worker_message (req_meshTypes (w_MeshRequirements w)) x d]"
  by (simp_all add: worker_send_def)

lemma worker_send_funpow:
  "w_inbox ((worker_send x d ^^ n) w) =
     w_inbox w @ replicate n (worker_message (req_meshTypes (w_MeshRequirements w)) x d) \<and>
   w_MeshRequirements ((worker_send x d ^^ n) w) = w_MeshRequirements w"
proof (induction n)
  case (Suc n)
  then show ?case by (simp add: replicate_append_same)
qed simp

lemma light_requirements_wf: "JobRequirements_wf r \<Longrightarrow> JobRequirements_wf (light_requirements r)"
  by (simp add: JobRequirements_wf_def light_requirements_def JobRequirements_memory_def)

lemma light_requirements_eq: "JobRequirements_eq (light_requirements r) r"
  by (simp add: JobRequirements_eq_def light_requirements_def JobRequirements_memory_def)

lemma reqs_nonempty: "0 < length (JobRequirements_serialize r)"
  by (simp add: JobRequirements_serialize_def)

text \<open>Asking raises the credit of a registered worker by exactly one.\<close>

lemma credit_ready_registered:
  assumes "pool_inv pool" and "haveWorker a r pool" and "JobRequirements_eq r' r"
  shows "pool_credit (a, r) (snd (readyForWork a r' pool)) = Suc (pool_credit (a, r) pool)"
  using assms
proof (induction pool)
  case (Cons w pool)
  have inv: "pool_inv pool" and n: "0 \<le> NumberOfDesiredJobs w"
    using Cons.prems by (auto simp: pool_inv_def)
  have same: "is_worker a r' v \<longleftrightarrow> is_worker a r v" for v
    using assms(3) by (simp add: is_worker_def JobRequirements_eq_key)
  show ?case
  proof (cases "is_worker a r w")
    case True
    then have "\<not> is_worker a r' v" if "v \<in> set pool" for v
      using that Cons.prems
      by (auto simp: pool_inv_def pool_key_eq_iff is_worker_def JobRequirements_eq_key)
    then have "snd (readyForWork a r' pool) = pool"
      by (auto simp: readyForWork_def intro: map_idI)
    with True n same show ?thesis
      by (simp add: readyForWork_def is_worker_def wi_addJob_def nat_add_distrib)
  next
    case False
    then have "haveWorker a r pool" using Cons.prems(2) by (simp add: haveWorker_def)
    from Cons.IH [OF inv this assms(3)] False same show ?thesis
      by (simp add: readyForWork_def)
  qed
qed (simp add: haveWorker_def)

lemma haveWorker_ready: "haveWorker a r (snd (readyForWork a' r' pool)) = haveWorker a r pool"
proof -
  have "haveWorker a r pool \<longleftrightarrow>
      (\<exists>k\<in>set (map worker_key pool). fst k = si_data a \<and> JobRequirements_eq (snd k) r)" for pool
    by (auto simp: haveWorker_def list_ex_iff is_worker_key)
  then show ?thesis by (simp only: map_key_ready)
qed

lemma server_hears_ready:
  assumes "pool_inv (srv_WorkerPool s)" and "haveWorker wid r (srv_WorkerPool s)"
    and "JobRequirements_eq r' r" and "to_JobRequirements d = Inr r'" and "0 < length d"
  shows "\<exists>s'. server_hears env wid (replicate n (worker_message mt MAKE_MESH (Some d))) s = Inr s' \<and>
    pool_credit (wid, r) (srv_WorkerPool s') = pool_credit (wid, r) (srv_WorkerPool s) + n \<and>
    haveWorker wid r (srv_WorkerPool s')"
  using assms(1,2)
proof (induction n arbitrary: s)
  case (Suc n)
  obtain s1 where s1: "DetermineWorkerResponse env wid (worker_message mt MAKE_MESH (Some d)) s = Inr (False, s1)"
      "srv_WorkerPool s1 = snd (readyForWork wid r' (srv_WorkerPool s))"
    using assms(4,5) by (simp add: DetermineWorkerResponse_def srv_publish_def)
  have "pool_inv (srv_WorkerPool s1)" "haveWorker wid r (srv_WorkerPool s1)"
    using Suc.prems by (simp_all add: s1 pool_inv_ready haveWorker_ready)
  from Suc.IH [OF this] credit_ready_registered [OF Suc.prems assms(3)] show ?case
    by (simp add: s1)
qed simp

text \<open>
  C13: a new worker that asks for jobs. Its messages register it with the server and raise
  what it may be given by exactly the number of jobs asked for, although it asks with
  requirements stripped of their data, as long as the server's counter, an \<open>int\<close>, can hold it.
\<close>

theorem worker_asks_for_jobs:
  assumes "JobRequirements_wf reqs" and "pool_inv (srv_WorkerPool s)"
    and "w = askForJobs n (Worker_requirements reqs now)"
    and "pool_credit (wid, reqs) (srv_WorkerPool s) + unat n < 2 ^ 31"
  shows "\<exists>s'. server_hears env wid (w_inbox w) s = Inr s' \<and>
    haveWorker wid reqs (srv_WorkerPool s') \<and>
    pool_credit (wid, reqs) (srv_WorkerPool s') = pool_credit (wid, reqs) (srv_WorkerPool s) + unat n"
proof -
  let ?reg = "worker_message (req_meshTypes reqs) CAN_MESH_REQUIREMENTS (Some (JobRequirements_serialize reqs))"
  let ?ask = "worker_message (req_meshTypes reqs) MAKE_MESH
    (Some (JobRequirements_serialize (light_requirements reqs)))"
  have inbox: "w_inbox w = ?reg # replicate (unat n) ?ask"
    using assms(3) worker_send_funpow
    by (simp add: askForJobs_def Worker_requirements_def isForwardingToServer_def setIsTalking_def
        router_mk_def worker_send_def)
  obtain s1 where s1: "DetermineWorkerResponse env wid ?reg s = Inr (False, s1)"
      "srv_WorkerPool s1 = snd (addWorker wid reqs (srv_WorkerPool s))"
    using JobRequirements_wire [OF assms(1)] reqs_nonempty [of reqs]
    by (simp add: DetermineWorkerResponse_def srv_publish_def)
  have reg: "pool_inv (srv_WorkerPool s1)" "haveWorker wid reqs (srv_WorkerPool s1)"
      "pool_credit (wid, reqs) (srv_WorkerPool s1) = pool_credit (wid, reqs) (srv_WorkerPool s)"
    using assms(2) by (simp_all add: s1 pool_inv_add)
      (simp_all add: addWorker_def haveWorker_def WorkerInfo_mk_def is_worker_def)
  from server_hears_ready [OF reg(1,2) light_requirements_eq
      JobRequirements_wire [OF light_requirements_wf [OF assms(1)]] reqs_nonempty,
      of env "unat n" "req_meshTypes reqs"]
  show ?thesis by (auto simp: inbox s1(1) reg(3))
qed

section \<open>Orders of the server\<close>

text \<open>A response the server sent, as the router of the worker receives it.\<close>

definition response_of :: "SocketIdentity \<times> SERVICE_TYPE \<times> string \<Rightarrow> Response" where
  "response_of = (\<lambda>(_, service, data). \<lparr>rsp_serviceType = service, rsp_valid = True, rsp_data = data\<rparr>)"

text \<open>A worker whose threads run and whose queue has read everything.\<close>

definition attentive :: "worker \<Rightarrow> bool" where
  "attentive w \<longleftrightarrow> isTalking (w_router w) \<and> ready_monitor (rt_PollMonitor (w_router w)) \<and>
     ContinueForwardingToWorker (w_router w) \<and> wq_ContinuePolling (w_queue w) \<and>
     w_queue_read w = length (rt_to_queue (w_router w)) \<and>
     w_answers_read w = length (rt_to_worker (w_router w))"

lemma attentive_new: "attentive (Worker_requirements reqs now)"
  using router_mk_ready [of now]
  by (simp add: attentive_def Worker_requirements_def worker_send_def setIsTalking_def isTalking_def
      router_mk_def wq_mk_def)

lemma worker_message_to_queue:
  "\<exists>xs. rt_to_queue (handleWorkerMessage env m r) = rt_to_queue r @ xs"
  by (simp add: handleWorkerMessage_def Let_def to_queue_def)

lemma order_to_queue:
  assumes "rsp_valid rsp" and "rsp_serviceType rsp \<in> {TERMINATE_WORKER, TERMINATE_JOB, MAKE_MESH}"
    and "ContinueForwardingToWorker r" and "re_queue_ok env"
  shows "rt_to_queue (handleServerMessage env rsp r) = rt_to_queue r @ [rsp]"
  using assms by (auto simp: handleServerMessage_def Let_def to_queue_def)

lemma router_turn_order:
  assumes "ready_monitor (rt_PollMonitor r)" and "rsp_valid rsp"
    and "rsp_serviceType rsp \<in> {TERMINATE_WORKER, TERMINATE_JOB, MAKE_MESH}"
    and "ContinueForwardingToWorker r" and "re_queue_ok env"
  shows "\<exists>r' xs. router_turn env [PollReturned n] (Some rsp) worker r = Inr r' \<and>
    rt_to_queue r' = rt_to_queue r @ rsp # xs"
proof -
  let ?r = "handleServerMessage env rsp (r\<lparr>rt_PollMonitor := pollOccurred (re_now env) (rt_PollMonitor r)\<rparr>)"
  have q: "rt_to_queue ?r = rt_to_queue r @ [rsp]"
    using order_to_queue [of rsp "r\<lparr>rt_PollMonitor := pollOccurred (re_now env) (rt_PollMonitor r)\<rparr>" env]
      assms by simp
  show ?thesis
  proof (cases worker)
    case None
    then show ?thesis using q assms(1) by (simp add: router_turn_def ready_poll Let_def)
  next
    case (Some m)
    with worker_message_to_queue [of env m ?r] q assms(1) show ?thesis
      by (auto simp: router_turn_def ready_poll Let_def setIsTalking_def)
  qed
qed

text \<open>One round of the router and one of the queue carry an order to the queue.\<close>

lemma order_reaches_queue:
  assumes "attentive w" and "re_queue_ok renv" and "rsp_valid rsp"
    and "rsp_serviceType rsp \<in> {TERMINATE_WORKER, TERMINATE_JOB, MAKE_MESH}"
    and "wq_decode io (Some rsp) = [i]"
  shows "\<exists>w1 w2. router_reads renv [PollReturned n] (Some rsp) w = Inr w1 \<and>
    queue_reads io [PollReturned m] w1 = Inr w2 \<and>
    w_queue w2 = wq_step i ((w_queue w)\<lparr>wq_PollingStarted := True\<rparr>)"
proof -
  let ?worker = "case w_inbox w of [] \<Rightarrow> None | m # _ \<Rightarrow> Some m"
  have att: "isTalking (w_router w)" "ready_monitor (rt_PollMonitor (w_router w))"
      "ContinueForwardingToWorker (w_router w)" "wq_ContinuePolling (w_queue w)"
      "w_queue_read w = length (rt_to_queue (w_router w))"
    using assms(1) by (simp_all add: attentive_def)
  obtain r' xs where r': "router_turn renv [PollReturned n] (Some rsp) ?worker (w_router w) = Inr r'"
      "rt_to_queue r' = rt_to_queue (w_router w) @ rsp # xs"
    using router_turn_order [OF att(2) assms(3,4) att(3) assms(2)] by blast
  let ?w1 = "w\<lparr>w_router := r', w_inbox := tl (w_inbox w)\<rparr>"
  have turn: "router_reads renv [PollReturned n] (Some rsp) w = Inr ?w1"
    using att(1) r'(1) by (simp add: router_reads_def)
  obtain q where q: "pollForJobs_turn io [PollReturned m] (Some rsp) ((w_queue w)\<lparr>wq_PollingStarted := True\<rparr>) = Inr q"
    using assms(5)
    by (fastforce simp: pollForJobs_turn_def poll_safely_def wq_decode_def wq_addItem_def
        wq_terminateJob_def split: if_splits SERVICE_TYPE.splits sum.splits)
  have "q = wq_step i ((w_queue w)\<lparr>wq_PollingStarted := True\<rparr>)" using turn_steps [OF q] assms(5) by simp
  with q turn att r'(2) show ?thesis by (simp add: queue_reads_def Let_def nth_append)
qed

text \<open>
  A job on its way to a worker. What the server sends when it assigns a job goes through
  the worker's router into its queue and arrives there, behind the jobs already waiting, as
  the very job the client submitted; an idle worker takes exactly that job.
\<close>

theorem job_reaches_worker:
  assumes "uuid_io_ok (env_io env)" and "JobSubmission_wf sub" and "env_send_ok env wid"
    and "attentive w" and "re_queue_ok renv"
    and "s' = assignJobToWorker env wid (WorkerJob_mk i sub) s"
  shows "\<exists>w1 w2. fst (last (srv_worker_out s')) = wid \<and>
    router_reads renv [PollReturned 1] (Some (response_of (last (srv_worker_out s')))) w = Inr w1 \<and>
    queue_reads (env_io env) [PollReturned 1] w1 = Inr w2 \<and>
    wq_Queue (w_queue w2) = wq_Queue (w_queue w) @ [WorkerJob_mk i sub] \<and>
    (pendingJobCount w = 0 \<longrightarrow> fst (takePendingJob w2) = WorkerJob_mk i sub)"
proof -
  let ?d = "WorkerJob_to_string (env_io env) (WorkerJob_mk i sub)"
  let ?rsp = "response_of (wid, MAKE_MESH, ?d)"
  have out: "last (srv_worker_out s') = (wid, MAKE_MESH, ?d)"
    using assms(3,6) by (simp add: assignJobToWorker_def send_worker_def srv_publish_def Let_def)
  have "wq_decode (env_io env) (Some ?rsp) = [WJob (WorkerJob_mk i sub)]"
    using WorkerJob_wire [OF assms(1,2)] by (simp add: wq_decode_def response_of_def)
  from order_reaches_queue [OF assms(4,5) _ _ this, of 1 1] obtain w1 w2 where
    "router_reads renv [PollReturned 1] (Some ?rsp) w = Inr w1"
    "queue_reads (env_io env) [PollReturned 1] w1 = Inr w2"
    "w_queue w2 = wq_step (WJob (WorkerJob_mk i sub)) ((w_queue w)\<lparr>wq_PollingStarted := True\<rparr>)"
    by (auto simp: response_of_def)
  then show ?thesis
    by (intro exI [of _ w1] exI [of _ w2])
       (simp add: out takePendingJob_def wq_take_def wq_size_def pendingJobCount_def)
qed

lemma default_submission_wf: "JobSubmission_wf JobSubmission_default"
  by (simp add: JobSubmission_wf_def JobSubmission_default_def JobRequirements_wf_def
      JobRequirements_default_def MeshIOType_wf_def MeshIOType_default_def)

lemma default_job_wire:
  "uuid_io_ok io \<Longrightarrow> to_WorkerJob io (WorkerJob_to_string io (WorkerJob_mk i JobSubmission_default)) =
     Inr (WorkerJob_mk i JobSubmission_default)"
  by (rule WorkerJob_wire [OF _ default_submission_wf])

text \<open>
  C14: a termination on its way to a worker. Told to terminate a job, the worker no longer
  has it in its queue and answers that it should be terminated. Told to terminate itself, it
  answers that it should, and whoever waits for a job gets one that says so.
\<close>

theorem termination_reaches_worker:
  assumes "uuid_io_ok (env_io env)" and "env_send_ok env wid"
    and "attentive w" and "re_queue_ok renv"
    and "sj = send_terminateJob env i wid s" and "sw = send_terminateWorker env i wid s"
  shows "(\<exists>w1 w2. router_reads renv [PollReturned 1] (Some (response_of (last (srv_worker_out sj)))) w = Inr w1 \<and>
      queue_reads (env_io env) [PollReturned 1] w1 = Inr w2 \<and>
      jobShouldBeTerminated (WorkerJob_mk i sub) w2 \<and>
      wq_Queue (w_queue w2) = filter (\<lambda>j. wj_id j \<noteq> i) (wq_Queue (w_queue w))) \<and>
    (\<exists>w1 w2 w3. router_reads renv [PollReturned 1] (Some (response_of (last (srv_worker_out sw)))) w = Inr w1 \<and>
      queue_reads (env_io env) [PollReturned 1] w1 = Inr w2 \<and>
      workerShouldTerminate w2 \<and> getJob_wait w2 = Some (terminate_job, w3))"
proof -
  let ?d = "WorkerJob_to_string (env_io env) (WorkerJob_mk i JobSubmission_default)"
  have out: "last (srv_worker_out sj) = (wid, TERMINATE_JOB, ?d)"
      "last (srv_worker_out sw) = (wid, TERMINATE_WORKER, ?d)"
    using assms(2,5,6) by (simp_all add: send_terminateJob_def send_terminateWorker_def send_worker_def)
  have "wq_decode (env_io env) (Some (response_of (wid, TERMINATE_JOB, ?d))) = [WTerminate i]"
    using default_job_wire [OF assms(1)]
    by (simp add: wq_decode_def response_of_def WorkerJob_mk_def)
  from order_reaches_queue [OF assms(3,4) _ _ this, of 1 1] obtain w1 w2 where
    "router_reads renv [PollReturned 1] (Some (response_of (wid, TERMINATE_JOB, ?d))) w = Inr w1"
    "queue_reads (env_io env) [PollReturned 1] w1 = Inr w2"
    "w_queue w2 = wq_step (WTerminate i) ((w_queue w)\<lparr>wq_PollingStarted := True\<rparr>)"
    by (auto simp: response_of_def)
  then have "\<exists>w1 w2. router_reads renv [PollReturned 1] (Some (response_of (last (srv_worker_out sj)))) w = Inr w1 \<and>
      queue_reads (env_io env) [PollReturned 1] w1 = Inr w2 \<and>
      jobShouldBeTerminated (WorkerJob_mk i sub) w2 \<and>
      wq_Queue (w_queue w2) = filter (\<lambda>j. wj_id j \<noteq> i) (wq_Queue (w_queue w))"
    by (intro exI [of _ w1] exI [of _ w2])
       (simp add: out jobShouldBeTerminated_def wq_isATerminatedJob_def WorkerJob_mk_def
         uuid_order.set_count_iff uuid_order.set_set_insert)
  moreover have "wq_decode (env_io env) (Some (response_of (wid, TERMINATE_WORKER, ?d))) = [WShutdown]"
    by (simp add: wq_decode_def response_of_def)
  from order_reaches_queue [OF assms(3,4) _ _ this, of 1 1] obtain u1 u2 where
    "router_reads renv [PollReturned 1] (Some (response_of (wid, TERMINATE_WORKER, ?d))) w = Inr u1"
    "queue_reads (env_io env) [PollReturned 1] u1 = Inr u2"
    "w_queue u2 = wq_step WShutdown ((w_queue w)\<lparr>wq_PollingStarted := True\<rparr>)"
    by (auto simp: response_of_def)
  then have "\<exists>w1 w2 w3. router_reads renv [PollReturned 1] (Some (response_of (last (srv_worker_out sw)))) w = Inr w1 \<and>
      queue_reads (env_io env) [PollReturned 1] w1 = Inr w2 \<and>
      workerShouldTerminate w2 \<and> getJob_wait w2 = Some (terminate_job, w3)"
    by - (rule exI [of _ u1], rule exI [of _ u2],
       simp add: out workerShouldTerminate_def wq_isShutdown_def wq_stop_def wq_clearJobs_def
         getJob_wait_def wq_waitAndTakeJob_def wq_size_def wq_take_def)
  ultimately show ?thesis by blast
qed

section \<open>Results and heartbeats\<close>

lemma result_nonempty: "0 < length (JobResult_to_string io res)"
  by (simp add: JobResult_to_string_def JobResult_serialize_def)

lemma server_stores_result:
  assumes "uuid_io_ok (env_io env)" and "length (res_data res) \<le> max_object_size" and "env_send_ok env wid"
  shows "\<exists>s'. DetermineWorkerResponse env wid
      (worker_message mt RETRIEVE_RESULT (Some (JobResult_to_string (env_io env) res))) s = Inr (False, s') \<and>
    srv_ActiveJobs s' = aj_updateResult res (srv_ActiveJobs s) \<and>
    srv_worker_out s' = srv_worker_out s @ [(wid, RETRIEVE_RESULT, INVALID_MSG)]"
  using JobResult_wire [OF assms(1,2)] result_nonempty [of "env_io env" res] assms(3)
  by (simp add: DetermineWorkerResponse_def storeMesh_def send_worker_def srv_publish_def)

text \<open>The call and the round that forwards it; the round that brings the answer.\<close>

abbreviation result_message :: "uuid_io \<Rightarrow> JobResult \<Rightarrow> worker \<Rightarrow> Message" where
  "result_message io res w \<equiv> worker_message (req_meshTypes (w_MeshRequirements w)) RETRIEVE_RESULT
     (Some (JobResult_to_string io res))"

lemma result_sent:
  assumes "attentive w" and "ContinueForwardingToServer (w_router w)" and "w_inbox w = []" and "re_server_ok renv"
  shows "\<exists>w1 w2. returnResult io res w = (True, w1) \<and> returnResult_wait w1 = None \<and>
    router_reads renv [PollReturned 1] None w1 = Inr w2 \<and> attentive w2 \<and> w_inbox w2 = [] \<and>
    rt_to_server (w_router w2) = rt_to_server (w_router w) @ [result_message io res w] \<and>
    OutstandingResults (w_router w2) = OutstandingResults (w_router w) + 1"
proof -
  let ?r = "w_router w" and ?m = "result_message io res w"
  let ?r2 = "?r\<lparr>rt_PollMonitor := pollOccurred (re_now renv) (rt_PollMonitor ?r),
    rt_to_server := rt_to_server ?r @ [?m], OutstandingResults := OutstandingResults ?r + 1\<rparr>"
  let ?w1 = "worker_send RETRIEVE_RESULT (Some (JobResult_to_string io res)) w"
  let ?w2 = "?w1\<lparr>w_router := ?r2, w_inbox := []\<rparr>"
  have att: "isTalking ?r" "ready_monitor (rt_PollMonitor ?r)" "w_answers_read w = length (rt_to_worker ?r)"
    using assms(1) by (simp_all add: attentive_def)
  have "returnResult io res w = (True, ?w1)" "returnResult_wait ?w1 = None"
    using att by (simp_all add: returnResult_def returnResult_wait_def worker_send_def)
  moreover have "router_reads renv [PollReturned 1] None ?w1 = Inr ?w2"
    using att assms(2-4)
    by (simp add: router_reads_def router_turn_def ready_poll Let_def handleWorkerMessage_def forward_Message_def)
  moreover have "attentive ?w2"
    using assms(1) by (simp add: attentive_def worker_send_def isTalking_def ready_monitor_poll)
  ultimately show ?thesis by (intro exI [of _ ?w1] exI [of _ ?w2]) simp
qed

lemma result_answered:
  assumes "attentive w" and "w_inbox w = []" and "re_worker_ok renv"
  shows "\<exists>w1 w2. router_reads renv [PollReturned 1] (Some (response_of (wid, RETRIEVE_RESULT, INVALID_MSG))) w = Inr w1 \<and>
    returnResult_wait w1 = Some (response_of (wid, RETRIEVE_RESULT, INVALID_MSG), w2) \<and>
    OutstandingResults (w_router w1) = OutstandingResults (w_router w) - 1"
proof -
  let ?r = "w_router w"
  let ?r1 = "sendHeartBeat renv (handleServerMessage renv (response_of (wid, RETRIEVE_RESULT, INVALID_MSG))
    (?r\<lparr>rt_PollMonitor := pollOccurred (re_now renv) (rt_PollMonitor ?r)\<rparr>))"
  let ?w1 = "w\<lparr>w_router := ?r1, w_inbox := []\<rparr>"
  have att: "isTalking ?r" "ready_monitor (rt_PollMonitor ?r)" "w_answers_read w = length (rt_to_worker ?r)"
    using assms(1) by (simp_all add: attentive_def)
  have "router_reads renv [PollReturned 1] (Some (response_of (wid, RETRIEVE_RESULT, INVALID_MSG))) w = Inr ?w1"
    using att(1,2) assms(2) by (simp add: router_reads_def router_turn_def ready_poll Let_def)
  moreover have "rt_to_worker ?r1 = rt_to_worker ?r @ [response_of (wid, RETRIEVE_RESULT, INVALID_MSG)]"
      "OutstandingResults ?r1 = OutstandingResults ?r - 1"
    using assms(3) by (simp_all add: handleServerMessage_def response_of_def Let_def to_worker_def)
  ultimately show ?thesis
    using att(3) by (simp add: returnResult_wait_def)
qed

text \<open>
  Handing over a result. The call waits; the router forwards the result and counts it;
  the server stores it with the job and acknowledges it; the router passes the answer on, the
  call returns, and the count is back where it was.
\<close>

theorem result_acknowledged:
  assumes "uuid_io_ok (env_io env)" and "length (res_data res) \<le> max_object_size" and "env_send_ok env wid"
    and "attentive w" and "ContinueForwardingToServer (w_router w)" and "w_inbox w = []"
    and "re_server_ok renv" and "re_worker_ok renv"
  shows "\<exists>w1 w2 w3 w4 s'. returnResult (env_io env) res w = (True, w1) \<and> returnResult_wait w1 = None \<and>
    router_reads renv [PollReturned 1] None w1 = Inr w2 \<and>
    DetermineWorkerResponse env wid (last (rt_to_server (w_router w2))) s = Inr (False, s') \<and>
    srv_ActiveJobs s' = aj_updateResult res (srv_ActiveJobs s) \<and>
    router_reads renv [PollReturned 1] (Some (response_of (last (srv_worker_out s')))) w2 = Inr w3 \<and>
    returnResult_wait w3 = Some (response_of (wid, RETRIEVE_RESULT, INVALID_MSG), w4) \<and>
    OutstandingResults (w_router w3) = OutstandingResults (w_router w)"
proof -
  obtain w1 w2 where w2: "returnResult (env_io env) res w = (True, w1)" "returnResult_wait w1 = None"
      "router_reads renv [PollReturned 1] None w1 = Inr w2" "attentive w2" "w_inbox w2 = []"
      "rt_to_server (w_router w2) = rt_to_server (w_router w) @ [result_message (env_io env) res w]"
      "OutstandingResults (w_router w2) = OutstandingResults (w_router w) + 1"
    using result_sent [OF assms(4-7)] by blast
  obtain s' where s': "DetermineWorkerResponse env wid (result_message (env_io env) res w) s = Inr (False, s')"
      "srv_ActiveJobs s' = aj_updateResult res (srv_ActiveJobs s)"
      "srv_worker_out s' = srv_worker_out s @ [(wid, RETRIEVE_RESULT, INVALID_MSG)]"
    using server_stores_result [OF assms(1-3)] by blast
  from result_answered [OF w2(4,5) assms(8), of wid] w2 s' show ?thesis by force
qed

lemma lexical_cast_show_int:
  assumes "0 \<le> d" and "d < 2 ^ 63"
  shows "lexical_cast_int64 (show_int d) = Inr d"
proof -
  obtain c cs where c: "show_nat (nat d) = c # cs" and dig: "isdigit c" by (rule show_nat_Cons)
  then have "c \<noteq> CHR ''-''" "c \<noteq> CHR ''+''" by (auto simp: isdigit_def)
  with assms c show_nat_digits [of "nat d"] digits_value_show_nat [of "nat d"] show ?thesis
    by (simp add: lexical_cast_int64_def show_int_def Let_def list_all_iff)
qed

lemma heartbeat_heard:
  assumes "monitor_inv (srv_SocketMonitor s)" and "0 \<le> d" and "d < 2 ^ 63"
  shows "\<exists>s'. DetermineWorkerResponse env wid (heartbeat_message d) s = Inr (False, s') \<and>
    srv_SocketMonitor s' = heartbeat (env_now env) wid d (srv_SocketMonitor s)"
proof -
  have "0 < length (show_int d)" using assms(2) show_nat_Cons [of "nat d"] by (auto simp: show_int_def)
  then show ?thesis
    using lexical_cast_show_int [OF assms(2,3)]
    by (simp add: DetermineWorkerResponse_def heartbeat_message_def msg_data_def msg_dataSize_def srv_publish_def)
qed

text \<open>
  C15: an idle round of the router of a worker sends one heartbeat, and the server that
  handles it does not take the worker for unresponsive before twice the worker's longest
  polling interval has passed. The time at which it would must be one that \<open>ptime\<close> can hold:
  its count of microseconds has 64 bits, and the two largest values are special times.
\<close>

theorem heartbeat_keeps_alive:
  assumes "attentive w" and "ContinueForwardingToServer (w_router w)" and "w_inbox w = []"
    and "re_server_ok renv" and "monitor_inv (srv_SocketMonitor s)"
    and "0 \<le> snd (get_worker_rates w)" and "0 \<le> env_now env"
    and "env_now env + milliseconds (2 * max (snd (get_worker_rates w))
      (PollingMonitor_maxTimeOut (PollMonitor (srv_SocketMonitor s)))) < 2 ^ 63 - 2"
    and "later \<le> env_now env + milliseconds (2 * snd (get_worker_rates w))"
  shows "\<exists>w1 s'. router_reads renv [PollReturned 0] None w = Inr w1 \<and>
    length (rt_to_server (w_router w1)) = Suc (length (rt_to_server (w_router w))) \<and>
    DetermineWorkerResponse env wid (last (rt_to_server (w_router w1))) s = Inr (False, s') \<and>
    \<not> isUnresponsive later wid (srv_SocketMonitor s')"
proof -
  let ?d = "snd (get_worker_rates w)"
  have d: "?d = PollingMonitor_maxTimeOut (rt_PollMonitor (w_router w))" by (simp add: get_worker_rates_def)
  have small: "?d < 2 ^ 63" using assms(6-8) by (simp add: milliseconds_def)
  have att: "isTalking (w_router w)" "ready_monitor (rt_PollMonitor (w_router w))"
    using assms(1) by (simp_all add: attentive_def)
  have "idle (renv, [PollReturned 0], None, None)" using assms(4) by (simp add: idle_def)
  from idle_turn [OF this att(2) assms(2)] att(1) assms(3)
  obtain w1 where w1: "router_reads renv [PollReturned 0] None w = Inr w1"
      "rt_to_server (w_router w1) = rt_to_server (w_router w) @ [heartbeat_message ?d]"
    by (simp add: router_reads_def d)
  obtain s' where s': "DetermineWorkerResponse env wid (heartbeat_message ?d) s = Inr (False, s')"
      "srv_SocketMonitor s' = heartbeat (env_now env) wid ?d (srv_SocketMonitor s)"
    using heartbeat_heard [OF assms(5,6) small] by blast
  have "later \<le> env_now env + milliseconds
      (max ?d (PollingMonitor_maxTimeOut (PollMonitor (srv_SocketMonitor s))) * 2)"
    using assms(9) by (simp add: milliseconds_def)
  then have "\<not> isUnresponsive later wid (srv_SocketMonitor s')"
    by (simp add: s'(2) isUnresponsive_def heartbeat_find [OF assms(5)])
  with w1 s' show ?thesis by simp
qed

section \<open>Examples\<close>

definition example_meshing_worker :: worker where
  "example_meshing_worker = Worker_requirements example_reqs 0"

lemma example_meshing_worker_ready:
  "attentive (example_meshing_worker\<lparr>w_inbox := []\<rparr>)"
  "ContinueForwardingToServer (w_router (example_meshing_worker\<lparr>w_inbox := []\<rparr>))"
  "pendingJobCount (example_meshing_worker\<lparr>w_inbox := []\<rparr>) = 0"
  using attentive_new [of example_reqs 0]
  by (simp_all add: example_meshing_worker_def attentive_def)
     (simp_all add: Worker_requirements_def worker_send_def setIsTalking_def router_mk_def
       pendingJobCount_def wq_size_def wq_mk_def)

theorem worker_asks_for_jobs_witness:
  "\<exists>s'. server_hears example_env second_worker
      (w_inbox (askForJobs 3 (Worker_requirements example_reqs 0))) waiting_server = Inr s' \<and>
    pool_credit (second_worker, example_reqs) (srv_WorkerPool s') = 5"
proof -
  have inv: "pool_inv (srv_WorkerPool waiting_server)" by (simp add: waiting_server_def example_pool_inv)
  have "pool_credit (second_worker, example_reqs) (srv_WorkerPool waiting_server) = 2"
    by (simp add: waiting_server_def example_pool_def WorkerInfo_mk_def is_worker_def
        second_worker_def example_worker_def third_worker_def)
  then show ?thesis
    using worker_asks_for_jobs [OF example_reqs_wf inv refl, of second_worker 3 example_env 0] by auto
qed

theorem job_reaches_worker_witness:
  "\<exists>w1 w2. router_reads calm_router_env [PollReturned 1]
      (Some (response_of (last (srv_worker_out (assignJobToWorker example_env second_worker
        (WorkerJob_mk 1 example_submission) accepted))))) (example_meshing_worker\<lparr>w_inbox := []\<rparr>) = Inr w1 \<and>
    queue_reads hex_uuid_io [PollReturned 1] w1 = Inr w2 \<and>
    fst (takePendingJob w2) = WorkerJob_mk 1 example_submission"
proof -
  have env: "uuid_io_ok (env_io example_env)" "env_send_ok example_env second_worker"
    using hex_uuid_io_ok by (simp_all add: example_env_def)
  have queue: "re_queue_ok calm_router_env" by (simp add: calm_router_env_def)
  from job_reaches_worker [OF env(1) example_submission_wf env(2) example_meshing_worker_ready(1) queue refl,
      of 1 accepted] example_meshing_worker_ready(3)
  show ?thesis by (auto simp: example_env_def)
qed

theorem termination_reaches_worker_witness:
  "\<exists>w1 w2 w3. router_reads calm_router_env [PollReturned 1]
      (Some (response_of (last (srv_worker_out (send_terminateWorker example_env 1 second_worker accepted)))))
      (example_meshing_worker\<lparr>w_inbox := []\<rparr>) = Inr w1 \<and>
    queue_reads hex_uuid_io [PollReturned 1] w1 = Inr w2 \<and> getJob_wait w2 = Some (terminate_job, w3)"
proof -
  have env: "uuid_io_ok (env_io example_env)" "env_send_ok example_env second_worker"
    using hex_uuid_io_ok by (simp_all add: example_env_def)
  have queue: "re_queue_ok calm_router_env" by (simp add: calm_router_env_def)
  from termination_reaches_worker [OF env example_meshing_worker_ready(1) queue refl refl, of 1 accepted
      example_submission]
  show ?thesis by (auto simp: example_env_def)
qed

theorem result_acknowledged_witness:
  "\<exists>w2 w3 w4 s'. router_reads calm_router_env [PollReturned 1] None
      (snd (returnResult hex_uuid_io (JobResult_mk 1 JSON ''mesh'') (example_meshing_worker\<lparr>w_inbox := []\<rparr>))) = Inr w2 \<and>
    DetermineWorkerResponse example_env second_worker (last (rt_to_server (w_router w2))) active_server = Inr (False, s') \<and>
    router_reads calm_router_env [PollReturned 1] (Some (response_of (last (srv_worker_out s')))) w2 = Inr w3 \<and>
    returnResult_wait w3 = Some (response_of (second_worker, RETRIEVE_RESULT, INVALID_MSG), w4)"
proof -
  have env: "uuid_io_ok (env_io example_env)" "env_send_ok example_env second_worker"
    using hex_uuid_io_ok by (simp_all add: example_env_def)
  have len: "length (res_data (JobResult_mk 1 JSON ''mesh'')) \<le> max_object_size"
    by (simp add: JobResult_mk_def max_object_size_def)
  have calm: "re_server_ok calm_router_env" "re_worker_ok calm_router_env"
    by (simp_all add: calm_router_env_def)
  obtain w1 w2 w3 w4 s' where
    "returnResult (env_io example_env) (JobResult_mk 1 JSON ''mesh'') (example_meshing_worker\<lparr>w_inbox := []\<rparr>) = (True, w1)"
    "router_reads calm_router_env [PollReturned 1] None w1 = Inr w2"
    "DetermineWorkerResponse example_env second_worker (last (rt_to_server (w_router w2))) active_server = Inr (False, s')"
    "router_reads calm_router_env [PollReturned 1] (Some (response_of (last (srv_worker_out s')))) w2 = Inr w3"
    "returnResult_wait w3 = Some (response_of (second_worker, RETRIEVE_RESULT, INVALID_MSG), w4)"
    using result_acknowledged [OF env(1) len env(2) example_meshing_worker_ready(1,2) _ calm, of active_server]
    by auto
  then show ?thesis by (force simp: example_env_def)
qed

theorem heartbeat_keeps_alive_witness:
  "\<exists>w1 s'. router_reads calm_router_env [PollReturned 0] None (example_meshing_worker\<lparr>w_inbox := []\<rparr>) = Inr w1 \<and>
    DetermineWorkerResponse example_env second_worker (last (rt_to_server (w_router w1))) start_server = Inr (False, s') \<and>
    \<not> isUnresponsive (env_now example_env + milliseconds 120000) second_worker (srv_SocketMonitor s')"
proof -
  have rates: "snd (get_worker_rates (example_meshing_worker\<lparr>w_inbox := []\<rparr>)) = 60000"
    using router_mk_max [of 0]
    by (simp add: get_worker_rates_def example_meshing_worker_def Worker_requirements_def worker_send_def
        setIsTalking_def)
  have inv: "monitor_inv (srv_SocketMonitor start_server)"
    by (simp add: start_server_def Server_mk_def SocketMonitor_default_def)
  have calm: "re_server_ok calm_router_env" by (simp add: calm_router_env_def)
  have "PollingMonitor_maxTimeOut (PollMonitor (srv_SocketMonitor start_server)) = 60000"
    by (simp add: start_server_def Server_mk_def SocketMonitor_default_def SocketMonitor_mk_def
        PollingMonitor_init_def PollingMonitor_maxTimeOut_def Let_def)
  then show ?thesis
    using heartbeat_keeps_alive [OF example_meshing_worker_ready(1,2) _ calm inv,
        of example_env "env_now example_env + milliseconds 120000" second_worker]
    by (auto simp: rates example_env_def milliseconds_def)
qed

end
