(* ===== verification/Remus_Connections.thy ===== *)
theory Remus_Connections
  imports Remus_Worker
begin

text \<open>
  Endpoints and who connects to them: \<open>zmqTraits.h\<close>, \<open>zmqSocketInfo.h\<close>, \<open>bindToAddress\<close> of
  \<open>zmqHelper.h\<close>, \<open>ServerPorts\<close> and the two \<open>ServerConnection\<close> classes. Whether an endpoint can
  be bound is for ZeroMQ and the operating system to say: it is the argument \<open>free\<close>, which for
  the channels of a server also depends on the endpoints the server has bound already. Of the
  ZeroMQ context a connection shares only its existence is kept.
\<close>

section \<open>Socket descriptions\<close>

datatype socketInfo = Tcp string int | Ipc string | Inproc string

fun scheme :: "socketInfo \<Rightarrow> string" where
  "scheme (Tcp _ _) = ''tcp''"
| "scheme (Ipc _) = ''ipc''"
| "scheme (Inproc _) = ''inproc''"

fun scheme_and_separator :: "socketInfo \<Rightarrow> string" where
  "scheme_and_separator (Tcp _ _) = ''tcp://''"
| "scheme_and_separator (Ipc _) = ''ipc://''"
| "scheme_and_separator (Inproc _) = ''inproc://''"

fun host :: "socketInfo \<Rightarrow> string" where
  "host (Tcp h _) = h"
| "host (Ipc h) = h"
| "host (Inproc h) = h"

fun port :: "socketInfo \<Rightarrow> int" where
  "port (Tcp _ p) = p"
| "port _ = -1"

fun endpoint :: "socketInfo \<Rightarrow> string" where
  "endpoint (Tcp h p) = scheme_and_separator (Tcp h p) @ h @ '':'' @ show_int p"
| "endpoint info = scheme_and_separator info @ host info"

fun isLocalEndpoint :: "socketInfo \<Rightarrow> bool" where
  "isLocalEndpoint (Tcp h _) \<longleftrightarrow> h = ''127.0.0.1''"
| "isLocalEndpoint _ \<longleftrightarrow> True"

section \<open>Binding\<close>

text \<open>The ports of a tcp socket are tried upwards, the last one tried being 65534.\<close>

function bind_ports :: "(string \<Rightarrow> bool) \<Rightarrow> string \<Rightarrow> int \<Rightarrow> socketInfo result" where
  "bind_ports free h i =
     (if i < 65535
      then if free (endpoint (Tcp h i)) then Inr (Tcp h i) else bind_ports free h (i + 1)
      else Inl ZmqError)"
  by pat_completeness auto

termination bind_ports
  by (relation "measure (\<lambda>(free, h, i). nat (65535 - i))") auto

declare bind_ports.simps [simp del]

fun bindToAddress :: "(string \<Rightarrow> bool) \<Rightarrow> socketInfo \<Rightarrow> socketInfo result" where
  "bindToAddress free (Tcp h p) = bind_ports free h p"
| "bindToAddress free info = (if free (endpoint info) then Inr info else Inl ZmqError)"

record PortConnection =
  pc_Endpoint :: string
  pc_Host :: string
  pc_Scheme :: string
  pc_Port :: int

definition PortConnection_mk :: "socketInfo \<Rightarrow> PortConnection" where
  "PortConnection_mk info = \<lparr>pc_Endpoint = endpoint info, pc_Host = host info,
     pc_Scheme = scheme info, pc_Port = port info\<rparr>"

definition detail_bind :: "(string \<Rightarrow> bool) \<Rightarrow> PortConnection \<Rightarrow> PortConnection result" where
  "detail_bind free conn =
     (if pc_Scheme conn = ''tcp'' then
        bindE (bindToAddress free (Tcp (pc_Host conn) (pc_Port conn))) (\<lambda>i. Inr (PortConnection_mk i))
      else if pc_Scheme conn = ''ipc'' then
        bindE (bindToAddress free (Ipc (pc_Host conn))) (\<lambda>i. Inr (PortConnection_mk i))
      else if pc_Scheme conn = ''inproc'' then
        bindE (bindToAddress free (Inproc (pc_Host conn))) (\<lambda>i. Inr (PortConnection_mk i))
      else Inl ZmqError)"

section \<open>The ports of a server\<close>

definition CLIENT_PORT :: int where "CLIENT_PORT = 50505"

definition WORKER_PORT :: int where "WORKER_PORT = 50510"

definition STATUS_PORT :: int where "STATUS_PORT = 50550"

record ServerPorts =
  sp_Client :: PortConnection
  sp_Worker :: PortConnection
  sp_Status :: PortConnection

definition ServerPorts_default :: ServerPorts where
  "ServerPorts_default = \<lparr>sp_Client = PortConnection_mk (Tcp ''127.0.0.1'' CLIENT_PORT),
     sp_Worker = PortConnection_mk (Tcp ''127.0.0.1'' WORKER_PORT),
     sp_Status = PortConnection_mk (Tcp ''127.0.0.1'' STATUS_PORT)\<rparr>"

definition valid_port :: "int \<Rightarrow> bool" where
  "valid_port p \<longleftrightarrow> 0 < p \<and> p < 65536"

definition ServerPorts_hosts :: "string \<Rightarrow> int \<Rightarrow> string \<Rightarrow> int \<Rightarrow> ServerPorts result" where
  "ServerPorts_hosts clientHostName clientPort workerHostName workerPort =
     (if clientHostName \<noteq> [] \<and> valid_port clientPort \<and> workerHostName \<noteq> [] \<and> valid_port workerPort \<and>
         \<not> (workerHostName = clientHostName \<and> workerPort = clientPort)
      then Inr \<lparr>sp_Client = PortConnection_mk (Tcp clientHostName clientPort),
                sp_Worker = PortConnection_mk (Tcp workerHostName workerPort),
                sp_Status = PortConnection_mk (Tcp clientHostName STATUS_PORT)\<rparr>
      else Inl AssertFailure)"

definition ServerPorts_all :: "string \<Rightarrow> int \<Rightarrow> int \<Rightarrow> string \<Rightarrow> int \<Rightarrow> ServerPorts result" where
  "ServerPorts_all clientHostName clientPort statusPort workerHostName workerPort =
     (if clientHostName \<noteq> [] \<and> valid_port clientPort \<and> workerHostName \<noteq> [] \<and> valid_port workerPort \<and>
         valid_port statusPort \<and>
         \<not> (workerHostName = clientHostName \<and> workerPort = clientPort) \<and>
         \<not> (workerHostName = clientHostName \<and> workerPort = statusPort) \<and> statusPort \<noteq> clientPort
      then Inr \<lparr>sp_Client = PortConnection_mk (Tcp clientHostName clientPort),
                sp_Worker = PortConnection_mk (Tcp workerHostName workerPort),
                sp_Status = PortConnection_mk (Tcp clientHostName statusPort)\<rparr>
      else Inl AssertFailure)"

definition ServerPorts_sockets :: "socketInfo \<Rightarrow> socketInfo \<Rightarrow> socketInfo \<Rightarrow> ServerPorts" where
  "ServerPorts_sockets c st w = \<lparr>sp_Client = PortConnection_mk c, sp_Worker = PortConnection_mk w,
     sp_Status = PortConnection_mk st\<rparr>"

definition bindClient :: "(string \<Rightarrow> bool) \<Rightarrow> ServerPorts \<Rightarrow> ServerPorts result" where
  "bindClient free ports =
     bindE (detail_bind free (sp_Client ports)) (\<lambda>c. Inr (ports\<lparr>sp_Client := c\<rparr>))"

definition bindWorker :: "(string \<Rightarrow> bool) \<Rightarrow> ServerPorts \<Rightarrow> ServerPorts result" where
  "bindWorker free ports =
     bindE (detail_bind free (sp_Worker ports)) (\<lambda>w. Inr (ports\<lparr>sp_Worker := w\<rparr>))"

definition bindStatus :: "(string \<Rightarrow> bool) \<Rightarrow> ServerPorts \<Rightarrow> ServerPorts result" where
  "bindStatus free ports =
     bindE (detail_bind free (sp_Status ports)) (\<lambda>st. Inr (ports\<lparr>sp_Status := st\<rparr>))"

text \<open>
  The start of \<open>Server::Brokering\<close>. \<open>free bs e\<close>: a bind to \<open>e\<close> is accepted from a server that has
  bound the endpoints \<open>bs\<close>.
\<close>

definition bind_channels :: "(string list \<Rightarrow> string \<Rightarrow> bool) \<Rightarrow> ServerPorts \<Rightarrow> ServerPorts result" where
  "bind_channels free ports =
     bindE (bindClient (free []) ports) (\<lambda>p1.
     bindE (bindWorker (free [pc_Endpoint (sp_Client p1)]) p1) (\<lambda>p2.
     bindStatus (free [pc_Endpoint (sp_Client p2), pc_Endpoint (sp_Worker p2)]) p2))"

section \<open>Connections to a server\<close>

record ServerConnection =
  sc_Context :: bool
  sc_Endpoint :: string
  sc_IsLocalEndpoint :: bool

text \<open>A client makes its context at once, a worker when it is first asked for.\<close>

definition ServerConnection_socket :: "bool \<Rightarrow> socketInfo \<Rightarrow> ServerConnection" where
  "ServerConnection_socket eager info =
     \<lparr>sc_Context = eager, sc_Endpoint = endpoint info, sc_IsLocalEndpoint = isLocalEndpoint info\<rparr>"

definition client_ServerConnection :: ServerConnection where
  "client_ServerConnection = \<lparr>sc_Context = True,
     sc_Endpoint = endpoint (Tcp ''127.0.0.1'' CLIENT_PORT), sc_IsLocalEndpoint = True\<rparr>"

definition worker_ServerConnection :: ServerConnection where
  "worker_ServerConnection = \<lparr>sc_Context = False,
     sc_Endpoint = endpoint (Tcp ''127.0.0.1'' WORKER_PORT), sc_IsLocalEndpoint = True\<rparr>"

definition ServerConnection_host :: "bool \<Rightarrow> string \<Rightarrow> int \<Rightarrow> ServerConnection result" where
  "ServerConnection_host eager hostName p =
     (if hostName \<noteq> [] \<and> valid_port p then Inr (ServerConnection_socket eager (Tcp hostName p))
      else Inl AssertFailure)"

definition connection_endpoint :: "ServerConnection \<Rightarrow> string \<times> ServerConnection" where
  "connection_endpoint c = (sc_Endpoint c, c\<lparr>sc_Context := True\<rparr>)"

definition connection_context :: "ServerConnection \<Rightarrow> ServerConnection" where
  "connection_context c = c\<lparr>sc_Context := True\<rparr>"

text \<open>\<open>std::string::find\<close> and \<open>rfind\<close> of one character; \<open>None\<close> is \<open>npos\<close>.\<close>

fun str_find :: "string \<Rightarrow> string \<Rightarrow> nat option" where
  "str_find pat [] = (if pat = [] then Some 0 else None)"
| "str_find pat (c # cs) =
     (if take (length pat) (c # cs) = pat then Some 0 else map_option Suc (str_find pat cs))"

fun str_rfind :: "char \<Rightarrow> string \<Rightarrow> nat option" where
  "str_rfind x [] = None"
| "str_rfind x (c # cs) =
     (case str_rfind x cs of
        Some i \<Rightarrow> Some (Suc i) | None \<Rightarrow> if c = x then Some 0 else None)"

text \<open>\<open>boost::lexical_cast<int>\<close>.\<close>

definition lexical_cast_int :: "string \<Rightarrow> int result" where
  "lexical_cast_int str =
     bindE (lexical_cast_int64 str) (\<lambda>z. if - (2 ^ 31) \<le> z \<and> z < 2 ^ 31 then Inr z else Inl BadCast)"

definition make_connection ::
  "ServerConnection \<Rightarrow> (socketInfo \<Rightarrow> ServerConnection) \<Rightarrow> string \<Rightarrow> ServerConnection result" where
  "make_connection connection connect dest =
     (if length dest > 6 then
        case str_find ''://'' dest of
          None \<Rightarrow> Inr connection
        | Some protocol_end_pos \<Rightarrow>
            let protocol = take protocol_end_pos dest;
                host_name = drop (protocol_end_pos + 3) dest in
            if protocol = ''tcp'' then
              case str_rfind (CHR '':'') dest of
                None \<Rightarrow> Inr connection
              | Some host_end_pos \<Rightarrow>
                  if host_end_pos \<noteq> protocol_end_pos then
                    bindE (lexical_cast_int (drop (host_end_pos + 1) dest)) (\<lambda>p.
                    Inr (connect (Tcp (take (host_end_pos - (protocol_end_pos + 3)) host_name) p)))
                  else Inr connection
            else if protocol = ''ipc'' then Inr (connect (Ipc host_name))
            else if protocol = ''inproc'' then Inr (connect (Inproc host_name))
            else Inr connection
      else Inr connection)"

definition client_make_ServerConnection :: "string \<Rightarrow> ServerConnection result" where
  "client_make_ServerConnection =
     make_connection client_ServerConnection (ServerConnection_socket True)"

definition worker_make_ServerConnection :: "string \<Rightarrow> ServerConnection result" where
  "worker_make_ServerConnection =
     make_connection worker_ServerConnection (ServerConnection_socket False)"

section \<open>Strings\<close>

lemma str_find_scheme [simp]:
  "str_find ''://'' (''tcp://'' @ h) = Some 3" "str_find ''://'' (''ipc://'' @ h) = Some 3"
  "str_find ''://'' (''inproc://'' @ h) = Some 6"
  by (simp_all add: numeral_eq_Suc)

lemma str_rfind_append:
  "str_rfind x (xs @ ys) =
     (case str_rfind x ys of Some i \<Rightarrow> Some (length xs + i) | None \<Rightarrow> str_rfind x xs)"
  by (induction xs) (auto split: option.splits)

lemma str_rfind_None: "str_rfind x xs = None \<longleftrightarrow> x \<notin> set xs"
  by (induction xs) (auto split: option.splits)

lemma show_int_no_colon: "0 \<le> z \<Longrightarrow> CHR '':'' \<notin> set (show_int z)"
  using show_nat_digits [of "nat z"] by (auto simp: show_int_def isdigit_def)

lemma lexical_cast_port: "0 \<le> p \<Longrightarrow> p < 2 ^ 31 \<Longrightarrow> lexical_cast_int (show_int p) = Inr p"
  using lexical_cast_show_int [of p] by (simp add: lexical_cast_int_def)

lemma show_nat_inject: "show_nat m = show_nat n \<longleftrightarrow> m = n"
  by (metis digits_value_show_nat)

section \<open>Finding the server\<close>

fun connectable :: "socketInfo \<Rightarrow> bool" where
  "connectable (Tcp h p) \<longleftrightarrow> 0 \<le> p \<and> p < 2 ^ 31"
| "connectable (Ipc h) \<longleftrightarrow> h \<noteq> []"
| "connectable (Inproc h) \<longleftrightarrow> True"

lemma make_connection_tcp:
  assumes "0 \<le> p" and "p < 2 ^ 31"
  shows "make_connection c0 connect (''tcp://'' @ h @ '':'' @ show_int p) = Inr (connect (Tcp h p))"
proof -
  let ?d = "''tcp://'' @ h @ '':'' @ show_int p"
  have "str_rfind (CHR '':'') (''tcp://'' @ h @ CHR '':'' # show_int p) = Some (6 + length h)"
    using show_int_no_colon [OF assms(1)]
    by (simp add: str_rfind_append str_rfind_None [THEN iffD2])
  moreover have "length ?d > 6" by simp
  moreover have "str_find ''://'' ?d = Some 3" using str_find_scheme(1) by simp
  moreover have "take 3 ?d = ''tcp''" "drop (3 + 3) ?d = h @ '':'' @ show_int p"
      "drop (6 + length h + 1) ?d = show_int p"
    by (simp_all add: numeral_eq_Suc)
  ultimately show ?thesis
    using lexical_cast_port [OF assms] by (simp add: make_connection_def Let_def)
qed

lemma make_connection_local:
  "h \<noteq> [] \<Longrightarrow> make_connection c0 connect (''ipc://'' @ h) = Inr (connect (Ipc h))"
  "make_connection c0 connect (''inproc://'' @ h) = Inr (connect (Inproc h))"
  using str_find_scheme(2,3) [of h]
  by (cases h; simp add: make_connection_def Let_def numeral_eq_Suc)+

lemma make_connection_endpoint:
  "connectable info \<Longrightarrow> make_connection c0 connect (endpoint info) = Inr (connect info)"
  using make_connection_tcp make_connection_local by (cases info) auto

text \<open>
  The endpoint a server prints leads back to it: from the endpoint string of any tcp
  socket with a port number, of any named ipc socket and of any inproc socket, a client and a
  worker make the connection to exactly that socket, whatever the host name contains.
\<close>

theorem connection_roundtrip:
  assumes "connectable info"
  shows "client_make_ServerConnection (endpoint info) = Inr (ServerConnection_socket True info) \<and>
    worker_make_ServerConnection (endpoint info) = Inr (ServerConnection_socket False info)"
  using make_connection_endpoint [OF assms]
  by (simp add: client_make_ServerConnection_def worker_make_ServerConnection_def)

theorem connection_roundtrip_witness:
  "worker_make_ServerConnection (endpoint (Tcp ''74.125.30.106'' 82)) =
     Inr (ServerConnection_socket False (Tcp ''74.125.30.106'' 82))"
  using connection_roundtrip [of "Tcp ''74.125.30.106'' 82"] by simp

text \<open>
  A tcp destination without a port is not an error and does not get a standard port: the
  host it names is ignored and the connection goes to the server on this machine.
\<close>

theorem connection_without_port:
  assumes "CHR '':'' \<notin> set h"
  shows "client_make_ServerConnection (''tcp://'' @ h) = Inr client_ServerConnection \<and>
    worker_make_ServerConnection (''tcp://'' @ h) = Inr worker_ServerConnection"
proof -
  have "str_rfind (CHR '':'') (''tcp://'' @ h) = Some 3"
    using assms by (simp add: str_rfind_append str_rfind_None [THEN iffD2] numeral_eq_Suc)
  then have "make_connection c0 connect (''tcp://'' @ h) = Inr c0" for c0 connect
    using str_find_scheme(1) [of h] by (simp add: make_connection_def Let_def)
  then show ?thesis
    by (simp add: client_make_ServerConnection_def worker_make_ServerConnection_def)
qed

theorem connection_without_port_witness:
  "worker_make_ServerConnection ''tcp://74.125.30.106'' = Inr worker_ServerConnection"
  using connection_without_port [of "''74.125.30.106''"] by simp

section \<open>Where a server listens\<close>

lemma bind_ports_Inr:
  "bind_ports free h p = Inr info \<Longrightarrow>
   \<exists>q. info = Tcp h q \<and> p \<le> q \<and> q < 65535 \<and> free (endpoint info) \<and>
     (\<forall>i. p \<le> i \<and> i < q \<longrightarrow> \<not> free (endpoint (Tcp h i)))"
proof (induction free h p rule: bind_ports.induct)
  case (1 free h i)
  show ?case
  proof (cases "i < 65535 \<and> \<not> free (endpoint (Tcp h i))")
    case True
    then have "bind_ports free h (i + 1) = Inr info" using "1.prems" by (simp add: bind_ports.simps [of free h i])
    with "1.IH" True obtain q where q: "info = Tcp h q" "i + 1 \<le> q" "q < 65535" "free (endpoint info)"
        "\<forall>j. i + 1 \<le> j \<and> j < q \<longrightarrow> \<not> free (endpoint (Tcp h j))" by blast
    have "\<not> free (endpoint (Tcp h j))" if "i \<le> j" "j < q" for j
      using that True q(5) by (cases "j = i") auto
    with q show ?thesis by auto
  next
    case False
    then show ?thesis using "1.prems" by (auto simp: bind_ports.simps [of free h i] split: if_splits)
  qed
qed

lemma bind_ports_Inl:
  "bind_ports free h p = Inl e \<Longrightarrow>
   e = ZmqError \<and> (\<forall>i. p \<le> i \<and> i < 65535 \<longrightarrow> \<not> free (endpoint (Tcp h i)))"
proof (induction free h p rule: bind_ports.induct)
  case (1 free h i)
  show ?case
  proof (cases "i < 65535")
    case True
    then have nf: "\<not> free (endpoint (Tcp h i))" and "bind_ports free h (i + 1) = Inl e"
      using "1.prems" by (auto simp: bind_ports.simps [of free h i] split: if_splits)
    with "1.IH" True have IH: "e = ZmqError"
        "\<forall>j. i + 1 \<le> j \<and> j < 65535 \<longrightarrow> \<not> free (endpoint (Tcp h j))" by blast+
    have "\<not> free (endpoint (Tcp h j))" if "i \<le> j" "j < 65535" for j
      using that nf IH(2) by (cases "j = i") auto
    with IH(1) show ?thesis by blast
  next
    case False
    then show ?thesis using "1.prems" by (auto simp: bind_ports.simps [of free h i])
  qed
qed

text \<open>
  C20: where a tcp socket ends up. Binding takes the first free port from the requested one up
  to 65534, and fails only when none of them is free. The last port, which a server may be
  configured with, is never tried.
\<close>

theorem bind_first_free:
  "case bindToAddress free (Tcp h p) of
     Inr info \<Rightarrow> host info = h \<and> p \<le> port info \<and> port info < 65535 \<and> free (endpoint info) \<and>
       (\<forall>i. p \<le> i \<and> i < port info \<longrightarrow> \<not> free (endpoint (Tcp h i)))
   | Inl e \<Rightarrow> e = ZmqError \<and> (\<forall>i. p \<le> i \<and> i < 65535 \<longrightarrow> \<not> free (endpoint (Tcp h i)))"
proof (cases "bindToAddress free (Tcp h p)")
  case (Inl e)
  then show ?thesis using bind_ports_Inl [of free h p e] by simp
next
  case (Inr info)
  then show ?thesis using bind_ports_Inr [of free h p info] by fastforce
qed

theorem bind_first_free_witness:
  "bindToAddress (\<lambda>e. True) (Tcp ''127.0.0.1'' 65535) = Inl ZmqError \<and>
   bindToAddress (\<lambda>e. True) (Tcp ''127.0.0.1'' 50505) = Inr (Tcp ''127.0.0.1'' 50505)"
proof -
  note f = bind_first_free [where free = "\<lambda>e. True" and h = "''127.0.0.1''"]
  have "bindToAddress (\<lambda>e. True) (Tcp ''127.0.0.1'' 65535) = Inl ZmqError"
    using f [where p = 65535] by (auto split: sum.splits)
  moreover have "bindToAddress (\<lambda>e. True) (Tcp ''127.0.0.1'' 50505) = Inr (Tcp ''127.0.0.1'' 50505)"
    using f [where p = 50505] by (simp add: bind_ports.simps)
  ultimately show ?thesis ..
qed

lemma detail_bind_mk:
  "detail_bind free (PortConnection_mk info) =
     bindE (bindToAddress free info) (\<lambda>i. Inr (PortConnection_mk i))"
  by (cases info) (simp_all add: detail_bind_def PortConnection_mk_def)

lemma bound_free:
  assumes "bindToAddress free info = Inr i"
  shows "free (endpoint i)" and "connectable info \<Longrightarrow> connectable i"
  using assms bind_ports_Inr by (cases info; fastforce split: if_splits)+

lemma bind_channels_parts:
  assumes "bind_channels free (ServerPorts_sockets c st w) = Inr p"
  shows "\<exists>c' w' st'. bindToAddress (free []) c = Inr c' \<and>
    bindToAddress (free [endpoint c']) w = Inr w' \<and>
    bindToAddress (free [endpoint c', endpoint w']) st = Inr st' \<and>
    p = ServerPorts_sockets c' st' w'"
  using assms
  by (auto simp: bind_channels_def bindClient_def bindWorker_def bindStatus_def ServerPorts_sockets_def
      detail_bind_mk bindE_eq_Inr) (auto simp: PortConnection_mk_def)

text \<open>
  What ZeroMQ documents of a second bind: an address in use is refused for tcp and inproc, while
  a bind to an ipc endpoint overrides the binding that is there.
\<close>

definition ipc_endpoint :: "string \<Rightarrow> bool" where
  "ipc_endpoint e \<longleftrightarrow> take 6 e = ''ipc://''"

definition exclusive_binds :: "(string list \<Rightarrow> string \<Rightarrow> bool) \<Rightarrow> bool" where
  "exclusive_binds free \<longleftrightarrow> (\<forall>bs e. e \<in> set bs \<and> free bs e \<longrightarrow> ipc_endpoint e)"

text \<open>The socket a request ends up with: the first port from the one asked for, or what was asked for.\<close>

fun bound_from :: "(string \<Rightarrow> bool) \<Rightarrow> socketInfo \<Rightarrow> socketInfo \<Rightarrow> bool" where
  "bound_from free (Tcp h q) info \<longleftrightarrow>
     (\<exists>q'. info = Tcp h q' \<and> q \<le> q' \<and> q' < 65535 \<and> free (endpoint info) \<and>
       (\<forall>i. q \<le> i \<and> i < q' \<longrightarrow> \<not> free (endpoint (Tcp h i))))"
| "bound_from free asked info \<longleftrightarrow> info = asked \<and> free (endpoint info)"

lemma bindToAddress_bound_from: "bindToAddress free asked = Inr info \<Longrightarrow> bound_from free asked info"
  using bind_ports_Inr by (cases asked) (auto split: if_splits)

text \<open>
  C19: where a server can be reached. Its three channels are bound in turn, each to the first
  port from the one asked for, or to exactly the ipc or inproc name asked for, that is accepted
  beside the channels bound before; no two of them share an endpoint that is not an ipc name;
  and from the strings the server gives out a client and a worker make the connections to
  exactly the sockets that were bound for them.
\<close>

theorem server_reachable:
  assumes "bind_channels free (ServerPorts_sockets c st w) = Inr p" and "exclusive_binds free"
    and "connectable c" and "connectable w"
  shows "\<exists>c' w' st'. p = ServerPorts_sockets c' st' w' \<and>
    bound_from (free []) c c' \<and> bound_from (free [endpoint c']) w w' \<and>
    bound_from (free [endpoint c', endpoint w']) st st' \<and>
    distinct (filter (\<lambda>e. \<not> ipc_endpoint e)
      [pc_Endpoint (sp_Client p), pc_Endpoint (sp_Worker p), pc_Endpoint (sp_Status p)]) \<and>
    client_make_ServerConnection (pc_Endpoint (sp_Client p)) = Inr (ServerConnection_socket True c') \<and>
    worker_make_ServerConnection (pc_Endpoint (sp_Worker p)) = Inr (ServerConnection_socket False w')"
proof -
  obtain c' w' st' where b: "bindToAddress (free []) c = Inr c'"
      "bindToAddress (free [endpoint c']) w = Inr w'"
      "bindToAddress (free [endpoint c', endpoint w']) st = Inr st'"
      "p = ServerPorts_sockets c' st' w'"
    using bind_channels_parts [OF assms(1)] by blast
  have p: "pc_Endpoint (sp_Client p) = endpoint c'" "pc_Endpoint (sp_Worker p) = endpoint w'"
      "pc_Endpoint (sp_Status p) = endpoint st'"
    by (simp_all add: b(4) ServerPorts_sockets_def PortConnection_mk_def)
  have twice: "ipc_endpoint e" if "free bs e" "e \<in> set bs" for bs e
    using assms(2) that unfolding exclusive_binds_def by blast
  have "distinct (filter (\<lambda>e. \<not> ipc_endpoint e) [endpoint c', endpoint w', endpoint st'])"
    using twice [OF bound_free(1) [OF b(2)]] twice [OF bound_free(1) [OF b(3)]] by auto
  moreover have "client_make_ServerConnection (endpoint c') = Inr (ServerConnection_socket True c')"
      "worker_make_ServerConnection (endpoint w') = Inr (ServerConnection_socket False w')"
    using make_connection_endpoint [OF bound_free(2) [OF b(1) assms(3)]]
      make_connection_endpoint [OF bound_free(2) [OF b(2) assms(4)]]
    by (simp_all add: client_make_ServerConnection_def worker_make_ServerConnection_def)
  ultimately show ?thesis
    using b(4) b(1-3) [THEN bindToAddress_bound_from] unfolding p by blast
qed

text \<open>
  Nothing in the code keeps the three apart: when ZeroMQ overrides ipc bindings, a server whose
  channels have the same ipc name starts, with all three on one endpoint.
\<close>

lemma same_ipc_endpoints:
  assumes "\<And>bs. free bs (endpoint (Ipc h))"
  shows "bind_channels free (ServerPorts_sockets (Ipc h) (Ipc h) (Ipc h)) =
    Inr (ServerPorts_sockets (Ipc h) (Ipc h) (Ipc h))"
  using assms
  by (simp add: bind_channels_def bindClient_def bindWorker_def bindStatus_def ServerPorts_sockets_def detail_bind_mk)

lemma ServerPorts_default_sockets:
  "ServerPorts_default = ServerPorts_sockets (Tcp ''127.0.0.1'' CLIENT_PORT)
     (Tcp ''127.0.0.1'' STATUS_PORT) (Tcp ''127.0.0.1'' WORKER_PORT)"
  by (simp add: ServerPorts_default_def ServerPorts_sockets_def)

text \<open>A machine on which everything is free but what the server itself has bound.\<close>

abbreviation all_free :: "string list \<Rightarrow> string \<Rightarrow> bool" where
  "all_free \<equiv> \<lambda>bs e. e \<notin> set bs"

lemma default_ports_bind: "\<exists>p. bind_channels all_free ServerPorts_default = Inr p"
proof -
  have ne: "endpoint (Tcp ''127.0.0.1'' CLIENT_PORT) \<noteq> endpoint (Tcp ''127.0.0.1'' WORKER_PORT)"
      "endpoint (Tcp ''127.0.0.1'' CLIENT_PORT) \<noteq> endpoint (Tcp ''127.0.0.1'' STATUS_PORT)"
      "endpoint (Tcp ''127.0.0.1'' WORKER_PORT) \<noteq> endpoint (Tcp ''127.0.0.1'' STATUS_PORT)"
    by (simp_all add: CLIENT_PORT_def WORKER_PORT_def STATUS_PORT_def show_int_def show_nat_inject)
  have less: "CLIENT_PORT < 65535" "WORKER_PORT < 65535" "STATUS_PORT < 65535"
    by (simp_all add: CLIENT_PORT_def WORKER_PORT_def STATUS_PORT_def)
  show ?thesis
    using ne less
    by (simp del: endpoint.simps add: bind_channels_def bindClient_def bindWorker_def bindStatus_def
        ServerPorts_default_sockets ServerPorts_sockets_def detail_bind_mk bind_ports.simps
        PortConnection_mk_def [THEN arg_cong [where f = pc_Endpoint]])
qed

theorem server_reachable_witness:
  "\<exists>p. bind_channels all_free ServerPorts_default = Inr p \<and>
    distinct (filter (\<lambda>e. \<not> ipc_endpoint e)
      [pc_Endpoint (sp_Client p), pc_Endpoint (sp_Worker p), pc_Endpoint (sp_Status p)])"
proof -
  obtain p where p: "bind_channels all_free ServerPorts_default = Inr p" using default_ports_bind ..
  moreover have "exclusive_binds all_free" by (simp add: exclusive_binds_def)
  moreover have "connectable (Tcp ''127.0.0.1'' CLIENT_PORT)" "connectable (Tcp ''127.0.0.1'' WORKER_PORT)"
    by (simp_all add: CLIENT_PORT_def WORKER_PORT_def)
  ultimately show ?thesis
    using server_reachable [OF p [unfolded ServerPorts_default_sockets]] by blast
qed

end
