(* ===== verification/Remus_Channels.thy ===== *)
theory Remus_Channels
  imports Remus_Connections
begin

text \<open>
  The functions around messages and responses that the rest of the program calls
  (\<open>proto/Message.cxx\<close>, \<open>proto/Response.cxx\<close>), the routing frame and connecting
  (\<open>proto/zmqHelper.cxx\<close>), and what one request and its reply look like from end to end. The
  blocking and the non-blocking form differ in what the socket may answer, which the script
  of the socket says.
\<close>

section \<open>Messages and responses\<close>

definition send_NonBlockingMessage ::
  "MeshIOType \<Rightarrow> SERVICE_TYPE \<Rightarrow> string \<Rightarrow> socket \<Rightarrow> Message \<times> socket" where
  "send_NonBlockingMessage mtype stype data sk = Message_send mtype stype (Some data) sk"

definition send_NonBlockingMessage_empty :: "MeshIOType \<Rightarrow> SERVICE_TYPE \<Rightarrow> socket \<Rightarrow> Message \<times> socket" where
  "send_NonBlockingMessage_empty mtype stype sk = Message_send mtype stype None sk"

definition send_Message :: "MeshIOType \<Rightarrow> SERVICE_TYPE \<Rightarrow> string \<Rightarrow> socket \<Rightarrow> Message \<times> socket" where
  "send_Message mtype stype data sk = Message_send mtype stype (Some data) sk"

definition send_Message_empty :: "MeshIOType \<Rightarrow> SERVICE_TYPE \<Rightarrow> socket \<Rightarrow> Message \<times> socket" where
  "send_Message_empty mtype stype sk = Message_send mtype stype None sk"

definition receive_Message :: "socket \<Rightarrow> (Message \<times> socket) result" where
  "receive_Message sk = Message_receive sk"

definition Response_send ::
  "SERVICE_TYPE \<Rightarrow> string \<Rightarrow> SocketIdentity \<Rightarrow> socket \<Rightarrow> Response \<times> socket" where
  "Response_send stype rdata client sk =
     (let (ok, sk') = Response_send_impl stype rdata client sk in
      (\<lparr>rsp_serviceType = stype, rsp_valid = ok, rsp_data = rdata\<rparr>, sk'))"

definition send_Response ::
  "SERVICE_TYPE \<Rightarrow> string \<Rightarrow> socket \<Rightarrow> SocketIdentity \<Rightarrow> Response \<times> socket" where
  "send_Response stype data sk client = Response_send stype data client sk"

definition send_NonBlockingResponse ::
  "SERVICE_TYPE \<Rightarrow> string \<Rightarrow> socket \<Rightarrow> SocketIdentity \<Rightarrow> Response \<times> socket" where
  "send_NonBlockingResponse stype data sk client = Response_send stype data client sk"

definition receive_Response :: "socket \<Rightarrow> ((Response \<times> socket) result) option" where
  "receive_Response sk = Response_receive sk"

definition forward_Response :: "Response \<Rightarrow> socket \<Rightarrow> SocketIdentity \<Rightarrow> bool \<times> socket" where
  "forward_Response response sk client =
     Response_send_impl (rsp_serviceType response) (rsp_data response) client sk"

section \<open>Addresses\<close>

text \<open>One plain \<open>send\<close> without more frames to follow: no retry, and an error throws.\<close>

definition address_send :: "SocketIdentity \<Rightarrow> socket \<Rightarrow> (bool \<times> socket) result" where
  "address_send address sk =
     (case next_outcome sk of
        (ZOk, sk') \<Rightarrow> Inr (True, sk'\<lparr>sk_sent := sk_sent sk' @ [(si_data address, False)]\<rparr>)
      | (ZAgain, sk') \<Rightarrow> Inr (False, sk')
      | (ZThrow, sk') \<Rightarrow> Inl ZmqError)"

text \<open>A blocking \<open>recv\<close>; \<open>None\<close>: it never returns. Without a message the identity is empty.\<close>

definition address_recv :: "socket \<Rightarrow> ((SocketIdentity \<times> socket) result) option" where
  "address_recv sk =
     (case next_outcome sk of
        (ZOk, sk') \<Rightarrow>
          (case sk_inbox sk' of
             [] \<Rightarrow> None
           | (f, sndmore) # rest \<Rightarrow>
               Some (bindE (SocketIdentity_mk f) (\<lambda>i. Inr (i, sk'\<lparr>sk_inbox := rest, sk_rcvmore := sndmore\<rparr>))))
      | (ZAgain, sk') \<Rightarrow> Some (bindE (SocketIdentity_mk '''') (\<lambda>i. Inr (i, sk')))
      | (ZThrow, sk') \<Rightarrow> Some (Inl ZmqError))"

text \<open>
  \<open>connectToAddress\<close>: attempt \<open>i\<close> of \<open>zmq_connect\<close> succeeds when \<open>ok i\<close>, and \<open>in_use\<close> says whether
  the first one failed with \<open>EADDRINUSE\<close>. The result is whether the socket is connected in the
  end, which the caller is not told.
\<close>

fun connect_again :: "(nat \<Rightarrow> bool) \<Rightarrow> bool \<Rightarrow> nat \<Rightarrow> nat \<Rightarrow> bool" where
  "connect_again ok in_use i 0 = False"
| "connect_again ok in_use i (Suc n) = (in_use \<and> (ok i \<or> connect_again ok in_use (Suc i) n))"

definition connectToAddress :: "(nat \<Rightarrow> bool) \<Rightarrow> bool \<Rightarrow> bool" where
  "connectToAddress ok in_use = (if ok 0 then True else connect_again ok in_use 1 5)"

lemma connect_again_iff: "connect_again ok in_use i n \<longleftrightarrow> in_use \<and> (\<exists>j. i \<le> j \<and> j < i + n \<and> ok j)"
proof (induction n arbitrary: i)
  case (Suc n)
  have "(\<exists>j. i \<le> j \<and> j < i + Suc n \<and> ok j) \<longleftrightarrow> ok i \<or> (\<exists>j. Suc i \<le> j \<and> j < Suc i + n \<and> ok j)"
    by (auto simp: Suc_le_eq le_eq_less_or_eq [of i])
  with Suc show ?case by auto
qed simp

text \<open>Connecting tries once, and only against an address in use five times more.\<close>

lemma connectToAddress_iff:
  "connectToAddress ok in_use \<longleftrightarrow> ok 0 \<or> in_use \<and> (\<exists>j\<in>{1..5}. ok j)"
  unfolding connectToAddress_def connect_again_iff by fastforce

section \<open>A request and its reply\<close>

text \<open>
  What a \<open>ROUTER\<close> socket passes on for the frames a peer put on its socket: a \<open>REQ\<close> socket adds
  the empty delimiter itself, and the router puts the identity of the peer in front.
\<close>

definition routed :: "string \<Rightarrow> socket \<Rightarrow> frame list" where
  "routed ident peer =
     (ident, True) # (if needs_header peer then sk_sent peer else ('''', True) # sk_sent peer)"

text \<open>And the other way round: the first frame says to whom, the rest is what the peer reads.\<close>

definition delivered_to :: "socket \<Rightarrow> frame list \<Rightarrow> frame list" where
  "delivered_to peer fs = (if needs_header peer then tl fs else tl (tl fs))"

lemma sent_body:
  assumes "Message_send_impl m sk = (True, sk')" and "sk_sent sk = []"
  shows "routed ident sk' = (ident, True) # ('''', True) # body_frames sk'"
  using assms
  by (auto simp: routed_def body_frames_def Message_send_impl_def attachReqHeader_def needs_header_def Let_def
      split: if_splits prod.splits dest!: send_harder_eq)

text \<open>
  C30: a request reaches the server with the identity of its sender, and the reply reaches the
  sender. For a client (\<open>REQ\<close>) as for a worker (\<open>DEALER\<close>): when the message was sent, the router
  socket of the server yields first the identity and then exactly that message, leaving later
  frames unread; a response sent to that identity is read back by the sender, and by nobody
  else, since its first frame is that identity.
\<close>

theorem request_and_reply:
  assumes "Message_send mtype stype data peer = (m, peer')" and "msg_valid m" and "sk_sent peer = []"
    and "MeshIOType_wf mtype" and "length ident \<le> 256" and "ident \<noteq> ''''"
    and "sk_kind srv = ZMQ_ROUTER" and "sk_script srv = []" and "sk_sent srv = []"
    and "sk_inbox srv = routed ident peer' @ rest"
    and "sk_script reader = []" and "sk_kind reader = sk_kind peer"
  shows "\<exists>i srv1 srv2 srv3. address_recv srv = Some (Inr (i, srv1)) \<and> si_data i = ident \<and>
    receive_Message srv1 = Inr (\<lparr>msg_MeshIOType = mtype, msg_serviceType = stype, msg_valid = True,
      msg_storage = Some (case data of None \<Rightarrow> '''' | Some d \<Rightarrow> d)\<rparr>, srv2) \<and> sk_inbox srv2 = rest \<and>
    send_Response rtype reply srv2 i =
      (\<lparr>rsp_serviceType = rtype, rsp_valid = True, rsp_data = reply\<rparr>, srv3) \<and>
    fst (hd (sk_sent srv3)) = ident \<and>
    (\<exists>reader'. receive_Response (reader\<lparr>sk_inbox := delivered_to peer (sk_sent srv3)\<rparr>) =
      Some (Inr (\<lparr>rsp_serviceType = rtype, rsp_valid = True, rsp_data = reply\<rparr>, reader')))"
proof -
  let ?m = "\<lparr>msg_MeshIOType = mtype, msg_serviceType = stype, msg_valid = True, msg_storage = data\<rparr>"
  have impl: "Message_send_impl ?m peer = (True, peer')"
    using assms(1,2) by (auto simp: Message_send_def Let_def split: prod.splits)
  obtain i where i: "SocketIdentity_mk ident = Inr i" "si_data i = ident"
    using assms(5) by (auto simp: SocketIdentity_mk_def Let_def)
  define srv1 where "srv1 = srv\<lparr>sk_inbox := ('''', True) # body_frames peer' @ rest, sk_rcvmore := True\<rparr>"
  have recv: "address_recv srv = Some (Inr (i, srv1))"
    by (simp add: address_recv_def next_outcome_def assms(8,10) sent_body [OF impl assms(3)] i srv1_def)
  define srv2 where "srv2 = srv1\<lparr>sk_inbox := rest, sk_rcvmore := False\<rparr>"
  have del: "delivered srv1 fs = ('''', True) # fs" for fs
    by (simp add: delivered_def needs_header_def srv1_def assms(7))
  have fs: "body_frames peer' = (MeshIOType_serialize mtype, True) #
      (if (case data of None \<Rightarrow> 0 | Some d \<Rightarrow> length d) > 0
       then [(service_frame stype, True), (case data of None \<Rightarrow> '''' | Some d \<Rightarrow> d, False)]
       else [(service_frame stype, False)])"
    using Message_send_impl_frames [OF impl assms(3)] by (simp add: msg_dataSize_def msg_data_def)
  have msg: "receive_Message srv1 = Inr (\<lparr>msg_MeshIOType = mtype, msg_serviceType = stype, msg_valid = True,
      msg_storage = Some (case data of None \<Rightarrow> '''' | Some d \<Rightarrow> d)\<rparr>, srv2)"
  proof -
    have "sk_script srv1 = []" "sk_inbox srv1 = delivered srv1 (body_frames peer') @ rest"
      by (simp_all add: del) (simp_all add: srv1_def assms(8))
    with fs assms(4) show ?thesis unfolding receive_Message_def srv2_def
      by (cases data) (auto simp: del Message_receive_frames split: if_splits)
  qed
  define srv3 where "srv3 = srv2\<lparr>sk_sent := [(ident, True), ('''', True), (service_frame rtype, True), (reply, False)]\<rparr>"
  have one: "send_harder d b sk = (True, sk\<lparr>sk_sent := sk_sent sk @ [(d, b)]\<rparr>)" if "sk_script sk = []" for d b sk
    using that by (simp add: send_harder_def send_tries_outcome)
  have rsp: "send_Response rtype reply srv2 i = (\<lparr>rsp_serviceType = rtype, rsp_valid = True, rsp_data = reply\<rparr>, srv3)"
    by (simp add: send_Response_def Response_send_def Response_send_impl_def attachReqHeader_def needs_header_def
        one i(2) assms(6-9) srv1_def srv2_def srv3_def)
  have "\<exists>reader'. receive_Response (reader\<lparr>sk_inbox := delivered_to peer (sk_sent srv3)\<rparr>) =
      Some (Inr (\<lparr>rsp_serviceType = rtype, rsp_valid = True, rsp_data = reply\<rparr>, reader'))"
    using assms(11,12)
    by (cases "needs_header peer") (auto simp: receive_Response_def Response_receive_def removeReqHeader_def
        delivered_to_def srv3_def needs_header_def recv_harder_ready)
  with recv i(2) msg rsp show ?thesis by (fastforce simp: srv2_def srv3_def)
qed

theorem request_and_reply_witness:
  "\<exists>i srv1 m' srv2. address_recv (fresh_socket ZMQ_ROUTER []
       [(''c1'', True), ('''', True), (MeshIOType_serialize example_type, True), (service_frame CAN_MESH_REQUIREMENTS, False)]) =
     Some (Inr (i, srv1)) \<and> si_data i = ''c1'' \<and> receive_Message srv1 = Inr (m', srv2) \<and>
     msg_serviceType m' = CAN_MESH_REQUIREMENTS \<and> msg_MeshIOType m' = example_type"
proof -
  have one: "send_harder d b (fresh_socket ZMQ_REQ [] [] \<lparr>sk_sent := fs\<rparr>) =
      (True, fresh_socket ZMQ_REQ [] [] \<lparr>sk_sent := fs @ [(d, b)]\<rparr>)" for d b fs
    by (simp add: send_harder_def send_tries_outcome fresh_socket_def)
  have header: "needs_header (fresh_socket ZMQ_REQ [] [] \<lparr>sk_sent := fs\<rparr>) = False" for fs
    by (simp add: needs_header_def fresh_socket_def)
  define peer' where "peer' = fresh_socket ZMQ_REQ [] []
    \<lparr>sk_sent := [(MeshIOType_serialize example_type, True), (service_frame CAN_MESH_REQUIREMENTS, False)]\<rparr>"
  have s: "Message_send example_type CAN_MESH_REQUIREMENTS None (fresh_socket ZMQ_REQ [] [] \<lparr>sk_sent := []\<rparr>) =
    (\<lparr>msg_MeshIOType = example_type, msg_serviceType = CAN_MESH_REQUIREMENTS, msg_valid = True, msg_storage = None\<rparr>, peer')"
    by (simp add: Message_send_def Message_send_impl_def attachReqHeader_def header one msg_dataSize_def peer'_def)
  have wf: "MeshIOType_wf example_type" by (simp add: MeshIOType_wf_def example_type_def max_object_size_def)
  have inbox: "routed ''c1'' peer' = [(''c1'', True), ('''', True), (MeshIOType_serialize example_type, True),
      (service_frame CAN_MESH_REQUIREMENTS, False)]"
    by (simp add: peer'_def routed_def header)
  obtain i srv1 srv2 where
    "address_recv (fresh_socket ZMQ_ROUTER [] (routed ''c1'' peer')) = Some (Inr (i, srv1))" "si_data i = ''c1''"
    "receive_Message srv1 = Inr (\<lparr>msg_MeshIOType = example_type, msg_serviceType = CAN_MESH_REQUIREMENTS, msg_valid = True,
      msg_storage = Some ''''\<rparr>, srv2)"
    using request_and_reply [OF s _ _ wf, of "''c1''" "fresh_socket ZMQ_ROUTER [] (routed ''c1'' peer')" "[]"
        "fresh_socket ZMQ_REQ [] []" CAN_MESH_REQUIREMENTS "''1''"]
    by (auto simp: fresh_socket_def)
  then show ?thesis unfolding inbox by force
qed

end
