(* ===== verification/Remus_Smtk.thy ===== *)
theory Remus_Smtk
  imports Remus_Requirements
begin

text \<open>
  \<open>remus/proto/SMTKMeshSubmission.cxx\<close>: a job submission whose contents have agreed keys. The
  overloads that build a content from text differ from the one that takes a content only in
  that construction.
\<close>

record SMTKMeshSubmission =
  smtk_submission :: JobSubmission
  ModelKey :: string
  AttributeKey :: string
  ModelItemKey :: string

definition SMTKMeshSubmission_of :: "JobSubmission \<Rightarrow> SMTKMeshSubmission" where
  "SMTKMeshSubmission_of submission = \<lparr>smtk_submission = submission, ModelKey = ''model'',
     AttributeKey = ''meshing_attributes'', ModelItemKey = ''modelUUIDS''\<rparr>"

definition SMTKMeshSubmission_default :: SMTKMeshSubmission where
  "SMTKMeshSubmission_default = SMTKMeshSubmission_of JobSubmission_default"

definition SMTKMeshSubmission_reqs :: "JobRequirements \<Rightarrow> SMTKMeshSubmission" where
  "SMTKMeshSubmission_reqs reqs = SMTKMeshSubmission_of (JobSubmission_reqs reqs)"

definition hasAllComponents :: "SMTKMeshSubmission \<Rightarrow> bool" where
  "hasAllComponents s \<longleftrightarrow>
     JobSubmission_find (ModelKey s) (smtk_submission s) \<noteq> None \<and>
     JobSubmission_find (AttributeKey s) (smtk_submission s) \<noteq> None \<and>
     JobSubmission_find (ModelItemKey s) (smtk_submission s) \<noteq> None"

definition add_keyvalue :: "string \<Rightarrow> JobContent \<Rightarrow> SMTKMeshSubmission \<Rightarrow> SMTKMeshSubmission" where
  "add_keyvalue key value s =
     s\<lparr>smtk_submission := JobSubmission_insert key value (smtk_submission s)\<rparr>"

definition set_model :: "JobContent \<Rightarrow> SMTKMeshSubmission \<Rightarrow> SMTKMeshSubmission" where
  "set_model content s = add_keyvalue (ModelKey s) content s"

definition set_model_text :: "string \<Rightarrow> ContentFormat \<Rightarrow> SMTKMeshSubmission \<Rightarrow> SMTKMeshSubmission" where
  "set_model_text content format s = add_keyvalue (ModelKey s) (JobContent_memory format content) s"

definition set_attributes :: "JobContent \<Rightarrow> SMTKMeshSubmission \<Rightarrow> SMTKMeshSubmission" where
  "set_attributes content s = add_keyvalue (AttributeKey s) content s"

definition set_attributes_text :: "string \<Rightarrow> ContentFormat \<Rightarrow> SMTKMeshSubmission \<Rightarrow> SMTKMeshSubmission" where
  "set_attributes_text content format s =
     add_keyvalue (AttributeKey s) (JobContent_memory format content) s"

definition set_modelItemsToMesh :: "JobContent \<Rightarrow> SMTKMeshSubmission \<Rightarrow> SMTKMeshSubmission" where
  "set_modelItemsToMesh content s = add_keyvalue (ModelItemKey s) content s"

definition set_modelItemsToMesh_text ::
  "string \<Rightarrow> ContentFormat \<Rightarrow> SMTKMeshSubmission \<Rightarrow> SMTKMeshSubmission" where
  "set_modelItemsToMesh_text content format s =
     add_keyvalue (ModelItemKey s) (JobContent_memory format content) s"

definition smtk_model :: "SMTKMeshSubmission \<Rightarrow> JobContent" where
  "smtk_model s =
     (case JobSubmission_find (ModelKey s) (smtk_submission s) of
        None \<Rightarrow> JobContent_default | Some content \<Rightarrow> content)"

definition smtk_attributes :: "SMTKMeshSubmission \<Rightarrow> JobContent" where
  "smtk_attributes s =
     (case JobSubmission_find (AttributeKey s) (smtk_submission s) of
        None \<Rightarrow> JobContent_default | Some content \<Rightarrow> content)"

definition smtk_modelItemsToMesh :: "SMTKMeshSubmission \<Rightarrow> JobContent" where
  "smtk_modelItemsToMesh s =
     (case JobSubmission_find (ModelItemKey s) (smtk_submission s) of
        None \<Rightarrow> JobContent_default | Some content \<Rightarrow> content)"

definition to_SMTKMeshSubmission :: "string \<Rightarrow> SMTKMeshSubmission result" where
  "to_SMTKMeshSubmission data =
     bindE (to_JobSubmission data) (\<lambda>js. Inr (SMTKMeshSubmission_of js))"

section \<open>What a worker gets of an SMTK submission\<close>

lemma smtk_keys [simp]:
  "ModelKey (SMTKMeshSubmission_of j) = ''model''"
  "AttributeKey (SMTKMeshSubmission_of j) = ''meshing_attributes''"
  "ModelItemKey (SMTKMeshSubmission_of j) = ''modelUUIDS''"
  "smtk_submission (SMTKMeshSubmission_of j) = j"
  by (simp_all add: SMTKMeshSubmission_of_def)

lemma add_keyvalue_of:
  "add_keyvalue key v (SMTKMeshSubmission_of j) = SMTKMeshSubmission_of (JobSubmission_insert key v j)"
  by (simp add: add_keyvalue_def SMTKMeshSubmission_of_def)

lemma submission_insert_find:
  assumes "sorted_wrt string_less (map fst (sub_content j))"
  shows "JobSubmission_find k (JobSubmission_insert k' v j) =
      (if k = k' \<and> JobSubmission_find k j = None then Some v else JobSubmission_find k j)"
    and "sorted_wrt string_less (map fst (sub_content (JobSubmission_insert k' v j)))"
  using string_order.find_insert [OF assms, of k k' v] string_order.insert_sorted [OF assms, of k' v]
  by (auto simp: JobSubmission_find_def JobSubmission_insert_def string_order.equiv_iff_eq)

lemma submission_insert_wf:
  assumes "JobSubmission_wf j" and "entry_wf (k, v)" and "length (sub_content j) < max_object_size"
  shows "JobSubmission_wf (JobSubmission_insert k v j)"
proof -
  have "set (map_insert string_less k v m) \<subseteq> insert (k, v) (set m) \<and>
      length (map_insert string_less k v m) \<le> Suc (length m)" for m
    by (induction m) (auto split: if_splits)
  then show ?thesis
    using assms submission_insert_find(2) [of j k v]
    by (force simp: JobSubmission_wf_def JobSubmission_insert_def)
qed

text \<open>
  What an SMTK client puts into a submission, the worker takes out of it. A submission
  with model, attributes and model items is complete, and after the way over the wire each
  of the three is returned unchanged.
\<close>

theorem smtk_delivery:
  assumes "JobRequirements_wf reqs" and "JobContent_wf m" and "JobContent_wf a" and "JobContent_wf i"
    and "s = set_modelItemsToMesh i (set_attributes a (set_model m (SMTKMeshSubmission_reqs reqs)))"
  shows "hasAllComponents s \<and>
    (\<exists>s'. to_SMTKMeshSubmission (JobSubmission_serialize (smtk_submission s)) = Inr s' \<and>
      hasAllComponents s' \<and> smtk_model s' = m \<and> smtk_attributes s' = a \<and> smtk_modelItemsToMesh s' = i)"
proof -
  define j0 where "j0 = JobSubmission_reqs reqs"
  define j1 where "j1 = JobSubmission_insert ''model'' m j0"
  define j2 where "j2 = JobSubmission_insert ''meshing_attributes'' a j1"
  define j3 where "j3 = JobSubmission_insert ''modelUUIDS'' i j2"
  have s: "s = SMTKMeshSubmission_of j3"
    by (simp add: assms(5) set_model_def set_attributes_def set_modelItemsToMesh_def
        SMTKMeshSubmission_reqs_def add_keyvalue_of j0_def j1_def j2_def j3_def)
  have wf0: "JobSubmission_wf j0" "sub_content j0 = []"
    using assms(1) by (simp_all add: j0_def JobSubmission_reqs_def JobSubmission_wf_def JobRequirements_wf_def)
  have len: "length (sub_content j1) \<le> 1" "length (sub_content j2) \<le> 2"
    by (simp_all add: j1_def j2_def JobSubmission_insert_def wf0(2))
  have wf1: "JobSubmission_wf j1" unfolding j1_def
    by (rule submission_insert_wf [OF wf0(1)]) (use assms(2) in \<open>simp_all add: wf0 entry_wf_def max_object_size_def\<close>)
  have wf2: "JobSubmission_wf j2" unfolding j2_def
    by (rule submission_insert_wf [OF wf1]) (use assms(3) len in \<open>simp_all add: entry_wf_def max_object_size_def\<close>)
  have wf3: "JobSubmission_wf j3" unfolding j3_def
    by (rule submission_insert_wf [OF wf2]) (use assms(4) len in \<open>simp_all add: entry_wf_def max_object_size_def\<close>)
  have sorted: "sorted_wrt string_less (map fst (sub_content j))" if "JobSubmission_wf j" for j
    using that by (simp add: JobSubmission_wf_def)
  note find = submission_insert_find(1) [OF sorted [OF wf0(1)]] submission_insert_find(1) [OF sorted [OF wf1]]
    submission_insert_find(1) [OF sorted [OF wf2]]
  have "JobSubmission_find k j0 = None" for k by (simp add: JobSubmission_find_def wf0(2))
  then have "JobSubmission_find ''model'' j3 = Some m" "JobSubmission_find ''meshing_attributes'' j3 = Some a"
      "JobSubmission_find ''modelUUIDS'' j3 = Some i"
    unfolding j3_def find(3) unfolding j2_def find(2) unfolding j1_def find(1) by simp_all
  then show ?thesis
    using JobSubmission_wire [OF wf3]
    by (simp add: s to_SMTKMeshSubmission_def hasAllComponents_def smtk_model_def smtk_attributes_def
        smtk_modelItemsToMesh_def)
qed

theorem smtk_delivery_witness:
  "\<exists>s'. to_SMTKMeshSubmission (JobSubmission_serialize (smtk_submission
      (set_modelItemsToMesh (JobContent_memory JSON ''ids'') (set_attributes (JobContent_memory XML ''<a/>'')
        (set_model (JobContent_memory JSON ''brep'') (SMTKMeshSubmission_reqs example_reqs)))))) = Inr s' \<and>
    smtk_attributes s' = JobContent_memory XML ''<a/>''"
proof -
  have "JobContent_wf (JobContent_memory f d)" if "length d \<le> 10" for f d
    using that by (simp add: JobContent_wf_def JobContent_memory_def max_object_size_def)
  then have "JobContent_wf (JobContent_memory JSON ''brep'')" "JobContent_wf (JobContent_memory XML ''<a/>'')"
      "JobContent_wf (JobContent_memory JSON ''ids'')" by simp_all
  from smtk_delivery [OF example_reqs_wf this refl] show ?thesis by blast
qed

text \<open>
  A component that is set again keeps its first value: \<open>insert\<close> does not overwrite.
\<close>

lemma set_model_twice:
  assumes "sorted_wrt string_less (map fst (sub_content j))"
  shows "smtk_model (set_model c' (set_model c (SMTKMeshSubmission_of j))) =
    smtk_model (set_model c (SMTKMeshSubmission_of j))"
  by (simp add: smtk_model_def set_model_def add_keyvalue_of submission_insert_find(1) [OF assms]
      submission_insert_find(1) [OF submission_insert_find(2) [OF assms]])

end
