(* ===== verification/Remus_Storage.thy ===== *)
theory Remus_Storage
  imports Remus_Requirements
begin

text \<open>
  How the data of a \<open>JobContent\<close> is kept: \<open>remus/common/ConditionalStorage.h\<close> and the
  \<open>InternalImpl\<close> of \<open>proto/JobRequirements.cxx\<close> and \<open>proto/JobContent.cxx\<close>, over an explicit
  store. A block of memory is either the caller's, who may write and free it at any time, or
  was allocated by a storage. Objects of one content share their implementation through a
  \<open>shared_ptr\<close>: it is destroyed, and its block freed, when the last object lets go of it.
  \<open>Remus_Requirements\<close> has contents as plain values; this theory says when that is right.
\<close>

datatype address = Caller nat | Owned nat

record heap =
  bytes :: "address \<rightharpoonup> string"
  fresh :: nat

definition read_bytes :: "address option \<Rightarrow> nat \<Rightarrow> heap \<Rightarrow> string result" where
  "read_bytes p n h =
     (if n = 0 then Inr ''''
      else case p of
        None \<Rightarrow> Inl UndefinedBehaviour
      | Some a \<Rightarrow>
          (case bytes h a of
             None \<Rightarrow> Inl UndefinedBehaviour
           | Some d \<Rightarrow> if n \<le> length d then Inr (take n d) else Inl UndefinedBehaviour))"

definition new_array :: "string \<Rightarrow> heap \<Rightarrow> address \<times> heap" where
  "new_array d h = (Owned (fresh h), h\<lparr>bytes := (bytes h)(Owned (fresh h) \<mapsto> d), fresh := Suc (fresh h)\<rparr>)"

definition delete_array :: "address option \<Rightarrow> heap \<Rightarrow> heap" where
  "delete_array p h = (case p of None \<Rightarrow> h | Some a \<Rightarrow> h\<lparr>bytes := (bytes h)(a := None)\<rparr>)"

section \<open>ConditionalStorage\<close>

record ConditionalStorage =
  Space :: "address option"
  Storage_Size :: nat

definition ConditionalStorage_default :: ConditionalStorage where
  "ConditionalStorage_default = \<lparr>Space = None, Storage_Size = 0\<rparr>"

definition ConditionalStorage_array :: "address \<Rightarrow> nat \<Rightarrow> ConditionalStorage" where
  "ConditionalStorage_array t s = \<lparr>Space = Some t, Storage_Size = s\<rparr>"

definition ConditionalStorage_copy :: "string \<Rightarrow> heap \<Rightarrow> ConditionalStorage \<times> heap" where
  "ConditionalStorage_copy t h =
     (if length t > 0
      then let (a, h1) = new_array t h in (\<lparr>Space = Some a, Storage_Size = length t\<rparr>, h1)
      else (\<lparr>Space = None, Storage_Size = length t\<rparr>, h))"

definition storage_swap ::
  "ConditionalStorage \<Rightarrow> ConditionalStorage \<Rightarrow> ConditionalStorage \<times> ConditionalStorage" where
  "storage_swap this other =
     (let otherSize = Storage_Size other;
          other1 = other\<lparr>Storage_Size := Storage_Size this\<rparr>;
          this1 = this\<lparr>Storage_Size := otherSize\<rparr> in
      (this1\<lparr>Space := Space other1\<rparr>, other1\<lparr>Space := Space this1\<rparr>))"

section \<open>InternalImpl\<close>

record InternalImpl =
  Impl_Size :: nat
  Impl_Data :: "address option"
  Storage :: ConditionalStorage

definition InternalImpl_take :: "ConditionalStorage \<Rightarrow> InternalImpl" where
  "InternalImpl_take temp =
     (let (storage, _) = storage_swap ConditionalStorage_default temp in
      \<lparr>Impl_Size = Storage_Size storage, Impl_Data = Space storage, Storage = storage\<rparr>)"

definition InternalImpl_copy :: "string \<Rightarrow> heap \<Rightarrow> InternalImpl \<times> heap" where
  "InternalImpl_copy t h = (let (temp, h1) = ConditionalStorage_copy t h in (InternalImpl_take temp, h1))"

definition InternalImpl_view :: "address option \<Rightarrow> nat \<Rightarrow> InternalImpl" where
  "InternalImpl_view d s = \<lparr>Impl_Size = s, Impl_Data = d, Storage = ConditionalStorage_default\<rparr>"

definition InternalImpl_array :: "address \<Rightarrow> nat \<Rightarrow> InternalImpl" where
  "InternalImpl_array d s = InternalImpl_take (ConditionalStorage_array d s)"

text \<open>The implementation of a \<open>JobContent\<close> also caches two hashes.\<close>

record ContentImpl = InternalImpl +
  ShortHash :: string
  FullHash :: string

definition content_impl :: "InternalImpl \<Rightarrow> ContentImpl" where
  "content_impl im = \<lparr>Impl_Size = Impl_Size im, Impl_Data = Impl_Data im, Storage = Storage im,
     ShortHash = '''', FullHash = ''''\<rparr>"

section \<open>Objects\<close>

record content_object =
  obj_SourceType :: ContentSource
  obj_FormatType :: ContentFormat
  obj_Tag :: string
  obj_Implementation :: "nat option"

record contents =
  heap_of :: heap
  implementations :: "ContentImpl option list"
  objects :: "content_object option list"

definition live :: "'a option list \<Rightarrow> nat \<Rightarrow> 'a option" where
  "live xs k = (if k < length xs then xs ! k else None)"

definition make_shared :: "InternalImpl \<times> heap \<Rightarrow> contents \<Rightarrow> nat \<times> contents" where
  "make_shared ih s =
     (length (implementations s),
      s\<lparr>heap_of := snd ih, implementations := implementations s @ [Some (content_impl (fst ih))]\<rparr>)"

definition refers :: "nat \<Rightarrow> content_object option \<Rightarrow> bool" where
  "refers i x = (case x of None \<Rightarrow> False | Some ob \<Rightarrow> obj_Implementation ob = Some i)"

definition release :: "nat option \<Rightarrow> contents \<Rightarrow> contents" where
  "release p s =
     (case p of
        None \<Rightarrow> s
      | Some i \<Rightarrow>
          if list_ex (refers i) (objects s) then s
          else (case live (implementations s) i of
                  None \<Rightarrow> s
                | Some im \<Rightarrow> s\<lparr>heap_of := delete_array (Space (Storage im)) (heap_of s),
                             implementations := (implementations s)[i := None]\<rparr>))"

definition add_object ::
  "ContentSource \<Rightarrow> ContentFormat \<Rightarrow> string \<Rightarrow> nat \<times> contents \<Rightarrow> contents" where
  "add_object source format tg is =
     (snd is)\<lparr>objects := objects (snd is) @
       [Some \<lparr>obj_SourceType = source, obj_FormatType = format, obj_Tag = tg,
              obj_Implementation = Some (fst is)\<rparr>]\<rparr>"

text \<open>The constructors.\<close>

definition content_default :: "contents \<Rightarrow> contents" where
  "content_default s = add_object File User '''' (make_shared (InternalImpl_view None 0, heap_of s) s)"

definition content_file :: "ContentFormat \<Rightarrow> string \<Rightarrow> contents \<Rightarrow> contents" where
  "content_file format path s = add_object File format '''' (make_shared (InternalImpl_copy path (heap_of s)) s)"

definition content_text :: "ContentFormat \<Rightarrow> string \<Rightarrow> contents \<Rightarrow> contents" where
  "content_text format d s = add_object Memory format '''' (make_shared (InternalImpl_copy d (heap_of s)) s)"

definition content_view :: "ContentFormat \<Rightarrow> address option \<Rightarrow> nat \<Rightarrow> contents \<Rightarrow> contents" where
  "content_view format p n s = add_object Memory format '''' (make_shared (InternalImpl_view p n, heap_of s) s)"

definition InternalImpl_read :: "string \<Rightarrow> heap \<Rightarrow> InternalImpl \<times> heap" where
  "InternalImpl_read contents h =
     (let (a, h1) = new_array contents h in
      if length contents = 0 then (InternalImpl_view None 0, delete_array (Some a) h1)
      else (InternalImpl_array a (length contents), h1))"

definition content_read :: "istream \<Rightarrow> contents \<Rightarrow> (istream \<times> contents) result" where
  "content_read stream s =
     bindE (JobContent_read stream) (\<lambda>(c, stream1).
       Inr (stream1, add_object (con_sourceType c) (con_formatType c) (con_tag c)
                       (make_shared (InternalImpl_read (con_data c) (heap_of s)) s)))"

text \<open>Copying, assigning, moving and destroying.\<close>

definition set_object :: "nat \<Rightarrow> content_object option \<Rightarrow> contents \<Rightarrow> contents" where
  "set_object k x s = s\<lparr>objects := (objects s)[k := x]\<rparr>"

definition copy_object :: "content_object \<Rightarrow> contents \<Rightarrow> contents" where
  "copy_object ob s = s\<lparr>objects := objects s @ [Some ob]\<rparr>"

definition assign_object :: "nat \<Rightarrow> content_object \<Rightarrow> content_object \<Rightarrow> contents \<Rightarrow> contents" where
  "assign_object k this other s = release (obj_Implementation this) (set_object k (Some other) s)"

definition move_object :: "nat \<Rightarrow> content_object \<Rightarrow> nat \<Rightarrow> content_object \<Rightarrow> contents \<Rightarrow> contents" where
  "move_object k this l other s =
     (if k \<noteq> l
      then release (obj_Implementation this)
             (set_object l (Some (other\<lparr>obj_Tag := '''', obj_Implementation := None\<rparr>))
               (set_object k (Some other) s))
      else s)"

definition destroy_object :: "nat \<Rightarrow> content_object \<Rightarrow> contents \<Rightarrow> contents" where
  "destroy_object k ob s = release (obj_Implementation ob) (set_object k None s)"

definition set_tag :: "nat \<Rightarrow> content_object \<Rightarrow> string \<Rightarrow> contents \<Rightarrow> contents" where
  "set_tag k ob tag_value s = set_object k (Some (ob\<lparr>obj_Tag := tag_value\<rparr>)) s"

section \<open>Looking at contents\<close>

definition impl_of :: "content_object \<Rightarrow> contents \<Rightarrow> (nat \<times> ContentImpl) result" where
  "impl_of ob s =
     (case obj_Implementation ob of
        None \<Rightarrow> Inl UndefinedBehaviour
      | Some i \<Rightarrow> (case live (implementations s) i of
                     None \<Rightarrow> Inl UndefinedBehaviour | Some im \<Rightarrow> Inr (i, im)))"

definition obj_dataSize :: "content_object \<Rightarrow> contents \<Rightarrow> nat result" where
  "obj_dataSize ob s = bindE (impl_of ob s) (\<lambda>(i, im). Inr (Impl_Size im))"

definition obj_data :: "content_object \<Rightarrow> contents \<Rightarrow> string result" where
  "obj_data ob s = bindE (impl_of ob s) (\<lambda>(i, im). read_bytes (Impl_Data im) (Impl_Size im) (heap_of s))"

definition impl_shortHash ::
  "(string \<Rightarrow> string) \<Rightarrow> content_object \<Rightarrow> contents \<Rightarrow> (string \<times> contents) result" where
  "impl_shortHash md5 ob s =
     bindE (impl_of ob s) (\<lambda>(i, im).
       if ShortHash im = '''' \<and> Impl_Size im < 4096
       then bindE (read_bytes (Impl_Data im) (Impl_Size im) (heap_of s)) (\<lambda>d.
              Inr (d, s\<lparr>implementations := (implementations s)[i := Some (im\<lparr>ShortHash := d\<rparr>)]\<rparr>))
       else if ShortHash im = ''''
       then bindE (read_bytes (Impl_Data im) 4096 (heap_of s)) (\<lambda>d.
              Inr (md5 d, s\<lparr>implementations := (implementations s)[i := Some (im\<lparr>ShortHash := md5 d\<rparr>)]\<rparr>))
       else Inr (ShortHash im, s))"

definition impl_fullHash ::
  "(string \<Rightarrow> string) \<Rightarrow> content_object \<Rightarrow> contents \<Rightarrow> (string \<times> contents) result" where
  "impl_fullHash md5 ob s =
     bindE (impl_of ob s) (\<lambda>(i, im).
       if FullHash im = ''''
       then bindE (read_bytes (Impl_Data im) (Impl_Size im) (heap_of s)) (\<lambda>d.
              Inr (md5 d, s\<lparr>implementations := (implementations s)[i := Some (im\<lparr>FullHash := md5 d\<rparr>)]\<rparr>))
       else Inr (FullHash im, s))"

definition impl_equal ::
  "(string \<Rightarrow> string) \<Rightarrow> content_object \<Rightarrow> content_object \<Rightarrow> contents \<Rightarrow> (bool \<times> contents) result" where
  "impl_equal md5 this other s =
     bindE (impl_shortHash md5 this s) (\<lambda>(a, s1).
     bindE (impl_shortHash md5 other s1) (\<lambda>(b, s2).
     if a = b
     then bindE (impl_fullHash md5 this s2) (\<lambda>(c, s3).
          bindE (impl_fullHash md5 other s3) (\<lambda>(d, s4). Inr (c = d, s4)))
     else Inr (False, s2)))"

definition impl_less ::
  "(string \<Rightarrow> string) \<Rightarrow> content_object \<Rightarrow> content_object \<Rightarrow> contents \<Rightarrow> (bool \<times> contents) result" where
  "impl_less md5 this other s =
     bindE (impl_shortHash md5 this s) (\<lambda>(a, s1).
     bindE (impl_shortHash md5 other s1) (\<lambda>(b, s2).
     if a \<noteq> b then Inr (string_less a b, s2)
     else bindE (impl_fullHash md5 this s2) (\<lambda>(c, s3).
          bindE (impl_fullHash md5 other s3) (\<lambda>(d, s4).
          Inr (if c \<noteq> d then string_less c d else False, s4)))))"

definition object_eq ::
  "(string \<Rightarrow> string) \<Rightarrow> content_object \<Rightarrow> content_object \<Rightarrow> contents \<Rightarrow> (bool \<times> contents) result" where
  "object_eq md5 this other s =
     (if obj_SourceType this = obj_SourceType other \<and> obj_FormatType this = obj_FormatType other \<and>
         obj_Tag this = obj_Tag other
      then bindE (obj_dataSize this s) (\<lambda>n. bindE (obj_dataSize other s) (\<lambda>m.
           if n = m then impl_equal md5 this other s else Inr (False, s)))
      else Inr (False, s))"

definition object_less ::
  "(string \<Rightarrow> string) \<Rightarrow> content_object \<Rightarrow> content_object \<Rightarrow> contents \<Rightarrow> (bool \<times> contents) result" where
  "object_less md5 this other s =
     (if obj_SourceType this \<noteq> obj_SourceType other
      then Inr (int_of_ContentSource (obj_SourceType this) < int_of_ContentSource (obj_SourceType other), s)
      else if obj_FormatType this \<noteq> obj_FormatType other
      then Inr (int_of_ContentFormat (obj_FormatType this) < int_of_ContentFormat (obj_FormatType other), s)
      else if obj_Tag this \<noteq> obj_Tag other then Inr (string_less (obj_Tag this) (obj_Tag other), s)
      else bindE (obj_dataSize this s) (\<lambda>n. bindE (obj_dataSize other s) (\<lambda>m.
           if n \<noteq> m then Inr (n < m, s)
           else bindE (impl_equal md5 this other s) (\<lambda>(same, s1).
                if \<not> same then impl_less md5 this other s1 else Inr (False, s1)))))"

section \<open>What a program can do\<close>

text \<open>
  Contents are made, copied, moved, compared and destroyed, and the caller writes and frees
  memory of its own, in any order. An index that names no object is undefined behaviour.
\<close>

datatype action =
    Write nat string | Free nat
  | Make_default | Make_file ContentFormat string | Make_text ContentFormat string
  | Make_view ContentFormat "address option" nat | Make_read istream
  | Copy nat | Assign nat nat | Move nat nat | Destroy nat | Tag nat string
  | Compare_eq nat nat | Compare_less nat nat

definition the_object :: "nat \<Rightarrow> contents \<Rightarrow> content_object result" where
  "the_object k s = (case live (objects s) k of None \<Rightarrow> Inl UndefinedBehaviour | Some ob \<Rightarrow> Inr ob)"

definition put_bytes :: "nat \<Rightarrow> string option \<Rightarrow> contents \<Rightarrow> contents" where
  "put_bytes n x s = s\<lparr>heap_of := (heap_of s)\<lparr>bytes := (bytes (heap_of s))(Caller n := x)\<rparr>\<rparr>"

fun exec :: "(string \<Rightarrow> string) \<Rightarrow> action \<Rightarrow> contents \<Rightarrow> contents result" where
  "exec md5 (Write n d) s = Inr (put_bytes n (Some d) s)"
| "exec md5 (Free n) s = Inr (put_bytes n None s)"
| "exec md5 Make_default s = Inr (content_default s)"
| "exec md5 (Make_file format path) s = Inr (content_file format path s)"
| "exec md5 (Make_text format d) s = Inr (content_text format d s)"
| "exec md5 (Make_view format p n) s = Inr (content_view format p n s)"
| "exec md5 (Make_read stream) s = bindE (content_read stream s) (\<lambda>(_, s1). Inr s1)"
| "exec md5 (Copy k) s = bindE (the_object k s) (\<lambda>ob. Inr (copy_object ob s))"
| "exec md5 (Assign k l) s =
     bindE (the_object k s) (\<lambda>this. bindE (the_object l s) (\<lambda>other. Inr (assign_object k this other s)))"
| "exec md5 (Move k l) s =
     bindE (the_object k s) (\<lambda>this. bindE (the_object l s) (\<lambda>other. Inr (move_object k this l other s)))"
| "exec md5 (Destroy k) s = bindE (the_object k s) (\<lambda>ob. Inr (destroy_object k ob s))"
| "exec md5 (Tag k t) s = bindE (the_object k s) (\<lambda>ob. Inr (set_tag k ob t s))"
| "exec md5 (Compare_eq k l) s =
     bindE (the_object k s) (\<lambda>this. bindE (the_object l s) (\<lambda>other.
     bindE (object_eq md5 this other s) (\<lambda>(_, s1). Inr s1)))"
| "exec md5 (Compare_less k l) s =
     bindE (the_object k s) (\<lambda>this. bindE (the_object l s) (\<lambda>other.
     bindE (object_less md5 this other s) (\<lambda>(_, s1). Inr s1)))"

primrec exec_all :: "(string \<Rightarrow> string) \<Rightarrow> action list \<Rightarrow> contents \<Rightarrow> contents result" where
  "exec_all md5 [] s = Inr s"
| "exec_all md5 (a # as) s = bindE (exec md5 a s) (exec_all md5 as)"

definition no_contents :: contents where
  "no_contents = \<lparr>heap_of = \<lparr>bytes = Map.empty, fresh = 0\<rparr>, implementations = [], objects = []\<rparr>"

text \<open>Which objects an action changes.\<close>

fun changes :: "action \<Rightarrow> nat set" where
  "changes (Assign k l) = {k}"
| "changes (Move k l) = {k, l}"
| "changes (Destroy k) = {k}"
| "changes (Tag k t) = {k}"
| "changes _ = {}"

section \<open>Ownership\<close>

lemma live_append [simp]: "live (xs @ [y]) k = (if k = length xs then y else live xs k)"
  by (auto simp: live_def nth_append)

lemma live_update: "live (xs[i := v]) k = (if k = i \<and> i < length xs then v else live xs k)"
  by (auto simp: live_def nth_list_update)

lemma live_lt: "live xs k = Some x \<Longrightarrow> k < length xs"
  by (simp add: live_def split: if_splits)

text \<open>The data an implementation owns; \<open>None\<close>: it is a view of somebody else's memory.\<close>

definition owned_data :: "heap \<Rightarrow> ContentImpl \<Rightarrow> string option" where
  "owned_data h im =
     (case Space (Storage im) of
        Some a \<Rightarrow> bytes h a
      | None \<Rightarrow> if Impl_Size im = 0 then Some '''' else None)"

definition impl_ok :: "(string \<Rightarrow> string) \<Rightarrow> heap \<Rightarrow> ContentImpl \<Rightarrow> bool" where
  "impl_ok md5 h im \<longleftrightarrow>
     (\<forall>a. Space (Storage im) = Some a \<longrightarrow>
        (\<exists>n. a = Owned n \<and> n < fresh h) \<and> Impl_Data im = Some a \<and> bytes h a \<noteq> None) \<and>
     (\<forall>d. owned_data h im = Some d \<longrightarrow>
        Impl_Size im = length d \<and> (ShortHash im = '''' \<or> ShortHash im = shortHash md5 d) \<and>
        (FullHash im = '''' \<or> FullHash im = fullHash md5 d))"

definition contents_inv :: "(string \<Rightarrow> string) \<Rightarrow> contents \<Rightarrow> bool" where
  "contents_inv md5 s \<longleftrightarrow>
     (\<forall>i im. live (implementations s) i = Some im \<longrightarrow> impl_ok md5 (heap_of s) im) \<and>
     (\<forall>i j im jm. live (implementations s) i = Some im \<longrightarrow> live (implementations s) j = Some jm \<longrightarrow>
        Space (Storage im) \<noteq> None \<longrightarrow> Space (Storage im) = Space (Storage jm) \<longrightarrow> i = j)"

definition owned :: "contents \<Rightarrow> nat \<Rightarrow> content_object \<Rightarrow> string \<Rightarrow> bool" where
  "owned s k ob d \<longleftrightarrow> live (objects s) k = Some ob \<and>
     (\<exists>i im. obj_Implementation ob = Some i \<and> live (implementations s) i = Some im \<and>
        owned_data (heap_of s) im = Some d)"

text \<open>A step that keeps the invariant, and the data of all objects outside \<open>T\<close> that own theirs.\<close>

definition keeps :: "(string \<Rightarrow> string) \<Rightarrow> nat set \<Rightarrow> contents \<Rightarrow> contents \<Rightarrow> bool" where
  "keeps md5 T s s' \<longleftrightarrow> (contents_inv md5 s \<longrightarrow>
     contents_inv md5 s' \<and> (\<forall>k ob d. k \<notin> T \<longrightarrow> owned s k ob d \<longrightarrow> owned s' k ob d))"

lemma keeps_refl [simp, intro]: "keeps md5 T s s"
  by (simp add: keeps_def)

lemma keeps_trans: "keeps md5 T s s1 \<Longrightarrow> keeps md5 U s1 s2 \<Longrightarrow> keeps md5 (T \<union> U) s s2"
  by (auto simp: keeps_def)

lemma keeps_mono: "keeps md5 T s s' \<Longrightarrow> T \<subseteq> U \<Longrightarrow> keeps md5 U s s'"
  by (auto simp: keeps_def)

lemma keeps_objects:
  assumes "heap_of s' = heap_of s" and "implementations s' = implementations s"
    and "\<And>k ob. k \<notin> T \<Longrightarrow> live (objects s) k = Some ob \<Longrightarrow> live (objects s') k = Some ob"
  shows "keeps md5 T s s'"
  using assms unfolding keeps_def contents_inv_def owned_def by auto

lemma keeps_copy: "keeps md5 {} s (copy_object ob s)"
  by (rule keeps_objects) (auto simp: copy_object_def dest: live_lt)

lemma keeps_set: "keeps md5 {k} s (set_object k x s)"
  by (rule keeps_objects) (auto simp: set_object_def live_update)

lemma keeps_put: "keeps md5 {} s (put_bytes n x s)"
proof -
  have "impl_ok md5 (heap_of (put_bytes n x s)) im \<and>
      owned_data (heap_of (put_bytes n x s)) im = owned_data (heap_of s) im"
    if "impl_ok md5 (heap_of s) im" for im
    using that by (auto simp: impl_ok_def owned_data_def put_bytes_def split: option.splits)
  then show ?thesis unfolding keeps_def contents_inv_def owned_def by (fastforce simp: put_bytes_def)
qed

text \<open>An implementation that was just built, and what its constructor did to the heap.\<close>

definition built :: "heap \<Rightarrow> InternalImpl \<times> heap \<Rightarrow> bool" where
  "built h ih \<longleftrightarrow> fresh h \<le> fresh (snd ih) \<and>
     (\<forall>n<fresh h. bytes (snd ih) (Owned n) = bytes h (Owned n)) \<and>
     (\<forall>a. Space (Storage (fst ih)) = Some a \<longrightarrow> Impl_Data (fst ih) = Some a \<and>
        (\<exists>n d. a = Owned n \<and> fresh h \<le> n \<and> n < fresh (snd ih) \<and> bytes (snd ih) a = Some d \<and>
           Impl_Size (fst ih) = length d))"

lemma impl_ok_built:
  "built h ih \<Longrightarrow> impl_ok md5 (snd ih) (content_impl (fst ih))"
  by (auto simp: built_def impl_ok_def content_impl_def owned_data_def split: option.splits if_splits)

lemma impl_ok_grown:
  assumes "built h ih" and "impl_ok md5 h im"
  shows "impl_ok md5 (snd ih) im \<and> owned_data (snd ih) im = owned_data h im"
proof -
  have "owned_data (snd ih) im = owned_data h im"
    using assms by (auto simp: built_def impl_ok_def owned_data_def split: option.splits)
  with assms show ?thesis by (auto simp: built_def impl_ok_def)
qed

lemma keeps_make:
  assumes "built (heap_of s) ih"
  shows "keeps md5 {} s (add_object source format tg (make_shared ih s))"
proof -
  let ?s = "add_object source format tg (make_shared ih s)"
  have fields: "heap_of ?s = snd ih" "implementations ?s = implementations s @ [Some (content_impl (fst ih))]"
      "live (objects s) k = Some ob \<Longrightarrow> live (objects ?s) k = Some ob" for k ob
    by (auto simp: add_object_def make_shared_def dest: live_lt)
  have new: "Space (Storage im) \<noteq> Space (Storage (content_impl (fst ih)))"
    if "impl_ok md5 (heap_of s) im" "Space (Storage im) \<noteq> None" for im
    using that assms by (auto simp: impl_ok_def built_def content_impl_def)
  show ?thesis
    unfolding keeps_def
  proof (intro impI conjI allI)
    assume inv: "contents_inv md5 s"
    then have ok: "live (implementations s) i = Some im \<Longrightarrow> impl_ok md5 (heap_of s) im" for i im
      by (simp add: contents_inv_def)
    show "contents_inv md5 ?s"
      unfolding contents_inv_def fields
    proof (intro conjI allI impI)
      fix i im assume "live (implementations s @ [Some (content_impl (fst ih))]) i = Some im"
      then show "impl_ok md5 (snd ih) im"
        using impl_ok_built [OF assms] impl_ok_grown [OF assms ok] by (auto split: if_splits)
    next
      fix i j im jm
      assume i: "live (implementations s @ [Some (content_impl (fst ih))]) i = Some im"
        and j: "live (implementations s @ [Some (content_impl (fst ih))]) j = Some jm"
        and space: "Space (Storage im) \<noteq> None" "Space (Storage im) = Space (Storage jm)"
      have "i = length (implementations s) \<longleftrightarrow> j = length (implementations s)"
        using i j space new [OF ok, of i im] new [OF ok, of j jm] by (auto split: if_splits)
      then show "i = j"
        using i j space inv by (simp add: contents_inv_def split: if_splits)
    qed
    fix k ob d assume "owned s k ob d"
    then show "owned ?s k ob d"
      unfolding owned_def fields(1,2)
      using fields(3) impl_ok_grown [OF assms ok] by (fastforce dest: live_lt)
  qed
qed

lemma keeps_release: "keeps md5 {} s (release p s)"
proof (cases p)
  case (Some i)
  show ?thesis
  proof (cases "list_ex (refers i) (objects s) \<or> live (implementations s) i = None")
    case False
    then obtain im where im: "live (implementations s) i = Some im" by auto
    define s' where "s' = s\<lparr>heap_of := delete_array (Space (Storage im)) (heap_of s),
        implementations := (implementations s)[i := None]\<rparr>"
    have s': "release p s = s'" using False im Some by (simp add: release_def s'_def)
    have other: "impl_ok md5 (heap_of s') jm \<and> owned_data (heap_of s') jm = owned_data (heap_of s) jm"
      if inv: "contents_inv md5 s" and jm: "live (implementations s) j = Some jm" "j \<noteq> i" for j jm
    proof -
      have ok: "impl_ok md5 (heap_of s) jm" using inv jm by (simp add: contents_inv_def)
      have "Space (Storage jm) = None \<or> Space (Storage jm) \<noteq> Space (Storage im)"
        using inv jm im unfolding contents_inv_def by blast
      then show ?thesis using ok
        by (auto simp: s'_def impl_ok_def owned_data_def delete_array_def split: option.splits)
    qed
    have free: "obj_Implementation ob \<noteq> Some i" if "live (objects s) k = Some ob" for k ob
    proof -
      have "Some ob \<in> set (objects s)" using that by (auto simp: live_def in_set_conv_nth split: if_splits)
      then show ?thesis using False by (auto simp: list_ex_iff refers_def)
    qed
    have keep: "live (implementations s') j = (if j = i then None else live (implementations s) j)"
        "objects s' = objects s" for j
      using live_lt [OF im] by (auto simp: s'_def live_update)
    show ?thesis unfolding keeps_def s'
    proof (intro impI conjI allI)
      assume inv: "contents_inv md5 s"
      then show "contents_inv md5 s'"
        using other [OF inv] unfolding contents_inv_def keep(1) by (fastforce split: if_splits)
      fix k ob d assume "owned s k ob d"
      then show "owned s' k ob d"
        using free other [OF inv] unfolding owned_def keep by fastforce
    qed
  qed (auto simp: release_def Some)
qed (simp add: release_def)

lemma keeps_hash:
  assumes "live (implementations s) i = Some im" and "Impl_Size im' = Impl_Size im"
    and "Impl_Data im' = Impl_Data im" and "Storage im' = Storage im"
    and "impl_ok md5 (heap_of s) im \<Longrightarrow> impl_ok md5 (heap_of s) im'"
  shows "keeps md5 {} s (s\<lparr>implementations := (implementations s)[i := Some im']\<rparr>)"
proof -
  have upd: "live ((implementations s)[i := Some im']) j =
      (if j = i then Some im' else live (implementations s) j)" for j
    using live_lt [OF assms(1)] by (simp add: live_update)
  have same: "owned_data (heap_of s) im' = owned_data (heap_of s) im"
    by (simp add: owned_data_def assms(2,4))
  show ?thesis unfolding keeps_def
  proof (intro impI conjI allI)
    assume inv: "contents_inv md5 s"
    have "i1 = j1" if "live (implementations s) i1 = Some im1" "live (implementations s) j1 = Some jm1"
        "Space (Storage im1) \<noteq> None" "Space (Storage im1) = Space (Storage jm1)" for i1 j1 im1 jm1
      using inv that unfolding contents_inv_def by blast
    then show "contents_inv md5 (s\<lparr>implementations := (implementations s)[i := Some im']\<rparr>)"
      using inv assms(1,4,5) unfolding contents_inv_def
      by (auto simp: upd split: if_splits)
    fix k ob d assume "owned s k ob d"
    then show "owned (s\<lparr>implementations := (implementations s)[i := Some im']\<rparr>) k ob d"
      using assms(1) same by (auto simp: owned_def upd)
  qed
qed

lemma read_owned:
  assumes "impl_ok md5 h im" and "owned_data h im = Some d" and "n \<le> length d"
  shows "read_bytes (Impl_Data im) n h = Inr (take n d)"
  using assms by (auto simp: impl_ok_def owned_data_def read_bytes_def split: option.splits if_splits)

lemma impl_of_live:
  "impl_of ob s = Inr (i, im) \<longleftrightarrow> obj_Implementation ob = Some i \<and> live (implementations s) i = Some im"
  by (auto simp: impl_of_def split: option.splits)

lemma shortHash_keeps:
  assumes "impl_shortHash md5 ob s = Inr (x, s1)"
  shows "keeps md5 {} s s1"
proof -
  obtain i im where im: "impl_of ob s = Inr (i, im)"
    using assms by (auto simp: impl_shortHash_def bindE_eq_Inr)
  note live = im [unfolded impl_of_live, THEN conjunct2]
  have "impl_ok md5 (heap_of s) (im\<lparr>ShortHash := y\<rparr>)"
    if ok: "impl_ok md5 (heap_of s) im" and
      y: "\<And>d. owned_data (heap_of s) im = Some d \<Longrightarrow> y = shortHash md5 d" for y
    using ok y by (auto simp: impl_ok_def owned_data_def)
  then have "keeps md5 {} s (s\<lparr>implementations := (implementations s)[i := Some (im\<lparr>ShortHash := y\<rparr>)]\<rparr>)"
    if "\<And>d. impl_ok md5 (heap_of s) im \<Longrightarrow> owned_data (heap_of s) im = Some d \<Longrightarrow> y = shortHash md5 d" for y
    by (intro keeps_hash [OF live]) (use that in auto)
  moreover have rd: "Impl_Size im = length d \<and> read_bytes (Impl_Data im) (Impl_Size im) (heap_of s) = Inr d \<and>
      (4096 \<le> length d \<longrightarrow> read_bytes (Impl_Data im) 4096 (heap_of s) = Inr (take 4096 d))"
    if "impl_ok md5 (heap_of s) im" "owned_data (heap_of s) im = Some d" for d
    using that read_owned [OF that] by (simp add: impl_ok_def)
  have "s1 = s \<or> s1 = s\<lparr>implementations := (implementations s)[i := Some (im\<lparr>ShortHash := x\<rparr>)]\<rparr> \<and>
      (\<forall>d. impl_ok md5 (heap_of s) im \<longrightarrow> owned_data (heap_of s) im = Some d \<longrightarrow> x = shortHash md5 d)"
    using assms by (auto simp: impl_shortHash_def im bindE_eq_Inr shortHash_def dest: rd split: if_splits)
  ultimately show ?thesis by auto
qed

lemma fullHash_keeps:
  assumes "impl_fullHash md5 ob s = Inr (x, s1)"
  shows "keeps md5 {} s s1"
proof -
  obtain i im where im: "impl_of ob s = Inr (i, im)"
    using assms by (auto simp: impl_fullHash_def bindE_eq_Inr)
  note live = im [unfolded impl_of_live, THEN conjunct2]
  have "impl_ok md5 (heap_of s) (im\<lparr>FullHash := md5 y\<rparr>)"
    if ok: "impl_ok md5 (heap_of s) im" and y: "read_bytes (Impl_Data im) (Impl_Size im) (heap_of s) = Inr y" for y
  proof -
    have "y = d" if d: "owned_data (heap_of s) im = Some d" for d
      using read_owned [OF ok d, of "length d"] y ok d by (simp add: impl_ok_def)
    then show ?thesis using ok by (auto simp: impl_ok_def owned_data_def fullHash_def)
  qed
  then show ?thesis
    using assms keeps_hash [OF live, of "im\<lparr>FullHash := md5 y\<rparr>" md5 for y]
    by (auto simp: impl_fullHash_def im bindE_eq_Inr split: if_splits)
qed

lemmas built_simps = built_def InternalImpl_copy_def InternalImpl_array_def InternalImpl_view_def
  InternalImpl_take_def ConditionalStorage_copy_def ConditionalStorage_array_def
  ConditionalStorage_default_def storage_swap_def new_array_def delete_array_def Let_def

lemma built_view: "built h (InternalImpl_view p n, h)"
  by (simp add: built_simps)

lemma built_copy: "built h (InternalImpl_copy d h)"
  by (simp add: built_simps)

lemma built_read: "built h (InternalImpl_read d h)"
  by (simp add: built_simps InternalImpl_read_def)

lemma content_read_keeps: "content_read stream s = Inr (stream1, s1) \<Longrightarrow> keeps md5 {} s s1"
  by (auto simp: content_read_def bindE_eq_Inr intro: keeps_make [OF built_read])

lemma keeps_bind:
  assumes "bindE m f = Inr (r, s')" and "\<And>x s1. m = Inr (x, s1) \<Longrightarrow> keeps md5 {} s s1"
    and "\<And>x s1. f (x, s1) = Inr (r, s') \<Longrightarrow> keeps md5 {} s1 s'"
  shows "keeps md5 {} s s'"
  using assms keeps_trans [of md5 "{}" s _ "{}" s'] by (auto simp: bindE_eq_Inr)

lemma fullHashes_keep:
  "bindE (impl_fullHash md5 a s) (\<lambda>(c, s3). bindE (impl_fullHash md5 b s3) (\<lambda>(d, s4). Inr (g c d, s4))) =
     Inr (r, s') \<Longrightarrow> keeps md5 {} s s'"
  by (erule keeps_bind, erule fullHash_keeps)
     (auto simp: bindE_eq_Inr dest: fullHash_keeps)

lemma impl_equal_keeps: "impl_equal md5 a b s = Inr (r, s') \<Longrightarrow> keeps md5 {} s s'"
  unfolding impl_equal_def
  by (erule keeps_bind, erule shortHash_keeps, simp, erule keeps_bind, erule shortHash_keeps)
     (auto dest: fullHashes_keep split: if_splits)

lemma impl_less_keeps: "impl_less md5 a b s = Inr (r, s') \<Longrightarrow> keeps md5 {} s s'"
  unfolding impl_less_def
  by (erule keeps_bind, erule shortHash_keeps, simp, erule keeps_bind, erule shortHash_keeps)
     (auto dest: fullHashes_keep split: if_splits)

lemma object_eq_keeps: "object_eq md5 a b s = Inr (r, s') \<Longrightarrow> keeps md5 {} s s'"
  by (auto simp: object_eq_def bindE_eq_Inr dest: impl_equal_keeps split: if_splits)

lemma compare_keeps:
  "bindE (impl_equal md5 a b s) (\<lambda>(same, s1). if \<not> same then impl_less md5 a b s1 else Inr (False, s1)) =
     Inr (r, s') \<Longrightarrow> keeps md5 {} s s'"
  by (erule keeps_bind, erule impl_equal_keeps) (auto dest: impl_less_keeps split: if_splits)

lemma object_less_keeps: "object_less md5 a b s = Inr (r, s') \<Longrightarrow> keeps md5 {} s s'"
  unfolding object_less_def
  by (auto simp: bindE_eq_Inr [of "obj_dataSize x y" for x y] dest: compare_keeps split: if_splits)

lemma keeps_set_release: "keeps md5 {k} s (release p (set_object k x s))"
  using keeps_trans [OF keeps_set keeps_release, of md5 k s p x] by simp

lemma keeps_move: "keeps md5 {k, l} s (move_object k this l other s)"
  using keeps_trans [OF keeps_trans [OF keeps_set keeps_set] keeps_release] keeps_mono
  by (simp add: move_object_def insert_commute)

lemma exec_keeps: "exec md5 a s = Inr s' \<Longrightarrow> keeps md5 (changes a) s s'"
  by (cases a)
     (auto simp: bindE_eq_Inr content_default_def content_file_def content_text_def content_view_def
        assign_object_def destroy_object_def set_tag_def
        intro: keeps_put keeps_make built_view built_copy keeps_copy keeps_set keeps_set_release keeps_move
        dest: content_read_keeps object_eq_keeps object_less_keeps)

lemma exec_all_keeps: "exec_all md5 as s = Inr s' \<Longrightarrow> keeps md5 (\<Union> (changes ` set as)) s s'"
proof (induction as arbitrary: s)
  case (Cons a as)
  then show ?case by (auto simp: bindE_eq_Inr intro: keeps_trans dest: exec_keeps)
qed simp

lemma inv_none: "contents_inv md5 no_contents"
  by (simp add: contents_inv_def no_contents_def live_def)

lemma contents_inv_run: "exec_all md5 as no_contents = Inr s \<Longrightarrow> contents_inv md5 s"
  using exec_all_keeps [of md5 as no_contents s] inv_none by (auto simp: keeps_def)

lemma owned_impl:
  assumes "contents_inv md5 s" and "owned s k ob d"
  obtains i im where "impl_of ob s = Inr (i, im)" "impl_ok md5 (heap_of s) im"
    "owned_data (heap_of s) im = Some d" "Impl_Size im = length d"
  using assms by (auto simp: owned_def contents_inv_def impl_of_live impl_ok_def)

lemma owned_data_read:
  assumes "contents_inv md5 s" and "owned s k ob d"
  shows "obj_data ob s = Inr d" and "obj_dataSize ob s = Inr (length d)"
  using assms by (auto elim!: owned_impl simp: obj_data_def obj_dataSize_def read_owned)

text \<open>The value of an object, a \<open>JobContent\<close> of \<open>Remus_Requirements\<close>.\<close>

definition content_of :: "content_object \<Rightarrow> string \<Rightarrow> JobContent" where
  "content_of ob d = \<lparr>con_sourceType = obj_SourceType ob, con_formatType = obj_FormatType ob,
     con_tag = obj_Tag ob, con_data = d\<rparr>"

definition object_value :: "nat \<Rightarrow> contents \<Rightarrow> JobContent result" where
  "object_value k s = bindE (the_object k s) (\<lambda>ob. bindE (obj_data ob s) (\<lambda>d. Inr (content_of ob d)))"

lemma owned_value: "contents_inv md5 s \<Longrightarrow> owned s k ob d \<Longrightarrow> object_value k s = Inr (content_of ob d)"
  using owned_data_read [of md5 s k ob d] by (simp add: object_value_def the_object_def owned_def)

text \<open>Constructors that copy, and the value they are to make.\<close>

fun copied :: "action \<Rightarrow> JobContent option" where
  "copied Make_default = Some JobContent_default"
| "copied (Make_file format path) = Some (JobContent_file format path)"
| "copied (Make_text format d) = Some (JobContent_memory format d)"
| "copied (Make_read stream) = (case JobContent_read stream of Inl _ \<Rightarrow> None | Inr (c, _) \<Rightarrow> Some c)"
| "copied _ = None"

lemma make_owned:
  assumes "owned_data (snd ih) (content_impl (fst ih)) = Some d"
  shows "\<exists>ob d'. owned (add_object source format tg (make_shared ih s)) (length (objects s)) ob d' \<and>
    content_of ob d' = \<lparr>con_sourceType = source, con_formatType = format, con_tag = tg, con_data = d\<rparr>"
  using assms by (intro exI [of _ "\<lparr>obj_SourceType = source, obj_FormatType = format, obj_Tag = tg,
     obj_Implementation = Some (length (implementations s))\<rparr>"] exI [of _ d])
    (simp add: owned_def add_object_def make_shared_def content_of_def)

lemma copy_owns_data [simp]:
  "owned_data (snd (InternalImpl_copy d h)) (content_impl (fst (InternalImpl_copy d h))) = Some d"
  "owned_data (snd (InternalImpl_read d h)) (content_impl (fst (InternalImpl_read d h))) = Some d"
  "owned_data h (content_impl (InternalImpl_view None 0)) = Some ''''"
  by (simp_all add: owned_data_def content_impl_def built_simps InternalImpl_read_def)

lemma read_makes_owned:
  "\<exists>ob d. owned (add_object (con_sourceType c) (con_formatType c) (con_tag c)
      (make_shared (InternalImpl_read (con_data c) h) s)) (length (objects s)) ob d \<and> content_of ob d = c"
  using make_owned [OF copy_owns_data(2)] by fastforce

lemma exec_copied:
  assumes "copied a = Some c" and "exec md5 a s = Inr s'"
  shows "\<exists>ob d. owned s' (length (objects s)) ob d \<and> content_of ob d = c"
  using assms
  by (cases a) (auto simp: JobContent_default_def JobContent_file_def JobContent_memory_def
      content_default_def content_file_def content_text_def content_read_def bindE_eq_Inr make_owned
      read_makes_owned
      split: sum.splits)

text \<open>
  C31: a content that copies its data is a value. Made from a string, a file name or a stream,
  at any moment of any program, it keeps source, format, tag and data whatever the program
  does next with its own memory and with all other contents, as long as nobody assigns to,
  moves, tags or destroys the object itself.
\<close>

theorem copied_content_is_a_value:
  assumes "exec_all md5 as no_contents = Inr s" and "copied a = Some c"
    and "exec_all md5 (a # bs) s = Inr s'" and "length (objects s) \<notin> \<Union> (changes ` set bs)"
  shows "object_value (length (objects s)) s' = Inr c"
proof -
  obtain s1 where s1: "exec md5 a s = Inr s1" and s': "exec_all md5 bs s1 = Inr s'"
    using assms(3) by (auto simp: bindE_eq_Inr)
  obtain ob d where ob: "owned s1 (length (objects s)) ob d" "content_of ob d = c"
    using exec_copied [OF assms(2) s1] by blast
  have "contents_inv md5 s1" using exec_keeps [OF s1] contents_inv_run [OF assms(1)] by (simp add: keeps_def)
  then have "contents_inv md5 s'" "owned s' (length (objects s)) ob d"
    using exec_all_keeps [OF s'] ob(1) assms(4) unfolding keeps_def by blast+
  then show ?thesis using owned_value ob(2) by blast
qed

lemma shortHash_owned:
  assumes "contents_inv md5 s" and "owned s k ob d"
  shows "\<exists>s1. impl_shortHash md5 ob s = Inr (shortHash md5 d, s1)"
proof -
  obtain i im where im: "impl_of ob s = Inr (i, im)" "impl_ok md5 (heap_of s) im"
      "owned_data (heap_of s) im = Some d" "Impl_Size im = length d"
    by (rule owned_impl [OF assms])
  moreover from im have "ShortHash im = '''' \<or> ShortHash im = shortHash md5 d" by (simp add: impl_ok_def)
  ultimately show ?thesis
    using read_owned [OF im(2,3)] by (auto simp: impl_shortHash_def shortHash_def)
qed

lemma fullHash_owned:
  assumes "contents_inv md5 s" and "owned s k ob d"
  shows "\<exists>s1. impl_fullHash md5 ob s = Inr (fullHash md5 d, s1)"
proof -
  obtain i im where im: "impl_of ob s = Inr (i, im)" "impl_ok md5 (heap_of s) im"
      "owned_data (heap_of s) im = Some d" "Impl_Size im = length d"
    by (rule owned_impl [OF assms])
  moreover from im have "FullHash im = '''' \<or> FullHash im = fullHash md5 d" by (simp add: impl_ok_def)
  ultimately show ?thesis
    using read_owned [OF im(2,3)] by (auto simp: impl_fullHash_def fullHash_def)
qed

text \<open>One hash after another, all of objects that own their data.\<close>

lemma keeps_owned:
  "keeps md5 {} s s1 \<Longrightarrow> contents_inv md5 s \<Longrightarrow>
   contents_inv md5 s1 \<and> (owned s k ob d \<longrightarrow> owned s1 k ob d)"
  by (simp add: keeps_def)

lemma fullHashes_owned:
  assumes "contents_inv md5 s" and "owned s k a d" and "owned s l b e"
  shows "\<exists>s'. bindE (impl_fullHash md5 a s) (\<lambda>(x, s3). bindE (impl_fullHash md5 b s3) (\<lambda>(y, s4). Inr (g x y, s4))) =
    Inr (g (fullHash md5 d) (fullHash md5 e), s')"
proof -
  obtain s1 where s1: "impl_fullHash md5 a s = Inr (fullHash md5 d, s1)"
    using fullHash_owned [OF assms(1,2)] by blast
  note keep = keeps_owned [OF fullHash_keeps [OF s1] assms(1), of l b e]
  obtain s2 where "impl_fullHash md5 b s1 = Inr (fullHash md5 e, s2)"
    using fullHash_owned [of md5 s1 l b e] keep assms(3) by blast
  with s1 show ?thesis by simp
qed

lemma hashes_owned:
  assumes "contents_inv md5 s" and "owned s k a d" and "owned s l b e"
  shows "\<exists>s'. impl_equal md5 a b s = Inr (content_equal md5 d e, s')"
    and "\<exists>s'. impl_less md5 a b s = Inr (content_less md5 d e, s')"
proof -
  obtain s1 where s1: "impl_shortHash md5 a s = Inr (shortHash md5 d, s1)"
    using shortHash_owned [OF assms(1,2)] by blast
  note keep = keeps_owned [OF shortHash_keeps [OF s1] assms(1)]
  then obtain s2 where s2: "impl_shortHash md5 b s1 = Inr (shortHash md5 e, s2)"
    using shortHash_owned [of md5 s1 l b e] assms(3) by blast
  have "contents_inv md5 s2" "owned s2 k a d" "owned s2 l b e"
    using keeps_owned [OF shortHash_keeps [OF s2]] keep assms(2,3) by blast+
  note full = fullHashes_owned [OF this]
  show "\<exists>s'. impl_equal md5 a b s = Inr (content_equal md5 d e, s')"
    using full [of "(=)"] by (simp add: impl_equal_def s1 s2 content_equal_def)
  show "\<exists>s'. impl_less md5 a b s = Inr (content_less md5 d e, s')"
    using full [of "\<lambda>x y. if x \<noteq> y then string_less x y else False"]
    by (simp add: impl_less_def s1 s2 content_less_def)
qed

text \<open>
  C32: contents that own their data compare as values. Whatever hashes earlier comparisons left
  in the caches, and also when both share one implementation, \<open>operator==\<close> and \<open>operator<\<close>
  return what the comparison of the two values says, and change neither value.
\<close>

theorem content_comparison_refines:
  assumes "exec_all md5 as no_contents = Inr s" and "owned s k a d" and "owned s l b e"
  shows "\<exists>s1 s2. object_eq md5 a b s = Inr (JobContent_eq md5 (content_of a d) (content_of b e), s1) \<and>
    object_less md5 a b s = Inr (JobContent_less md5 (content_of a d) (content_of b e), s2) \<and>
    owned s1 k a d \<and> owned s1 l b e \<and> owned s2 k a d \<and> owned s2 l b e"
proof -
  note inv = contents_inv_run [OF assms(1)]
  note size = owned_data_read(2) [OF inv assms(2)] owned_data_read(2) [OF inv assms(3)]
  obtain s1 where eq: "impl_equal md5 a b s = Inr (content_equal md5 d e, s1)"
    using hashes_owned(1) [OF inv assms(2,3)] by blast
  note keep = keeps_owned [OF impl_equal_keeps [OF eq] inv]
  obtain s2 where less: "impl_less md5 a b s1 = Inr (content_less md5 d e, s2)"
    using hashes_owned(2) [of md5 s1 k a d l b e] keep assms(2,3) by blast
  have "\<exists>s'. object_eq md5 a b s = Inr (JobContent_eq md5 (content_of a d) (content_of b e), s')"
    by (auto simp: object_eq_def size eq JobContent_eq_def content_of_def)
  moreover have "\<exists>s'. object_less md5 a b s = Inr (JobContent_less md5 (content_of a d) (content_of b e), s')"
    by (simp add: object_less_def size eq less JobContent_less_def content_of_def)
  ultimately show ?thesis
    using keeps_owned [OF object_eq_keeps inv] keeps_owned [OF object_less_keeps inv] assms(2,3) by blast
qed

section \<open>Views\<close>

text \<open>
  A content made from a pointer and a size is no value: it shows what the caller's memory
  holds at the moment, and nothing is left of it once that memory is freed.
\<close>

lemma view_follows_caller:
  assumes "length d = n" and "length e = n" and "n > 0" and "s = content_view format (Some (Caller p)) n s0"
  shows "object_value (length (objects s0)) (put_bytes p (Some e) (put_bytes p (Some d) s)) =
      Inr (JobContent_memory format e)"
    and "object_value (length (objects s0)) (put_bytes p None s) = Inl UndefinedBehaviour"
  using assms by (simp_all add: object_value_def the_object_def content_view_def add_object_def make_shared_def
      put_bytes_def obj_data_def impl_of_def read_bytes_def content_impl_def InternalImpl_view_def
      content_of_def JobContent_memory_def)

section \<open>Examples\<close>

definition example_start :: "action list" where
  "example_start = [Write 0 ''abc'', Make_view User (Some (Caller 0)) 3]"

definition example_rest :: "action list" where
  "example_rest = [Copy 1, Compare_eq 1 0, Write 0 ''xyz'', Compare_less 2 1, Free 0, Destroy 0, Destroy 2]"

lemmas exec_simps = content_view_def content_text_def make_shared_def add_object_def copy_object_def
  destroy_object_def set_object_def release_def refers_def put_bytes_def the_object_def live_def
  object_eq_def object_less_def obj_dataSize_def impl_of_def impl_equal_def impl_less_def
  impl_shortHash_def impl_fullHash_def read_bytes_def content_impl_def no_contents_def built_simps

theorem copied_content_is_a_value_witness:
  "\<exists>s'. exec_all (\<lambda>_. ''h'') (example_start @ Make_text User ''abc'' # example_rest) no_contents = Inr s' \<and>
    object_value 1 s' = Inr (JobContent_memory User ''abc'')"
proof -
  obtain s where s: "exec_all (\<lambda>_. ''h'') example_start no_contents = Inr s" "length (objects s) = 1"
    by (simp add: example_start_def exec_simps)
  obtain s' where s': "exec_all (\<lambda>_. ''h'') (example_start @ Make_text User ''abc'' # example_rest) no_contents = Inr s'"
    by (simp add: example_start_def example_rest_def exec_simps)
  have app: "exec_all md5 (as @ bs) s0 = bindE (exec_all md5 as s0) (exec_all md5 bs)" for md5 as bs s0
    by (induction as arbitrary: s0) (auto simp: bindE_def split: sum.splits)
  have "exec_all (\<lambda>_. ''h'') (Make_text User ''abc'' # example_rest) s = Inr s'"
    using s' s(1) by (simp only: app bindE_simps)
  from copied_content_is_a_value [OF s(1) _ this] s' show ?thesis
    by (simp add: s(2) example_rest_def)
qed

theorem content_comparison_refines_witness:
  "\<exists>a b s s1. exec_all (\<lambda>_. ''h'') [Make_text User ''abc'', Copy 0] no_contents = Inr s \<and>
     the_object 0 s = Inr a \<and> the_object 1 s = Inr b \<and> object_eq (\<lambda>_. ''h'') a b s = Inr (True, s1)"
proof -
  define ob where "ob = \<lparr>obj_SourceType = Memory, obj_FormatType = User, obj_Tag = '''',
    obj_Implementation = Some (0::nat)\<rparr>"
  obtain s where s: "exec_all (\<lambda>_. ''h'') [Make_text User ''abc'', Copy 0] no_contents = Inr s"
      "owned s 0 ob ''abc''" "owned s 1 ob ''abc''" "the_object 0 s = Inr ob" "the_object 1 s = Inr ob"
    by (simp add: exec_simps owned_def owned_data_def ob_def)
  from content_comparison_refines [OF s(1-3)] s show ?thesis
    by (auto simp: JobContent_eq_def content_equal_def)
qed

end
