(* ===== verification/Remus_Parsed.thy ===== *)
theory Remus_Parsed
  imports Remus_Requirements
begin

text \<open>
  What the parsers of \<open>proto/JobRequirements.cxx\<close>, \<open>JobContent.cxx\<close> and \<open>JobSubmission.cxx\<close>
  can return for bytes nobody vouches for: a parser that returns at all returns a value of
  the kind the rest of the program relies on, in particular one that survives being sent on.
\<close>

lemma extractString_size:
  "extractString s n = Inr (m, s') \<Longrightarrow> length m \<le> n \<and> n \<le> max_object_size"
  by (auto simp: extractString_def extractVector_def sgetn_def bindE_eq_Inr Let_def split: if_splits)

lemma read_contents_size:
  "read_contents n s = Inr (m, s') \<Longrightarrow> length m \<le> n \<and> n \<le> max_object_size"
  by (auto simp: read_contents_def new_char_array_def extractArray_def sgetn_def bindE_eq_Inr Let_def
      split: if_splits)

lemma read_int_range: "- (2 ^ 31) \<le> fst (read_int s) \<and> fst (read_int s) < 2 ^ 31"
  by (auto simp: read_int_def istream_int_def istream_number_def conv_int32_def Let_def
      split: option.splits prod.splits if_splits)

text \<open>A size read as an \<open>int\<close>: negative ones are too large for an object.\<close>

lemma int_size:
  assumes "size_t_of_int (fst (read_int s)) \<le> max_object_size"
  shows "size_t_of_int (fst (read_int s)) < 2 ^ 31"
proof (cases "fst (read_int s) < 0")
  case True
  then have "(fst (read_int s) + 2 ^ 64) mod 2 ^ 64 = fst (read_int s) + 2 ^ 64"
    using read_int_range [of s] by (intro mod_pos_pos_trivial) auto
  then have "fst (read_int s) mod 2 ^ 64 = fst (read_int s) + 2 ^ 64" by simp
  then show ?thesis
    using assms read_int_range [of s] by (simp add: size_t_of_int_def max_object_size_def nat_le_iff)
next
  case False
  then show ?thesis using read_int_range [of s] by (simp add: size_t_of_int_def nat_less_iff)
qed

lemma MeshIOType_parsed: "MeshIOType_read s = Inr (t, s') \<Longrightarrow> MeshIOType_wf t"
  by (auto simp: MeshIOType_read_def MeshIOType_wf_def bindE_eq_Inr Let_def case_prod_unfold
      dest!: extractString_size)

lemma JobContent_parsed: "JobContent_read s = Inr (c, s') \<Longrightarrow> JobContent_wf c"
  by (auto simp: JobContent_read_def JobContent_wf_def bindE_eq_Inr Let_def case_prod_unfold
      dest!: extractString_size read_contents_size)

lemma entry_parsed: "entry_read s = Inr (e, s') \<Longrightarrow> entry_wf e"
  by (auto simp: entry_read_def entry_wf_def bindE_eq_Inr Let_def case_prod_unfold
      dest!: extractString_size dest: JobContent_parsed)

lemma int_sized:
  "extractString s' (size_t_of_int (fst (read_int s))) = Inr (m, s'') \<Longrightarrow> length m < 2 ^ 31"
  "read_contents (size_t_of_int (fst (read_int s))) s' = Inr (m, s'') \<Longrightarrow> length m < 2 ^ 31"
  using int_size [of s] by (fastforce dest!: extractString_size read_contents_size)+

lemma JobRequirements_parsed: "JobRequirements_read s = Inr (r, s') \<Longrightarrow> JobRequirements_wf r"
  by (auto simp: JobRequirements_read_def JobRequirements_wf_def bindE_eq_Inr Let_def case_prod_unfold
      simp del: power_numeral dest: MeshIOType_parsed int_sized)

lemma read_many_all:
  "read_many n get s = Inr (xs, s') \<Longrightarrow> (\<And>s x s'. get s = Inr (x, s') \<Longrightarrow> P x) \<Longrightarrow> x \<in> set xs \<Longrightarrow> P x"
proof (induction n arbitrary: s xs)
  case (Suc n)
  then show ?case by (auto simp: bindE_eq_Inr)
qed simp

lemma assign_all:
  "(\<forall>e\<in>set es. P e) \<Longrightarrow> (\<forall>e\<in>set m. P e) \<Longrightarrow>
   \<forall>e\<in>set (fold (\<lambda>(k, v). map_assign string_less k v) es m). P e"
  "sorted_wrt string_less (map fst m) \<Longrightarrow>
   sorted_wrt string_less (map fst (fold (\<lambda>(k, v). map_assign string_less k v) es m))"
proof -
  have same: "k = k'" if "\<not> string_less k k'" "\<not> string_less k' k" for k k'
    using that string_order.total_linear by blast
  have one: "\<forall>e\<in>set (map_assign string_less k v m). P e" if "P (k, v)" "\<forall>e\<in>set m. P e" for k v m
    using that by (induction m) (auto dest: same split: if_splits)
  show "\<forall>e\<in>set (fold (\<lambda>(k, v). map_assign string_less k v) es m). P e"
    if "\<forall>e\<in>set es. P e" "\<forall>e\<in>set m. P e"
    using that
  proof (induction es arbitrary: m)
    case (Cons e es)
    have "\<forall>x\<in>set (map_assign string_less (fst e) (snd e) m). P x"
      by (rule one) (use Cons.prems in simp_all)
    then show ?case using Cons.IH [of "map_assign string_less (fst e) (snd e) m"] Cons.prems(1)
      by (simp add: case_prod_unfold)
  qed simp
  show "sorted_wrt string_less (map fst (fold (\<lambda>(k, v). map_assign string_less k v) es m))"
    if "sorted_wrt string_less (map fst m)"
    using that by (induction es arbitrary: m) (auto simp: string_order.map_assign_sorted)
qed

text \<open>
  C33: whatever bytes arrive, a job submission that is parsed from them at all is well formed:
  every size fits, the contents are in order and without duplicates, and sent on it is read
  back unchanged. The bound on the number of contents is that of any object in memory.
\<close>

theorem parsed_submission_wf:
  assumes "to_JobSubmission data = Inr s" and "length (sub_content s) \<le> max_object_size"
  shows "JobSubmission_wf s \<and> to_JobSubmission (JobSubmission_serialize s) = Inr s"
proof -
  obtain s1 s2 s3 s4 n entries where
    r: "MeshIOType_read (istream_of (writeString data)) = Inr (sub_type s, s1)"
      "JobRequirements_read s1 = Inr (sub_requirements s, s2)"
      "read_many n entry_read s3 = Inr (entries, s4)"
      "sub_content s = fold (\<lambda>(k, v). map_assign string_less k v) entries []"
    using assms(1)
    by (auto simp: to_JobSubmission_def JobSubmission_read_def bindE_eq_Inr Let_def case_prod_unfold)
  have "\<forall>e\<in>set (sub_content s). entry_wf e"
    unfolding r(4) using read_many_all [OF r(3), of entry_wf] entry_parsed by (intro assign_all(1)) auto
  then have "JobSubmission_wf s"
    using assms(2) r(4) assign_all(2) [of "[]" entries] MeshIOType_parsed [OF r(1)] JobRequirements_parsed [OF r(2)]
    by (simp add: JobSubmission_wf_def)
  then show ?thesis using JobSubmission_wire by blast
qed

theorem parsed_submission_wf_witness:
  "\<exists>s. to_JobSubmission (JobSubmission_serialize example_submission @ ''tail'') = Inr s \<and> JobSubmission_wf s"
proof -
  have "to_JobSubmission (JobSubmission_serialize example_submission @ ''tail'') = Inr example_submission"
    using submission_codec.get_put0 [OF example_submission_wf, of "''tail'' @ [nl]"]
    by (simp add: to_JobSubmission_def writeString_def)
  moreover from parsed_submission_wf [OF this] have "JobSubmission_wf example_submission"
    by (simp add: example_submission_def JobSubmission_content_def max_object_size_def)
  ultimately show ?thesis by blast
qed

end
