(* ===== verification/Remus_Files.thy ===== *)
theory Remus_Files
  imports Remus_Prelude
begin

text \<open>
  \<open>remus/common/LocateFile.cxx\<close> and \<open>FileHandle.h\<close>: where files are searched, temporary names,
  touching and removing. The operations of \<open>boost::filesystem::path\<close> and what the operating
  system says of the executable and of the temporary directory are arguments; the regular
  files with their contents are the state. The model follows the build without \<open>_WIN32\<close>.
\<close>

record path_ops =
  po_append :: "string \<Rightarrow> string \<Rightarrow> string"
  po_absolute :: "string \<Rightarrow> string"
  po_canonical :: "string \<Rightarrow> string"
  po_replace_extension :: "string \<Rightarrow> string \<Rightarrow> string"
  po_remove_filename :: "string \<Rightarrow> string"
  po_unique_path :: "string \<Rightarrow> string"

record system_paths =
  sys_exec_location :: string
  sys_is_empty :: "string \<Rightarrow> bool result"
  sys_current_path :: string
  sys_temp_directory :: string

record disk =
  regular_files :: "string \<rightharpoonup> string"
  can_create :: "string \<Rightarrow> bool"
  can_remove :: "string \<Rightarrow> bool"
  other_entries :: "string list"

record FileHandle =
  Path :: string

definition FileHandle_mk :: "string \<Rightarrow> FileHandle" where
  "FileHandle_mk p = \<lparr>Path = p\<rparr>"

definition is_regular_file :: "disk \<Rightarrow> string \<Rightarrow> bool" where
  "is_regular_file d p = (regular_files d p \<noteq> None)"

definition path_exists :: "disk \<Rightarrow> string \<Rightarrow> bool" where
  "path_exists d p = (is_regular_file d p \<or> p \<in> set (other_entries d))"

section \<open>Searching\<close>

definition getExecutableLocation :: "path_ops \<Rightarrow> system_paths \<Rightarrow> string result" where
  "getExecutableLocation po sys =
     (let execLoc = sys_exec_location sys in
      bindE (sys_is_empty sys execLoc) (\<lambda>empty.
      Inr (if empty then po_canonical po (sys_current_path sys) else execLoc)))"

definition relativeLocationsToSearch :: "string list" where
  "relativeLocationsToSearch =
     [''bin/'', ''../'', ''../bin/'', ''../../bin/'', ''../../'', ''../../../bin/'', ''../../../'',
      ''../Plugins/'', ''../../Plugins/'', ''../../../Plugins/'']"

definition full_name :: "string \<Rightarrow> string \<Rightarrow> string" where
  "full_name name ext =
     (if length ext > 0 then name @ (if hd ext \<noteq> CHR ''.'' then ''.'' else '''') @ ext else name)"

fun search_relative :: "path_ops \<Rightarrow> disk \<Rightarrow> string \<Rightarrow> string \<Rightarrow> string list \<Rightarrow> FileHandle option" where
  "search_relative po d fullname i [] = None"
| "search_relative po d fullname i (j # js) =
     (let nextPossibleFile = po_absolute po (po_append po (po_append po i j) fullname) in
      if is_regular_file d nextPossibleFile then Some (FileHandle_mk nextPossibleFile)
      else search_relative po d fullname i js)"

fun search_absolute ::
  "path_ops \<Rightarrow> disk \<Rightarrow> string \<Rightarrow> string list \<Rightarrow> string list \<Rightarrow> FileHandle option" where
  "search_absolute po d fullname relativeLocations [] = None"
| "search_absolute po d fullname relativeLocations (i # is) =
     (let possibleFile = po_append po i fullname in
      if is_regular_file d possibleFile then Some (FileHandle_mk possibleFile)
      else case search_relative po d fullname i relativeLocations of
             Some h \<Rightarrow> Some h
           | None \<Rightarrow> search_absolute po d fullname relativeLocations is)"

definition findFile_in ::
  "path_ops \<Rightarrow> disk \<Rightarrow> string \<Rightarrow> string \<Rightarrow> string list \<Rightarrow> string list \<Rightarrow> FileHandle" where
  "findFile_in po d name ext relativeLocations absoluteLocations =
     (if length name = 0 then FileHandle_mk ''''
      else case search_absolute po d (full_name name ext) relativeLocations absoluteLocations of
             Some h \<Rightarrow> h | None \<Rightarrow> FileHandle_mk '''')"

definition findFile :: "path_ops \<Rightarrow> system_paths \<Rightarrow> disk \<Rightarrow> string \<Rightarrow> string \<Rightarrow> FileHandle result" where
  "findFile po sys d name ext =
     bindE (getExecutableLocation po sys) (\<lambda>location.
     Inr (findFile_in po d name ext relativeLocationsToSearch [location]))"

section \<open>Files\<close>

definition is_file :: "disk \<Rightarrow> FileHandle \<Rightarrow> bool" where
  "is_file d fh = is_regular_file d (Path fh)"

text \<open>Opening for output creates the file or truncates it.\<close>

definition touch_file :: "FileHandle \<Rightarrow> disk \<Rightarrow> bool \<times> disk" where
  "touch_file fh d =
     (if can_create d (Path fh)
      then (True, d\<lparr>regular_files := (regular_files d)(Path fh \<mapsto> '''')\<rparr>)
      else (False, d))"

text \<open>\<open>boost::filesystem::remove\<close> throws when the system refuses.\<close>

definition remove_file :: "FileHandle \<Rightarrow> disk \<Rightarrow> (bool \<times> disk) result" where
  "remove_file fh d =
     (if is_file d fh
      then if can_remove d (Path fh)
           then Inr (True, d\<lparr>regular_files := (regular_files d)(Path fh := None)\<rparr>)
           else Inl RuntimeError
      else Inr (False, d))"

definition getTempLocation :: "path_ops \<Rightarrow> system_paths \<Rightarrow> string" where
  "getTempLocation po sys = po_absolute po (sys_temp_directory sys)"

definition makeTempFileHandle ::
  "path_ops \<Rightarrow> system_paths \<Rightarrow> disk \<Rightarrow> string \<Rightarrow> string \<Rightarrow> FileHandle" where
  "makeTempFileHandle po sys d name ext =
     (let dirPath = po_absolute po (sys_temp_directory sys);
          tempPath = po_replace_extension po (po_append po dirPath name) ext;
          tempPath = (if path_exists d tempPath
            then po_unique_path po (po_replace_extension po
                   (po_append po (po_remove_filename po tempPath) name @ ''-%%%%-%%%%-%%%%-%%%%%'') ext)
            else tempPath) in
      FileHandle_mk tempPath)"

section \<open>What is found\<close>

text \<open>All places, in the order in which they are looked at.\<close>

definition places :: "path_ops \<Rightarrow> string \<Rightarrow> string list \<Rightarrow> string list \<Rightarrow> string list" where
  "places po fullname rels abss =
     concat (map (\<lambda>i. po_append po i fullname #
                      map (\<lambda>j. po_absolute po (po_append po (po_append po i j) fullname)) rels) abss)"

lemma search_relative_find:
  "search_relative po d fullname i rels =
     map_option FileHandle_mk (find (is_regular_file d)
       (map (\<lambda>j. po_absolute po (po_append po (po_append po i j) fullname)) rels))"
  by (induction rels) (auto simp: Let_def)

lemma search_absolute_find:
  "search_absolute po d fullname rels abss =
     map_option FileHandle_mk (find (is_regular_file d) (places po fullname rels abss))"
  by (induction abss) (auto simp: Let_def places_def find_append search_relative_find split: option.splits)

text \<open>
  \<open>findFile\<close> returns the first regular file among all places, in the order of the absolute
  locations and for each of them the location itself before the relative ones; without a name,
  or when there is none, the handle is empty. So a handle that is not empty names a file.
\<close>

theorem findFile_first:
  "findFile_in po d name ext rels abss =
     (if name = '''' then FileHandle_mk ''''
      else case find (is_regular_file d) (places po (full_name name ext) rels abss) of
             Some p \<Rightarrow> FileHandle_mk p | None \<Rightarrow> FileHandle_mk '''') \<and>
   (Path (findFile_in po d name ext rels abss) = '''' \<or> is_file d (findFile_in po d name ext rels abss))"
proof (cases "find (is_regular_file d) (places po (full_name name ext) rels abss)")
  case None
  then show ?thesis by (simp add: findFile_in_def search_absolute_find FileHandle_mk_def)
next
  case (Some p)
  then have "is_regular_file d p" by (auto simp: find_Some_iff)
  with Some show ?thesis by (simp add: findFile_in_def search_absolute_find FileHandle_mk_def is_file_def)
qed

text \<open>The examples of the header.\<close>

lemma full_name_examples:
  "full_name ''foo'' ''txt'' = ''foo.txt''" "full_name ''foo'' ''.txt'' = ''foo.txt''"
  "full_name ''foo.'' ''.txt'' = ''foo..txt''" "full_name ''foo'' '''' = ''foo''"
  by (simp_all add: full_name_def)

text \<open>
  Removing says whether there was a file, leaves none, and changes no other; a file that was
  touched can be found and removed again.
\<close>

lemma remove_file_spec:
  "remove_file fh d = Inr (r, d') \<Longrightarrow> r = is_file d fh \<and> \<not> is_file d' fh \<and>
   (Path fh' \<noteq> Path fh \<longrightarrow> is_file d' fh' = is_file d fh')"
  by (auto simp: remove_file_def is_file_def is_regular_file_def split: if_splits)

lemma touch_then_remove:
  "fst (touch_file fh d) \<Longrightarrow> can_remove d (Path fh) \<Longrightarrow>
   is_file (snd (touch_file fh d)) fh \<and> (\<exists>d'. remove_file fh (snd (touch_file fh d)) = Inr (True, d'))"
  by (auto simp: touch_file_def remove_file_def is_file_def is_regular_file_def split: if_splits)

text \<open>Touching a file that exists empties it.\<close>

lemma touch_truncates:
  "can_create d (Path fh) \<Longrightarrow> regular_files (snd (touch_file fh d)) (Path fh) = Some ''''"
  by (simp add: touch_file_def)

text \<open>
  A temporary file name never names something that exists, as long as \<open>unique_path\<close> comes up
  with a name nobody uses.
\<close>

lemma makeTempFileHandle_new:
  assumes "\<And>p. \<not> path_exists d (po_unique_path po p)"
  shows "\<not> path_exists d (Path (makeTempFileHandle po sys d name ext))"
  using assms by (simp add: makeTempFileHandle_def FileHandle_mk_def Let_def)

end
