(* ===== verification/Remus_Registry.thy ===== *)
theory Remus_Registry
  imports Remus_Prelude
begin

text \<open>
  The registry of mesh types, \<open>remus/common/MeshRegistrar.h\<close>, \<open>MeshRegistrar.cxx\<close> and
  \<open>MeshTypes.h\<close>. A type is known by its name; a plugin may register types of its own. The
  order of the \<open>unordered_map\<close> is not visible: it is kept sorted by name.
\<close>

datatype MeshType =
    MeshTypeBase
  | Mesh1D | Mesh2D | Mesh3D | Mesh3DSurface | SceneFile | Model | DiscreteModel
  | DiscreteModel1D | DiscreteModel2D | DiscreteModel3D | Edges | PiecewiseLinearComplex
  | Plugin string

primrec mesh_name :: "MeshType \<Rightarrow> string" where
  "mesh_name MeshTypeBase = ''''"
| "mesh_name Mesh1D = ''Mesh1D''"
| "mesh_name Mesh2D = ''Mesh2D''"
| "mesh_name Mesh3D = ''Mesh3D''"
| "mesh_name Mesh3DSurface = ''Mesh3DSurface''"
| "mesh_name SceneFile = ''SceneFile''"
| "mesh_name Model = ''Model''"
| "mesh_name DiscreteModel = ''DiscreteModel''"
| "mesh_name DiscreteModel1D = ''DiscreteModel1D''"
| "mesh_name DiscreteModel2D = ''DiscreteModel2D''"
| "mesh_name DiscreteModel3D = ''DiscreteModel3D''"
| "mesh_name Edges = ''Edges''"
| "mesh_name PiecewiseLinearComplex = ''PiecewiseLinearComplex''"
| "mesh_name (Plugin n) = n"

record registry =
  defaults_added :: bool
  NameImplementation :: "(string \<times> MeshType) list"

definition registry_mk :: registry where
  "registry_mk = \<lparr>defaults_added = False, NameImplementation = []\<rparr>"

definition default_types :: "MeshType list" where
  "default_types = [Mesh1D, Mesh2D, Mesh3D, Mesh3DSurface, SceneFile, Model, DiscreteModel,
     DiscreteModel1D, DiscreteModel2D, DiscreteModel3D, Edges, PiecewiseLinearComplex]"

text \<open>
  \<open>NameRegistry\<close> adds the default types when it is first called, and registering a type calls
  \<open>NameRegistry\<close>: the flag is set before the types are added, and the calls from inside find it
  set (\<open>MeshRegistrar_inside\<close> below).
\<close>

definition record_type :: "string \<Rightarrow> MeshType \<Rightarrow> registry \<Rightarrow> registry" where
  "record_type name fp r = r\<lparr>NameImplementation := map_assign string_less name fp (NameImplementation r)\<rparr>"

definition add_default_types :: "registry \<Rightarrow> registry" where
  "add_default_types r =
     (if \<not> defaults_added r
      then fold (\<lambda>t. record_type (mesh_name t) t) default_types (r\<lparr>defaults_added := True\<rparr>)
      else r)"

definition NameRegistry :: "registry \<Rightarrow> registry" where
  "NameRegistry r = add_default_types r"

definition MeshRegistrar :: "MeshType \<Rightarrow> registry \<Rightarrow> registry" where
  "MeshRegistrar d r = record_type (mesh_name d) d (NameRegistry r)"

definition numberOfRegisteredTypes :: "registry \<Rightarrow> nat \<times> registry" where
  "numberOfRegisteredTypes r = (let r1 = NameRegistry r in (length (NameImplementation r1), r1))"

definition allRegisteredTypes :: "registry \<Rightarrow> MeshType list \<times> registry" where
  "allRegisteredTypes r = (let r1 = NameRegistry r in (map snd (NameImplementation r1), r1))"

definition instantiate :: "string \<Rightarrow> registry \<Rightarrow> MeshType \<times> registry" where
  "instantiate name r =
     (let r1 = NameRegistry r in
      (case map_find string_less name (NameImplementation r1) of None \<Rightarrow> MeshTypeBase | Some t \<Rightarrow> t, r1))"

definition to_meshType :: "string \<Rightarrow> registry \<Rightarrow> MeshType \<times> registry" where
  "to_meshType str r = instantiate str r"

section \<open>The registry as a map\<close>

lemma MeshRegistrar_inside: "defaults_added r \<Longrightarrow> MeshRegistrar d r = record_type (mesh_name d) d r"
  by (simp add: MeshRegistrar_def NameRegistry_def add_default_types_def)

abbreviation record_all :: "MeshType list \<Rightarrow> registry \<Rightarrow> registry" where
  "record_all ts r \<equiv> fold (\<lambda>t. record_type (mesh_name t) t) ts r"

lemma NameImplementation_record [simp]:
  "NameImplementation (record_type n t r) = map_assign string_less n t (NameImplementation r)"
  by (simp add: record_type_def)

lemma record_all_flag [simp]: "defaults_added (record_all ts r) = defaults_added r"
  by (induction ts arbitrary: r) (simp_all add: record_type_def)

lemma record_all_map:
  assumes "sorted_wrt string_less (map fst (NameImplementation r))"
  shows "sorted_wrt string_less (map fst (NameImplementation (record_all ts r)))"
    and "map_of (NameImplementation (record_all ts r)) n =
      (case find (\<lambda>t. mesh_name t = n) (rev ts) of Some t \<Rightarrow> Some t | None \<Rightarrow> map_of (NameImplementation r) n)"
    and "fst ` set (NameImplementation (record_all ts r)) = mesh_name ` set ts \<union> fst ` set (NameImplementation r)"
proof -
  have sorted: "sorted_wrt string_less (map fst (NameImplementation (record_all ts r)))" for ts
    by (induction ts rule: rev_induct) (simp_all add: string_order.map_assign_sorted assms)
  show "sorted_wrt string_less (map fst (NameImplementation (record_all ts r)))" by (rule sorted)
  show "map_of (NameImplementation (record_all ts r)) n =
      (case find (\<lambda>t. mesh_name t = n) (rev ts) of Some t \<Rightarrow> Some t | None \<Rightarrow> map_of (NameImplementation r) n)"
    by (induction ts rule: rev_induct) (auto simp: string_order.map_of_map_assign [OF sorted])
  show "fst ` set (NameImplementation (record_all ts r)) = mesh_name ` set ts \<union> fst ` set (NameImplementation r)"
    by (induction ts rule: rev_induct) (auto simp: string_order.keys_map_assign)
qed

lemma sorted_length:
  "sorted_wrt string_less (map fst m) \<Longrightarrow> length m = card (fst ` set m)"
proof (induction m)
  case (Cons x m)
  then have "fst x \<notin> fst ` set m" by (auto simp: string_order.total_irrefl)
  with Cons show ?case by simp
qed simp

text \<open>Whatever was registered before, the registry is that of the default types and then the others.\<close>

lemma NameRegistry_run:
  "NameRegistry (fold MeshRegistrar ts registry_mk) =
     record_all (default_types @ ts) (registry_mk\<lparr>defaults_added := True\<rparr>)"
proof (induction ts rule: rev_induct)
  case Nil
  then show ?case by (simp add: NameRegistry_def add_default_types_def registry_mk_def)
next
  case (snoc t ts)
  have "NameRegistry (MeshRegistrar t r) = record_type (mesh_name t) t (NameRegistry r)" for r
    by (simp add: MeshRegistrar_def NameRegistry_def add_default_types_def record_type_def)
  then show ?case using snoc by simp
qed

text \<open>
  After any registrations the registry knows exactly the twelve default types and the types
  registered: a name gives the type registered last under it, an unknown name the base type
  without a name, and the number of types is the number of different names.
\<close>

theorem registry_lookup:
  "fst (instantiate name (fold MeshRegistrar ts registry_mk)) =
     (case find (\<lambda>t. mesh_name t = name) (rev (default_types @ ts)) of Some t \<Rightarrow> t | None \<Rightarrow> MeshTypeBase) \<and>
   fst (numberOfRegisteredTypes (fold MeshRegistrar ts registry_mk)) =
     card (mesh_name ` set (default_types @ ts))"
proof -
  have start: "sorted_wrt string_less (map fst (NameImplementation (registry_mk\<lparr>defaults_added := True\<rparr>)))"
    by (simp add: registry_mk_def)
  note all = record_all_map [OF start, of "default_types @ ts"]
  have "map_find string_less name (NameImplementation (NameRegistry (fold MeshRegistrar ts registry_mk))) =
      find (\<lambda>t. mesh_name t = name) (rev (default_types @ ts))"
    unfolding NameRegistry_run string_order.map_find_map_of all(2) by (simp add: registry_mk_def split: option.split)
  moreover have "length (NameImplementation (NameRegistry (fold MeshRegistrar ts registry_mk))) =
      card (mesh_name ` set (default_types @ ts))"
    unfolding NameRegistry_run sorted_length [OF all(1)] all(3) by (simp add: registry_mk_def)
  ultimately show ?thesis by (simp add: instantiate_def numberOfRegisteredTypes_def)
qed

end
