(* ===== verification/Remus_Thread.thy ===== *)
theory Remus_Thread
  imports Remus_Service
begin

text \<open>
  \<open>ThreadManagement\<close> of \<open>remus/server/Server.cxx\<close>, how a program starts, stops and waits for
  the broker, and \<open>remus/common/SignalCatcher.cxx\<close>. What a thread does under one hold of the
  mutex is one step; the threads of the program that call the server (\<open>callers\<close>) and every
  broker thread that was ever launched (\<open>brokers\<close>) interleave. \<open>BrokerThread\<close> is the handle of
  the thread launched last, by its position in \<open>brokers\<close>; a joined handle is empty, and
  joining an empty handle returns at once. An exception that leaves \<open>Brokering\<close>, such as a bind
  that fails, ends the whole process (\<open>aborted\<close>): nothing in the broker thread catches it.
\<close>

datatype broker = Binding | Looping | Closing | Finished

datatype caller = Idle | Starting | Woken | Returned bool | Joining "nat option" | AwaitFinish

record threads =
  BrokerIsRunning :: bool
  brokers :: "broker list"
  BrokerThread :: "nat option"
  callers :: "caller list"
  aborted :: bool

definition ThreadManagement_mk :: "nat \<Rightarrow> threads" where
  "ThreadManagement_mk n = \<lparr>BrokerIsRunning = False, brokers = [], BrokerThread = None,
     callers = replicate n Idle, aborted = False\<rparr>"

definition isBrokering :: "threads \<Rightarrow> bool" where
  "isBrokering s = BrokerIsRunning s"

definition setIsBrokering :: "bool \<Rightarrow> threads \<Rightarrow> threads" where
  "setIsBrokering t s = s\<lparr>BrokerIsRunning := t\<rparr>"

definition set_caller :: "nat \<Rightarrow> caller \<Rightarrow> threads \<Rightarrow> threads" where
  "set_caller i c s = s\<lparr>callers := (callers s)[i := c]\<rparr>"

definition set_broker :: "nat \<Rightarrow> broker \<Rightarrow> threads \<Rightarrow> threads" where
  "set_broker k b s = s\<lparr>brokers := (brokers s)[k := b]\<rparr>"

text \<open>The critical section of \<open>start\<close>.\<close>

definition start_launch :: "threads \<Rightarrow> threads" where
  "start_launch s =
     (if \<not> BrokerIsRunning s
      then s\<lparr>brokers := brokers s @ [Binding], BrokerThread := Some (length (brokers s))\<rparr> else s)"

fun is_free :: "caller \<Rightarrow> bool" where
  "is_free Idle = True"
| "is_free (Returned _) = True"
| "is_free _ = False"

definition can_join :: "nat option \<Rightarrow> threads \<Rightarrow> bool" where
  "can_join h s = (case h of None \<Rightarrow> True | Some k \<Rightarrow> k < length (brokers s) \<and> brokers s ! k = Finished)"

definition join_handle :: "nat option \<Rightarrow> threads \<Rightarrow> threads" where
  "join_handle h s = (if BrokerThread s = h then s\<lparr>BrokerThread := None\<rparr> else s)"

text \<open>
  A thread of the program is free to call \<open>start\<close>, \<open>stop\<close> or \<open>waitForThreadToFinish\<close>
  (\<open>caller_call\<close>); inside the call it goes on with \<open>caller_step\<close>. A wait on the condition
  variable may end without the flag being set, and then waits again.
\<close>

inductive caller_call :: "nat \<Rightarrow> threads \<Rightarrow> threads \<Rightarrow> bool" for i where
  start_enter: "i < length (callers s) \<Longrightarrow> is_free (callers s ! i) \<Longrightarrow>
    caller_call i s (set_caller i Starting (start_launch s))"
| stop_enter: "i < length (callers s) \<Longrightarrow> is_free (callers s ! i) \<Longrightarrow>
    caller_call i s (set_caller i (Joining (BrokerThread s)) (setIsBrokering False s))"
| finish_enter: "i < length (callers s) \<Longrightarrow> is_free (callers s ! i) \<Longrightarrow>
    caller_call i s (set_caller i AwaitFinish s)"

inductive caller_step :: "nat \<Rightarrow> threads \<Rightarrow> threads \<Rightarrow> bool" for i where
  wait_again: "i < length (callers s) \<Longrightarrow> callers s ! i \<in> {Starting, AwaitFinish} \<Longrightarrow> \<not> BrokerIsRunning s \<Longrightarrow>
    caller_step i s s"
| start_wake: "i < length (callers s) \<Longrightarrow> callers s ! i = Starting \<Longrightarrow> BrokerIsRunning s \<Longrightarrow>
    caller_step i s (set_caller i Woken s)"
| start_return: "i < length (callers s) \<Longrightarrow> callers s ! i = Woken \<Longrightarrow>
    caller_step i s (set_caller i (Returned (isBrokering s)) s)"
| joined: "i < length (callers s) \<Longrightarrow> callers s ! i = Joining h \<Longrightarrow> can_join h s \<Longrightarrow>
    caller_step i s (set_caller i Idle (join_handle h s))"
| finish_started: "i < length (callers s) \<Longrightarrow> callers s ! i = AwaitFinish \<Longrightarrow> BrokerIsRunning s \<Longrightarrow>
    caller_step i s (set_caller i (Joining (BrokerThread s)) s)"

text \<open>
  A broker binds its sockets and announces itself, does one round of the loop for every check of
  the flag that finds it set, and leaves and closes down once it finds it cleared. At any point
  it may throw.
\<close>

inductive broker_move :: "nat \<Rightarrow> threads \<Rightarrow> threads \<Rightarrow> bool" for k where
  broker_announce: "k < length (brokers s) \<Longrightarrow> brokers s ! k = Binding \<Longrightarrow>
    broker_move k s (set_broker k Looping (setIsBrokering True s))"
| broker_round: "k < length (brokers s) \<Longrightarrow> brokers s ! k = Looping \<Longrightarrow> isBrokering s \<Longrightarrow>
    broker_move k s s"
| broker_leave: "k < length (brokers s) \<Longrightarrow> brokers s ! k = Looping \<Longrightarrow> \<not> isBrokering s \<Longrightarrow>
    broker_move k s (set_broker k Closing s)"
| broker_close: "k < length (brokers s) \<Longrightarrow> brokers s ! k = Closing \<Longrightarrow>
    broker_move k s (set_broker k Finished s)"

inductive broker_throws :: "nat \<Rightarrow> threads \<Rightarrow> threads \<Rightarrow> bool" for k where
  throws: "k < length (brokers s) \<Longrightarrow> brokers s ! k \<noteq> Finished \<Longrightarrow>
    broker_throws k s (s\<lparr>aborted := True\<rparr>)"

definition thread_step :: "threads \<Rightarrow> threads \<Rightarrow> bool" where
  "thread_step s s' \<longleftrightarrow> \<not> aborted s \<and>
     ((\<exists>i. caller_call i s s' \<or> caller_step i s s') \<or> (\<exists>k. broker_move k s s' \<or> broker_throws k s s'))"

lemma thread_step_cases [consumes 1]:
  assumes "thread_step s s'"
  obtains
    (start_enter) i where "s' = set_caller i Starting (start_launch s)" "i < length (callers s)"
      "is_free (callers s ! i)"
  | (stop_enter) i where "s' = set_caller i (Joining (BrokerThread s)) (setIsBrokering False s)"
      "i < length (callers s)" "is_free (callers s ! i)"
  | (finish_enter) i where "s' = set_caller i AwaitFinish s" "i < length (callers s)"
      "is_free (callers s ! i)"
  | (unchanged) "s' = s"
  | (start_wake) i where "s' = set_caller i Woken s" "i < length (callers s)"
      "callers s ! i = Starting" "BrokerIsRunning s"
  | (start_return) i where "s' = set_caller i (Returned (isBrokering s)) s" "i < length (callers s)"
      "callers s ! i = Woken"
  | (joined) i h where "s' = set_caller i Idle (join_handle h s)" "i < length (callers s)"
      "callers s ! i = Joining h" "can_join h s"
  | (finish_started) i where "s' = set_caller i (Joining (BrokerThread s)) s" "i < length (callers s)"
      "callers s ! i = AwaitFinish" "BrokerIsRunning s"
  | (broker_announce) k where "s' = set_broker k Looping (setIsBrokering True s)"
      "k < length (brokers s)" "brokers s ! k = Binding"
  | (broker_leave) k where "s' = set_broker k Closing s" "k < length (brokers s)"
      "brokers s ! k = Looping" "\<not> isBrokering s"
  | (broker_close) k where "s' = set_broker k Finished s" "k < length (brokers s)"
      "brokers s ! k = Closing"
  | (throws) "s' = s\<lparr>aborted := True\<rparr>"
proof -
  from assms consider i where "caller_call i s s'" | i where "caller_step i s s'"
    | k where "broker_move k s s'" | k where "broker_throws k s s'"
    unfolding thread_step_def by blast
  then show thesis
  proof cases
    case 1
    then show thesis by (cases rule: caller_call.cases) (fact that)+
  next
    case 2
    then show thesis by (cases rule: caller_step.cases) (fact that | erule that(4))+
  next
    case 3
    then show thesis by (cases rule: broker_move.cases) (fact that | erule that(4))+
  next
    case 4
    then show thesis by (cases rule: broker_throws.cases) (rule that(12))
  qed
qed

lemma thread_stepI:
  "\<not> aborted s \<Longrightarrow> caller_call i s s' \<Longrightarrow> thread_step s s'"
  "\<not> aborted s \<Longrightarrow> caller_step i s s' \<Longrightarrow> thread_step s s'"
  "\<not> aborted s \<Longrightarrow> broker_move k s s' \<Longrightarrow> thread_step s s'"
  by (auto simp: thread_step_def)

inductive thread_reach :: "nat \<Rightarrow> threads \<Rightarrow> bool" for n where
  reach_init: "thread_reach n (ThreadManagement_mk n)"
| reach_step: "thread_reach n s \<Longrightarrow> thread_step s s' \<Longrightarrow> thread_reach n s'"

section \<open>One thread that starts and stops the server\<close>

text \<open>
  All brokers but the last launched are finished; what the last one does and the flag fit the
  call the one caller is in.
\<close>

fun phase :: "caller \<Rightarrow> nat \<Rightarrow> broker list \<Rightarrow> bool \<Rightarrow> bool" where
  "phase (Joining h) n live running \<longleftrightarrow>
     (case h of None \<Rightarrow> True | Some k \<Rightarrow> k < n + length live) \<and>
     (live = [] \<and> \<not> running \<or> h = Some n \<and> (live = [Looping] \<or> live = [Closing] \<and> \<not> running))"
| "phase Starting n live running \<longleftrightarrow> live = [Binding] \<and> \<not> running \<or> live = [Looping] \<and> running"
| "phase Woken n live running \<longleftrightarrow> live = [Looping] \<and> running"
| "phase (Returned b) n live running \<longleftrightarrow> b \<and> (live = [] \<and> \<not> running \<or> live = [Looping] \<and> running)"
| "phase c n live running \<longleftrightarrow> live = [] \<and> \<not> running \<or> live = [Looping] \<and> running"

definition seq_inv :: "threads \<Rightarrow> bool" where
  "seq_inv s \<longleftrightarrow> (\<exists>c n live. callers s = [c] \<and> brokers s = replicate n Finished @ live \<and>
     (live \<noteq> [] \<longrightarrow> BrokerThread s = Some n) \<and>
     (case BrokerThread s of None \<Rightarrow> True | Some k \<Rightarrow> k < length (brokers s)) \<and>
     phase c n live (BrokerIsRunning s))"

lemma seq_invI:
  assumes "callers s = [c]" and "brokers s = replicate n Finished @ live"
    and "live \<noteq> [] \<Longrightarrow> BrokerThread s = Some n"
    and "case BrokerThread s of None \<Rightarrow> True | Some k \<Rightarrow> k < length (brokers s)"
    and "phase c n live (BrokerIsRunning s)"
  shows "seq_inv s"
  using assms unfolding seq_inv_def by blast

lemma seq_inv_mk: "seq_inv (ThreadManagement_mk 1)"
  by (rule seq_invI [of _ Idle 0 "[]"]) (simp_all add: ThreadManagement_mk_def)

lemma last_live:
  "k < length (replicate n Finished @ live) \<Longrightarrow> (replicate n Finished @ live) ! k = b \<Longrightarrow> b \<noteq> Finished \<Longrightarrow>
   length live \<le> 1 \<Longrightarrow> k = n \<and> live = [b]"
  by (cases live) (auto simp: nth_append split: if_splits)

lemma phase_live: "phase c n live r \<Longrightarrow> length live \<le> 1"
  by (cases c) auto

lemma finished_snoc: "replicate n Finished @ [Finished] = replicate (Suc n) Finished"
  by (simp add: replicate_append_same)

lemma seq_inv_step:
  assumes "seq_inv s" and "thread_step s s'"
  shows "seq_inv s'"
proof -
  obtain c n live where s: "callers s = [c]" "brokers s = replicate n Finished @ live"
      "live \<noteq> [] \<Longrightarrow> BrokerThread s = Some n"
      "case BrokerThread s of None \<Rightarrow> True | Some k \<Rightarrow> k < length (brokers s)"
      "phase c n live (BrokerIsRunning s)"
    using assms(1) unfolding seq_inv_def by blast
  note live = phase_live [OF s(5)]
  note set = set_caller_def set_broker_def setIsBrokering_def
  from assms(2) show ?thesis
  proof (cases rule: thread_step_cases)
    case (start_enter i)
    then have free: "is_free c" using s(1) by simp
    show ?thesis
    proof (cases "BrokerIsRunning s")
      case True
      then have "phase Starting n live (BrokerIsRunning s)" using free s(5) by (cases c) auto
      with True s start_enter show ?thesis
        by (intro seq_invI [of _ Starting n live]) (simp_all add: set start_launch_def split: option.splits)
    next
      case False
      with free s(5) have "live = []" by (cases c) auto
      with False s start_enter show ?thesis
        by (intro seq_invI [of _ Starting n "[Binding]"]) (auto simp: set start_launch_def)
    qed
  next
    case (start_wake i)
    with s show ?thesis by (intro seq_invI [of _ Woken n live]) (auto simp: set)
  next
    case (start_return i)
    with s show ?thesis by (intro seq_invI [of _ "Returned True" n live]) (auto simp: set isBrokering_def)
  next
    case (stop_enter i)
    then have "is_free c" using s(1) by simp
    with s(5) have "live = [] \<or> live = [Looping]" by (cases c) auto
    with s stop_enter show ?thesis
      by (intro seq_invI [of _ "Joining (BrokerThread s)" n live]) (auto simp: set split: option.splits)
  next
    case (joined i h)
    then have c: "c = Joining h" using s(1) by simp
    have "live = [] \<and> \<not> BrokerIsRunning s"
      using s(5) joined(4) by (auto simp: c can_join_def s(2) nth_append)
    with s joined show ?thesis
      by (cases "BrokerThread s = h"; intro seq_invI [of _ Idle n "[]"])
         (simp_all add: set join_handle_def split: option.splits)
  next
    case (finish_enter i)
    then have "is_free c" using s(1) by simp
    then have "phase AwaitFinish n live (BrokerIsRunning s)" using s(5) by (cases c) auto
    with s finish_enter show ?thesis
      by (intro seq_invI [of _ AwaitFinish n live]) (simp_all add: set split: option.splits)
  next
    case (finish_started i)
    with s show ?thesis
      by (intro seq_invI [of _ "Joining (BrokerThread s)" n live]) (auto simp: set split: option.splits)
  next
    case (broker_announce k)
    then have "k = n \<and> live = [Binding]" using last_live [of k n live Binding] live s(2) by auto
    moreover from this have "phase c n [Looping] True" using s(5) by (cases c) auto
    ultimately show ?thesis using s broker_announce
      by (intro seq_invI [of _ c n "[Looping]"]) (simp_all add: set list_update_append split: option.splits)
  next
    case (broker_leave k)
    then have "k = n \<and> live = [Looping]" using last_live [of k n live Looping] live s(2) by auto
    moreover from this have "phase c n [Closing] (BrokerIsRunning s)"
      using s(5) broker_leave(4) by (cases c) (auto simp: isBrokering_def)
    ultimately show ?thesis using s broker_leave
      by (intro seq_invI [of _ c n "[Closing]"]) (simp_all add: set list_update_append split: option.splits)
  next
    case (broker_close k)
    then have "k = n \<and> live = [Closing]" using last_live [of k n live Closing] live s(2) by auto
    moreover from this have "phase c (Suc n) [] (BrokerIsRunning s)"
      using s(5) by (cases c) (auto split: option.splits)
    ultimately show ?thesis using s broker_close
      by (intro seq_invI [of _ c "Suc n" "[]"]) (simp_all add: set list_update_append finished_snoc split: option.splits)
  next
    case unchanged
    then show ?thesis using assms(1) by simp
  next
    case throws
    with s show ?thesis by (intro seq_invI [of _ c n live]) (simp_all split: option.splits)
  qed
qed

lemma seq_inv_reach: "thread_reach 1 s \<Longrightarrow> seq_inv s"
  by (induction rule: thread_reach.induct) (auto simp: seq_inv_mk [simplified] seq_inv_step)

text \<open>
  C26: a program that starts, stops and restarts its server from one thread never has two
  brokers at work, whatever it calls and however the threads interleave; a start that returns
  reports that the server brokers.
\<close>

theorem one_broker:
  assumes "thread_reach 1 s"
  shows "length (filter (\<lambda>b. b \<noteq> Finished) (brokers s)) \<le> 1 \<and> callers s \<noteq> [Returned False]"
proof -
  obtain c n live where "callers s = [c]" "brokers s = replicate n Finished @ live"
      "phase c n live (BrokerIsRunning s)"
    using seq_inv_reach [OF assms] unfolding seq_inv_def by blast
  moreover from phase_live [OF this(3)] have "length (filter (\<lambda>b. b \<noteq> Finished) live) \<le> 1"
    by (metis le_trans length_filter_le)
  ultimately show ?thesis by auto
qed

section \<open>Starting and stopping returns\<close>

















section \<open>Waiting for the broker\<close>

definition waits :: "threads \<Rightarrow> bool" where
  "waits s \<longleftrightarrow> seq_inv s \<and>
     (callers s = [AwaitFinish] \<or> (\<exists>h. callers s = [Joining h]) \<and> BrokerIsRunning s)"

lemma waits_step:
  assumes "waits s" and "thread_step s s'"
  shows "waits s'"
proof -
  have inv: "seq_inv s'" using assms by (auto simp: waits_def intro: seq_inv_step)
  have "seq_inv s" using assms(1) by (simp add: waits_def)
  then obtain c n live where s: "callers s = [c]" "brokers s = replicate n Finished @ live"
      "phase c n live (BrokerIsRunning s)"
    unfolding seq_inv_def by blast
  then have c: "c = AwaitFinish \<or> (\<exists>h. c = Joining h) \<and> BrokerIsRunning s"
    using assms(1) by (simp add: waits_def)
  note live = phase_live [OF s(3)]
  from assms(2) show ?thesis
  proof (cases rule: thread_step_cases)
    case (joined i h)
    then have "can_join (Some n) s" "live = [Looping]" using s c by auto
    then show ?thesis by (simp add: can_join_def s(2) nth_append)
  next
    case (broker_announce k)
    then have "live = [Binding]" using last_live [of k n live Binding] live s(2) by auto
    then show ?thesis using s(3) c by auto
  next
    case (broker_leave k)
    then have "live = [Looping]" using last_live [of k n live Looping] live s(2) by auto
    then show ?thesis using s(3) c broker_leave by (auto simp: isBrokering_def)
  next
    case (broker_close k)
    then have "live = [Closing]" using last_live [of k n live Closing] live s(2) by auto
    then show ?thesis using s(3) c by auto
  qed (use s(1) c inv in \<open>auto simp: waits_def set_caller_def\<close>)
qed

text \<open>
  A program whose only thread waits for the broker to finish waits for ever: in whatever
  state it gets to, the call has not returned, and once it has seen the broker run, the
  broker still does.
\<close>

theorem lone_wait_never_returns:
  assumes "thread_reach 1 s" and "callers s = [AwaitFinish]" and "thread_step\<^sup>*\<^sup>* s s'"
  shows "callers s' = [AwaitFinish] \<or> (\<exists>h. callers s' = [Joining h]) \<and> isBrokering s'"
proof -
  have "waits s" using assms(1,2) seq_inv_reach by (simp add: waits_def)
  with assms(3) have "waits s'" by (induction rule: rtranclp_induct) (auto intro: waits_step)
  then show ?thesis by (simp add: waits_def isBrokering_def)
qed

section \<open>Signals\<close>

text \<open>
  \<open>SignalCatcher\<close>: which object handles signals and what the process does on each. The callback
  calls the virtual \<open>SignalCaught\<close>. \<open>Server\<close> declares \<open>signalCaught\<close>, another name, so the call
  of a server ends in the empty body of the base class. \<open>None\<close>: the process is ended.
\<close>

datatype SignalType = ABORT | INERRUPT | TERMINATE

datatype disposition = SIG_DFL | SIGCallback

record signal_state =
  sig_Instance :: bool
  sig_action :: "SignalType \<Rightarrow> disposition"

definition StartCatchingSignals :: "signal_state \<Rightarrow> signal_state" where
  "StartCatchingSignals g = g\<lparr>sig_Instance := True, sig_action := (\<lambda>_. SIGCallback)\<rparr>"

definition StopCatchingSignals :: "signal_state \<Rightarrow> signal_state" where
  "StopCatchingSignals g = g\<lparr>sig_action := (\<lambda>_. SIG_DFL), sig_Instance := False\<rparr>"

definition SignalCaught :: "SignalType \<Rightarrow> threads \<times> 'f Server \<Rightarrow> threads \<times> 'f Server" where
  "SignalCaught sig st = st"

definition deliver_signal ::
  "SignalType \<Rightarrow> signal_state \<Rightarrow> threads \<times> 'f Server \<Rightarrow> (threads \<times> 'f Server) option result" where
  "deliver_signal sig g st =
     (case sig_action g sig of
        SIG_DFL \<Rightarrow> Inr None
      | SIGCallback \<Rightarrow>
          if sig_Instance g then Inr (Some (SignalCaught sig st)) else Inl UndefinedBehaviour)"

text \<open>A server that catches signals is deaf to them: nothing stops and no job is dropped.\<close>

lemma caught_signal_ignored:
  "deliver_signal sig (StartCatchingSignals g) st = Inr (Some st)"
  by (simp add: deliver_signal_def StartCatchingSignals_def SignalCaught_def)

section \<open>Several threads\<close>

text \<open>
  Two threads that start the server at the same time launch two brokers: the flag that should
  keep the second from it is set by the broker, after the critical section. Both brokers
  loop, and only the second can be joined.
\<close>

lemma two_brokers:
  "\<exists>s. thread_reach 2 s \<and> brokers s = [Looping, Looping] \<and> BrokerThread s = Some 1"
proof -
  note simps = ThreadManagement_mk_def set_caller_def set_broker_def setIsBrokering_def start_launch_def
    numeral_2_eq_2
  define s1 where "s1 = set_caller 0 Starting (start_launch (ThreadManagement_mk 2))"
  define s2 where "s2 = set_caller 1 Starting (start_launch s1)"
  define s3 where "s3 = set_broker 0 Looping (setIsBrokering True s2)"
  define s4 where "s4 = set_broker 1 Looping (setIsBrokering True s3)"
  have "thread_reach 2 s1" unfolding s1_def
    by (rule reach_step [OF reach_init thread_stepI(1) [OF _ start_enter]]) (simp_all add: simps)
  then have "thread_reach 2 s2" unfolding s2_def
    by (rule reach_step [OF _ thread_stepI(1) [OF _ start_enter]]) (simp_all add: s1_def simps)
  then have "thread_reach 2 s3" unfolding s3_def
    by (rule reach_step [OF _ thread_stepI(3) [OF _ broker_announce]]) (simp_all add: s2_def s1_def simps)
  then have "thread_reach 2 s4" unfolding s4_def
    by (rule reach_step [OF _ thread_stepI(3) [OF _ broker_announce]]) (simp_all add: s3_def s2_def s1_def simps)
  moreover have "brokers s4 = [Looping, Looping]" and "BrokerThread s4 = Some 1"
    by (simp_all add: s4_def s3_def s2_def s1_def simps)
  ultimately show ?thesis by blast
qed

section \<open>Examples\<close>

definition started :: threads where
  "started = \<lparr>BrokerIsRunning = True, brokers = [Looping], BrokerThread = Some 0, callers = [Returned True],
     aborted = False\<rparr>"

lemma started_reach: "thread_reach 1 started"
proof -
  note simps = ThreadManagement_mk_def set_caller_def set_broker_def setIsBrokering_def start_launch_def
    isBrokering_def
  define s1 where "s1 = set_caller 0 Starting (start_launch (ThreadManagement_mk 1))"
  define s2 where "s2 = set_broker 0 Looping (setIsBrokering True s1)"
  define s3 where "s3 = set_caller 0 Woken s2"
  have "thread_reach 1 s1" unfolding s1_def
    by (rule reach_step [OF reach_init thread_stepI(1) [OF _ start_enter]]) (simp_all add: simps)
  then have "thread_reach 1 s2" unfolding s2_def
    by (rule reach_step [OF _ thread_stepI(3) [OF _ broker_announce]]) (simp_all add: s1_def simps)
  then have "thread_reach 1 s3" unfolding s3_def
    by (rule reach_step [OF _ thread_stepI(2) [OF _ start_wake]]) (simp_all add: s2_def s1_def simps)
  then have "thread_reach 1 (set_caller 0 (Returned (isBrokering s3)) s3)"
    by (rule reach_step [OF _ thread_stepI(2) [OF _ start_return]]) (simp_all add: s3_def s2_def s1_def simps)
  moreover have "set_caller 0 (Returned (isBrokering s3)) s3 = started"
    by (simp add: s3_def s2_def s1_def simps started_def)
  ultimately show ?thesis by simp
qed

theorem one_broker_witness:
  "thread_reach 1 started \<and> length (filter (\<lambda>b. b \<noteq> Finished) (brokers started)) \<le> 1"
  using one_broker [OF started_reach] started_reach by simp










theorem lone_wait_never_returns_witness:
  "callers (set_caller 0 (Joining (Some 0)) started) \<noteq> [Idle]"
proof -
  have reach: "thread_reach 1 (set_caller 0 AwaitFinish started)"
    by (rule reach_step [OF started_reach thread_stepI(1) [OF _ finish_enter]]) (simp_all add: started_def)
  have "thread_step (set_caller 0 AwaitFinish started) (set_caller 0 (Joining (Some 0)) started)"
    using thread_stepI(2) [OF _ finish_started [of 0 "set_caller 0 AwaitFinish started"]]
    by (simp add: set_caller_def started_def)
  from lone_wait_never_returns [OF reach _ r_into_rtranclp [of thread_step, OF this]] show ?thesis
    by (auto simp: set_caller_def started_def)
qed

end
