(* ===== verification/Remus_WorkerFile.thy ===== *)
theory Remus_WorkerFile
  imports Remus_Factory Remus_Connections
begin

text \<open>
  \<open>remus/server/FactoryFileParser.cxx\<close>: from a worker file, a JSON object, to the specification
  of a worker. Parsing and printing JSON is left to the bundled cJSON: both are arguments, as
  are the file system and the operations of \<open>boost::filesystem::path\<close>. The model follows the
  build without \<open>_WIN32\<close> and \<open>CMAKE_INTDIR\<close>.

  \<open>valuestring\<close> of a value that is no string is a null pointer; building a string or a path
  from it is undefined.
\<close>

datatype cjson =
    CFalse | CTrue | CNull | CNumber string | CString string
  | CArray "cjson list" | CObject "(string \<times> cjson) list"

record worker_file_env =
  wfe_read_file :: "string \<Rightarrow> string result"
  wfe_parse :: "string \<Rightarrow> cjson option"
  wfe_print :: "cjson \<Rightarrow> string"
  wfe_fs :: file_system
  wfe_parent_path :: "string \<Rightarrow> string"
  wfe_append_path :: "string \<Rightarrow> string \<Rightarrow> string"
  wfe_filename :: "string \<Rightarrow> string"

definition to_lower :: "string \<Rightarrow> string" where
  "to_lower s =
     map (\<lambda>c. if (65::nat) \<le> of_char c \<and> (of_char c :: nat) \<le> 90
              then char_of (of_char c + 32 :: nat) else c) s"

text \<open>\<open>cJSON_GetObjectItem\<close>: the first child with the name, ignoring case.\<close>

definition cJSON_GetObjectItem :: "cjson \<Rightarrow> string \<Rightarrow> cjson option" where
  "cJSON_GetObjectItem obj name =
     (case obj of
        CObject kvs \<Rightarrow> map_option snd (find (\<lambda>(k, _). to_lower k = to_lower name) kvs)
      | _ \<Rightarrow> None)"

definition valuestring :: "cjson \<Rightarrow> string result" where
  "valuestring v = (case v of CString str \<Rightarrow> Inr str | _ \<Rightarrow> Inl UndefinedBehaviour)"

definition parse_worker_name :: "worker_file_env \<Rightarrow> cjson \<Rightarrow> string \<Rightarrow> string" where
  "parse_worker_name env root executableName =
     (let workerName = (case cJSON_GetObjectItem root ''WorkerName'' of
                          Some (CString n) \<Rightarrow> n | _ \<Rightarrow> '''') in
      if workerName = '''' then wfe_filename env executableName else workerName)"

definition parse_file_format :: "cjson option \<Rightarrow> ContentFormat result" where
  "parse_file_format req_file_format =
     (case req_file_format of
        None \<Rightarrow> Inr User
      | Some v \<Rightarrow> bindE (valuestring v) (\<lambda>f.
          Inr (if take 3 f = ''XML'' then XML
               else if take 4 f = ''JSON'' then JSON
               else if take 4 f = ''BSON'' then BSON else User)))"

definition parse_requirements ::
  "worker_file_env \<Rightarrow> string \<Rightarrow> cjson \<Rightarrow> MeshIOType \<Rightarrow> string \<Rightarrow> JobRequirements result" where
  "parse_requirements env file root mesh_type workerName =
     (let reqs = JobRequirements_memory User mesh_type workerName '''' in
      case cJSON_GetObjectItem root ''File'' of
        None \<Rightarrow> Inr reqs
      | Some req_file \<Rightarrow>
          bindE (parse_file_format (cJSON_GetObjectItem root ''FileFormat'')) (\<lambda>format_type.
          bindE (valuestring req_file) (\<lambda>name.
          let req_file_path =
                (if fs_is_regular_file (wfe_fs env) name then name
                 else wfe_append_path env (wfe_parent_path env file) name) in
          Inr (if fs_is_regular_file (wfe_fs env) req_file_path
               then JobRequirements_file format_type mesh_type workerName
                      (fs_canonical (wfe_fs env) req_file_path)
               else reqs))))"

definition parse_tag :: "worker_file_env \<Rightarrow> cjson \<Rightarrow> JobRequirements \<Rightarrow> JobRequirements" where
  "parse_tag env root reqs =
     (case cJSON_GetObjectItem root ''Tag'' of
        None \<Rightarrow> reqs
      | Some (CString t) \<Rightarrow> if t \<noteq> '''' then reqs\<lparr>req_tag := t\<rparr> else reqs
      | Some v \<Rightarrow> reqs\<lparr>req_tag := wfe_print env v\<rparr>)"

definition replace_self :: "string \<Rightarrow> string \<Rightarrow> string" where
  "replace_self file strarg =
     (case str_find ''@SELF@'' strarg of
        Some pos \<Rightarrow> take pos strarg @ file @ drop (pos + 6) strarg
      | None \<Rightarrow> strarg)"

definition parse_arguments :: "string \<Rightarrow> cjson \<Rightarrow> string list" where
  "parse_arguments file root =
     (case cJSON_GetObjectItem root ''Arguments'' of
        Some (CArray args) \<Rightarrow>
          concat (map (\<lambda>a. case a of
              CString str \<Rightarrow> if str \<noteq> '''' then [replace_self file str] else []
            | _ \<Rightarrow> []) args)
      | _ \<Rightarrow> [])"

definition parse_environment :: "cjson \<Rightarrow> (string \<times> string) list" where
  "parse_environment root =
     (case cJSON_GetObjectItem root ''Environment'' of
        Some (CObject kvs) \<Rightarrow>
          fold (\<lambda>(k, a) env. case a of
              CString v \<Rightarrow> if v \<noteq> '''' \<and> k \<noteq> '''' then map_assign string_less k v env else env
            | _ \<Rightarrow> env) kvs []
      | _ \<Rightarrow> [])"

definition mesher_path :: "worker_file_env \<Rightarrow> string \<Rightarrow> string \<Rightarrow> string" where
  "mesher_path env file executableName =
     (if fs_is_regular_file (wfe_fs env) executableName then executableName
      else wfe_append_path env (wfe_parent_path env file) executableName)"

definition parse_json_reqs :: "worker_file_env \<Rightarrow> string \<Rightarrow> FactoryWorkerSpecification result" where
  "parse_json_reqs env file =
     bindE (wfe_read_file env file) (\<lambda>json_contents.
     case wfe_parse env (c_str json_contents) of
       None \<Rightarrow> Inr FactoryWorkerSpecification_default
     | Some root \<Rightarrow>
         (case (cJSON_GetObjectItem root ''InputType'', cJSON_GetObjectItem root ''OutputType'',
                cJSON_GetObjectItem root ''ExecutableName'') of
            (Some inputT, Some outputT, Some execT) \<Rightarrow>
              bindE (valuestring inputT) (\<lambda>input_type.
              bindE (valuestring outputT) (\<lambda>output_type.
              bindE (valuestring execT) (\<lambda>executableName.
              let mesh_type = \<lparr>inputType = input_type, outputType = output_type\<rparr>;
                  workerName = parse_worker_name env root executableName in
              bindE (parse_requirements env file root mesh_type workerName) (\<lambda>reqs.
              Inr (FactoryWorkerSpecification_mk (wfe_fs env) (mesher_path env file executableName)
                     (parse_arguments file root) (parse_environment root) (parse_tag env root reqs))))))
          | _ \<Rightarrow> Inr FactoryWorkerSpecification_default))"

section \<open>What a worker file yields\<close>

definition string_or_absent :: "cjson option \<Rightarrow> bool" where
  "string_or_absent v = (case v of None \<Rightarrow> True | Some (CString _) \<Rightarrow> True | _ \<Rightarrow> False)"

lemma parse_requirements_ok:
  assumes "string_or_absent (cJSON_GetObjectItem root ''File'')"
    and "string_or_absent (cJSON_GetObjectItem root ''FileFormat'')"
  shows "\<exists>reqs. parse_requirements env file root mt wn = Inr reqs \<and> req_meshTypes reqs = mt \<and>
    req_workerName reqs = wn"
proof -
  have "\<exists>f. parse_file_format (cJSON_GetObjectItem root ''FileFormat'') = Inr f"
    using assms(2) by (auto simp: parse_file_format_def valuestring_def string_or_absent_def
        split: option.splits cjson.splits)
  with assms(1) show ?thesis
    by (auto simp: parse_requirements_def valuestring_def string_or_absent_def Let_def
        JobRequirements_memory_def JobRequirements_file_def split: option.splits cjson.splits)
qed

lemma parse_tag_keeps:
  "req_meshTypes (parse_tag env root reqs) = req_meshTypes reqs"
  "req_workerName (parse_tag env root reqs) = req_workerName reqs"
  by (auto simp: parse_tag_def split: option.splits cjson.splits)

lemma specification_mk_simps:
  "spec_Requirements (FactoryWorkerSpecification_mk fs p args vars r) = r"
  "spec_isValid (FactoryWorkerSpecification_mk fs p args vars r) = fs_is_regular_file fs p"
  "spec_EnvironmentVariables (FactoryWorkerSpecification_mk fs p args vars r) = vars"
  "fs_is_regular_file fs p \<Longrightarrow>
     spec_ExecutionPath (FactoryWorkerSpecification_mk fs p args vars r) = fs_canonical fs p"
  by (simp_all add: FactoryWorkerSpecification_mk_def Let_def)

lemma assign_entries:
  "\<forall>(k', v')\<in>set m. k' \<noteq> '''' \<and> v' \<noteq> '''' \<Longrightarrow> k \<noteq> '''' \<Longrightarrow> v \<noteq> '''' \<Longrightarrow>
   \<forall>(k', v')\<in>set (map_assign string_less k v m). k' \<noteq> '''' \<and> v' \<noteq> ''''"
  by (induction m) (auto split: if_splits)

lemma environment_entries:
  "\<forall>(k, v)\<in>set env0. k \<noteq> '''' \<and> v \<noteq> '''' \<Longrightarrow>
   \<forall>(k, v)\<in>set (fold (\<lambda>(k, a) env. case a of
       CString v \<Rightarrow> if v \<noteq> '''' \<and> k \<noteq> '''' then map_assign string_less k v env else env
     | _ \<Rightarrow> env) kvs env0). k \<noteq> '''' \<and> v \<noteq> ''''"
proof (induction kvs arbitrary: env0)
  case (Cons kv kvs)
  obtain k a where kv: "kv = (k, a)" by force
  show ?case
  proof (cases "\<exists>v. a = CString v \<and> v \<noteq> '''' \<and> k \<noteq> ''''")
    case True
    then obtain v where v: "a = CString v" "v \<noteq> ''''" "k \<noteq> ''''" by blast
    from Cons.IH [OF assign_entries [OF Cons.prems v(3,2)]] show ?thesis by (simp add: kv v)
  next
    case False
    then have "(case a of CString v \<Rightarrow> if v \<noteq> '''' \<and> k \<noteq> '''' then map_assign string_less k v env0 else env0
        | _ \<Rightarrow> env0) = env0" by (auto split: cjson.splits)
    with Cons.IH [OF Cons.prems] show ?thesis by (simp only: kv fold_simps comp_def split_conv)
  qed
qed simp

text \<open>
  C29: a worker file whose entries are strings is read without failure. The worker meshes the
  types the file names, under the name it gives or else under the name of the executable;
  it is valid exactly when the executable exists, as given or beside the worker file; and its
  environment has no empty name or value.
\<close>

theorem worker_file_parsed:
  assumes "wfe_read_file env file = Inr contents" and "wfe_parse env (c_str contents) = Some root"
    and "cJSON_GetObjectItem root ''InputType'' = Some (CString i)"
    and "cJSON_GetObjectItem root ''OutputType'' = Some (CString out)"
    and "cJSON_GetObjectItem root ''ExecutableName'' = Some (CString exe)"
    and "string_or_absent (cJSON_GetObjectItem root ''File'')"
    and "string_or_absent (cJSON_GetObjectItem root ''FileFormat'')"
  shows "\<exists>spec. parse_json_reqs env file = Inr spec \<and>
    req_meshTypes (spec_Requirements spec) = \<lparr>inputType = i, outputType = out\<rparr> \<and>
    req_workerName (spec_Requirements spec) =
      (case cJSON_GetObjectItem root ''WorkerName'' of
         Some (CString (c # cs)) \<Rightarrow> c # cs | _ \<Rightarrow> wfe_filename env exe) \<and>
    (spec_isValid spec \<longleftrightarrow> fs_is_regular_file (wfe_fs env) exe \<or>
       fs_is_regular_file (wfe_fs env) (wfe_append_path env (wfe_parent_path env file) exe)) \<and>
    (\<forall>(k, v)\<in>set (spec_EnvironmentVariables spec). k \<noteq> '''' \<and> v \<noteq> '''')"
proof -
  obtain reqs where reqs: "parse_requirements env file root \<lparr>inputType = i, outputType = out\<rparr>
        (parse_worker_name env root exe) = Inr reqs"
      "req_meshTypes reqs = \<lparr>inputType = i, outputType = out\<rparr>"
      "req_workerName reqs = parse_worker_name env root exe"
    using parse_requirements_ok [OF assms(6,7)] by blast
  have "parse_worker_name env root exe = (case cJSON_GetObjectItem root ''WorkerName'' of
      Some (CString (c # cs)) \<Rightarrow> c # cs | _ \<Rightarrow> wfe_filename env exe)"
    by (auto simp: parse_worker_name_def Let_def split: option.splits cjson.splits list.splits)
  moreover have "\<forall>(k, v)\<in>set (parse_environment root). k \<noteq> '''' \<and> v \<noteq> ''''"
    using environment_entries [of "[]"]
    by (auto simp: parse_environment_def split: option.splits cjson.splits)
  moreover have "parse_json_reqs env file = Inr (FactoryWorkerSpecification_mk (wfe_fs env)
      (mesher_path env file exe) (parse_arguments file root) (parse_environment root) (parse_tag env root reqs))"
    using assms(1-5) reqs(1) by (simp add: parse_json_reqs_def valuestring_def Let_def)
  moreover have "fs_is_regular_file (wfe_fs env) (mesher_path env file exe) \<longleftrightarrow>
      fs_is_regular_file (wfe_fs env) exe \<or>
      fs_is_regular_file (wfe_fs env) (wfe_append_path env (wfe_parent_path env file) exe)"
    by (simp add: mesher_path_def)
  ultimately show ?thesis
    using reqs(2,3) by (simp add: specification_mk_simps parse_tag_keeps)
qed

section \<open>From the file to the factory\<close>

lemma parseFile_mono: "spec \<in> set found \<Longrightarrow> spec \<in> set (parseFile parser file found)"
  by (simp add: parseFile_def Let_def)

lemma parseDirectory_finds:
  assumes "e \<in> set entries" and "de_regular e" and "de_extension e = Some ext" and "to_upper ext = fileExt"
    and "spec_isValid (parser (de_path e))"
  shows "parser (de_path e) \<in> set (parseDirectory parser fileExt (Some entries) found)"
proof -
  define visit where "visit = (\<lambda>(e :: dir_entry) acc. if de_regular e then
      (case de_extension e of
         None \<Rightarrow> acc
       | Some ext \<Rightarrow> if to_upper ext = fileExt then parseFile parser (de_path e) acc else acc)
    else acc)"
  have keep: "spec \<in> set acc \<Longrightarrow> spec \<in> set (visit d acc)" for spec d acc
    by (auto simp: visit_def parseFile_mono split: option.splits)
  have mono: "spec \<in> set acc \<Longrightarrow> spec \<in> set (fold visit es acc)" for spec es acc
    by (induction es arbitrary: acc) (auto simp: keep)
  have hit: "parser (de_path e) \<in> set (visit e acc)" for acc
    using assms(2-5) by (simp add: visit_def parseFile_def Let_def)
  have "parser (de_path e) \<in> set (fold visit entries found)"
    using assms(1)
  proof (induction entries arbitrary: found)
    case (Cons d ds)
    show ?case
    proof (cases "d = e")
      case True
      then show ?thesis using mono [OF hit] by simp
    next
      case False
      with Cons show ?thesis by simp
    qed
  qed simp
  then show ?thesis by (simp add: parseDirectory_def visit_def)
qed

text \<open>The parser as the factory uses it; a file whose reading fails yields no worker.\<close>

definition file_parser :: "worker_file_env \<Rightarrow> string \<Rightarrow> FactoryWorkerSpecification" where
  "file_parser env file =
     (case parse_json_reqs env file of Inr spec \<Rightarrow> spec | Inl _ \<Rightarrow> FactoryWorkerSpecification_default)"

text \<open>
  A worker described by a file is offered. When a directory given to the factory holds a
  regular file with the factory's extension, in any case, and the file describes a worker
  whose executable exists, the factory supports jobs with the requirements of that worker.
\<close>

theorem worker_file_supported:
  assumes "e \<in> set entries" and "de_regular e" and "de_extension e = Some ext"
    and "to_upper ext = to_upper (WorkerExtension f)"
    and "parse_json_reqs env (de_path e) = Inr spec" and "spec_isValid spec"
  shows "wf_haveSupport (spec_Requirements spec)
    (addWorkerSearchDirectory (file_parser env) (Some entries) f)"
proof -
  have spec: "file_parser env (de_path e) = spec" using assms(5) by (simp add: file_parser_def)
  have "spec \<in> set (WorkerFinder (file_parser env) (Some entries) (WorkerExtension f))"
    using parseDirectory_finds [of e entries ext _ "file_parser env"] assms(1-4,6)
    by (simp add: WorkerFinder_def spec)
  then show ?thesis
    unfolding wf_haveSupport_def find_worker_path_iff addWorkerSearchDirectory_def
    by (intro bexI [of _ spec]) simp_all
qed

section \<open>Examples\<close>

definition example_worker_file :: cjson where
  "example_worker_file = CObject
     [(''InputType'', CString ''Model''), (''OutputType'', CString ''Mesh3D''),
      (''executablename'', CString ''mesher''), (''Tag'', CNumber ''3''),
      (''Arguments'', CArray [CString ''--spec=@SELF@'']),
      (''Environment'', CObject [(''OMP'', CString ''4''), (''EMPTY'', CString '''')])]"

definition example_file_env :: worker_file_env where
  "example_file_env = \<lparr>wfe_read_file = (\<lambda>_. Inr ''json''), wfe_parse = (\<lambda>_. Some example_worker_file),
     wfe_print = (\<lambda>_. ''3''), wfe_fs = \<lparr>fs_is_regular_file = (\<lambda>p. p = ''dir/mesher''), fs_canonical = id\<rparr>,
     wfe_parent_path = (\<lambda>_. ''dir''), wfe_append_path = (\<lambda>a b. a @ ''/'' @ b), wfe_filename = id\<rparr>"

lemma example_items:
  "cJSON_GetObjectItem example_worker_file ''InputType'' = Some (CString ''Model'')"
  "cJSON_GetObjectItem example_worker_file ''OutputType'' = Some (CString ''Mesh3D'')"
  "cJSON_GetObjectItem example_worker_file ''ExecutableName'' = Some (CString ''mesher'')"
  "cJSON_GetObjectItem example_worker_file ''File'' = None"
  "cJSON_GetObjectItem example_worker_file ''FileFormat'' = None"
  "cJSON_GetObjectItem example_worker_file ''WorkerName'' = None"
  by code_simp+

lemma example_spec:
  "\<exists>spec. parse_json_reqs example_file_env ''dir/a.rw'' = Inr spec \<and> spec_isValid spec \<and>
    req_workerName (spec_Requirements spec) = ''mesher''"
  by (simp add: parse_json_reqs_def example_file_env_def example_items valuestring_def Let_def
      parse_requirements_def specification_mk_simps mesher_path_def parse_tag_keeps parse_worker_name_def
      JobRequirements_memory_def)

theorem worker_file_parsed_witness:
  "\<exists>spec. parse_json_reqs example_file_env ''dir/a.rw'' = Inr spec \<and> spec_isValid spec \<and>
    req_workerName (spec_Requirements spec) = ''mesher''"
proof -
  have "wfe_read_file example_file_env ''dir/a.rw'' = Inr ''json''"
      "wfe_parse example_file_env (c_str ''json'') = Some example_worker_file"
    by (simp_all add: example_file_env_def)
  from worker_file_parsed [OF this example_items(1-3)] show ?thesis
    by (auto simp: example_items string_or_absent_def example_file_env_def)
qed

theorem worker_file_supported_witness:
  "\<exists>spec. parse_json_reqs example_file_env ''dir/a.rw'' = Inr spec \<and>
    wf_haveSupport (spec_Requirements spec)
      (addWorkerSearchDirectory (file_parser example_file_env)
        (Some [\<lparr>de_path = ''dir/a.rw'', de_regular = True, de_extension = Some ''.RW''\<rparr>])
        (WorkerFactory_mk ''.rw'' (file_parser example_file_env) None))"
proof -
  obtain spec where spec: "parse_json_reqs example_file_env ''dir/a.rw'' = Inr spec" "spec_isValid spec"
    using example_spec by blast
  have "to_upper ''.RW'' = to_upper ''.rw''" by code_simp
  then show ?thesis
    using worker_file_supported [of "\<lparr>de_path = ''dir/a.rw'', de_regular = True, de_extension = Some ''.RW''\<rparr>"
        "[\<lparr>de_path = ''dir/a.rw'', de_regular = True, de_extension = Some ''.RW''\<rparr>]" "''.RW''"
        "WorkerFactory_mk ''.rw'' (file_parser example_file_env) None" example_file_env spec] spec
    by (simp add: WorkerFactory_mk_def)
qed

end
