(* ===== verification/Remus_Process.thy ===== *)
theory Remus_Process
  imports Complex_Main Remus_WorkerFile
begin

text \<open>
  \<open>remus/common/ExecuteProcess.cxx\<close>: starting, watching and killing the process of a worker,
  and the destructor of the factory that owns it. The process library \<open>RemusSysTools\<close> is not
  part of the sources: \<open>'p\<close> is the state of one of its processes and \<open>systools\<close> its operations.
  \<open>tools_ok\<close> is what the code relies on of them. \<open>RemusSysToolsProcess_WaitForExit\<close> with a
  timeout, a number of seconds, always returns (\<open>sys_WaitForExit_timeout\<close>); with a null pointer
  for it the call blocks until the process is over, and \<open>None\<close> is a call that never returns
  (\<open>sys_WaitForExit\<close>).
\<close>

datatype PipeType = PPipe_None | PPipe_STDIN | PPipe_STDOUT | PPipe_STDERR | PPipe_Timeout

datatype sys_pipe =
    Pipe_None | Pipe_STDIN | Pipe_STDOUT | Pipe_STDERR | Pipe_Timeout | Pipe_other nat

datatype sys_state = State_Executing | State_Exited | State_other nat

record 'p systools =
  sys_New :: 'p
  sys_SetCommand :: "string list \<Rightarrow> 'p \<Rightarrow> 'p"
  sys_AddCommand :: "string list \<Rightarrow> 'p \<Rightarrow> 'p"
  sys_SetOption_HideWindow :: "bool \<Rightarrow> 'p \<Rightarrow> 'p"
  sys_Execute :: "(string \<rightharpoonup> string) \<Rightarrow> 'p \<Rightarrow> 'p"
  sys_GetState :: "'p \<Rightarrow> sys_state"
  sys_Kill :: "'p \<Rightarrow> 'p"
  sys_WaitForExit_timeout :: "real \<Rightarrow> 'p \<Rightarrow> 'p"
  sys_WaitForExit :: "'p \<Rightarrow> 'p option"
  sys_SetPipeShared :: "sys_pipe \<Rightarrow> bool \<Rightarrow> 'p \<Rightarrow> 'p"
  sys_SetPipeFile :: "sys_pipe \<Rightarrow> string \<Rightarrow> 'p \<Rightarrow> 'p"
  sys_WaitForData :: "real \<Rightarrow> 'p \<Rightarrow> (sys_pipe \<times> string) \<times> 'p"

definition toProcessPipeType :: "sys_pipe \<Rightarrow> PipeType" where
  "toProcessPipeType t =
     (case t of Pipe_STDIN \<Rightarrow> PPipe_STDIN | Pipe_STDOUT \<Rightarrow> PPipe_STDOUT | Pipe_STDERR \<Rightarrow> PPipe_STDERR
      | Pipe_Timeout \<Rightarrow> PPipe_Timeout | _ \<Rightarrow> PPipe_None)"

definition fromProcessPipeType :: "PipeType \<Rightarrow> sys_pipe" where
  "fromProcessPipeType t =
     (case t of PPipe_STDIN \<Rightarrow> Pipe_STDIN | PPipe_STDOUT \<Rightarrow> Pipe_STDOUT | PPipe_STDERR \<Rightarrow> Pipe_STDERR
      | PPipe_Timeout \<Rightarrow> Pipe_Timeout | PPipe_None \<Rightarrow> Pipe_None)"

record ProcessPipe =
  pipe_type :: PipeType
  pipe_text :: string

definition pipe_valid :: "ProcessPipe \<Rightarrow> bool" where
  "pipe_valid p \<longleftrightarrow> pipe_type p \<noteq> PPipe_None \<and> pipe_type p \<noteq> PPipe_Timeout"

section \<open>ExecuteProcess\<close>

record Command =
  Cmd :: string
  Args :: "string list"

record 'p ExecuteProcess =
  CommandQueue :: "Command list"
  Env :: "(string \<times> string) list"
  Proc :: 'p
  Created :: bool

definition ExecuteProcess_mk ::
  "'p systools \<Rightarrow> string \<Rightarrow> string list \<Rightarrow> (string \<times> string) list \<Rightarrow> 'p ExecuteProcess" where
  "ExecuteProcess_mk tools command args env =
     \<lparr>CommandQueue = [\<lparr>Cmd = command, Args = args\<rparr>], Env = env, Proc = sys_New tools, Created = False\<rparr>"

definition appendProcess :: "string \<Rightarrow> string list \<Rightarrow> 'p ExecuteProcess \<Rightarrow> 'p ExecuteProcess" where
  "appendProcess command args ep = ep\<lparr>CommandQueue := CommandQueue ep @ [\<lparr>Cmd = command, Args = args\<rparr>]\<rparr>"

definition command_line :: "Command \<Rightarrow> string list" where
  "command_line c = c_str (Cmd c) # map c_str (Args c)"

definition pass_commands :: "'p systools \<Rightarrow> Command list \<Rightarrow> 'p \<Rightarrow> 'p" where
  "pass_commands tools cmds p =
     fold (\<lambda>(cmdId, c). if cmdId = 0 then sys_SetCommand tools (command_line c)
                        else sys_AddCommand tools (command_line c)) (enumerate 0 cmds) p"

text \<open>The environment of the calling process goes in and comes out.\<close>

definition execute ::
  "'p systools \<Rightarrow> (string \<rightharpoonup> string) \<Rightarrow> 'p ExecuteProcess \<Rightarrow> (string \<rightharpoonup> string) \<times> 'p ExecuteProcess" where
  "execute tools env ep =
     (let p = pass_commands tools (CommandQueue ep) (Proc ep);
          (child, env_after) = execute_environment (Env ep) env;
          p = sys_Execute tools child (sys_SetOption_HideWindow tools True p) in
      (env_after, ep\<lparr>Proc := p, Created := True\<rparr>))"

text \<open>\<open>None\<close>: the call blocks for ever.\<close>

definition ep_kill :: "'p systools \<Rightarrow> 'p ExecuteProcess \<Rightarrow> (bool \<times> 'p ExecuteProcess) option" where
  "ep_kill tools ep =
     (if Created ep \<and> sys_GetState tools (Proc ep) = State_Executing
      then case sys_WaitForExit tools (sys_Kill tools (Proc ep)) of
             None \<Rightarrow> None
           | Some p \<Rightarrow> Some (True, ep\<lparr>Proc := p\<rparr>)
      else Some (False, ep))"

definition sharePipeWithParent ::
  "'p systools \<Rightarrow> PipeType \<Rightarrow> bool \<Rightarrow> 'p ExecuteProcess \<Rightarrow> 'p ExecuteProcess" where
  "sharePipeWithParent tools pipe choice ep =
     ep\<lparr>Proc := sys_SetPipeShared tools (fromProcessPipeType pipe) choice (Proc ep)\<rparr>"

definition pipeToFile :: "'p systools \<Rightarrow> PipeType \<Rightarrow> string \<Rightarrow> 'p ExecuteProcess \<Rightarrow> 'p ExecuteProcess" where
  "pipeToFile tools pipe filename ep =
     ep\<lparr>Proc := sys_SetPipeFile tools (fromProcessPipeType pipe) (c_str filename) (Proc ep)\<rparr>"

definition ep_isAlive :: "'p systools \<Rightarrow> 'p ExecuteProcess \<Rightarrow> bool \<times> 'p ExecuteProcess" where
  "ep_isAlive tools ep =
     (if \<not> Created ep then (False, ep)
      else let p = sys_WaitForExit_timeout tools (- 1) (Proc ep) in
           (sys_GetState tools p = State_Executing, ep\<lparr>Proc := p\<rparr>))"

definition exitedNormally :: "'p systools \<Rightarrow> 'p ExecuteProcess \<Rightarrow> bool \<times> 'p ExecuteProcess" where
  "exitedNormally tools ep =
     (if \<not> Created ep then (False, ep)
      else let p = sys_WaitForExit_timeout tools (- 1) (Proc ep) in
           (sys_GetState tools p = State_Exited, ep\<lparr>Proc := p\<rparr>))"

definition real_timeout :: "real \<Rightarrow> real" where
  "real_timeout timeout = (if timeout = 0 then - 1 else if timeout < 0 then 100000000 else timeout)"

definition ep_poll :: "'p systools \<Rightarrow> real \<Rightarrow> 'p ExecuteProcess \<Rightarrow> ProcessPipe \<times> 'p ExecuteProcess" where
  "ep_poll tools timeout ep =
     (if \<not> Created ep then (\<lparr>pipe_type = PPipe_None, pipe_text = ''''\<rparr>, ep)
      else let ((pipe, data), p) = sys_WaitForData tools (real_timeout timeout) (Proc ep);
               result = \<lparr>pipe_type = toProcessPipeType pipe, pipe_text = ''''\<rparr> in
           (if pipe_valid result then result\<lparr>pipe_text := data\<rparr> else result, ep\<lparr>Proc := p\<rparr>))"

section \<open>The destructor of the factory\<close>

text \<open>The processes of a factory, by the handle of the \<open>RunningProcess\<close>.\<close>

definition kill_on_deletion ::
  "'p systools \<Rightarrow> RunningProcess \<Rightarrow> (nat \<Rightarrow> 'p ExecuteProcess) \<Rightarrow> (nat \<Rightarrow> 'p ExecuteProcess) option" where
  "kill_on_deletion tools rp procs =
     (let shouldBeTerminated = rp_lifespan rp = KillOnFactoryDeletion;
          (is_alive, ep) = ep_isAlive tools (procs (rp_handle rp)) in
      if shouldBeTerminated \<and> is_alive
      then case ep_kill tools ep of
             None \<Rightarrow> None
           | Some (_, ep') \<Rightarrow> Some (procs(rp_handle rp := ep'))
      else Some (procs(rp_handle rp := ep)))"

fun kill_processes ::
  "'p systools \<Rightarrow> RunningProcess list \<Rightarrow> (nat \<Rightarrow> 'p ExecuteProcess) \<Rightarrow> (nat \<Rightarrow> 'p ExecuteProcess) option" where
  "kill_processes tools [] procs = Some procs"
| "kill_processes tools (rp # rps) procs =
     (case kill_on_deletion tools rp procs of
        None \<Rightarrow> None
      | Some procs' \<Rightarrow> kill_processes tools rps procs')"

definition WorkerFactory_destroy ::
  "'p systools \<Rightarrow> WorkerFactory \<Rightarrow> (nat \<Rightarrow> 'p ExecuteProcess) \<Rightarrow> (nat \<Rightarrow> 'p ExecuteProcess) option" where
  "WorkerFactory_destroy tools f procs = kill_processes tools (CurrentProcesses f) procs"

text \<open>
  What the code needs of the library: a killed process ends, so that waiting for it returns; a
  wait without a limit that returns has seen the process end; and a process that is over stays
  over when it is waited for again. Waiting for a process that nobody killed need not return.
\<close>

definition tools_ok :: "'p systools \<Rightarrow> bool" where
  "tools_ok tools \<longleftrightarrow>
     (\<forall>p. sys_WaitForExit tools (sys_Kill tools p) \<noteq> None) \<and>
     (\<forall>p p'. sys_WaitForExit tools p = Some p' \<longrightarrow> sys_GetState tools p' \<noteq> State_Executing) \<and>
     (\<forall>p t. sys_GetState tools p \<noteq> State_Executing \<longrightarrow>
        sys_GetState tools (sys_WaitForExit_timeout tools t p) \<noteq> State_Executing)"

definition over :: "'p systools \<Rightarrow> 'p ExecuteProcess \<Rightarrow> bool" where
  "over tools ep \<longleftrightarrow> \<not> Created ep \<or> sys_GetState tools (Proc ep) \<noteq> State_Executing"

lemma over_isAlive: "tools_ok tools \<Longrightarrow> over tools ep \<Longrightarrow> \<not> fst (ep_isAlive tools ep)"
  by (auto simp: tools_ok_def over_def ep_isAlive_def Let_def)

lemma over_polled: "\<not> fst (ep_isAlive tools ep) \<Longrightarrow> over tools (snd (ep_isAlive tools ep))"
  by (auto simp: over_def ep_isAlive_def Let_def)

lemma kill_over:
  assumes "tools_ok tools"
  obtains b ep' where "ep_kill tools ep = Some (b, ep')" and "over tools ep'"
proof -
  obtain p where "sys_WaitForExit tools (sys_Kill tools (Proc ep)) = Some p"
    using assms unfolding tools_ok_def by blast
  moreover from this have "sys_GetState tools p \<noteq> State_Executing" using assms by (auto simp: tools_ok_def)
  ultimately have "\<exists>b ep'. ep_kill tools ep = Some (b, ep') \<and> over tools ep'"
    by (auto simp: ep_kill_def over_def)
  then show ?thesis using that by blast
qed

text \<open>A process that never started is not alive, did not exit, has no output and is not killed.\<close>

lemma not_started:
  assumes "\<not> Created ep"
  shows "ep_isAlive tools ep = (False, ep)" and "exitedNormally tools ep = (False, ep)"
    and "ep_kill tools ep = Some (False, ep)" and "\<not> pipe_valid (fst (ep_poll tools timeout ep))"
  using assms by (simp_all add: ep_isAlive_def exitedNormally_def ep_kill_def ep_poll_def pipe_valid_def)

lemma pipe_types_roundtrip: "toProcessPipeType (fromProcessPipeType t) = t"
  by (cases t) (simp_all add: toProcessPipeType_def fromProcessPipeType_def)

lemma kill_on_deletion_over:
  assumes "tools_ok tools"
  obtains procs' where "kill_on_deletion tools rp procs = Some procs'"
    and "\<And>h. over tools (procs h) \<Longrightarrow> over tools (procs' h)"
    and "rp_lifespan rp = KillOnFactoryDeletion \<Longrightarrow> over tools (procs' (rp_handle rp))"
    and "\<And>h. h \<noteq> rp_handle rp \<Longrightarrow> procs' h = procs h"
proof -
  obtain alive ep where ep: "ep_isAlive tools (procs (rp_handle rp)) = (alive, ep)" by force
  obtain b ep' where kill: "ep_kill tools ep = Some (b, ep')" "over tools ep'" by (rule kill_over [OF assms])
  have "\<not> alive \<Longrightarrow> over tools ep" using over_polled [of tools "procs (rp_handle rp)"] ep by simp
  moreover have "over tools (procs (rp_handle rp)) \<Longrightarrow> \<not> alive" using over_isAlive [OF assms] ep by fastforce
  moreover have "kill_on_deletion tools rp procs = Some (procs(rp_handle rp :=
      if rp_lifespan rp = KillOnFactoryDeletion \<and> alive then ep' else ep))"
    by (simp add: kill_on_deletion_def ep kill(1))
  ultimately show ?thesis using kill(2)
    by (intro that [of "procs(rp_handle rp := if rp_lifespan rp = KillOnFactoryDeletion \<and> alive then ep' else ep)"])
       (auto split: if_splits)
qed

lemma kill_processes_over:
  assumes "tools_ok tools"
  shows "\<exists>procs'. kill_processes tools rps procs = Some procs' \<and>
    (\<forall>h. over tools (procs h) \<or> (\<exists>rp\<in>set rps. rp_handle rp = h \<and> rp_lifespan rp = KillOnFactoryDeletion)
       \<longrightarrow> over tools (procs' h)) \<and>
    (\<forall>h. h \<notin> rp_handle ` set rps \<longrightarrow> procs' h = procs h)"
proof (induction rps arbitrary: procs)
  case (Cons rp rps)
  obtain procs1 where one: "kill_on_deletion tools rp procs = Some procs1"
      "\<And>h. over tools (procs h) \<Longrightarrow> over tools (procs1 h)"
      "rp_lifespan rp = KillOnFactoryDeletion \<Longrightarrow> over tools (procs1 (rp_handle rp))"
      "\<And>h. h \<noteq> rp_handle rp \<Longrightarrow> procs1 h = procs h"
    by (rule kill_on_deletion_over [OF assms, where rp = rp and procs = procs]) blast
  then show ?case using Cons.IH [of procs1] by auto
qed simp

text \<open>
  C34: a factory leaves no process behind. Its destructor returns, and after it every process
  it had started to be killed with it is over, although waiting for a process that runs may
  never return; processes it does not own are not touched.
\<close>

theorem factory_leaves_no_process:
  assumes "tools_ok tools"
  shows "\<exists>procs'. WorkerFactory_destroy tools f procs = Some procs' \<and>
    (\<forall>rp\<in>set (CurrentProcesses f). rp_lifespan rp = KillOnFactoryDeletion \<longrightarrow>
       \<not> fst (ep_isAlive tools (procs' (rp_handle rp)))) \<and>
    (\<forall>h. h \<notin> rp_handle ` set (CurrentProcesses f) \<longrightarrow> procs' h = procs h)"
proof -
  obtain procs' where "WorkerFactory_destroy tools f procs = Some procs'"
      "\<forall>h. over tools (procs h) \<or>
         (\<exists>rp\<in>set (CurrentProcesses f). rp_handle rp = h \<and> rp_lifespan rp = KillOnFactoryDeletion)
       \<longrightarrow> over tools (procs' h)"
      "\<forall>h. h \<notin> rp_handle ` set (CurrentProcesses f) \<longrightarrow> procs' h = procs h"
    using kill_processes_over [OF assms, of "CurrentProcesses f" procs] unfolding WorkerFactory_destroy_def by blast
  then show ?thesis using over_isAlive [OF assms] by blast
qed

section \<open>The process of a worker\<close>

lemma pass_one: "pass_commands tools [c] p = sys_SetCommand tools (command_line c) p"
  by (simp add: pass_commands_def)

lemma child_environment:
  assumes "distinct (map fst requested)"
  shows "fst (execute_environment requested env) = env ++ map_of requested"
proof -
  obtain tmp child where f: "fold save_and_set requested ([], env) = (tmp, child)" by force
  have "child k = (env ++ map_of requested) k" for k
    using save_and_set_fold [OF assms _ f, of k] by (simp add: map_add_def)
  then show ?thesis using f by (simp add: execute_environment_fold fun_eq_iff)
qed

definition started_process ::
  "'p systools \<Rightarrow> (string \<rightharpoonup> string) \<Rightarrow> RunningProcess \<Rightarrow> (string \<rightharpoonup> string) \<times> 'p ExecuteProcess" where
  "started_process tools env rp =
     execute tools env (ExecuteProcess_mk tools (rp_command rp) (rp_arguments rp) (rp_environment rp))"

text \<open>
  What a new worker process is started with. When the factory creates a worker, the process
  runs the executable of a specification for exactly the requirements, with the endpoint of the
  server as first argument, then the arguments of the factory and of the specification, in the
  environment of the server overlaid by that of the specification.
\<close>

theorem worker_process_started:
  assumes "wf_createWorker alive reqs lifespan f = (True, f')"
    and "\<forall>spec\<in>set (PossibleWorkers f). distinct (map fst (spec_EnvironmentVariables spec))"
  shows "\<exists>spec\<in>set (PossibleWorkers f). JobRequirements_eq (spec_Requirements spec) reqs \<and>
    Created (snd (started_process tools env (last (CurrentProcesses f')))) \<and>
    Proc (snd (started_process tools env (last (CurrentProcesses f')))) =
      sys_Execute tools (env ++ map_of (spec_EnvironmentVariables spec))
        (sys_SetOption_HideWindow tools True
          (sys_SetCommand tools
            (map c_str (spec_ExecutionPath spec #
               (if WorkerEndpoint f \<noteq> '''' then [WorkerEndpoint f] else []) @
               GlobalCommandLineArguments f @ spec_ExtraCommandLineArguments spec))
            (sys_New tools)))"
proof -
  obtain spec where spec: "find_worker_path reqs (PossibleWorkers f) = Some spec"
    using assms(1) by (auto simp: wf_createWorker_def split: option.splits)
  then have found: "spec \<in> set (PossibleWorkers f)" "JobRequirements_eq (spec_Requirements spec) reqs"
    using find_worker_path_iff(2) by blast+
  define rp where "rp = last (CurrentProcesses f')"
  have rp: "rp_command rp = spec_ExecutionPath spec"
      "rp_arguments rp = (if WorkerEndpoint f \<noteq> '''' then [WorkerEndpoint f] else []) @
         GlobalCommandLineArguments f @ spec_ExtraCommandLineArguments spec"
      "rp_environment rp = spec_EnvironmentVariables spec"
    using assms(1) spec
    by (auto simp: rp_def wf_createWorker_def wf_addWorker_def wf_updateWorkerCount_def Let_def split: if_splits)
  have "fst (execute_environment (rp_environment rp) env) = env ++ map_of (rp_environment rp)"
    using assms(2) found(1) rp(3) by (simp add: child_environment)
  then have "Created (snd (started_process tools env rp)) \<and> Proc (snd (started_process tools env rp)) =
      sys_Execute tools (env ++ map_of (rp_environment rp))
        (sys_SetOption_HideWindow tools True
          (sys_SetCommand tools (map c_str (rp_command rp # rp_arguments rp)) (sys_New tools)))"
    by (simp add: started_process_def execute_def ExecuteProcess_mk_def pass_one command_line_def
        case_prod_unfold Let_def)
  with found rp show ?thesis unfolding rp_def by metis
qed

section \<open>Examples\<close>

text \<open>
  A process library that remembers what it was told; a process runs until it is killed, and
  waiting for it without a limit blocks for ever unless it was.
\<close>

record sample_process =
  sample_commands :: "string list list"
  sample_running :: bool
  sample_killed :: bool

definition sample_tools :: "sample_process systools" where
  "sample_tools =
     \<lparr>sys_New = \<lparr>sample_commands = [], sample_running = False, sample_killed = False\<rparr>,
      sys_SetCommand = (\<lambda>c p. p\<lparr>sample_commands := [c]\<rparr>),
      sys_AddCommand = (\<lambda>c p. p\<lparr>sample_commands := sample_commands p @ [c]\<rparr>),
      sys_SetOption_HideWindow = (\<lambda>_ p. p),
      sys_Execute = (\<lambda>_ p. p\<lparr>sample_running := True\<rparr>),
      sys_GetState = (\<lambda>p. if sample_running p then State_Executing else State_other 0),
      sys_Kill = (\<lambda>p. p\<lparr>sample_killed := True\<rparr>),
      sys_WaitForExit_timeout = (\<lambda>t p. if sample_killed p then p\<lparr>sample_running := False\<rparr> else p),
      sys_WaitForExit = (\<lambda>p. if sample_killed p then Some (p\<lparr>sample_running := False\<rparr>)
        else if sample_running p then None else Some p),
      sys_SetPipeShared = (\<lambda>_ _ p. p), sys_SetPipeFile = (\<lambda>_ _ p. p),
      sys_WaitForData = (\<lambda>_ p. ((Pipe_Timeout, ''''), p))\<rparr>"

lemma sample_tools_ok: "tools_ok sample_tools"
  by (auto simp: tools_ok_def sample_tools_def split: if_splits)

definition sample_rp :: RunningProcess where
  "sample_rp = \<lparr>rp_handle = 0, rp_command = ''mesher'', rp_arguments = [''tcp''], rp_environment = [],
     rp_lifespan = KillOnFactoryDeletion\<rparr>"

definition sample_factory :: WorkerFactory where
  "sample_factory = \<lparr>MaxWorkers = 1, WorkerEndpoint = ''tcp'', GlobalCommandLineArguments = [],
     WorkerExtension = ''.rw'', PossibleWorkers = [], CurrentProcesses = [sample_rp], wf_next_handle = 1\<rparr>"

definition sample_processes :: "nat \<Rightarrow> sample_process ExecuteProcess" where
  "sample_processes h = snd (started_process sample_tools Map.empty sample_rp)"

text \<open>The process was alive before.\<close>

lemma sample_alive: "fst (ep_isAlive sample_tools (sample_processes 0))"
  by (simp add: sample_processes_def started_process_def execute_def ep_isAlive_def sample_tools_def
      ExecuteProcess_mk_def pass_one case_prod_unfold Let_def)

theorem factory_leaves_no_process_witness:
  "fst (ep_isAlive sample_tools (sample_processes 0)) \<and>
   sys_WaitForExit sample_tools (Proc (sample_processes 0)) = None \<and>
   (\<exists>procs'. WorkerFactory_destroy sample_tools sample_factory sample_processes = Some procs' \<and>
     \<not> fst (ep_isAlive sample_tools (procs' 0)) \<and> procs' 1 = sample_processes 1)"
proof -
  have "sys_WaitForExit sample_tools (Proc (sample_processes 0)) = None"
    by (simp add: sample_processes_def started_process_def execute_def sample_tools_def
        ExecuteProcess_mk_def pass_one case_prod_unfold Let_def)
  moreover obtain procs' where "WorkerFactory_destroy sample_tools sample_factory sample_processes = Some procs'"
      "\<not> fst (ep_isAlive sample_tools (procs' 0))" "procs' 1 = sample_processes 1"
    using factory_leaves_no_process [OF sample_tools_ok, of sample_factory sample_processes]
    by (auto simp: sample_factory_def sample_rp_def)
  ultimately show ?thesis using sample_alive by blast
qed

theorem worker_process_started_witness:
  "\<exists>f'. wf_createWorker (\<lambda>_. True) example_reqs KillOnFactoryDeletion example_factory = (True, f') \<and>
    sample_commands (Proc (snd (started_process sample_tools Map.empty (last (CurrentProcesses f'))))) =
      [map c_str [''/bin/triangle'', ''tcp://127.0.0.1:50510'', ''--quiet'', ''-v'']]"
proof -
  have find: "find_worker_path example_reqs (PossibleWorkers example_factory) = Some example_spec"
    by (simp add: find_worker_path_def example_factory_def example_spec_def)
  then obtain f' where f': "wf_createWorker (\<lambda>_. True) example_reqs KillOnFactoryDeletion example_factory = (True, f')"
    by (simp add: wf_createWorker_def wf_addWorker_def wf_updateWorkerCount_def wf_currentWorkerCount_def
        unsigned_int_def example_factory_def)
  from worker_process_started [OF f', of sample_tools Map.empty] f' show ?thesis
    by (simp add: example_factory_def example_spec_def) (simp add: sample_tools_def)
qed

end
