(* ===== verification/Remus_Lifecycle.thy ===== *)
theory Remus_Lifecycle
  imports Remus_Thread Remus_Process Remus_Service
begin

text \<open>
  The life of a server from its constructor to the end of \<open>Server::Brokering\<close>: which endpoints it
  takes, what it tells its factory, the rounds of the broker loop, and what is left when it
  ends. How often the loop goes round is for the other threads to say: the rounds are an
  argument, each with what it receives, and the flag the loop reads is in \<open>Remus_Thread\<close>. The
  publisher writes to a log, so telling it which socket to use has no counterpart.
\<close>

datatype SignalHandling = NONE | CAPTURE

record 'f program =
  prg_PortInfo :: ServerPorts
  prg_Server :: "'f Server"
  prg_signals :: signal_state

text \<open>The constructors; without a factory of its own a server makes a \<open>WorkerFactory\<close>.\<close>

definition Server_ports :: "ServerPorts \<Rightarrow> ptime \<Rightarrow> 'f \<Rightarrow> signal_state \<Rightarrow> 'f program" where
  "Server_ports ports now factory g =
     \<lparr>prg_PortInfo = ports, prg_Server = Server_mk now factory, prg_signals = g\<rparr>"

definition Server_default ::
  "ptime \<Rightarrow> (string \<Rightarrow> FactoryWorkerSpecification) \<Rightarrow> dir_entry list option \<Rightarrow> signal_state \<Rightarrow>
   WorkerFactory program" where
  "Server_default now parser cwd g =
     Server_ports ServerPorts_default now (WorkerFactory_mk ''.RW'' parser cwd) g"

text \<open>Up to the loop. \<open>set_port\<close> is \<open>portForWorkersToUse\<close> of the factory.\<close>

definition Brokering_start ::
  "(string \<Rightarrow> 'f \<Rightarrow> 'f) \<Rightarrow> (string list \<Rightarrow> string \<Rightarrow> bool) \<Rightarrow> ptime \<Rightarrow> SignalHandling \<Rightarrow> 'f program \<Rightarrow>
   (ptime \<times> 'f program) result" where
  "Brokering_start set_port free now sh p =
     (let p1 = (if sh = CAPTURE then p\<lparr>prg_signals := StartCatchingSignals (prg_signals p)\<rparr> else p) in
      bindE (bind_channels free (prg_PortInfo p1)) (\<lambda>ports.
      let s = prg_Server p1;
          s1 = s\<lparr>srv_WorkerFactory := set_port (pc_Endpoint (sp_Worker ports)) (srv_WorkerFactory s)\<rparr> in
      Inr (now + milliseconds workerCheckInterval, p1\<lparr>prg_PortInfo := ports, prg_Server := s1\<rparr>)))"

primrec Brokering_loop ::
  "('f server_env \<times> broker_input) list \<Rightarrow> ptime \<times> 'f Server \<Rightarrow> (ptime \<times> 'f Server) result" where
  "Brokering_loop [] st = Inr st"
| "Brokering_loop (ei # rounds) st = bindE (Brokering_turn (fst ei) (snd ei) st) (Brokering_loop rounds)"

definition Brokering ::
  "(string \<Rightarrow> 'f \<Rightarrow> 'f) \<Rightarrow> (string list \<Rightarrow> string \<Rightarrow> bool) \<Rightarrow> ptime \<Rightarrow> ('f server_env \<times> broker_input) list \<Rightarrow>
   'f server_env \<Rightarrow> SignalHandling \<Rightarrow> 'f program \<Rightarrow> (bool \<times> 'f program) result" where
  "Brokering set_port free now rounds env_end sh p =
     bindE (Brokering_start set_port free now sh p) (\<lambda>(whenToCheck, p1).
     bindE (Brokering_loop rounds (whenToCheck, prg_Server p1)) (\<lambda>(_, s).
     let p2 = p1\<lparr>prg_Server := Brokering_end env_end s\<rparr> in
     Inr (True, if sh = CAPTURE then p2\<lparr>prg_signals := StopCatchingSignals (prg_signals p2)\<rparr> else p2)))"

section \<open>Uuids are only ever added\<close>

lemma client_uuids: "DetermineClientResponse env c msg s = Inr s' \<Longrightarrow> srv_uuids s \<le> srv_uuids s'"
  by (auto simp: DetermineClientResponse_def bindE_eq_Inr meshStatus_def retrieveResult_def terminateJob_def
      send_terminateJob_def send_simps srv_publish_simps Let_def
      split: if_splits SERVICE_TYPE.splits dest!: queueJob_uuids)

lemma turn_uuids:
  assumes "Brokering_turn env i (t, s) = Inr (t', s')"
  shows "srv_uuids s \<le> srv_uuids s'"
  using assms
proof (rule Brokering_turn_parts)
  fix s1 s2 b s3 s4
  assume s1: "s1 = s\<lparr>srv_SocketMonitor := (srv_SocketMonitor s)
      \<lparr>PollMonitor := pollOccurred (env_now env) (PollMonitor (srv_SocketMonitor s))\<rparr>\<rparr>"
    and s2: "(case bi_client i of Some (c, msg) \<Rightarrow> DetermineClientResponse env c msg s1 | None \<Rightarrow> Inr s1) = Inr s2"
    and s3: "(case bi_worker i of Some (w, msg) \<Rightarrow> DetermineWorkerResponse env w msg s2
      | None \<Rightarrow> Inr (False, s2)) = Inr (b, s3)"
    and s4: "s4 = (if t \<le> env_now env \<or> b then CheckForChangeInWorkersAndJobs env s3 else s3)"
    and s': "s' = (if bi_brokering i then FindWorkerForQueuedJob env s4 else s4)"
  have "srv_uuids s1 \<le> srv_uuids s2" using s2 by (auto split: option.splits dest: client_uuids)
  moreover have "srv_uuids s3 = srv_uuids s2"
    using s3 by (auto split: option.splits dest: DetermineWorkerResponse_uuids)
  ultimately show ?thesis
    by (simp add: s1 s' s4 FindWorker_uuids CheckForChange_simps(5) [OF refl])
qed

lemma loop_uuids: "Brokering_loop rounds (t, s) = Inr (t', s') \<Longrightarrow> srv_uuids s \<le> srv_uuids s'"
proof (induction rounds arbitrary: t s)
  case (Cons ei rounds)
  obtain t1 s1 where "Brokering_turn (fst ei) (snd ei) (t, s) = Inr (t1, s1)" "Brokering_loop rounds (t1, s1) = Inr (t', s')"
    using Cons.prems by (auto simp: bindE_eq_Inr)
  with Cons.IH turn_uuids order_trans show ?case by blast
qed simp

lemma terminate_one_uuids: "srv_uuids (fold (terminate_one env) ws s) = srv_uuids s + length ws"
  by (induction ws arbitrary: s)
     (simp_all add: terminate_one_def draw_uuid_def send_terminateWorker_def send_simps Let_def)

lemma terminate_one_active: "srv_ActiveJobs (fold (terminate_one env) ws s) = srv_ActiveJobs s"
  by (induction ws arbitrary: s)
     (simp_all add: terminate_one_def draw_uuid_def send_terminateWorker_def send_simps Let_def)

lemma end_uuids: "srv_uuids s \<le> srv_uuids (Brokering_end env s)"
  by (simp add: Brokering_end_def TerminateAllWorkers_def Let_def terminate_one_uuids srv_publish_simps)

lemma set_insert_range_length: "length (set_insert_range lt xs s) \<le> length xs + length s"
proof -
  have one: "length (set_insert lt x s) \<le> Suc (length s)" for x s by (induction s) auto
  show ?thesis
  proof (induction xs arbitrary: s)
    case (Cons x xs)
    from Cons [of "set_insert lt x s"] one [of x s] show ?case by (simp add: set_insert_range_def)
  qed (simp add: set_insert_range_def)
qed

lemma end_uuids_le:
  "srv_uuids (Brokering_end env s) \<le> srv_uuids s + length (srv_WorkerPool s) + length (srv_ActiveJobs s)"
proof -
  have "length (allResponsiveWorkers (srv_WorkerPool s)) \<le> length (srv_WorkerPool s)"
    using set_insert_range_length [of SocketIdentity_less "map wi_Address (filter IsResponsive (srv_WorkerPool s))" "[]"]
      order_trans [OF _ length_filter_le [of IsResponsive "srv_WorkerPool s"]]
    by (simp add: allResponsiveWorkers_def address_set_def)
  moreover have "length (aj_activeWorkers (srv_ActiveJobs s)) \<le> length (srv_ActiveJobs s)"
    using set_insert_range_length [of SocketIdentity_less "map (WorkerAddress \<circ> snd) (srv_ActiveJobs s)" "[]"]
    by (simp add: aj_activeWorkers_def)
  ultimately show ?thesis
    by (simp add: Brokering_end_def TerminateAllWorkers_def Let_def terminate_one_uuids terminate_one_active
        srv_publish_simps)
qed

section \<open>From start to end\<close>

lemma Brokering_loop_run:
  assumes "Brokering_loop rounds (t, s) = Inr (t', s')" and "\<forall>ei\<in>set rounds. env_generate (fst ei) = gen"
    and "server_run gen D st0 (t, s)" and "inj_on gen {..<srv_uuids s'}"
  shows "\<exists>E. server_run gen E st0 (t', s') \<and> E \<subseteq> D \<union> (\<Union>ei\<in>set rounds. turn_drops (fst ei) (snd ei))"
  using assms(1-3)
proof (induction rounds arbitrary: t s D)
  case (Cons ei rounds)
  obtain t1 s1 where st: "Brokering_turn (fst ei) (snd ei) (t, s) = Inr (t1, s1)"
      "Brokering_loop rounds (t1, s1) = Inr (t', s')"
    using Cons.prems(1) by (auto simp: bindE_eq_Inr)
  have "inj_on gen {..<srv_uuids s1}"
    by (rule inj_on_subset [OF assms(4)]) (use loop_uuids [OF st(2)] in auto)
  then have "server_run gen (D \<union> turn_drops (fst ei) (snd ei)) st0 (t1, s1)"
    using server_run.turn [of gen D st0 t s "fst ei" "snd ei" t1 s1] Cons.prems(2,3) st by simp
  from Cons.IH [OF st(2) _ this] Cons.prems(2) show ?case by fastforce
qed auto

text \<open>
  C27: the life of a server. Brokering that returns returns true, and has bound the three
  channels; the factory was told the endpoint of the worker channel before the first round; all
  that happened to the tables of the server is a run of the broker loop that drops only what
  the clients of these rounds asked for; and the signals the program handles are those from
  before, or none when the server had captured them.
\<close>

theorem server_lifecycle:
  assumes "Brokering set_port free now rounds env_end sh (Server_ports ports t0 f g) = Inr (r, p')"
    and "\<forall>ei\<in>set rounds. env_generate (fst ei) = gen" and "env_generate env_end = gen"
    and "inj_on gen {..<srv_uuids (prg_Server p')}"
  shows "r \<and> bind_channels free ports = Inr (prg_PortInfo p') \<and>
    (\<exists>t t' E. server_run gen E (t, Server_mk t0 (set_port (pc_Endpoint (sp_Worker (prg_PortInfo p'))) f))
        (t', prg_Server p') \<and> E \<subseteq> (\<Union>ei\<in>set rounds. turn_drops (fst ei) (snd ei))) \<and>
    prg_signals p' = (if sh = CAPTURE then \<lparr>sig_Instance = False, sig_action = \<lambda>_. SIG_DFL\<rparr> else g)"
proof -
  define s0 where "s0 = (\<lambda>ports'::ServerPorts. Server_mk t0 (set_port (pc_Endpoint (sp_Worker ports')) f))"
  have factory: "(Server_mk t0 f)\<lparr>srv_WorkerFactory := set_port e (srv_WorkerFactory (Server_mk t0 f))\<rparr> =
      Server_mk t0 (set_port e f)" for e by (simp add: Server_mk_def)
  obtain ports' t1 s1 where b: "bind_channels free ports = Inr ports'"
      "Brokering_loop rounds (now + milliseconds workerCheckInterval, s0 ports') = Inr (t1, s1)"
      "prg_Server p' = Brokering_end env_end s1" "prg_PortInfo p' = ports'" "r"
      "prg_signals p' = (if sh = CAPTURE then StopCatchingSignals (StartCatchingSignals g) else g)"
    using assms(1)
    by (auto simp: Brokering_def Brokering_start_def Server_ports_def bindE_eq_Inr Let_def factory s0_def
        split: if_splits)
  have "inj_on gen {..<srv_uuids s1}"
    by (rule inj_on_subset [OF assms(4)]) (use end_uuids [of s1 env_end] in \<open>auto simp: b(3)\<close>)
  from Brokering_loop_run [OF b(2) assms(2) server_run.idle this] obtain E where
    E: "server_run gen E (now + milliseconds workerCheckInterval, s0 ports') (t1, s1)"
      "E \<subseteq> (\<Union>ei\<in>set rounds. turn_drops (fst ei) (snd ei))" by auto
  then have "server_run gen E (now + milliseconds workerCheckInterval, s0 ports') (t1, prg_Server p')"
    unfolding b(3) using server_run.stop [OF E(1) assms(3)] by blast
  with E(2) b show ?thesis
    by (auto simp: s0_def StopCatchingSignals_def StartCatchingSignals_def)
qed

theorem server_lifecycle_witness:
  "\<exists>p'. Brokering (\<lambda>_ _. ()) all_free 0 [(example_env, example_turn)] example_env CAPTURE
      (Server_ports ServerPorts_default 0 () \<lparr>sig_Instance = False, sig_action = \<lambda>_. SIG_DFL\<rparr>) = Inr (True, p') \<and>
    prg_Server p' = Brokering_end example_env submitted \<and>
    bind_channels all_free ServerPorts_default = Inr (prg_PortInfo p') \<and>
    (\<exists>t t'. server_run counting_uuid {} (t, start_server) (t', prg_Server p')) \<and>
    prg_signals p' = \<lparr>sig_Instance = False, sig_action = \<lambda>_. SIG_DFL\<rparr>"
proof -
  let ?g = "\<lparr>sig_Instance = False, sig_action = \<lambda>_. SIG_DFL\<rparr>"
  let ?run = "Brokering (\<lambda>_ _. ()) all_free 0 [(example_env, example_turn)] example_env CAPTURE
      (Server_ports ServerPorts_default 0 () ?g)"
  obtain p where p: "bind_channels all_free ServerPorts_default = Inr p" using default_ports_bind ..
  have start: "(Server_mk 0 ())\<lparr>srv_WorkerFactory := ()\<rparr> = start_server"
    by (simp add: Server_mk_def start_server_def)
  have gen: "env_generate example_env = counting_uuid" by (simp add: example_env_def)
  obtain p' where p': "?run = Inr (True, p')" "prg_Server p' = Brokering_end example_env submitted"
    using p submitted_turn [of "milliseconds workerCheckInterval"]
    by (simp add: Brokering_def Brokering_start_def Server_ports_def start submitted_def Let_def)
      (simp add: milliseconds_def workerCheckInterval_def)
  have "srv_WorkerPool submitted = []" "srv_ActiveJobs submitted = []"
    unfolding submitted_def
    by (simp_all add: find_no_workers(2,3) accepted_eq example_env_def idle_factory_def)
  then have "srv_uuids (prg_Server p') = 1"
    by (simp add: p'(2) Brokering_end_def TerminateAllWorkers_def Let_def srv_publish_simps
        allResponsiveWorkers_def aj_activeWorkers_def address_set_def set_insert_range_def)
      (simp add: submitted_def FindWorker_uuids accepted_eq)
  moreover have "turn_drops example_env example_turn = {}"
    by (simp add: turn_drops_def example_turn_def drops_def request_def)
  ultimately show ?thesis
    using server_lifecycle [OF p'(1), of counting_uuid] p' inj_counting [of 1] gen
    by (auto simp: start_server_def)
qed

text \<open>
  C35: a worker the server starts connects back to it. Once brokering has bound its channels,
  every process the factory creates is handed, as its first argument, the endpoint of the
  worker channel of this server, and the connection a worker makes from it leads exactly there.
\<close>

theorem started_worker_connects_back:
  assumes "Brokering_start portForWorkersToUse free now sh p = Inr (t, p')"
    and "prg_PortInfo p = ServerPorts_sockets c st w" and "connectable w"
    and "wf_createWorker alive reqs lifespan (srv_WorkerFactory (prg_Server p')) = (True, f')"
  shows "\<exists>arg args conn. rp_arguments (last (CurrentProcesses f')) = arg # args \<and>
    arg = pc_Endpoint (sp_Worker (prg_PortInfo p')) \<and>
    worker_make_ServerConnection arg = Inr conn \<and> sc_Endpoint conn = arg \<and>
    free [pc_Endpoint (sp_Client (prg_PortInfo p'))] arg"
proof -
  obtain ports where ports: "bind_channels free (ServerPorts_sockets c st w) = Inr ports"
      "prg_PortInfo p' = ports"
      "WorkerEndpoint (srv_WorkerFactory (prg_Server p')) = pc_Endpoint (sp_Worker ports)"
    using assms(1,2)
    by (auto simp: Brokering_start_def bindE_eq_Inr Let_def portForWorkersToUse_def split: if_splits)
  obtain c' w' st' where b: "bindToAddress (free [endpoint c']) w = Inr w'"
      "ports = ServerPorts_sockets c' st' w'"
    using bind_channels_parts [OF ports(1)] by blast
  have arg: "pc_Endpoint (sp_Worker ports) = endpoint w'" "pc_Endpoint (sp_Client ports) = endpoint c'"
    by (simp_all add: b(2) ServerPorts_sockets_def PortConnection_mk_def)
  have conn: "worker_make_ServerConnection (endpoint w') = Inr (ServerConnection_socket False w')"
    unfolding worker_make_ServerConnection_def by (rule make_connection_endpoint [OF bound_free(2) [OF b(1) assms(3)]])
  have "endpoint w' \<noteq> ''''" by (cases w') simp_all
  then have "\<exists>args. rp_arguments (last (CurrentProcesses f')) = endpoint w' # args"
    using assms(4) ports(3) arg
    by (auto simp: wf_createWorker_def wf_addWorker_def wf_updateWorkerCount_def Let_def split: if_splits option.splits)
  with conn bound_free(1) [OF b(1)] show ?thesis
    by (auto simp: ports(2) arg ServerConnection_socket_def)
qed

theorem started_worker_connects_back_witness:
  "\<exists>p' f'. Brokering_start portForWorkersToUse all_free 0 NONE
       (Server_ports ServerPorts_default 0 example_factory \<lparr>sig_Instance = False, sig_action = \<lambda>_. SIG_DFL\<rparr>) =
       Inr (milliseconds workerCheckInterval, p') \<and>
    wf_createWorker (\<lambda>_. True) example_reqs KillOnFactoryDeletion (srv_WorkerFactory (prg_Server p')) = (True, f') \<and>
    hd (rp_arguments (last (CurrentProcesses f'))) = pc_Endpoint (sp_Worker (prg_PortInfo p'))"
proof -
  let ?p = "Server_ports ServerPorts_default 0 example_factory \<lparr>sig_Instance = False, sig_action = \<lambda>_. SIG_DFL\<rparr>"
  obtain ports where ports: "bind_channels all_free ServerPorts_default = Inr ports" using default_ports_bind ..
  then obtain p' where p': "Brokering_start portForWorkersToUse all_free 0 NONE ?p =
      Inr (milliseconds workerCheckInterval, p')"
      "srv_WorkerFactory (prg_Server p') = portForWorkersToUse (pc_Endpoint (sp_Worker ports)) example_factory"
    by (simp add: Brokering_start_def Server_ports_def Server_mk_def Let_def)
  have find: "find_worker_path example_reqs (PossibleWorkers example_factory) = Some example_spec"
    by (simp add: find_worker_path_def example_factory_def example_spec_def)
  obtain f' where f': "wf_createWorker (\<lambda>_. True) example_reqs KillOnFactoryDeletion
      (srv_WorkerFactory (prg_Server p')) = (True, f')"
    using find
    by (simp add: p'(2) portForWorkersToUse_def wf_createWorker_def wf_addWorker_def wf_updateWorkerCount_def
        wf_currentWorkerCount_def unsigned_int_def example_factory_def)
  have "prg_PortInfo ?p = ServerPorts_sockets (Tcp ''127.0.0.1'' CLIENT_PORT)
      (Tcp ''127.0.0.1'' STATUS_PORT) (Tcp ''127.0.0.1'' WORKER_PORT)"
    by (simp add: Server_ports_def ServerPorts_default_sockets)
  from started_worker_connects_back [OF p'(1) this _ f'] p'(1) f' show ?thesis
    by (auto simp: WORKER_PORT_def)
qed

end
