(* ===== verification/Remus_Once.thy ===== *)
theory Remus_Once
  imports Remus_Lifecycle
begin

text \<open>
  What \<open>remus/server/Server.cxx\<close> puts on the worker channel over its life. The messages to
  workers are the log \<open>srv_worker_out\<close>; a job is handed out by a \<open>MAKE_MESH\<close> response. The
  invariant \<open>handed_once\<close> says that the jobs handed out so far have different ids, none of them
  queued any more, and were submitted by clients; every turn of the broker keeps it.
\<close>

section \<open>Every job is handed out at most once\<close>

definition sent_jobs :: "'f Server \<Rightarrow> response list" where
  "sent_jobs s = filter (\<lambda>(w, t, d). t = MAKE_MESH) (srv_worker_out s)"

fun job_response :: "uuid_io \<Rightarrow> QueuedJob \<times> SocketIdentity \<Rightarrow> response" where
  "job_response io (x, w) =
     (w, MAKE_MESH, WorkerJob_to_string io (WorkerJob_mk (qj_Id x) (qj_Submission x)))"

primrec handed_ids :: "(QueuedJob \<times> SocketIdentity) list \<Rightarrow> uuid list" where
  "handed_ids [] = []"
| "handed_ids (h # js) = qj_Id (fst h) # handed_ids js"

lemma handed_ids_append [simp]: "handed_ids (js @ ks) = handed_ids js @ handed_ids ks"
  by (induction js) simp_all

text \<open>\<open>S\<close>: what clients submitted so far.\<close>

definition handed_once ::
  "(nat \<Rightarrow> uuid) \<Rightarrow> uuid_io \<Rightarrow> JobSubmission set \<Rightarrow> (QueuedJob \<times> SocketIdentity) list \<Rightarrow> 'f Server \<Rightarrow> bool" where
  "handed_once gen io S js s \<longleftrightarrow>
     sent_jobs s = map (job_response io) js \<and> distinct (handed_ids js) \<and>
     set (handed_ids js) \<subseteq> gen ` {..<srv_uuids s} - queue_ids (srv_QueuedJobs s) \<and>
     qj_Submission ` fst ` set js \<subseteq> S \<and> qj_Submission ` set (pending (srv_QueuedJobs s)) \<subseteq> S"

text \<open>The hand-overs of a search that reached their worker.\<close>

fun reached :: "'f server_env \<Rightarrow> broker_event \<Rightarrow> (QueuedJob \<times> SocketIdentity) list" where
  "reached env (Assign x w) = (if env_send_ok env w then [(x, w)] else [])"
| "reached env _ = []"

lemma job_messages_reached:
  "job_messages env es = map (job_response (env_io env)) (concat (map (reached env) es))"
proof -
  have "job_message env e = map (job_response (env_io env)) (reached env e)" for e by (cases e) simp_all
  then show ?thesis by (induction es) (simp_all add: job_messages_def)
qed

lemma sent_job_messages [simp]:
  "filter (\<lambda>(w, t, d). t = MAKE_MESH) (job_messages env es) = job_messages env es"
  unfolding job_messages_reached by (induction es) (auto simp: filter_empty_conv intro!: filter_True)

lemma assigned_once:
  assumes "broker_run es a b" and "\<forall>e\<in>set es. \<exists>x w. e = Assign x w" and "inj_on qj_Id (fst a)"
  shows "fst b \<subseteq> fst a \<and> fst ` set (concat (map (reached env) es)) \<subseteq> fst a \<and> distinct (handed_ids (concat (map (reached env) es))) \<and>
    set (handed_ids (concat (map (reached env) es))) \<subseteq> qj_Id ` fst a - qj_Id ` fst b"
  using assms
proof (induction rule: broker_run.induct)
  case (run_more e a b es c)
  then obtain x w where e: "e = Assign x w" by auto
  from run_more.hyps(1) have ab: "x \<in> fst a" "fst b = fst a - {x}"
    unfolding e by (cases rule: broker_step.cases; simp)+
  have "inj_on qj_Id (fst b)" using run_more.prems(2) by (simp add: ab(2) inj_on_diff)
  with run_more.IH run_more.prems(1)
  have IH: "fst c \<subseteq> fst b" "distinct (handed_ids (concat (map (reached env) es)))"
    "fst ` set (concat (map (reached env) es)) \<subseteq> fst b"
    "set (handed_ids (concat (map (reached env) es))) \<subseteq> qj_Id ` fst b - qj_Id ` fst c" by auto
  have "qj_Id x \<notin> qj_Id ` fst b" using ab run_more.prems(2) by (auto dest: inj_onD)
  with IH have x: "qj_Id x \<notin> set (handed_ids (concat (map (reached env) es)))" by blast
  have "qj_Id x \<in> qj_Id ` fst a - qj_Id ` fst c"
    using IH(1) ab \<open>qj_Id x \<notin> qj_Id ` fst b\<close> by blast
  moreover have "set (handed_ids (concat (map (reached env) es))) \<subseteq> qj_Id ` fst a - qj_Id ` fst c"
    using IH(4) ab(2) by blast
  moreover have "fst ` set (concat (map (reached env) (e # es))) \<subseteq> fst a" using IH(3) ab by (auto simp: e)
  ultimately show ?case using IH(1,2) ab(2) x by (simp add: e subset_iff)
qed simp

lemma suits_Assign: "suits p e \<Longrightarrow> \<exists>x w. e = Assign x w"
  by (cases e) (simp_all add: suits_def)

lemma hand_over_once:
  assumes "handed_once gen io S js s" and "server_inv gen s" and "hand_over gen env s es s'"
    and "env_io env = io"
  shows "handed_once gen io S (js @ concat (map (reached env) es)) s'"
proof -
  have run: "broker_run es (abs_of s) (abs_of s')" and out: "srv_worker_out s' = srv_worker_out s @ job_messages env es"
    and uuids: "srv_uuids s' = srv_uuids s" and "\<forall>e\<in>set es. suits (srv_WorkerPool s) e"
    using assms(3) by (simp_all add: hand_over_def list_all_iff)
  then have "\<forall>e\<in>set es. \<exists>x w. e = Assign x w"
    using suits_Assign by blast
  from assigned_once [OF run this, of env] pending_inj server_inv_parts(1) [OF assms(2)]
  have once: "set (pending (srv_QueuedJobs s')) \<subseteq> set (pending (srv_QueuedJobs s))"
    "distinct (handed_ids (concat (map (reached env) es)))"
    "set (handed_ids (concat (map (reached env) es))) \<subseteq> queue_ids (srv_QueuedJobs s) - queue_ids (srv_QueuedJobs s')"
    "fst ` set (concat (map (reached env) es)) \<subseteq> set (pending (srv_QueuedJobs s))"
    by (auto simp: abs_of_def pending_ids)
  have "queue_ids (srv_QueuedJobs s') \<subseteq> queue_ids (srv_QueuedJobs s)"
    using once(1) by (auto simp flip: pending_ids)
  moreover have "queue_ids (srv_QueuedJobs s) \<subseteq> gen ` {..<srv_uuids s}"
    using assms(2) by (auto simp: server_inv_def job_ids_def)
  moreover have "sent_jobs s' = sent_jobs s @ map (job_response io) (concat (map (reached env) es))"
    by (simp add: sent_jobs_def out) (simp add: job_messages_reached assms(4))
  moreover have "qj_Submission ` set (pending (srv_QueuedJobs s')) \<subseteq> S"
    "qj_Submission ` fst ` set (concat (map (reached env) es)) \<subseteq> S"
    using assms(1) image_mono [OF once(1), of qj_Submission] image_mono [OF once(4), of qj_Submission]
    by (meson handed_once_def order_trans)+
  moreover have js: "distinct (handed_ids js)" "set (handed_ids js) \<subseteq> gen ` {..<srv_uuids s} - queue_ids (srv_QueuedJobs s)"
    "sent_jobs s = map (job_response io) js" "qj_Submission ` fst ` set js \<subseteq> S"
    using assms(1) by (simp_all add: handed_once_def)
  moreover have "set (handed_ids js) \<inter> set (handed_ids (concat (map (reached env) es))) = {}"
    using js(2) once(3) by blast
  moreover have "set (handed_ids js) \<union> set (handed_ids (concat (map (reached env) es))) \<subseteq>
      gen ` {..<srv_uuids s} - queue_ids (srv_QueuedJobs s')"
    using js(2) once(3) calculation(1,2) by blast
  ultimately show ?thesis
    using once(2) unfolding handed_once_def uuids set_append image_Un handed_ids_append distinct_append
    by (simp only: map_append Un_subset_iff simp_thms)
qed

text \<open>Nothing but a search hands jobs out, and only new ids join the queue.\<close>

lemma sent_jobs_simps [simp]:
  "sent_jobs (srv_publish ps s) = sent_jobs s"
  "sent_jobs (snd (send_client env t d c s)) = sent_jobs s"
  "t \<noteq> MAKE_MESH \<Longrightarrow> sent_jobs (snd (send_worker env t d w s)) = sent_jobs s"
  "sent_jobs (s\<lparr>srv_QueuedJobs := q\<rparr>) = sent_jobs s"
  "sent_jobs (s\<lparr>srv_ActiveJobs := a\<rparr>) = sent_jobs s"
  "sent_jobs (s\<lparr>srv_WorkerPool := p\<rparr>) = sent_jobs s"
  "sent_jobs (s\<lparr>srv_SocketMonitor := m\<rparr>) = sent_jobs s"
  "sent_jobs (s\<lparr>srv_WorkerFactory := f\<rparr>) = sent_jobs s"
  "sent_jobs (s\<lparr>srv_uuids := n\<rparr>) = sent_jobs s"
  by (simp_all add: sent_jobs_def srv_publish_def send_client_def send_worker_def)

lemma client_sent_jobs:
  assumes "DetermineClientResponse env c msg s = Inr s'"
  shows "sent_jobs s' = sent_jobs s"
  using assms
  by (auto simp: DetermineClientResponse_def bindE_eq_Inr meshStatus_def retrieveResult_def terminateJob_def
      send_terminateJob_def queueJob_def draw_uuid_def Let_def
      split: if_splits SERVICE_TYPE.splits)

text \<open>The submission a client makes in a turn.\<close>

definition turn_submits :: "broker_input \<Rightarrow> JobSubmission set" where
  "turn_submits i = (case bi_client i of None \<Rightarrow> {} | Some (c, msg) \<Rightarrow>
     if msg_serviceType msg = MAKE_MESH then {sub. to_JobSubmission (msg_data msg) = Inr sub} else {})"

lemma addJob_pending:
  "set (pending (snd (jq_addJob sub i q))) \<subseteq> insert \<lparr>qj_Id = i, qj_Submission = sub\<rparr> (set (pending q))"
  by (auto simp: jq_addJob_def Let_def pending_def set_insert_at split: if_splits)

lemma client_queue:
  assumes "queue_inv (srv_QueuedJobs s)" and "DetermineClientResponse env c msg s = Inr s'"
  shows "queue_ids (srv_QueuedJobs s') \<subseteq>
      queue_ids (srv_QueuedJobs s) \<union> env_generate env ` {srv_uuids s..<srv_uuids s'}"
    and "qj_Submission ` set (pending (srv_QueuedJobs s')) \<subseteq>
      qj_Submission ` set (pending (srv_QueuedJobs s)) \<union>
      (if msg_serviceType msg = MAKE_MESH then {sub. to_JobSubmission (msg_data msg) = Inr sub} else {})"
proof -
  note simps = DetermineClientResponse_def bindE_eq_Inr meshStatus_def retrieveResult_def terminateJob_def
      send_terminateJob_def queueJob_def draw_uuid_def Let_def
  show "queue_ids (srv_QueuedJobs s') \<subseteq>
      queue_ids (srv_QueuedJobs s) \<union> env_generate env ` {srv_uuids s..<srv_uuids s'}"
    using assms(2) queue.remove_ids [OF assms(1)] queue.add_ids [OF assms(1)]
    by (auto simp: simps split: if_splits SERVICE_TYPE.splits)
  show "qj_Submission ` set (pending (srv_QueuedJobs s')) \<subseteq>
      qj_Submission ` set (pending (srv_QueuedJobs s)) \<union>
      (if msg_serviceType msg = MAKE_MESH then {sub. to_JobSubmission (msg_data msg) = Inr sub} else {})"
    using assms(2)
    by (auto simp: simps pending_remove [OF assms(1)] split: if_splits SERVICE_TYPE.splits dest!: subsetD [OF addJob_pending])
qed

lemma worker_sent_jobs:
  assumes "DetermineWorkerResponse env w msg s = Inr (b, s')"
  shows "sent_jobs s' = sent_jobs s \<and> srv_QueuedJobs s' = srv_QueuedJobs s"
  using assms
  by (cases "msg_serviceType msg")
     (auto simp: DetermineWorkerResponse_def bindE_eq_Inr storeMeshStatus_def storeMesh_def
      split: if_splits)

lemma end_sent_jobs: "sent_jobs (Brokering_end env s) = sent_jobs s \<and> srv_QueuedJobs (Brokering_end env s) = srv_QueuedJobs s"
proof -
  have "sent_jobs (fold (terminate_one env) ws s) = sent_jobs s \<and>
      srv_QueuedJobs (fold (terminate_one env) ws s) = srv_QueuedJobs s" for ws and s :: "'a Server"
    by (induction ws arbitrary: s)
       (simp_all add: terminate_one_def draw_uuid_def send_terminateWorker_def)
  then show ?thesis
    by (simp add: Brokering_end_def TerminateAllWorkers_def Let_def sent_jobs_def)
qed

text \<open>The invariant over a turn and over the whole life of a server.\<close>

lemma handed_once_queue:
  assumes "handed_once gen io S js s" and "sent_jobs s' = sent_jobs s"
    and "queue_ids (srv_QueuedJobs s') \<subseteq> queue_ids (srv_QueuedJobs s) \<union> gen ` {srv_uuids s..<srv_uuids s'}"
    and "qj_Submission ` set (pending (srv_QueuedJobs s')) \<subseteq> qj_Submission ` set (pending (srv_QueuedJobs s)) \<union> T"
    and "srv_uuids s \<le> srv_uuids s'" and "inj_on gen {..<srv_uuids s'}"
  shows "handed_once gen io (S \<union> T) js s'"
proof -
  have js: "set (handed_ids js) \<subseteq> gen ` {..<srv_uuids s} - queue_ids (srv_QueuedJobs s)"
    using assms(1) by (simp add: handed_once_def)
  have new: "gen ` {..<srv_uuids s} \<inter> gen ` {srv_uuids s..<srv_uuids s'} = {}"
    using inj_onD [OF assms(6)] assms(5) by force
  have "gen ` {..<srv_uuids s} \<subseteq> gen ` {..<srv_uuids s'}" using assms(5) by (intro image_mono) auto
  with js new assms(3) have "set (handed_ids js) \<subseteq> gen ` {..<srv_uuids s'} - queue_ids (srv_QueuedJobs s')"
    by blast
  moreover have "qj_Submission ` set (pending (srv_QueuedJobs s')) \<subseteq> S \<union> T"
    using assms(1) by (intro order_trans [OF assms(4)] Un_mono) (simp_all add: handed_once_def)
  ultimately show ?thesis using assms(1,2) by (simp add: handed_once_def le_supI1)
qed

lemma turn_once:
  assumes "server_inv gen s" and "env_generate env = gen" and "env_io env = io"
    and "inj_on gen {..<srv_uuids s'}" and "handed_once gen io S js s"
    and "Brokering_turn env i (t, s) = Inr (t', s')"
  shows "\<exists>ks. handed_once gen io (S \<union> turn_submits i) ks s'"
  using assms(6)
proof (rule Brokering_turn_parts)
  fix s1 s2 b s3 s4
  assume s1: "s1 = s\<lparr>srv_SocketMonitor := (srv_SocketMonitor s)
      \<lparr>PollMonitor := pollOccurred (env_now env) (PollMonitor (srv_SocketMonitor s))\<rparr>\<rparr>"
    and s2: "(case bi_client i of Some (c, msg) \<Rightarrow> DetermineClientResponse env c msg s1 | None \<Rightarrow> Inr s1) = Inr s2"
    and s3: "(case bi_worker i of Some (w, msg) \<Rightarrow> DetermineWorkerResponse env w msg s2
      | None \<Rightarrow> Inr (False, s2)) = Inr (b, s3)"
    and s4: "s4 = (if t \<le> env_now env \<or> b then CheckForChangeInWorkersAndJobs env s3 else s3)"
    and s': "s' = (if bi_brokering i then FindWorkerForQueuedJob env s4 else s4)"
  have inv1: "server_inv gen s1"
    using server_inv_monitor(1) [OF assms(1)] server_inv_parts(5) [OF assms(1)] by (simp add: s1)
  have once1: "handed_once gen io S js s1" using assms(5) by (simp add: s1 handed_once_def)
  have uuids: "srv_uuids s3 = srv_uuids s2" "srv_uuids s' = srv_uuids s2"
    using s3 by (auto simp: s' s4 FindWorker_uuids CheckForChange_simps(5) [OF refl] split: option.splits
        dest: DetermineWorkerResponse_uuids)
  have inj: "inj_on gen {..<srv_uuids s2}" using assms(4) uuids by simp
  note inv2 = client_part(1) [OF inv1 assms(2) inj s2]
  have "sent_jobs s2 = sent_jobs s1 \<and> srv_uuids s1 \<le> srv_uuids s2 \<and>
      queue_ids (srv_QueuedJobs s2) \<subseteq> queue_ids (srv_QueuedJobs s1) \<union> gen ` {srv_uuids s1..<srv_uuids s2} \<and>
      qj_Submission ` set (pending (srv_QueuedJobs s2)) \<subseteq>
        qj_Submission ` set (pending (srv_QueuedJobs s1)) \<union> turn_submits i"
  proof (cases "bi_client i")
    case (Some cm)
    then have "DetermineClientResponse env (fst cm) (snd cm) s1 = Inr s2" using s2 by (cases cm) simp
    from client_sent_jobs [OF this] client_uuids [OF this]
      client_queue [OF server_inv_parts(1) [OF inv1] this] assms(2) Some
    show ?thesis by (simp add: turn_submits_def split_beta)
  qed (use s2 in simp)
  then have once2: "handed_once gen io (S \<union> turn_submits i) js s2"
    using handed_once_queue [OF once1] inj by blast
  have "sent_jobs s4 = sent_jobs s2" "srv_QueuedJobs s4 = srv_QueuedJobs s2" "srv_uuids s4 = srv_uuids s2"
    using s3 worker_sent_jobs [of env _ _ s2 b s3] uuids
    by (auto simp: s4 sent_jobs_def CheckForChange_simps [OF refl] split: option.splits)
  with once2 have once4: "handed_once gen io (S \<union> turn_submits i) js s4" by (simp add: handed_once_def)
  have inv4: "server_inv gen s4"
    using worker_part(1) [OF inv2 s3] CheckForChange_inv(1) [of gen s3 env] by (simp add: s4)
  from FindWorker_hand_over [OF inv4, of env] obtain es where
    "hand_over gen env s4 es (FindWorkerForQueuedJob env s4)" by blast
  from hand_over_once [OF once4 inv4 this assms(3)] once4 show ?thesis by (auto simp: s')
qed

lemma loop_once:
  assumes "Brokering_loop rounds (t, s) = Inr (t', s')"
    and "\<forall>ei\<in>set rounds. env_generate (fst ei) = gen \<and> env_io (fst ei) = io"
    and "server_inv gen s" and "handed_once gen io S js s" and "inj_on gen {..<srv_uuids s'}"
  shows "server_inv gen s' \<and> (\<exists>ks. handed_once gen io (S \<union> (\<Union>ei\<in>set rounds. turn_submits (snd ei))) ks s')"
  using assms(1-4)
proof (induction rounds arbitrary: t s S js)
  case (Cons ei rounds)
  obtain t1 s1 where st: "Brokering_turn (fst ei) (snd ei) (t, s) = Inr (t1, s1)"
      "Brokering_loop rounds (t1, s1) = Inr (t', s')"
    using Cons.prems(1) by (auto simp: bindE_eq_Inr)
  have inj: "inj_on gen {..<srv_uuids s1}"
    by (rule inj_on_subset [OF assms(5)]) (use loop_uuids [OF st(2)] in auto)
  have env: "env_generate (fst ei) = gen" "env_io (fst ei) = io" using Cons.prems(2) by auto
  obtain ks where "handed_once gen io (S \<union> turn_submits (snd ei)) ks s1"
    using turn_once [OF Cons.prems(3) env inj Cons.prems(4) st(1)] by blast
  from Cons.IH [OF st(2) _ _ this] Brokering_turn_run [OF Cons.prems(3) env(1) inj st(1)] Cons.prems(2)
  show ?case by (simp add: Un_assoc)
qed auto

end
