(* ===== verification/Remus_Client.thy ===== *)
theory Remus_Client
  imports Remus_Service
begin

text \<open>
  \<open>remus/client/Client.cxx\<close>: every call sends one message and decodes the one response. What
  carries the message to a server and the response back is the argument \<open>ex\<close> of each call;
  \<open>server_exchange\<close> is the exchange with the broker of \<open>Remus_Server\<close>.

  Four calls build a stream from \<open>response.data()\<close> without a length, so they read a C string:
  it ends at the first NUL byte of the payload or of whatever lies behind the payload in
  memory, the argument \<open>behind\<close>.
\<close>

type_synonym 's exchange = "Message \<Rightarrow> 's \<Rightarrow> (Response \<times> 's) result"

definition client_message :: "MeshIOType \<Rightarrow> SERVICE_TYPE \<Rightarrow> string option \<Rightarrow> Message" where
  "client_message mtype service data =
     \<lparr>msg_MeshIOType = mtype, msg_serviceType = service, msg_valid = True, msg_storage = data\<rparr>"

definition c_string :: "string \<Rightarrow> string \<Rightarrow> string" where
  "c_string data behind = takeWhile (\<lambda>c. c \<noteq> CHR 0x00) (data @ behind)"

definition read_bool :: "istream \<Rightarrow> (bool \<times> istream) result" where
  "read_bool s = bindE (read_int_uninit s) (\<lambda>(n, s'). Inr (n \<noteq> 0, s'))"

definition Client_supportedIOTypes ::
  "string \<Rightarrow> 's exchange \<Rightarrow> 's \<Rightarrow> (MeshIOTypeSet \<times> 's) result" where
  "Client_supportedIOTypes behind ex s =
     bindE (ex (client_message MeshIOType_default SUPPORTED_IO_TYPES None) s) (\<lambda>(response, s').
     bindE (MeshIOTypeSet_read (istream_of (c_string (rsp_data response) behind))) (\<lambda>(types, _).
     Inr (types, s')))"

definition Client_canMesh :: "string \<Rightarrow> MeshIOType \<Rightarrow> 's exchange \<Rightarrow> 's \<Rightarrow> (bool \<times> 's) result" where
  "Client_canMesh behind meshtypes ex s =
     bindE (ex (client_message meshtypes CAN_MESH_IO_TYPE None) s) (\<lambda>(response, s').
     bindE (read_bool (istream_of (c_string (rsp_data response) behind))) (\<lambda>(serverCanMesh, _).
     Inr (serverCanMesh, s')))"

definition Client_canMeshRequirements ::
  "string \<Rightarrow> JobRequirements \<Rightarrow> 's exchange \<Rightarrow> 's \<Rightarrow> (bool \<times> 's) result" where
  "Client_canMeshRequirements behind reqs ex s =
     bindE (ex (client_message (req_meshTypes reqs) CAN_MESH_REQUIREMENTS
                 (Some (JobRequirements_serialize reqs))) s) (\<lambda>(response, s').
     bindE (read_bool (istream_of (c_string (rsp_data response) behind))) (\<lambda>(serverCanMesh, _).
     Inr (serverCanMesh, s')))"

definition Client_retrieveRequirements ::
  "string \<Rightarrow> MeshIOType \<Rightarrow> 's exchange \<Rightarrow> 's \<Rightarrow> (JobRequirementsSet \<times> 's) result" where
  "Client_retrieveRequirements behind meshtypes ex s =
     bindE (ex (client_message meshtypes MESH_REQUIREMENTS_FOR_IO_TYPE None) s) (\<lambda>(response, s').
     bindE (JobRequirementsSet_read (istream_of (c_string (rsp_data response) behind))) (\<lambda>(reqs, _).
     Inr (reqs, s')))"

definition Client_submitJob ::
  "uuid_io \<Rightarrow> JobSubmission \<Rightarrow> 's exchange \<Rightarrow> 's \<Rightarrow> (Job \<times> 's) result" where
  "Client_submitJob io submission ex s =
     bindE (ex (client_message (sub_type submission) MAKE_MESH
                 (Some (JobSubmission_serialize submission))) s) (\<lambda>(response, s').
     bindE (to_Job io (rsp_data response)) (\<lambda>job. Inr (job, s')))"

definition Client_jobStatus :: "uuid_io \<Rightarrow> Job \<Rightarrow> 's exchange \<Rightarrow> 's \<Rightarrow> (JobStatus \<times> 's) result" where
  "Client_jobStatus io job ex s =
     bindE (ex (client_message (job_type job) MESH_STATUS (Some (Job_to_string job))) s) (\<lambda>(response, s').
     bindE (to_JobStatus io (rsp_data response)) (\<lambda>status. Inr (status, s')))"

definition Client_retrieveResults ::
  "uuid_io \<Rightarrow> Job \<Rightarrow> 's exchange \<Rightarrow> 's \<Rightarrow> (JobResult \<times> 's) result" where
  "Client_retrieveResults io job ex s =
     bindE (ex (client_message (job_type job) RETRIEVE_RESULT (Some (Job_to_string job))) s) (\<lambda>(response, s').
     bindE (to_JobResult io (rsp_data response)) (\<lambda>res. Inr (res, s')))"

definition Client_terminate :: "uuid_io \<Rightarrow> Job \<Rightarrow> 's exchange \<Rightarrow> 's \<Rightarrow> (JobStatus \<times> 's) result" where
  "Client_terminate io job ex s =
     bindE (ex (client_message (job_type job) TERMINATE_JOB (Some (Job_to_string job))) s) (\<lambda>(response, s').
     bindE (to_JobStatus io (rsp_data response)) (\<lambda>status. Inr (status, s')))"

section \<open>Talking to the broker\<close>

text \<open>The server handles the message and the client receives what it sent, if it sent anything.\<close>

definition server_exchange :: "'f server_env \<Rightarrow> SocketIdentity \<Rightarrow> 'f Server exchange" where
  "server_exchange env client msg s =
     bindE (DetermineClientResponse env client msg s) (\<lambda>s'.
     case drop (length (srv_client_out s)) (srv_client_out s') of
       (c, service, data) # _ \<Rightarrow>
         Inr (\<lparr>rsp_serviceType = service, rsp_valid = True, rsp_data = data\<rparr>, s')
     | [] \<Rightarrow> Inl ZmqError)"

lemma exchange_sent:
  assumes "env_send_ok env client" and "msg_valid msg"
    and "DetermineClientResponse env client msg s = Inr (snd (send_client env service d client s'))"
    and "srv_client_out s' = srv_client_out s"
  shows "server_exchange env client msg s =
    Inr (\<lparr>rsp_serviceType = service, rsp_valid = True, rsp_data = d\<rparr>,
         snd (send_client env service d client s'))"
  using assms by (simp add: server_exchange_def send_client_def)

lemma client_message_simps [simp]:
  "msg_valid (client_message mt x d)" "msg_serviceType (client_message mt x d) = x"
  "msg_MeshIOType (client_message mt x d) = mt" "msg_data (client_message mt x (Some str)) = str"
  by (simp_all add: client_message_def msg_data_def)

lemma read_bool_answer:
  "read_bool (istream_of (c_string (show_bool b @ [nl]) behind)) =
     Inr (b, istream_of (nl # takeWhile (\<lambda>c. c \<noteq> CHR 0x00) behind))"
proof -
  have "digit 0 = CHR ''0''" "digit 1 = CHR ''1''" by code_simp+
  then have "show_bool b = show_nat (if b then 1 else 0)"
    by (simp add: show_bool_def show_nat.simps)
  moreover have "c_string (show_bool b @ [nl]) behind =
      show_bool b @ nl # takeWhile (\<lambda>c. c \<noteq> CHR 0x00) behind"
    by (simp add: c_string_def show_bool_def)
  ultimately show ?thesis
    using read_int_uninit_show_nat [of "if b then 1 else 0"]
    by (simp add: read_bool_def)
qed

section \<open>Handles\<close>

text \<open>A job handle that prints as its own id and type, as every handle a server gave out does.\<close>

definition is_handle :: "uuid_io \<Rightarrow> Job \<Rightarrow> bool" where
  "is_handle io job \<longleftrightarrow> MeshIOType_wf (job_type job) \<and>
     (\<exists>t. job_cached job = make_serialized_form io (job_id job) (job_type job) @ t)"

lemma handle_read:
  assumes "uuid_io_ok io" and "is_handle io job"
  shows "\<exists>job'. to_Job io (Job_to_string job) = Inr job' \<and> is_handle io job' \<and>
    job_id job' = job_id job \<and> job_type job' = job_type job"
proof -
  obtain t where "job_cached job = make_serialized_form io (job_id job) (job_type job) @ t"
    and wf: "MeshIOType_wf (job_type job)" using assms(2) by (auto simp: is_handle_def)
  from to_Job_hop [OF assms(1) wf this(1)] wf show ?thesis by (auto simp: is_handle_def)
qed

lemma handle_mk: "MeshIOType_wf ty \<Longrightarrow> is_handle io (Job_mk io i ty)"
  by (simp add: is_handle_def Job_mk_def)

lemma progress_mk_wf [simp]: "JobProgress_wf (js_progress (JobStatus_mk i st))"
  by (cases st) (simp_all add: JobStatus_mk_def JobProgress_status_def JobProgress_wf_def)

section \<open>What clients see\<close>

lemma answer_status:
  assumes "uuid_io_ok (env_io env)" and "env_send_ok env client" and "is_handle (env_io env) job"
    and "JobProgress_wf (js_progress js)"
    and "\<And>job'. job_id job' = job_id job \<Longrightarrow>
      to_Job (env_io env) (Job_to_string job) = Inr job' \<Longrightarrow>
      meshStatus env (client_message (job_type job) MESH_STATUS (Some (Job_to_string job))) s =
        Inr (JobStatus_to_string (env_io env) js, s')"
    and "srv_client_out s' = srv_client_out s"
  shows "\<exists>s''. Client_jobStatus (env_io env) job (server_exchange env client) s = Inr (js, s'') \<and>
    abs_of s'' = abs_of s'"
proof -
  let ?m = "client_message (job_type job) MESH_STATUS (Some (Job_to_string job))"
  obtain job' where "to_Job (env_io env) (Job_to_string job) = Inr job'" "job_id job' = job_id job"
    using handle_read [OF assms(1,3)] by blast
  with assms(5) have "DetermineClientResponse env client ?m s =
      Inr (snd (send_client env MESH_STATUS (JobStatus_to_string (env_io env) js) client s'))"
    by (simp add: DetermineClientResponse_def)
  from exchange_sent [OF assms(2) _ this assms(6)] JobStatus_wire [OF assms(1,4)]
  show ?thesis by (simp add: Client_jobStatus_def)
qed

text \<open>
  Submitting a job through the client works end to end. The client gets a handle with a
  fresh id and the type it asked for, the server's queue holds exactly that submission in
  addition to what it had, and asking for the status with that handle answers \<open>QUEUED\<close>.
\<close>

theorem client_submits_job:
  assumes "server_inv gen s" and "env_generate env = gen" and "inj_on gen {..<srv_uuids s + 1}"
    and "uuid_io_ok (env_io env)" and "env_send_ok env client"
    and "JobSubmission_wf sub" and "MeshIOType_wf (sub_type sub)"
  shows "\<exists>job s1 s2.
    Client_submitJob (env_io env) sub (server_exchange env client) s = Inr (job, s1) \<and>
    job_id job = gen (srv_uuids s) \<and> job_id job \<notin> job_ids s \<and> job_type job = sub_type sub \<and>
    abs_of s1 = (insert \<lparr>qj_Id = job_id job, qj_Submission = sub\<rparr> (fst (abs_of s)), snd (abs_of s)) \<and>
    Client_jobStatus (env_io env) job (server_exchange env client) s1 =
      Inr (JobStatus_mk (job_id job) QUEUED, s2)"
proof -
  let ?i = "gen (srv_uuids s)" and ?m = "client_message (sub_type sub) MAKE_MESH (Some (JobSubmission_serialize sub))"
  note parts = server_inv_parts [OF assms(1)]
  have fresh: "?i \<notin> job_ids s" by (rule fresh_uuid [OF assms(1,3)])
  obtain s1 where q: "queueJob env ?m s = Inr (Job_to_string (Job_mk (env_io env) ?i (sub_type sub)), s1)"
    and s1: "srv_QueuedJobs s1 = snd (jq_addJob sub ?i (srv_QueuedJobs s))"
      "srv_ActiveJobs s1 = srv_ActiveJobs s" "srv_client_out s1 = srv_client_out s"
    using JobSubmission_wire [OF assms(6)] assms(2) by (simp add: queueJob_def draw_uuid_def Let_def)
  let ?s1 = "snd (send_client env MAKE_MESH (Job_to_string (Job_mk (env_io env) ?i (sub_type sub))) client s1)"
  have "DetermineClientResponse env client ?m s = Inr ?s1" by (simp add: DetermineClientResponse_def q)
  note ex = exchange_sent [OF assms(5) _ this s1(3)]
  obtain job where job: "to_Job (env_io env) (Job_to_string (Job_mk (env_io env) ?i (sub_type sub))) = Inr job"
    "is_handle (env_io env) job" "job_id job = ?i" "job_type job = sub_type sub"
    using handle_read [OF assms(4) handle_mk [OF assms(7), of _ ?i]] by (auto simp: Job_mk_def)
  have sent: "Client_submitJob (env_io env) sub (server_exchange env client) s = Inr (job, ?s1)"
    using ex job(1) by (simp add: Client_submitJob_def)
  have abs: "abs_of ?s1 = (insert \<lparr>qj_Id = ?i, qj_Submission = sub\<rparr> (fst (abs_of s)), snd (abs_of s))"
    using fresh pending_add [OF parts(1)] by (simp add: abs_of_def s1 job_ids_def)
  have queued: "jq_haveUUID ?i (srv_QueuedJobs ?s1)"
    using queue.added_is_found [OF parts(1)] by (simp add: s1)
  have "\<exists>s2. Client_jobStatus (env_io env) job (server_exchange env client) ?s1 =
      Inr (JobStatus_mk ?i QUEUED, s2) \<and> abs_of s2 = abs_of ?s1"
    using queued job(3) by (intro answer_status [OF assms(4,5) job(2)]) (simp_all add: meshStatus_def)
  with sent abs job(3,4) fresh show ?thesis by auto
qed

theorem client_submits_job_witness:
  "\<exists>job s1 s2. Client_submitJob hex_uuid_io example_submission
       (server_exchange example_env example_client) start_server = Inr (job, s1) \<and> job_id job = 1 \<and>
     Client_jobStatus hex_uuid_io job (server_exchange example_env example_client) s1 =
       Inr (JobStatus_mk 1 QUEUED, s2)"
proof -
  have inv: "server_inv counting_uuid start_server" by (simp add: start_server_def server_inv_mk)
  have s: "srv_uuids start_server = 0" by (simp add: start_server_def Server_mk_def)
  have e: "env_generate example_env = counting_uuid" "env_io example_env = hex_uuid_io"
    "env_send_ok example_env example_client" by (simp_all add: example_env_def)
  have wf: "MeshIOType_wf (sub_type example_submission)"
    using example_reqs_wf by (simp add: example_submission_def JobSubmission_content_def JobRequirements_wf_def)
  from client_submits_job [OF inv e(1) _ _ e(3) example_submission_wf wf] show ?thesis
    by (auto simp: s e inj_counting hex_uuid_io_ok counting_uuid_def)
qed

lemma answer_result:
  assumes "uuid_io_ok (env_io env)" and "env_send_ok env client" and "is_handle (env_io env) job"
    and "length (res_data r) \<le> max_object_size"
    and "retrieveResult env (client_message (job_type job) RETRIEVE_RESULT (Some (Job_to_string job))) s =
        Inr (JobResult_to_string (env_io env) r, s')"
    and "srv_client_out s' = srv_client_out s"
  shows "Client_retrieveResults (env_io env) job (server_exchange env client) s =
    Inr (r, snd (send_client env RETRIEVE_RESULT (JobResult_to_string (env_io env) r) client s'))"
proof -
  let ?m = "client_message (job_type job) RETRIEVE_RESULT (Some (Job_to_string job))"
  have "DetermineClientResponse env client ?m s =
      Inr (snd (send_client env RETRIEVE_RESULT (JobResult_to_string (env_io env) r) client s'))"
    using assms(5) by (simp add: DetermineClientResponse_def)
  from exchange_sent [OF assms(2) _ this assms(6)] JobResult_wire [OF assms(1,4)]
  show ?thesis by (simp add: Client_retrieveResults_def)
qed

text \<open>
  The bytes of a result arrive at the client. For an active job whose result is stored,
  the client's request returns that very result, format and data included, and the server
  forgets the job; asking again returns an invalid, empty result.
\<close>

theorem client_gets_result:
  assumes "uuid_io_ok (env_io env)" and "env_send_ok env client" and "is_handle (env_io env) job"
    and "map_find (<) (job_id job) (srv_ActiveJobs s) = Some st" and "have_result st"
    and "length (res_data (jresult st)) \<le> max_object_size"
  shows "\<exists>s1 s2. Client_retrieveResults (env_io env) job (server_exchange env client) s = Inr (jresult st, s1) \<and>
    \<not> aj_haveUUID (job_id job) (srv_ActiveJobs s1) \<and>
    Client_retrieveResults (env_io env) job (server_exchange env client) s1 =
      Inr (JobResult_empty (job_id job), s2) \<and> \<not> JobResult_valid (JobResult_empty (job_id job))"
proof -
  let ?m = "client_message (job_type job) RETRIEVE_RESULT (Some (Job_to_string job))"
  let ?s' = "s\<lparr>srv_ActiveJobs := snd (aj_remove (job_id job) (srv_ActiveJobs s))\<rparr>"
  obtain job' where job': "to_Job (env_io env) (Job_to_string job) = Inr job'" "job_id job' = job_id job"
    using handle_read [OF assms(1,3)] by blast
  have "retrieveResult env ?m s = Inr (JobResult_to_string (env_io env) (jresult st), ?s')"
    using assms(4,5) job' by (simp add: retrieveResult_def aj_haveUUID_iff aj_haveResult_def aj_result_def)
  from answer_result [OF assms(1-3,6) this] obtain s1 where
    first: "Client_retrieveResults (env_io env) job (server_exchange env client) s = Inr (jresult st, s1)"
    and s1: "srv_ActiveJobs s1 = snd (aj_remove (job_id job) (srv_ActiveJobs s))" by auto
  have gone: "\<not> aj_haveUUID (job_id job) (srv_ActiveJobs s1)"
    by (simp add: s1 aj_haveUUID_iff aj_remove_find)
  have "retrieveResult env ?m s1 = Inr (JobResult_to_string (env_io env) (JobResult_empty (job_id job)), s1)"
    using gone job' by (simp add: retrieveResult_def)
  from answer_result [OF assms(1-3) _ this] have
    "\<exists>s2. Client_retrieveResults (env_io env) job (server_exchange env client) s1 =
      Inr (JobResult_empty (job_id job), s2)" by (simp add: JobResult_empty_def)
  with first gone show ?thesis by (auto simp: JobResult_valid_def JobResult_empty_def)
qed

definition finished_server :: "unit Server" where
  "finished_server = start_server\<lparr>srv_ActiveJobs := aj_updateResult (JobResult_mk 1 JSON ''mesh'')
     (snd (aj_add example_worker 1 []))\<rparr>"

theorem client_gets_result_witness:
  "\<exists>s1. Client_retrieveResults hex_uuid_io
     (Job_mk hex_uuid_io 1 \<lparr>inputType = ''Model'', outputType = ''Mesh3D''\<rparr>)
     (server_exchange example_env example_client) finished_server = Inr (JobResult_mk 1 JSON ''mesh'', s1)"
proof -
  let ?job = "Job_mk hex_uuid_io 1 \<lparr>inputType = ''Model'', outputType = ''Mesh3D''\<rparr>"
  have h: "is_handle (env_io example_env) ?job"
    using handle_mk [of "\<lparr>inputType = ''Model'', outputType = ''Mesh3D''\<rparr>" hex_uuid_io 1]
    by (simp add: MeshIOType_wf_def max_object_size_def) (simp add: example_env_def)
  have io: "uuid_io_ok (env_io example_env)" "env_send_ok example_env example_client"
    using hex_uuid_io_ok by (simp_all add: example_env_def)
  have "\<exists>st. map_find (<) (job_id ?job) (srv_ActiveJobs finished_server) = Some st \<and> have_result st \<and>
      jresult st = JobResult_mk 1 JSON ''mesh''"
    by (simp add: finished_server_def start_server_def aj_add_def aj_haveUUID_iff aj_updateResult_def
        JobResult_mk_def Job_mk_def equiv_by_def Let_def)
  then obtain st where st: "map_find (<) (job_id ?job) (srv_ActiveJobs finished_server) = Some st"
    "have_result st" "jresult st = JobResult_mk 1 JSON ''mesh''" by blast
  from client_gets_result [OF io h st(1,2)] st(3) show ?thesis
    by (auto simp: JobResult_mk_def max_object_size_def example_env_def)
qed

lemma answer_bool:
  assumes "env_send_ok env client"
    and "DetermineClientResponse env client msg s =
      Inr (snd (send_client env service (show_bool b @ [nl]) client s))" and "msg_valid msg"
  shows "bindE (server_exchange env client msg s) (\<lambda>(response, s').
     bindE (read_bool (istream_of (c_string (rsp_data response) behind))) (\<lambda>(c, _). Inr (c, s'))) =
     Inr (b, snd (send_client env service (show_bool b @ [nl]) client s))"
  using exchange_sent [OF assms(1,3,2)] by (simp add: read_bool_answer)

text \<open>
  Asking whether the server can mesh something answers exactly whether the pool has a
  waiting worker for it or the factory supports it and may run workers, and changes no
  state; the answer does not depend on what lies behind the response in memory, although
  the client reads it as a C string.
\<close>

theorem client_canMesh_spec:
  assumes "env_send_ok env client" and "JobRequirements_wf reqs"
  shows "\<exists>s1 s2. Client_canMesh behind ty (server_exchange env client) s =
      Inr (0 < fo_maxWorkerCount (env_factory env) (srv_WorkerFactory s) \<and>
           fo_workerRequirements (env_factory env) ty (srv_WorkerFactory s) \<noteq> [] \<or>
           waitingWorkerRequirements ty (srv_WorkerPool s) \<noteq> [], s1) \<and>
    Client_canMeshRequirements behind reqs (server_exchange env client) s =
      Inr (0 < fo_maxWorkerCount (env_factory env) (srv_WorkerFactory s) \<and>
           fo_haveSupport (env_factory env) reqs (srv_WorkerFactory s) \<or>
           haveWaitingWorker reqs (srv_WorkerPool s), s2) \<and>
    abs_of s1 = abs_of s \<and> abs_of s2 = abs_of s"
proof -
  let ?m = "client_message ty CAN_MESH_IO_TYPE None"
  let ?n = "client_message (req_meshTypes reqs) CAN_MESH_REQUIREMENTS (Some (JobRequirements_serialize reqs))"
  have "to_JobRequirements (JobRequirements_serialize reqs) = Inr reqs"
    by (rule JobRequirements_wire [OF assms(2)])
  then have n: "DetermineClientResponse env client ?n s = Inr (snd (send_client env CAN_MESH_REQUIREMENTS
      (show_bool (0 < fo_maxWorkerCount (env_factory env) (srv_WorkerFactory s) \<and>
           fo_haveSupport (env_factory env) reqs (srv_WorkerFactory s) \<or>
           haveWaitingWorker reqs (srv_WorkerPool s)) @ [nl]) client s))"
    by (simp add: DetermineClientResponse_def canMeshRequirements_def Let_def conj_commute)
  have m: "DetermineClientResponse env client ?m s = Inr (snd (send_client env CAN_MESH_IO_TYPE
      (show_bool (0 < fo_maxWorkerCount (env_factory env) (srv_WorkerFactory s) \<and>
           fo_workerRequirements (env_factory env) ty (srv_WorkerFactory s) \<noteq> [] \<or>
           waitingWorkerRequirements ty (srv_WorkerPool s) \<noteq> []) @ [nl]) client s))"
    by (simp add: DetermineClientResponse_def canMesh_def Let_def conj_commute)
  show ?thesis
    using answer_bool [OF assms(1) m, of behind] answer_bool [OF assms(1) n, of behind]
    by (simp add: Client_canMesh_def Client_canMeshRequirements_def)
qed

theorem client_canMesh_spec_witness:
  "\<exists>s'. Client_canMeshRequirements ''junk'' example_reqs (server_exchange example_env example_client)
     waiting_server = Inr (True, s')"
proof -
  have "haveWaitingWorker example_reqs (srv_WorkerPool waiting_server)"
    by (simp add: waiting_server_def haveWaitingWorker_def example_pool_def wants_job_def
        isWaitingForWork_def WorkerInfo_mk_def)
  moreover have "env_send_ok example_env example_client" by (simp add: example_env_def)
  ultimately show ?thesis
    using client_canMesh_spec [OF _ example_reqs_wf, of example_env example_client "''junk''"
        MeshIOType_default waiting_server] by auto
qed

end
