(* ===== verification/Remus_System.thy ===== *)
theory Remus_System
  imports Remus_Once Remus_Client Remus_Worker
begin

text \<open>
  The parts together: what a server, its clients and its workers do to one job from its
  submission to its result, in turns of the broker and rounds of the threads of the worker.
\<close>

section \<open>One job from end to end\<close>

text \<open>A turn of the broker in which one message of a worker, or of a client, is ready.\<close>

definition hears :: "SocketIdentity \<Rightarrow> Message \<Rightarrow> broker_input" where
  "hears wid m = \<lparr>bi_poll = [PollReturned 1], bi_client = None, bi_worker = Some (wid, m), bi_brokering = True\<rparr>"

definition asked_by :: "SocketIdentity \<Rightarrow> Message \<Rightarrow> broker_input" where
  "asked_by client m = \<lparr>bi_poll = [PollReturned 1], bi_client = Some (client, m), bi_worker = None, bi_brokering = True\<rparr>"

text \<open>The exchange of a client with the running broker: one turn, and what it sent back.\<close>

definition turn_exchange :: "'f server_env \<Rightarrow> ptime \<Rightarrow> SocketIdentity \<Rightarrow> 'f Server exchange" where
  "turn_exchange env t client msg s =
     bindE (Brokering_turn env (asked_by client msg) (t, s)) (\<lambda>(_, s').
     case drop (length (srv_client_out s)) (srv_client_out s') of
       (c, service, data) # _ \<Rightarrow>
         Inr (\<lparr>rsp_serviceType = service, rsp_valid = True, rsp_data = data\<rparr>, s')
     | [] \<Rightarrow> Inl ZmqError)"

text \<open>A server between two checks for dead workers, with nothing queued.\<close>

definition calm :: "(nat \<Rightarrow> uuid) \<Rightarrow> 'f server_env \<Rightarrow> ptime \<Rightarrow> 'f Server \<Rightarrow> bool" where
  "calm gen env t s \<longleftrightarrow> server_inv gen s \<and> env_generate env = gen \<and> inj_on gen {..<srv_uuids s} \<and>
     env_now env < t \<and> ready_monitor (PollMonitor (srv_SocketMonitor s)) \<and>
     queue_ids (srv_QueuedJobs s) = {}"

definition polled :: "'f server_env \<Rightarrow> 'f Server \<Rightarrow> 'f Server" where
  "polled env s = s\<lparr>srv_SocketMonitor := (srv_SocketMonitor s)
      \<lparr>PollMonitor := pollOccurred (env_now env) (PollMonitor (srv_SocketMonitor s))\<rparr>\<rparr>"

lemma polled_simps [simp]:
  "srv_QueuedJobs (polled env s) = srv_QueuedJobs s" "srv_ActiveJobs (polled env s) = srv_ActiveJobs s"
  "srv_WorkerPool (polled env s) = srv_WorkerPool s" "srv_uuids (polled env s) = srv_uuids s"
  "srv_worker_out (polled env s) = srv_worker_out s" "srv_client_out (polled env s) = srv_client_out s"
  "PollMonitor (srv_SocketMonitor (polled env s)) = pollOccurred (env_now env) (PollMonitor (srv_SocketMonitor s))"
  by (simp_all add: polled_def)

lemma PollMonitor_refresh [simp]: "PollMonitor (refresh now sock m) = PollMonitor m"
  by (simp add: refresh_def Let_def split: prod.split)

lemma find_nothing:
  assumes "queue_ids (srv_QueuedJobs s) = {}"
  shows "FindWorkerForQueuedJob env s = s"
  using assms
  by (simp add: FindWorkerForQueuedJob_def queue_ids_def ids_of_def jq_numJobsWaitingForWorkers_def
      jq_numJobsJustQueued_def)

text \<open>A message of a worker that starts no search is all that happens in its turn.\<close>

lemma hears_turn:
  assumes "calm gen env t s" and "DetermineWorkerResponse env wid m (polled env s) = Inr (False, s')"
    and "PollMonitor (srv_SocketMonitor s') = pollOccurred (env_now env) (PollMonitor (srv_SocketMonitor s))"
    and "srv_QueuedJobs s' = srv_QueuedJobs s"
  shows "Brokering_turn env (hears wid m) (t, s) = Inr (t, s') \<and> calm gen env t s'"
proof -
  have "Brokering_turn env (hears wid m) (t, s) = Inr (t, s')"
    using assms find_nothing [of s' env]
    by (simp add: Brokering_turn_def hears_def calm_def ready_poll Let_def flip: polled_def)
  moreover have "srv_uuids s' = srv_uuids s"
    using DetermineWorkerResponse_uuids [OF assms(2)] by simp
  ultimately show ?thesis
    using assms Brokering_turn_run [of gen s env s' "hears wid m" t t]
    by (simp add: calm_def ready_monitor_poll)
qed

lemma calm_inv: "calm gen env t s \<Longrightarrow> server_inv gen (polled env s)"
  using server_inv_monitor(1) [of gen s] server_inv_parts(5) [of gen s] by (simp add: calm_def polled_def)

lemma PollMonitor_heartbeat [simp]: "PollMonitor (heartbeat now sock d m) = PollMonitor m"
  by (simp add: heartbeat_def Let_def split: prod.split)

text \<open>What a turn does for each message of a worker.\<close>

lemma hears_register:
  assumes "calm gen env t s" and "JobRequirements_wf reqs" and "\<not> haveWorker wid reqs (srv_WorkerPool s)"
  shows "\<exists>s'. Brokering_turn env (hears wid (worker_message mt CAN_MESH_REQUIREMENTS
      (Some (JobRequirements_serialize reqs)))) (t, s) = Inr (t, s') \<and> calm gen env t s' \<and>
    srv_WorkerPool s' = srv_WorkerPool s @ [WorkerInfo_mk wid reqs] \<and> srv_ActiveJobs s' = srv_ActiveJobs s \<and>
    srv_QueuedJobs s' = srv_QueuedJobs s \<and> srv_uuids s' = srv_uuids s \<and>
    srv_worker_out s' = srv_worker_out s \<and> srv_client_out s' = srv_client_out s"
proof -
  let ?m = "worker_message mt CAN_MESH_REQUIREMENTS (Some (JobRequirements_serialize reqs))"
  let ?s' = "(srv_publish (workerRegistered wid reqs)
      ((polled env s)\<lparr>srv_WorkerPool := srv_WorkerPool s @ [WorkerInfo_mk wid reqs]\<rparr>))
      \<lparr>srv_SocketMonitor := refresh (env_now env) wid (srv_SocketMonitor (polled env s))\<rparr>"
  have "DetermineWorkerResponse env wid ?m (polled env s) = Inr (False, ?s')"
    using JobRequirements_wire [OF assms(2)] reqs_nonempty [of reqs] assms(3)
    by (simp add: DetermineWorkerResponse_def addWorker_def)
  from hears_turn [OF assms(1) this] show ?thesis by (intro exI [of _ ?s']) simp
qed

lemma hears_ready:
  assumes "calm gen env t s" and "JobRequirements_wf reqs"
  shows "\<exists>s'. Brokering_turn env (hears wid (worker_message mt MAKE_MESH
      (Some (JobRequirements_serialize reqs)))) (t, s) = Inr (t, s') \<and> calm gen env t s' \<and>
    srv_WorkerPool s' = snd (readyForWork wid reqs (srv_WorkerPool s)) \<and> srv_ActiveJobs s' = srv_ActiveJobs s \<and>
    srv_QueuedJobs s' = srv_QueuedJobs s \<and> srv_uuids s' = srv_uuids s \<and>
    srv_worker_out s' = srv_worker_out s \<and> srv_client_out s' = srv_client_out s"
proof -
  let ?m = "worker_message mt MAKE_MESH (Some (JobRequirements_serialize reqs))"
  let ?s' = "(srv_publish (workerReady wid reqs)
      ((polled env s)\<lparr>srv_WorkerPool := snd (readyForWork wid reqs (srv_WorkerPool s))\<rparr>))
      \<lparr>srv_SocketMonitor := refresh (env_now env) wid (srv_SocketMonitor (polled env s))\<rparr>"
  have "DetermineWorkerResponse env wid ?m (polled env s) = Inr (False, ?s')"
    using JobRequirements_wire [OF assms(2)] reqs_nonempty [of reqs]
    by (simp add: DetermineWorkerResponse_def)
  from hears_turn [OF assms(1) this] show ?thesis by (intro exI [of _ ?s']) simp
qed

lemma hears_heartbeat:
  assumes "calm gen env t s" and "0 \<le> d" and "d < 2 ^ 63"
  shows "\<exists>s'. Brokering_turn env (hears wid (heartbeat_message d)) (t, s) = Inr (t, s') \<and> calm gen env t s' \<and>
    srv_ActiveJobs s' = srv_ActiveJobs s \<and> srv_worker_out s' = srv_worker_out s \<and>
    srv_client_out s' = srv_client_out s"
proof -
  let ?s' = "(srv_publish (workerHeartbeat wid) (polled env s))
      \<lparr>srv_SocketMonitor := heartbeat (env_now env) wid d (srv_SocketMonitor (polled env s))\<rparr>"
  have "0 < length (show_int d)" using assms(2) show_nat_Cons [of "nat d"] by (auto simp: show_int_def)
  then have "DetermineWorkerResponse env wid (heartbeat_message d) (polled env s) = Inr (False, ?s')"
    using lexical_cast_show_int [OF assms(2,3)]
    by (simp add: DetermineWorkerResponse_def heartbeat_message_def msg_data_def msg_dataSize_def srv_publish_def)
  from hears_turn [OF assms(1) this] show ?thesis by (intro exI [of _ ?s']) simp
qed

lemma hears_result:
  assumes "calm gen env t s" and "uuid_io_ok (env_io env)" and "length (res_data res) \<le> max_object_size"
    and "env_send_ok env wid"
  shows "\<exists>s'. Brokering_turn env (hears wid (worker_message mt RETRIEVE_RESULT
      (Some (JobResult_to_string (env_io env) res)))) (t, s) = Inr (t, s') \<and> calm gen env t s' \<and>
    srv_ActiveJobs s' = aj_updateResult res (srv_ActiveJobs s) \<and>
    srv_worker_out s' = srv_worker_out s @ [(wid, RETRIEVE_RESULT, INVALID_MSG)] \<and>
    srv_client_out s' = srv_client_out s"
proof -
  let ?m = "worker_message mt RETRIEVE_RESULT (Some (JobResult_to_string (env_io env) res))"
  let ?s' = "(srv_publish (jobFinished (env_io env) res wid)
      ((polled env s)\<lparr>srv_worker_out := srv_worker_out s @ [(wid, RETRIEVE_RESULT, INVALID_MSG)],
        srv_ActiveJobs := aj_updateResult res (srv_ActiveJobs s)\<rparr>))
      \<lparr>srv_SocketMonitor := refresh (env_now env) wid (srv_SocketMonitor (polled env s))\<rparr>"
  have "DetermineWorkerResponse env wid ?m (polled env s) = Inr (False, ?s')"
    using JobResult_wire [OF assms(2,3)] result_nonempty [of "env_io env" res] assms(4)
    by (simp add: DetermineWorkerResponse_def storeMesh_def send_worker_def)
  from hears_turn [OF assms(1) this] show ?thesis by (intro exI [of _ ?s']) simp
qed

text \<open>The search when one job is queued and the only worker for it is the newest of the pool.\<close>

lemma takeWorker_newest:
  assumes "\<forall>u\<in>set p. \<not> wants_job r u" and "wants_job r v"
  shows "fst (takeWorker r (p @ [v])) = wi_Address v" and "haveWaitingWorker r (p @ [v])"
proof -
  have "find_if (wants_job r) (p @ [v]) = length p"
    using assms by (induction p) simp_all
  then show "fst (takeWorker r (p @ [v])) = wi_Address v" by (simp add: takeWorker_def Let_def)
  show "haveWaitingWorker r (p @ [v])" using assms(2) by (simp add: haveWaitingWorker_def)
qed

lemma find_sole:
  assumes "QueuedJobs (srv_QueuedJobs s) = [x]" and "JobsWaitingForWorker (srv_QueuedJobs s) = []"
    and "CachedQueuedJobRequirements (srv_QueuedJobs s) = [r]" and "JobTypeMatches r x"
    and "srv_WorkerPool s = p @ [v]" and "\<forall>u\<in>set p. \<not> wants_job r u" and "wants_job r v"
    and "s' = FindWorkerForQueuedJob env s"
  shows "queue_ids (srv_QueuedJobs s') = {}"
    and "srv_ActiveJobs s' = snd (aj_add (wi_Address v) (qj_Id x) (srv_ActiveJobs s))"
    and "srv_worker_out s' = srv_worker_out s @ (if env_send_ok env (wi_Address v)
      then [job_response (env_io env) (x, wi_Address v)] else [])"
    and "srv_client_out s' = srv_client_out s" and "srv_uuids s' = srv_uuids s"
    and "PollMonitor (srv_SocketMonitor s') = PollMonitor (srv_SocketMonitor s)"
    and "length (srv_WorkerPool s') = length (srv_WorkerPool s)"
proof -
  let ?q = "srv_QueuedJobs s" and ?w = "wi_Address v"
  let ?q' = "?q\<lparr>CachedQueuedJobRequirements := [], QueuedJobs := [], QueuedIds := set_erase (<) (qj_Id x) (QueuedIds ?q)\<rparr>"
  let ?job = "WorkerJob_mk (qj_Id x) (qj_Submission x)"
  let ?s3 = "assignJobToWorker env ?w ?job (s\<lparr>srv_WorkerPool := snd (takeWorker r (p @ [v])), srv_QueuedJobs := ?q'\<rparr>)"
  have take: "jq_takeJob r ?q = (?job, ?q')"
    using assms(1,2,4) by (simp add: jq_takeJob_def JobIdMatches_def WorkerJob_mk_def Let_def)
  have assign: "assign_type env r (False, s) = (True, ?s3)"
    using takeWorker_newest [OF assms(6,7)] by (simp add: assign_type_def assms(5) take split_beta)
  have types: "jq_waitingJobRequirements ?q = []" "jq_queuedJobRequirements ?q = ([r], ?q)"
      "jq_queuedJobRequirements ?q' = ([], ?q')"
    using assms(2,3)
    by (simp_all add: jq_waitingJobRequirements_def JobRequirementsSet_insert_range_def requirements_of_def
        set_insert_range_def jq_queuedJobRequirements_def Let_def)
  have q3: "srv_QueuedJobs ?s3 = ?q'" by (simp add: assignJobToWorker_simps(1) [OF refl])
  have "s\<lparr>srv_QueuedJobs := ?q\<rparr> = s" "?s3\<lparr>srv_QueuedJobs := ?q'\<rparr> = ?s3" using q3 by simp_all
  then have s': "s' = ?s3"
    using assms(1,2) assign types q3
    by (simp add: assms(8) FindWorkerForQueuedJob_def jq_numJobsJustQueued_def Let_def)
  note a = assignJobToWorker_simps [OF s']
  show "queue_ids (srv_QueuedJobs s') = {}" using a(1) assms(2) by (simp add: queue_ids_def ids_of_def)
  show "srv_ActiveJobs s' = snd (aj_add ?w (qj_Id x) (srv_ActiveJobs s))"
    using a(5) by (simp add: WorkerJob_mk_def)
  show "srv_worker_out s' = srv_worker_out s @ (if env_send_ok env ?w
      then [job_response (env_io env) (x, ?w)] else [])" using a(6) by simp
  show "srv_client_out s' = srv_client_out s" "srv_uuids s' = srv_uuids s" using a(3,4) by simp_all
  show "PollMonitor (srv_SocketMonitor s') = PollMonitor (srv_SocketMonitor s)"
    by (simp add: s' assignJobToWorker_def send_worker_def Let_def)
  show "length (srv_WorkerPool s') = length (srv_WorkerPool s)"
    using a(2) by (simp add: assms(5) takeWorker_def rotate_left_one_def Let_def)
qed

text \<open>Requests of a client to the running broker.\<close>

lemma empty_queue:
  assumes "server_inv gen s" and "queue_ids (srv_QueuedJobs s) = {}"
  shows "srv_QueuedJobs s = JobQueue_empty"
proof -
  have "queue_inv (srv_QueuedJobs s)" "cache_sound (srv_QueuedJobs s)" using assms(1) by (simp_all add: server_inv_def)
  with assms(2) show ?thesis
    by (auto simp: queue_inv_def cache_sound_def queue_ids_def ids_of_def JobQueue_empty_def)
qed

lemma asked_turn:
  assumes "calm gen env t s" and "DetermineClientResponse env client m (polled env s) = Inr s'"
  shows "Brokering_turn env (asked_by client m) (t, s) = Inr (t, FindWorkerForQueuedJob env s')"
  using assms by (simp add: Brokering_turn_def asked_by_def calm_def ready_poll Let_def flip: polled_def)

lemma turn_exchange_calm:
  assumes "calm gen env t s" and "server_exchange env client m (polled env s) = Inr (rsp, s')"
    and "queue_ids (srv_QueuedJobs s') = {}"
  shows "turn_exchange env t client m s = Inr (rsp, s')"
proof -
  from assms(2) obtain x where "DetermineClientResponse env client m (polled env s) = Inr x"
    by (auto simp: server_exchange_def bindE_eq_Inr)
  with assms(2) have d: "DetermineClientResponse env client m (polled env s) = Inr s'"
    by (cases "drop (length (srv_client_out s)) (srv_client_out x)")
      (simp_all add: server_exchange_def split: prod.splits)
  with assms(2) show ?thesis
    using asked_turn [OF assms(1) d] find_nothing [OF assms(3)]
    by (simp add: turn_exchange_def server_exchange_def)
qed

lemma submits_turn:
  assumes "calm gen env t s" and "inj_on gen {..<srv_uuids s + 1}"
    and "uuid_io_ok (env_io env)" and "env_send_ok env client" and "env_send_ok env (wi_Address v)"
    and "JobSubmission_wf sub" and "MeshIOType_wf (sub_type sub)"
    and "srv_WorkerPool s = p @ [v]" and "\<forall>u\<in>set p. \<not> wants_job (sub_requirements sub) u"
    and "wants_job (sub_requirements sub) v"
  shows "\<exists>job s'. Client_submitJob (env_io env) sub (turn_exchange env t client) s = Inr (job, s') \<and>
    is_handle (env_io env) job \<and> job_id job = gen (srv_uuids s) \<and> calm gen env t s' \<and>
    srv_ActiveJobs s' = snd (aj_add (wi_Address v) (job_id job) (srv_ActiveJobs s)) \<and>
    srv_worker_out s' = srv_worker_out s @
      [(wi_Address v, MAKE_MESH, WorkerJob_to_string (env_io env) (WorkerJob_mk (job_id job) sub))] \<and>
    srv_uuids s' = srv_uuids s + 1 \<and> length (srv_WorkerPool s') = length (srv_WorkerPool s) \<and>
    Brokering_turn env (asked_by client (client_message (sub_type sub) MAKE_MESH (Some (JobSubmission_serialize sub)))) (t, s) =
      Inr (t, s')"
proof -
  let ?i = "gen (srv_uuids s)" and ?m = "client_message (sub_type sub) MAKE_MESH (Some (JobSubmission_serialize sub))"
  let ?d = "Job_to_string (Job_mk (env_io env) ?i (sub_type sub))" and ?x = "\<lparr>qj_Id = ?i, qj_Submission = sub\<rparr>"
  have inv: "server_inv gen s" and gen: "env_generate env = gen" using assms(1) by (simp_all add: calm_def)
  have q: "srv_QueuedJobs s = JobQueue_empty" using assms(1) by (intro empty_queue [OF inv]) (simp add: calm_def)
  obtain s1 where q1: "queueJob env ?m (polled env s) = Inr (?d, s1)"
    and s1: "srv_QueuedJobs s1 = snd (jq_addJob sub ?i JobQueue_empty)" "srv_ActiveJobs s1 = srv_ActiveJobs s"
      "srv_WorkerPool s1 = srv_WorkerPool s" "srv_worker_out s1 = srv_worker_out s" "srv_client_out s1 = srv_client_out s"
      "srv_uuids s1 = srv_uuids s + 1" "srv_SocketMonitor s1 = srv_SocketMonitor (polled env s)"
    using JobSubmission_wire [OF assms(6)] gen q by (simp add: queueJob_def draw_uuid_def Let_def)
  define s2 where "s2 = snd (send_client env MAKE_MESH ?d client s1)"
  have s2: "srv_QueuedJobs s2 = srv_QueuedJobs s1" "srv_ActiveJobs s2 = srv_ActiveJobs s"
      "srv_WorkerPool s2 = p @ [v]" "srv_worker_out s2 = srv_worker_out s"
      "srv_client_out s2 = srv_client_out s @ [(client, MAKE_MESH, ?d)]" "srv_uuids s2 = srv_uuids s + 1"
      "srv_SocketMonitor s2 = srv_SocketMonitor (polled env s)"
    using s1 assms(4,8) by (simp_all add: s2_def send_client_def)
  have queue: "QueuedJobs (srv_QueuedJobs s2) = [?x]" "JobsWaitingForWorker (srv_QueuedJobs s2) = []"
      "CachedQueuedJobRequirements (srv_QueuedJobs s2) = [sub_requirements sub]"
    by (simp_all add: s2(1) s1(1) jq_addJob_def JobQueue_empty_def set_count_def insert_at_def lower_bound_def Let_def)
  have match: "JobTypeMatches (sub_requirements sub) ?x" by (simp add: JobTypeMatches_def)
  define s3 where "s3 = FindWorkerForQueuedJob env s2"
  note found = find_sole [OF queue match s2(3) assms(9,10) s3_def]
  have turn: "Brokering_turn env (asked_by client ?m) (t, s) = Inr (t, s3)"
    unfolding s3_def by (rule asked_turn [OF assms(1)]) (simp add: DetermineClientResponse_def q1 s2_def)
  have calm: "calm gen env t s3"
    using assms(1,2) Brokering_turn_run [OF inv gen _ turn] found s2
    by (simp add: calm_def ready_monitor_poll)
  obtain job where job: "to_Job (env_io env) ?d = Inr job"
    "is_handle (env_io env) job" "job_id job = ?i"
    using handle_read [OF assms(3) handle_mk [OF assms(7), of _ ?i]] by (auto simp: Job_mk_def)
  have "Client_submitJob (env_io env) sub (turn_exchange env t client) s = Inr (job, s3)"
    using job(1) found(4) s2(5) by (simp add: Client_submitJob_def turn_exchange_def turn)
  with job calm found s2 assms(5,8) turn show ?thesis by simp
qed

text \<open>The worker between two jobs, and the rounds of its threads.\<close>

definition at_rest :: "int \<Rightarrow> worker \<Rightarrow> bool" where
  "at_rest d w \<longleftrightarrow> attentive w \<and> ContinueForwardingToServer (w_router w) \<and> wq_Queue (w_queue w) = [] \<and>
     PollingMonitor_maxTimeOut (rt_PollMonitor (w_router w)) = d"

lemma maxTimeOut_pollOccurred [simp]:
  "PollingMonitor_maxTimeOut (pollOccurred now m) = PollingMonitor_maxTimeOut m"
  by (simp add: PollingMonitor_maxTimeOut_def)

lemma at_rest_forwards:
  assumes "at_rest d w" and "w_inbox w = m # ms" and "msg_valid m" and "re_server_ok renv"
    and "msg_serviceType m \<notin> {TERMINATE_WORKER, RETRIEVE_RESULT}"
  shows "\<exists>w'. router_reads renv [PollReturned 1] None w = Inr w' \<and> at_rest d w' \<and> w_inbox w' = ms \<and>
    rt_to_server (w_router w') = rt_to_server (w_router w) @ [m] \<and> w_MeshRequirements w' = w_MeshRequirements w"
proof -
  let ?r = "w_router w"
  let ?w' = "w\<lparr>w_router := ?r\<lparr>rt_PollMonitor := pollOccurred (re_now renv) (rt_PollMonitor ?r),
    rt_to_server := rt_to_server ?r @ [m]\<rparr>, w_inbox := ms\<rparr>"
  have "router_reads renv [PollReturned 1] None w = Inr ?w'"
    using assms
    by (simp add: router_reads_def router_turn_def ready_poll Let_def handleWorkerMessage_def forward_Message_def
        at_rest_def attentive_def)
  moreover have "at_rest d ?w'"
    using assms(1) by (simp add: at_rest_def attentive_def isTalking_def ready_monitor_poll)
  ultimately show ?thesis by (intro exI [of _ ?w']) simp
qed

lemma at_rest_takes_job:
  assumes "at_rest d w" and "w_inbox w = []" and "re_server_ok renv" and "re_queue_ok renv"
    and "uuid_io_ok io" and "JobSubmission_wf sub"
  shows "\<exists>w1 w2 w3. router_reads renv [PollReturned 1]
      (Some (response_of (wid, MAKE_MESH, WorkerJob_to_string io (WorkerJob_mk i sub)))) w = Inr w1 \<and>
    queue_reads io [PollReturned 1] w1 = Inr w2 \<and> getJob_wait w2 = Some (WorkerJob_mk i sub, w3) \<and>
    at_rest d w3 \<and> w_inbox w3 = [] \<and> w_MeshRequirements w3 = w_MeshRequirements w \<and>
    rt_to_server (w_router w3) = rt_to_server (w_router w) @ [heartbeat_message d]"
proof -
  let ?rsp = "response_of (wid, MAKE_MESH, WorkerJob_to_string io (WorkerJob_mk i sub))"
  let ?r = "w_router w"
  let ?r1 = "?r\<lparr>rt_PollMonitor := pollOccurred (re_now renv) (rt_PollMonitor ?r),
    rt_to_server := rt_to_server ?r @ [heartbeat_message d], rt_to_queue := rt_to_queue ?r @ [?rsp]\<rparr>"
  let ?w1 = "w\<lparr>w_router := ?r1\<rparr>"
  let ?q = "(w_queue w)\<lparr>wq_PollingStarted := True\<rparr>"
  let ?w3 = "?w1\<lparr>w_queue := ?q, w_queue_read := w_queue_read w + 1\<rparr>"
  let ?w2 = "?w3\<lparr>w_queue := ?q\<lparr>wq_Queue := [WorkerJob_mk i sub]\<rparr>\<rparr>"
  have rest: "isTalking ?r" "ready_monitor (rt_PollMonitor ?r)" "ContinueForwardingToWorker ?r"
      "ContinueForwardingToServer ?r" "wq_ContinuePolling (w_queue w)" "wq_Queue (w_queue w) = []"
      "w_queue_read w = length (rt_to_queue ?r)" "PollingMonitor_maxTimeOut (rt_PollMonitor ?r) = d"
    using assms(1) by (simp_all add: at_rest_def attentive_def)
  have "router_reads renv [PollReturned 1] (Some ?rsp) w = Inr ?w1"
    using rest assms(2-4)
    by (simp add: router_reads_def router_turn_def ready_poll Let_def handleServerMessage_def response_of_def
        to_queue_def sendHeartBeat_def forward_Message_def heartbeat_message_def)
  moreover have "queue_reads io [PollReturned 1] ?w1 = Inr ?w2"
    using rest WorkerJob_wire [OF assms(5,6)]
    by (simp add: queue_reads_def Let_def nth_append pollForJobs_turn_def poll_safely_def wq_addItem_def response_of_def)
  moreover have "getJob_wait ?w2 = Some (WorkerJob_mk i sub, ?w3)"
    using rest(6) by (simp add: getJob_wait_def wq_waitAndTakeJob_def wq_size_def wq_take_def)
  moreover have "at_rest d ?w3"
    using assms(1) by (simp add: at_rest_def attentive_def isTalking_def ready_monitor_poll)
  ultimately show ?thesis
    using assms(2) by (intro exI [of _ ?w1] exI [of _ ?w2] exI [of _ ?w3]) simp
qed

text \<open>Everything a worker has sent, heard by the broker in order.\<close>

fun broker_hears ::
  "'f server_env \<Rightarrow> SocketIdentity \<Rightarrow> Message list \<Rightarrow> ptime \<times> 'f Server \<Rightarrow> (ptime \<times> 'f Server) result" where
  "broker_hears env wid [] st = Inr st"
| "broker_hears env wid (m # ms) st = bindE (Brokering_turn env (hears wid m) st) (broker_hears env wid ms)"

text \<open>A new worker registers and asks for its first job.\<close>

abbreviation register_message :: "JobRequirements \<Rightarrow> Message" where
  "register_message reqs \<equiv> worker_message (req_meshTypes reqs) CAN_MESH_REQUIREMENTS (Some (JobRequirements_serialize reqs))"

abbreviation ask_message :: "JobRequirements \<Rightarrow> Message" where
  "ask_message reqs \<equiv> worker_message (req_meshTypes reqs) MAKE_MESH
     (Some (JobRequirements_serialize (light_requirements reqs)))"

lemma worker_registered:
  assumes "calm gen env t s" and "JobRequirements_wf reqs"
    and "\<forall>v\<in>set (srv_WorkerPool s). \<not> JobRequirements_eq (wi_Reqs v) reqs"
  shows "\<exists>s1 s2. Brokering_turn env (hears wid (register_message reqs)) (t, s) = Inr (t, s1) \<and>
    Brokering_turn env (hears wid (ask_message reqs)) (t, s1) = Inr (t, s2) \<and> calm gen env t s2 \<and>
    srv_uuids s2 = srv_uuids s \<and> srv_ActiveJobs s2 = srv_ActiveJobs s \<and> srv_worker_out s2 = srv_worker_out s \<and>
    srv_WorkerPool s2 = srv_WorkerPool s @ [(WorkerInfo_mk wid reqs)\<lparr>NumberOfDesiredJobs := 1\<rparr>]"
proof -
  let ?light = "light_requirements reqs"
  have "\<not> haveWorker wid reqs (srv_WorkerPool s)"
    using assms(3) by (auto simp: haveWorker_def list_ex_iff is_worker_def)
  from hears_register [OF assms(1,2) this] obtain s1 where s1:
    "Brokering_turn env (hears wid (register_message reqs)) (t, s) = Inr (t, s1)" "calm gen env t s1"
    "srv_WorkerPool s1 = srv_WorkerPool s @ [WorkerInfo_mk wid reqs]" "srv_ActiveJobs s1 = srv_ActiveJobs s"
    "srv_uuids s1 = srv_uuids s" "srv_worker_out s1 = srv_worker_out s" by blast
  from hears_ready [OF s1(2) light_requirements_wf [OF assms(2)]] obtain s2 where s2:
    "Brokering_turn env (hears wid (ask_message reqs)) (t, s1) = Inr (t, s2)" "calm gen env t s2"
    "srv_WorkerPool s2 = snd (readyForWork wid ?light (srv_WorkerPool s1))" "srv_ActiveJobs s2 = srv_ActiveJobs s1"
    "srv_uuids s2 = srv_uuids s1" "srv_worker_out s2 = srv_worker_out s1" by blast
  have "\<not> is_worker wid ?light v" if "v \<in> set (srv_WorkerPool s)" for v
    using assms(3) that light_requirements_eq [of reqs] by (auto simp: is_worker_def JobRequirements_eq_key)
  then have "map (\<lambda>v. if is_worker wid ?light v then wi_addJob (v\<lparr>IsResponsive := True\<rparr>) else v) (srv_WorkerPool s) =
      srv_WorkerPool s" by (simp cong: map_cong)
  then have "srv_WorkerPool s2 = srv_WorkerPool s @ [(WorkerInfo_mk wid reqs)\<lparr>NumberOfDesiredJobs := 1\<rparr>]"
    using light_requirements_eq [of reqs]
    by (simp add: s2(3) s1(3) readyForWork_def)
      (simp add: WorkerInfo_mk_def is_worker_def wi_addJob_def JobRequirements_eq_sym)
  with s1 s2 show ?thesis by (intro exI [of _ s1] exI [of _ s2]) simp
qed

lemma worker_joins:
  assumes "calm gen env t s" and "JobRequirements_wf reqs" and "re_server_ok renv"
    and "\<forall>v\<in>set (srv_WorkerPool s). \<not> JobRequirements_eq (wi_Reqs v) reqs"
  shows "\<exists>w1 w2 s'. router_reads renv [PollReturned 1] None (getJob_ask (Worker_requirements reqs now)) = Inr w1 \<and>
    router_reads renv [PollReturned 1] None w1 = Inr w2 \<and> at_rest 60000 w2 \<and> w_inbox w2 = [] \<and>
    length (rt_to_server (w_router w2)) = 2 \<and>
    broker_hears env wid (rt_to_server (w_router w2)) (t, s) = Inr (t, s') \<and> calm gen env t s' \<and>
    srv_uuids s' = srv_uuids s \<and> srv_ActiveJobs s' = srv_ActiveJobs s \<and>
    srv_WorkerPool s' = srv_WorkerPool s @ [(WorkerInfo_mk wid reqs)\<lparr>NumberOfDesiredJobs := 1\<rparr>]"
proof -
  let ?reg = "register_message reqs" and ?ask = "ask_message reqs"
  let ?w = "getJob_ask (Worker_requirements reqs now)"
  have w: "w_inbox ?w = [?reg, ?ask]" "w_router ?w = setIsTalking True (router_mk now)" "w_queue ?w = wq_mk"
      "w_queue_read ?w = 0" "w_answers_read ?w = 0"
    by (simp_all add: getJob_ask_def pendingJobCount_def wq_size_def wq_mk_def askForJobs_def Worker_requirements_def
        isForwardingToServer_def setIsTalking_def router_mk_def worker_send_def)
  have rest: "at_rest 60000 ?w"
    using router_mk_ready [of now] router_mk_max [of now]
    by (simp add: at_rest_def attentive_def w setIsTalking_def isTalking_def)
      (simp add: router_mk_def wq_mk_def)
  from at_rest_forwards [OF rest w(1) _ assms(3)] obtain w1 where w1:
    "router_reads renv [PollReturned 1] None ?w = Inr w1" "at_rest 60000 w1" "w_inbox w1 = [?ask]"
    "rt_to_server (w_router w1) = [?reg]"
    by (auto simp: w(2)) (auto simp: setIsTalking_def router_mk_def)
  from at_rest_forwards [OF w1(2,3) _ assms(3)] obtain w2 where w2:
    "router_reads renv [PollReturned 1] None w1 = Inr w2" "at_rest 60000 w2" "w_inbox w2 = []"
    "rt_to_server (w_router w2) = [?reg, ?ask]" by (auto simp: w1(4))
  from worker_registered [OF assms(1,2,4), of wid] obtain s1 s2 where
    "Brokering_turn env (hears wid ?reg) (t, s) = Inr (t, s1)" "Brokering_turn env (hears wid ?ask) (t, s1) = Inr (t, s2)"
    "calm gen env t s2" "srv_uuids s2 = srv_uuids s" "srv_ActiveJobs s2 = srv_ActiveJobs s"
    "srv_WorkerPool s2 = srv_WorkerPool s @ [(WorkerInfo_mk wid reqs)\<lparr>NumberOfDesiredJobs := 1\<rparr>]" by blast
  with w1 w2 show ?thesis by (intro exI [of _ w1] exI [of _ w2] exI [of _ s2]) simp
qed

text \<open>The client asks how its job is doing and fetches its result.\<close>

lemma turn_answer:
  assumes "calm gen env t s" and "env_send_ok env client"
    and "DetermineClientResponse env client m (polled env s) =
      Inr (snd (send_client env service d client ((polled env s)\<lparr>srv_ActiveJobs := a\<rparr>)))"
  shows "\<exists>s'. turn_exchange env t client m s =
      Inr (\<lparr>rsp_serviceType = service, rsp_valid = True, rsp_data = d\<rparr>, s') \<and>
    calm gen env t s' \<and> srv_ActiveJobs s' = a"
proof -
  let ?s' = "snd (send_client env service d client ((polled env s)\<lparr>srv_ActiveJobs := a\<rparr>))"
  have s': "srv_QueuedJobs ?s' = srv_QueuedJobs s" "srv_uuids ?s' = srv_uuids s" "srv_ActiveJobs ?s' = a"
      "srv_SocketMonitor ?s' = srv_SocketMonitor (polled env s)"
      "srv_client_out ?s' = srv_client_out s @ [(client, service, d)]"
    using assms(2) by (simp_all add: send_client_def)
  have "FindWorkerForQueuedJob env ?s' = ?s'" using assms(1) s'(1) by (intro find_nothing) (simp add: calm_def)
  then have turn: "Brokering_turn env (asked_by client m) (t, s) = Inr (t, ?s')"
    using asked_turn [OF assms(1,3)] by simp
  have "server_inv gen ?s'"
    using Brokering_turn_run [OF _ _ _ turn] assms(1) by (simp add: calm_def s'(2))
  then have "calm gen env t ?s'" using assms(1) by (simp add: calm_def s' ready_monitor_poll)
  then show ?thesis using turn s'(3,5) by (intro exI [of _ ?s']) (simp add: turn_exchange_def)
qed

lemma client_fetches:
  assumes "calm gen env t s" and "env_send_ok env client" and "uuid_io_ok (env_io env)"
    and "is_handle (env_io env) job" and "map_find (<) (job_id job) (srv_ActiveJobs s) = Some st"
    and "jstatus st = JobStatus_mk (job_id job) FINISHED" and "have_result st"
    and "length (res_data (jresult st)) \<le> max_object_size"
  shows "\<exists>s1 s2. Client_jobStatus (env_io env) job (turn_exchange env t client) s =
      Inr (JobStatus_mk (job_id job) FINISHED, s1) \<and>
    Client_retrieveResults (env_io env) job (turn_exchange env t client) s1 = Inr (jresult st, s2) \<and>
    \<not> aj_haveUUID (job_id job) (srv_ActiveJobs s2)"
proof -
  let ?i = "job_id job" and ?ask = "\<lambda>x. client_message (job_type job) x (Some (Job_to_string job))"
  let ?a = "map_assign (<) ?i (st\<lparr>jstatus := clearProgress (jstatus st)\<rparr>) (srv_ActiveJobs s)"
  obtain job' where job': "to_Job (env_io env) (Job_to_string job) = Inr job'" "job_id job' = ?i"
    using handle_read [OF assms(3,4)] by blast
  have inv: "info_inv (srv_ActiveJobs s)" using assms(1) server_inv_parts(6) by (auto simp: calm_def)
  have queue: "\<not> jq_haveUUID ?i (srv_QueuedJobs s)"
    using assms(1) queue.have_iff [of "srv_QueuedJobs s"] server_inv_parts(1) by (auto simp: calm_def)
  have same: "(polled env s)\<lparr>srv_ActiveJobs := srv_ActiveJobs s\<rparr> = polled env s" by (simp add: polled_def)
  have "DetermineClientResponse env client (?ask MESH_STATUS) (polled env s) =
      Inr (snd (send_client env MESH_STATUS (JobStatus_to_string (env_io env) (JobStatus_mk ?i FINISHED)) client
        ((polled env s)\<lparr>srv_ActiveJobs := ?a\<rparr>)))"
    using job' queue assms(5,6)
    by (simp add: DetermineClientResponse_def meshStatus_def aj_haveUUID_iff aj_status_def aj_clearStatus_def)
  from turn_answer [OF assms(1,2) this] obtain s1 where s1: "turn_exchange env t client (?ask MESH_STATUS) s =
      Inr (\<lparr>rsp_serviceType = MESH_STATUS, rsp_valid = True,
        rsp_data = JobStatus_to_string (env_io env) (JobStatus_mk ?i FINISHED)\<rparr>, s1)"
      "calm gen env t s1" "srv_ActiveJobs s1 = ?a" by blast
  have st: "map_find (<) ?i ?a = Some (st\<lparr>jstatus := clearProgress (jstatus st)\<rparr>)"
    using inv assms(5) by (simp add: find_simps info_inv_def)
  have "DetermineClientResponse env client (?ask RETRIEVE_RESULT) (polled env s1) =
      Inr (snd (send_client env RETRIEVE_RESULT (JobResult_to_string (env_io env) (jresult st)) client
        ((polled env s1)\<lparr>srv_ActiveJobs := snd (aj_remove ?i (srv_ActiveJobs s1))\<rparr>)))"
    using job' st assms(7)
    by (simp add: DetermineClientResponse_def retrieveResult_def aj_haveUUID_iff aj_haveResult_def aj_result_def s1(3))
  from turn_answer [OF s1(2) assms(2) this] obtain s2 where s2: "turn_exchange env t client (?ask RETRIEVE_RESULT) s1 =
      Inr (\<lparr>rsp_serviceType = RETRIEVE_RESULT, rsp_valid = True,
        rsp_data = JobResult_to_string (env_io env) (jresult st)\<rparr>, s2)"
      "srv_ActiveJobs s2 = snd (aj_remove ?i (srv_ActiveJobs s1))" by blast
  show ?thesis
    using s1(1) s2 JobStatus_wire [OF assms(3) progress_mk_wf] JobResult_wire [OF assms(3,8)]
    by (simp add: Client_jobStatus_def Client_retrieveResults_def aj_haveUUID_iff aj_remove_find)
qed

text \<open>The worker takes the job it was sent, makes a mesh and hands it over.\<close>

lemma job_worked:
  assumes "calm gen env t s" and "at_rest 60000 w" and "w_inbox w = []" and "uuid_io_ok (env_io env)"
    and "env_send_ok env wid" and "re_server_ok renv" and "re_queue_ok renv" and "re_worker_ok renv"
    and "JobSubmission_wf sub" and "length (res_data res) \<le> max_object_size"
    and "last (srv_worker_out s) = (wid, MAKE_MESH, WorkerJob_to_string (env_io env) (WorkerJob_mk i sub))"
  shows "\<exists>w1 w2 w3 w4 w5 w6 w7 s'.
    router_reads renv [PollReturned 1] (Some (response_of (last (srv_worker_out s)))) w = Inr w1 \<and>
    queue_reads (env_io env) [PollReturned 1] w1 = Inr w2 \<and> getJob_wait w2 = Some (WorkerJob_mk i sub, w3) \<and>
    returnResult (env_io env) res w3 = (True, w4) \<and> router_reads renv [PollReturned 1] None w4 = Inr w5 \<and>
    broker_hears env wid (drop (length (rt_to_server (w_router w))) (rt_to_server (w_router w5))) (t, s) = Inr (t, s') \<and>
    router_reads renv [PollReturned 1] (Some (response_of (last (srv_worker_out s')))) w5 = Inr w6 \<and>
    returnResult_wait w6 = Some (response_of (wid, RETRIEVE_RESULT, INVALID_MSG), w7) \<and>
    calm gen env t s' \<and> srv_ActiveJobs s' = aj_updateResult res (srv_ActiveJobs s)"
proof -
  let ?io = "env_io env"
  from at_rest_takes_job [OF assms(2,3,6,7,4,9), of wid i] obtain w1 w2 w3 where taken:
    "router_reads renv [PollReturned 1] (Some (response_of (last (srv_worker_out s)))) w = Inr w1"
    "queue_reads ?io [PollReturned 1] w1 = Inr w2" "getJob_wait w2 = Some (WorkerJob_mk i sub, w3)"
    "at_rest 60000 w3" "w_inbox w3 = []" "rt_to_server (w_router w3) = rt_to_server (w_router w) @ [heartbeat_message 60000]"
    by (auto simp: assms(11))
  have "attentive w3" "ContinueForwardingToServer (w_router w3)" using taken(4) by (simp_all add: at_rest_def)
  from result_sent [OF this taken(5) assms(6)] obtain w4 w5 where sent:
    "returnResult ?io res w3 = (True, w4)" "router_reads renv [PollReturned 1] None w4 = Inr w5" "attentive w5"
    "w_inbox w5 = []" "rt_to_server (w_router w5) = rt_to_server (w_router w3) @ [result_message ?io res w3]" by blast
  from hears_heartbeat [OF assms(1), of 60000 wid] obtain sh where sh:
    "Brokering_turn env (hears wid (heartbeat_message 60000)) (t, s) = Inr (t, sh)" "calm gen env t sh"
    "srv_ActiveJobs sh = srv_ActiveJobs s" by auto
  from hears_result [OF sh(2) assms(4,10,5)] obtain s' where stored:
    "Brokering_turn env (hears wid (result_message ?io res w3)) (t, sh) = Inr (t, s')" "calm gen env t s'"
    "srv_ActiveJobs s' = aj_updateResult res (srv_ActiveJobs sh)"
    "srv_worker_out s' = srv_worker_out sh @ [(wid, RETRIEVE_RESULT, INVALID_MSG)]" by blast
  have "broker_hears env wid (drop (length (rt_to_server (w_router w))) (rt_to_server (w_router w5))) (t, s) = Inr (t, s')"
    by (simp add: sent(5) taken(6) sh(1) stored(1))
  with taken(1-3) sent(1,2) stored(2,3) sh(3) result_answered [OF sent(3,4) assms(8), of wid]
  show ?thesis by (simp add: stored(4)) blast
qed

text \<open>
  C1: a whole job. Some server is between two checks with nothing queued, whatever else it
  is doing. A new worker of a kind it has no worker for asks for a job; a client submits one of
  that kind. Then the worker gets exactly that job, whatever it makes of it is acknowledged,
  and the client that asks is told that its job is finished, gets exactly what the worker made,
  and the server forgets the job. Every message and every answer on the way goes through the
  sockets, the serialised forms, the threads of the worker and the turns of the broker.
\<close>

theorem job_served:
  assumes "calm gen env t s" and "inj_on gen {..<srv_uuids s + 1}" and "uuid_io_ok (env_io env)"
    and "env_send_ok env client" and "env_send_ok env wid"
    and "re_server_ok renv" and "re_queue_ok renv" and "re_worker_ok renv"
    and "JobRequirements_wf reqs" and "JobSubmission_wf sub" and "MeshIOType_wf (sub_type sub)"
    and "JobRequirements_eq (sub_requirements sub) reqs"
    and "\<forall>v\<in>set (srv_WorkerPool s). \<not> JobRequirements_eq (wi_Reqs v) reqs"
    and "length mesh \<le> max_object_size"
  shows "\<exists>w1 w2 w3 w4 w5 w6 w7 w8 w9 s1 s2 s3 s4 s5 job.
    router_reads renv [PollReturned 1] None (getJob_ask (Worker_requirements reqs now)) = Inr w1 \<and>
    router_reads renv [PollReturned 1] None w1 = Inr w2 \<and>
    broker_hears env wid (rt_to_server (w_router w2)) (t, s) = Inr (t, s1) \<and>
    Client_submitJob (env_io env) sub (turn_exchange env t client) s1 = Inr (job, s2) \<and>
    router_reads renv [PollReturned 1] (Some (response_of (last (srv_worker_out s2)))) w2 = Inr w3 \<and>
    queue_reads (env_io env) [PollReturned 1] w3 = Inr w4 \<and>
    getJob_wait w4 = Some (WorkerJob_mk (job_id job) sub, w5) \<and>
    returnResult (env_io env) (JobResult_mk (job_id job) format mesh) w5 = (True, w6) \<and>
    router_reads renv [PollReturned 1] None w6 = Inr w7 \<and>
    broker_hears env wid (drop (length (rt_to_server (w_router w2))) (rt_to_server (w_router w7))) (t, s2) = Inr (t, s3) \<and>
    router_reads renv [PollReturned 1] (Some (response_of (last (srv_worker_out s3)))) w7 = Inr w8 \<and>
    returnResult_wait w8 = Some (response_of (wid, RETRIEVE_RESULT, INVALID_MSG), w9) \<and>
    Client_jobStatus (env_io env) job (turn_exchange env t client) s3 = Inr (JobStatus_mk (job_id job) FINISHED, s4) \<and>
    Client_retrieveResults (env_io env) job (turn_exchange env t client) s4 =
      Inr (JobResult_mk (job_id job) format mesh, s5) \<and>
    \<not> aj_haveUUID (job_id job) (srv_ActiveJobs s5)"
proof -
  let ?io = "env_io env" and ?v = "(WorkerInfo_mk wid reqs)\<lparr>NumberOfDesiredJobs := 1\<rparr>"
  from worker_joins [OF assms(1,9,6,13)] obtain w1 w2 s1 where joined:
    "router_reads renv [PollReturned 1] None (getJob_ask (Worker_requirements reqs now)) = Inr w1"
    "router_reads renv [PollReturned 1] None w1 = Inr w2" "at_rest 60000 w2" "w_inbox w2 = []"
    "broker_hears env wid (rt_to_server (w_router w2)) (t, s) = Inr (t, s1)" "calm gen env t s1"
    "srv_uuids s1 = srv_uuids s" "srv_WorkerPool s1 = srv_WorkerPool s @ [?v]" by blast
  have suits: "\<forall>u\<in>set (srv_WorkerPool s). \<not> wants_job (sub_requirements sub) u" "wants_job (sub_requirements sub) ?v"
    using assms(12,13)
    by (auto simp: wants_job_def WorkerInfo_mk_def isWaitingForWork_def JobRequirements_eq_key)
  have "inj_on gen {..<srv_uuids s1 + 1}" "env_send_ok env (wi_Address ?v)"
    using assms(2,5) joined(7) by (simp_all add: WorkerInfo_mk_def)
  from submits_turn [OF joined(6) this(1) assms(3,4) this(2) assms(10,11) joined(8) suits] obtain job s2 where submitted:
    "Client_submitJob ?io sub (turn_exchange env t client) s1 = Inr (job, s2)" "is_handle ?io job"
    "job_id job = gen (srv_uuids s1)" "calm gen env t s2"
    "srv_ActiveJobs s2 = snd (aj_add wid (job_id job) (srv_ActiveJobs s1))"
    "srv_worker_out s2 = srv_worker_out s1 @ [(wid, MAKE_MESH, WorkerJob_to_string ?io (WorkerJob_mk (job_id job) sub))]"
    by (auto simp: WorkerInfo_mk_def)
  let ?res = "JobResult_mk (job_id job) format mesh"
  have mesh: "length (res_data ?res) \<le> max_object_size" using assms(14) by (simp add: JobResult_mk_def)
  from job_worked [OF submitted(4) joined(3,4) assms(3,5-8,10) mesh, of "job_id job"] obtain w3 w4 w5 w6 w7 w8 w9 s3 where worked:
    "router_reads renv [PollReturned 1] (Some (response_of (last (srv_worker_out s2)))) w2 = Inr w3"
    "queue_reads ?io [PollReturned 1] w3 = Inr w4" "getJob_wait w4 = Some (WorkerJob_mk (job_id job) sub, w5)"
    "returnResult ?io ?res w5 = (True, w6)" "router_reads renv [PollReturned 1] None w6 = Inr w7"
    "broker_hears env wid (drop (length (rt_to_server (w_router w2))) (rt_to_server (w_router w7))) (t, s2) = Inr (t, s3)"
    "router_reads renv [PollReturned 1] (Some (response_of (last (srv_worker_out s3)))) w7 = Inr w8"
    "returnResult_wait w8 = Some (response_of (wid, RETRIEVE_RESULT, INVALID_MSG), w9)"
    "calm gen env t s3" "srv_ActiveJobs s3 = aj_updateResult ?res (srv_ActiveJobs s2)"
    unfolding submitted(6) last_snoc by blast
  have fresh: "map_find (<) (job_id job) (srv_ActiveJobs s1) = None"
    using fresh_uuid [of gen s1] joined(6) \<open>inj_on gen {..<srv_uuids s1 + 1}\<close>
    by (auto simp: calm_def submitted(3) job_ids_def info_ids_def)
  have inv: "info_inv (srv_ActiveJobs s1)" using joined(6) server_inv_parts(6) by (auto simp: calm_def)
  have "\<exists>st. map_find (<) (job_id job) (srv_ActiveJobs s3) = Some st \<and>
      jstatus st = JobStatus_mk (job_id job) FINISHED \<and> have_result st \<and> jresult st = ?res"
    using aj_add_find [OF inv, of "job_id job" wid "job_id job"] fresh
    by (simp add: worked(10) submitted(5) aj_updateResult_def find_simps Let_def JobState_mk_def JobResult_mk_def)
  then obtain st where st: "map_find (<) (job_id job) (srv_ActiveJobs s3) = Some st"
    "jstatus st = JobStatus_mk (job_id job) FINISHED" "have_result st" "jresult st = ?res" by blast
  from client_fetches [OF worked(9) assms(4,3) submitted(2) st(1-3)] mesh obtain s4 s5 where fetched:
    "Client_jobStatus ?io job (turn_exchange env t client) s3 = Inr (JobStatus_mk (job_id job) FINISHED, s4)"
    "Client_retrieveResults ?io job (turn_exchange env t client) s4 = Inr (?res, s5)"
    "\<not> aj_haveUUID (job_id job) (srv_ActiveJobs s5)" by (auto simp: st(4))
  show ?thesis using joined(1,2,5) submitted(1) worked(1-8) fetched by blast
qed

section \<open>The theorems at work\<close>

definition example_router_env :: router_env where
  "example_router_env = \<lparr>re_io = hex_uuid_io, re_now = 0, re_server_ok = True, re_queue_ok = True, re_worker_ok = True\<rparr>"

lemma calm_start: "0 < t \<Longrightarrow> calm counting_uuid example_env t start_server"
  using polling_inv_init [of 25 60000 0] inj_counting [of 0]
  by (simp add: calm_def start_server_def server_inv_mk)
    (simp add: Server_mk_def SocketMonitor_default_def SocketMonitor_mk_def ready_monitor_def PollingMonitor_init_def
      milliseconds_def JobQueue_empty_def queue_ids_def ids_of_def example_env_def Let_def)

lemma example_env_ok: "uuid_io_ok (env_io example_env)" "env_send_ok example_env w"
  "env_generate example_env = counting_uuid" "env_io example_env = hex_uuid_io"
  using hex_uuid_io_ok by (simp_all add: example_env_def)

lemma example_submission_reqs: "sub_requirements example_submission = example_reqs"
  "MeshIOType_wf (sub_type example_submission)"
  using example_reqs_wf by (simp_all add: example_submission_def JobSubmission_content_def JobRequirements_wf_def)

lemma start_fields: "srv_uuids start_server = 0" "srv_WorkerPool start_server = []" "srv_ActiveJobs start_server = []"
  by (simp_all add: start_server_def Server_mk_def)

theorem job_served_witness:
  "\<exists>job s1 s2 s3 s4 s5. Client_submitJob hex_uuid_io example_submission (turn_exchange example_env 1 example_client) s1 =
      Inr (job, s2) \<and>
    Client_jobStatus hex_uuid_io job (turn_exchange example_env 1 example_client) s3 =
      Inr (JobStatus_mk (job_id job) FINISHED, s4) \<and>
    Client_retrieveResults hex_uuid_io job (turn_exchange example_env 1 example_client) s4 =
      Inr (JobResult_mk (job_id job) JSON ''mesh'', s5)"
proof -
  have "re_server_ok example_router_env" "re_queue_ok example_router_env" "re_worker_ok example_router_env"
    by (simp_all add: example_router_env_def)
  moreover have "inj_on counting_uuid {..<srv_uuids start_server + 1}" by (simp add: start_fields inj_counting)
  moreover have "JobRequirements_eq (sub_requirements example_submission) example_reqs"
      "\<forall>v\<in>set (srv_WorkerPool start_server). \<not> JobRequirements_eq (wi_Reqs v) example_reqs"
      "length ''mesh'' \<le> max_object_size"
    by (simp_all add: example_submission_reqs start_fields max_object_size_def)
  ultimately show ?thesis
    using job_served [OF calm_start [OF zero_less_one] _ example_env_ok(1,2,2) _ _ _ example_reqs_wf example_submission_wf
        example_submission_reqs(2), of example_router_env "''mesh''" 0 example_worker example_client JSON]
    unfolding example_env_ok(4) by blast
qed

text \<open>A server that gets a worker and a job in three rounds.\<close>

abbreviation example_rounds :: "(unit server_env \<times> broker_input) list" where
  "example_rounds \<equiv> [(example_env, hears example_worker (register_message example_reqs)),
     (example_env, hears example_worker (ask_message example_reqs)),
     (example_env, asked_by example_client (client_message (sub_type example_submission) MAKE_MESH
        (Some (JobSubmission_serialize example_submission))))]"

lemma example_rounds_run:
  assumes "0 < t"
  shows "\<exists>s. Brokering_loop example_rounds (t, start_server) = Inr (t, s) \<and> srv_uuids s = 1 \<and>
    length (srv_WorkerPool s) = 1 \<and> length (srv_ActiveJobs s) = 1 \<and> sent_jobs s \<noteq> []"
proof -
  let ?v = "(WorkerInfo_mk example_worker example_reqs)\<lparr>NumberOfDesiredJobs := 1\<rparr>"
  from worker_registered [OF calm_start [OF assms] example_reqs_wf, of example_worker] obtain s1 s2 where s2:
    "Brokering_turn example_env (hears example_worker (register_message example_reqs)) (t, start_server) = Inr (t, s1)"
    "Brokering_turn example_env (hears example_worker (ask_message example_reqs)) (t, s1) = Inr (t, s2)"
    "calm counting_uuid example_env t s2" "srv_uuids s2 = 0" "srv_ActiveJobs s2 = []" "srv_WorkerPool s2 = [] @ [?v]"
    by (auto simp: start_fields)
  have inj: "inj_on counting_uuid {..<srv_uuids s2 + 1}" by (simp add: s2(4) inj_counting)
  have wants: "\<forall>u\<in>set []. \<not> wants_job (sub_requirements example_submission) u"
      "wants_job (sub_requirements example_submission) ?v"
    by (simp_all add: wants_job_def WorkerInfo_mk_def isWaitingForWork_def example_submission_reqs)
  obtain job :: Job and s3 where s3:
    "Brokering_turn example_env (asked_by example_client (client_message (sub_type example_submission) MAKE_MESH
        (Some (JobSubmission_serialize example_submission)))) (t, s2) = Inr (t, s3)"
    "srv_uuids s3 = srv_uuids s2 + 1" "length (srv_WorkerPool s3) = length (srv_WorkerPool s2)"
    "srv_ActiveJobs s3 = snd (aj_add (wi_Address ?v) (job_id job) (srv_ActiveJobs s2))"
    "srv_worker_out s3 = srv_worker_out s2 @ [(wi_Address ?v, MAKE_MESH,
      WorkerJob_to_string (env_io example_env) (WorkerJob_mk (job_id job) example_submission))]"
    using submits_turn [OF s2(3) inj example_env_ok(1,2,2) example_submission_wf example_submission_reqs(2) s2(6) wants,
        of example_client]
    by blast
  have "length (srv_ActiveJobs s3) = 1" by (simp add: s3(4) s2(5) aj_add_def aj_haveUUID_iff)
  then show ?thesis
    using s2(1,2) s3 by (intro exI [of _ s3]) (simp add: s2(4,6) sent_jobs_def)
qed

text \<open>
  C2: no job is worked on twice. Over the whole life of a server, whatever clients and workers
  send, the jobs handed out on the worker channel are jobs that clients submitted, each exactly
  as submitted, each under an id the server issued, and no id is ever handed out again: not when
  the worker dies, not when the job is terminated or its result fetched.
\<close>

theorem job_sent_once:
  assumes "Brokering set_port free now rounds env_end sh (Server_ports ports t0 f g) = Inr (r, p')"
    and "\<forall>ei\<in>set rounds. env_generate (fst ei) = gen \<and> env_io (fst ei) = io"
    and "env_generate env_end = gen" and "inj_on gen {..<srv_uuids (prg_Server p')}"
  shows "\<exists>js :: (QueuedJob \<times> SocketIdentity) list.
    filter (\<lambda>(w, t, d). t = MAKE_MESH) (srv_worker_out (prg_Server p')) =
      map (\<lambda>(x, w). (w, MAKE_MESH, WorkerJob_to_string io (WorkerJob_mk (qj_Id x) (qj_Submission x)))) js \<and>
    distinct (map (\<lambda>(x, w). qj_Id x) js) \<and>
    (\<forall>(x, w)\<in>set js. qj_Id x \<in> gen ` {..<srv_uuids (prg_Server p')} \<and>
      (\<exists>ei\<in>set rounds. qj_Submission x \<in> turn_submits (snd ei)))"
proof -
  obtain ports' t1 s1 where b:
      "Brokering_loop rounds (now + milliseconds workerCheckInterval,
         Server_mk t0 (set_port (pc_Endpoint (sp_Worker (ports'::ServerPorts))) f)) = Inr (t1, s1)"
      "prg_Server p' = Brokering_end env_end s1"
    using assms(1)
    by (auto simp: Brokering_def Brokering_start_def Server_ports_def Server_mk_def bindE_eq_Inr Let_def
        split: if_splits)
  have inj: "inj_on gen {..<srv_uuids s1}"
    by (rule inj_on_subset [OF assms(4)]) (use end_uuids [of s1 env_end] in \<open>auto simp: b(2)\<close>)
  have "handed_once gen io {} [] (Server_mk t0 f')" for f'
    by (simp add: handed_once_def sent_jobs_def Server_mk_def JobQueue_empty_def pending_def)
  from loop_once [OF b(1) assms(2) server_inv_mk this inj] obtain js where
    js: "handed_once gen io (\<Union>ei\<in>set rounds. turn_submits (snd ei)) js s1" by auto
  have resp: "job_response io = (\<lambda>(x, w). (w, MAKE_MESH, WorkerJob_to_string io (WorkerJob_mk (qj_Id x) (qj_Submission x))))"
    by auto
  have ids: "handed_ids js = map (\<lambda>(x, w). qj_Id x) js" for js by (induction js) auto
  have sent: "filter (\<lambda>(w, t, d). t = MAKE_MESH) (srv_worker_out (prg_Server p')) = map (job_response io) js"
      "distinct (handed_ids js)"
    using js end_sent_jobs [of env_end s1] by (simp_all add: handed_once_def sent_jobs_def b(2))
  have "qj_Id x \<in> gen ` {..<srv_uuids (prg_Server p')} \<and> (\<exists>ei\<in>set rounds. qj_Submission x \<in> turn_submits (snd ei))"
    if "(x, w) \<in> set js" for x w
  proof -
    have "set (handed_ids js) \<subseteq> gen ` {..<srv_uuids s1}"
      "qj_Submission ` fst ` set js \<subseteq> (\<Union>ei\<in>set rounds. turn_submits (snd ei))"
      using js by (auto simp: handed_once_def)
    moreover have "gen ` {..<srv_uuids s1} \<subseteq> gen ` {..<srv_uuids (prg_Server p')}"
      using end_uuids [of s1 env_end] by (intro image_mono) (auto simp: b(2))
    moreover have "qj_Id x \<in> set (handed_ids js)" "x \<in> fst ` set js" using that by (force simp: ids)+
    ultimately show ?thesis by blast
  qed
  then show ?thesis
    using sent by (intro exI [of _ js]) (auto simp: resp ids)
qed

theorem job_sent_once_witness:
  "\<exists>p' js. Brokering (\<lambda>_ _. ()) all_free 0 example_rounds example_env NONE
      (Server_ports ServerPorts_default 0 () \<lparr>sig_Instance = False, sig_action = \<lambda>_. SIG_DFL\<rparr>) = Inr (True, p') \<and>
    filter (\<lambda>(w, t, d). t = MAKE_MESH) (srv_worker_out (prg_Server p')) = map (job_response hex_uuid_io) js \<and>
    js \<noteq> [] \<and> distinct (map (\<lambda>(x, w). qj_Id x) js)"
proof -
  let ?p = "Server_ports ServerPorts_default 0 () \<lparr>sig_Instance = False, sig_action = \<lambda>_. SIG_DFL\<rparr>"
  let ?run = "Brokering (\<lambda>_ _. ()) all_free 0 example_rounds example_env NONE ?p"
  obtain ports where ports: "bind_channels all_free ServerPorts_default = Inr ports" using default_ports_bind ..
  have start: "(Server_mk 0 ())\<lparr>srv_WorkerFactory := ()\<rparr> = start_server" by (simp add: Server_mk_def start_server_def)
  have "0 < milliseconds workerCheckInterval" by (simp add: milliseconds_def workerCheckInterval_def)
  from example_rounds_run [OF this] obtain s where s:
    "Brokering_loop example_rounds (milliseconds workerCheckInterval, start_server) = Inr (milliseconds workerCheckInterval, s)"
    "srv_uuids s = 1" "length (srv_WorkerPool s) = 1" "length (srv_ActiveJobs s) = 1" "sent_jobs s \<noteq> []" by blast
  obtain p' where p': "?run = Inr (True, p')" "prg_Server p' = Brokering_end example_env s"
    using ports s(1) by (simp add: Brokering_def Brokering_start_def Server_ports_def start Let_def)
  have "srv_uuids (prg_Server p') \<le> 3" using end_uuids_le [of example_env s] s(2-4) by (simp add: p'(2))
  then have "inj_on counting_uuid {..<srv_uuids (prg_Server p')}" by (rule inj_counting)
  from job_sent_once [OF p'(1) _ example_env_ok(3) this, of hex_uuid_io] obtain js :: "(QueuedJob \<times> SocketIdentity) list" where
    "filter (\<lambda>(w, t, d). t = MAKE_MESH) (srv_worker_out (prg_Server p')) =
      map (\<lambda>(x, w). (w, MAKE_MESH, WorkerJob_to_string hex_uuid_io (WorkerJob_mk (qj_Id x) (qj_Submission x)))) js"
    "distinct (map (\<lambda>(x, w). qj_Id x) js)"
    by (auto simp: example_env_ok)
  moreover have "filter (\<lambda>(w, t, d). t = MAKE_MESH) (srv_worker_out (prg_Server p')) \<noteq> []"
    using s(5) end_sent_jobs [of example_env s] by (simp add: p'(2) sent_jobs_def)
  moreover have "job_response hex_uuid_io = (\<lambda>(x, w). (w, MAKE_MESH,
      WorkerJob_to_string hex_uuid_io (WorkerJob_mk (qj_Id x) (qj_Submission x))))" by auto
  ultimately show ?thesis using p'(1) by (intro exI [of _ p'] exI [of _ js]) auto
qed

end
