(* ===== verification/Remus_Doubles.thy ===== *)
theory Remus_Doubles
  imports Remus_Worker Remus_Client
begin

text \<open>
  What the example meshers do with floating-point numbers. A \<open>double\<close> is its 64 bits: sent as
  raw memory it is eight bytes, least significant first, and comparisons with the constants of
  the code read sign and magnitude. The decimal conversions of the stream library, printing
  with six significant digits, printing in fixed notation and reading a literal, are the
  argument \<open>double_io\<close>; which characters belong to a literal is decided here, as \<open>num_get\<close> does.
\<close>

type_synonym double = "64 word"

section \<open>Raw memory\<close>

primrec le_bytes :: "nat \<Rightarrow> nat \<Rightarrow> string" where
  "le_bytes 0 n = []"
| "le_bytes (Suc k) n = char_of n # le_bytes k (n div 256)"

primrec le_value :: "string \<Rightarrow> nat" where
  "le_value [] = 0"
| "le_value (c # cs) = of_char c + 256 * le_value cs"

lemma length_le_bytes [simp]: "length (le_bytes k n) = k"
  by (induction k arbitrary: n) simp_all

lemma le_value_bytes: "n < 256 ^ k \<Longrightarrow> le_value (le_bytes k n) = n"
proof (induction k arbitrary: n)
  case (Suc k)
  then have "n div 256 < 256 ^ k" by (simp add: less_mult_imp_div_less mult.commute)
  with Suc.IH show ?case by simp
qed simp

text \<open>How a type lies in memory.\<close>

record 'a raw =
  raw_size :: nat
  raw_put :: "'a \<Rightarrow> string"
  raw_get :: "string \<Rightarrow> 'a"

definition raw_double :: "double raw" where
  "raw_double = \<lparr>raw_size = 8, raw_put = (\<lambda>d. le_bytes 8 (unat d)), raw_get = (\<lambda>bs. of_nat (le_value bs))\<rparr>"

definition raw_int :: "int raw" where
  "raw_int = \<lparr>raw_size = 4, raw_put = (\<lambda>z. le_bytes 4 (nat (z mod 2 ^ 32))),
     raw_get = (\<lambda>bs. let n = int (le_value bs) in if n < 2 ^ 31 then n else n - 2 ^ 32)\<rparr>"

definition int32 :: "int \<Rightarrow> bool" where
  "int32 z \<longleftrightarrow> - (2 ^ 31) \<le> z \<and> z < 2 ^ 31"

definition raw_ok :: "'a raw \<Rightarrow> 'a \<Rightarrow> bool" where
  "raw_ok t x \<longleftrightarrow> 0 < raw_size t \<and> length (raw_put t x) = raw_size t \<and> raw_get t (raw_put t x) = x"

lemma raw_double_ok [simp]: "raw_ok raw_double d"
proof -
  have "unat d < 256 ^ 8" using unsigned_less [of d, where ?'a = nat] by simp
  then show ?thesis by (simp add: raw_ok_def raw_double_def le_value_bytes)
qed

lemma raw_int_ok: "int32 z \<Longrightarrow> raw_ok raw_int z"
proof -
  assume z: "int32 z"
  then have "le_value (le_bytes 4 (nat (z mod 2 ^ 32))) = nat (z mod 2 ^ 32)"
    by (intro le_value_bytes) (simp add: nat_less_iff)
  moreover have "z mod 2 ^ 32 = (if 0 \<le> z then z else z + 2 ^ 32)"
    using z by (auto simp: int32_def mod_pos_pos_trivial)
      (smt (verit) mod_add_self2 mod_pos_pos_trivial)
  ultimately show ?thesis using z by (auto simp: raw_ok_def raw_int_def int32_def Let_def)
qed

section \<open>Numbers as text\<close>

record double_io =
  dio_show :: "double \<Rightarrow> string"
  dio_fixed :: "double \<Rightarrow> string"
  dio_parse :: "string \<Rightarrow> double \<times> bool"

definition is_sign :: "char \<Rightarrow> bool" where
  "is_sign c \<longleftrightarrow> c = CHR ''-'' \<or> c = CHR ''+''"

text \<open>An optional sign and digits.\<close>

definition scan_digits :: "string \<Rightarrow> string \<times> string" where
  "scan_digits cs =
     (let sgn = (if cs \<noteq> [] \<and> is_sign (hd cs) then [hd cs] else []); rest = drop (length sgn) cs in
      (sgn @ takeWhile isdigit rest, dropWhile isdigit rest))"

text \<open>A sign, digits, a point with digits, an exponent with sign and digits; each may be missing.\<close>

definition scan_float :: "string \<Rightarrow> string \<times> string" where
  "scan_float cs =
     (let (whole, r1) = scan_digits cs;
          (frac, r2) = (if r1 \<noteq> [] \<and> hd r1 = CHR ''.''
                        then (CHR ''.'' # takeWhile isdigit (tl r1), dropWhile isdigit (tl r1)) else ([], r1));
          (ex, r3) = (if whole @ frac \<noteq> [] \<and> r2 \<noteq> [] \<and> hd r2 \<in> {CHR ''e'', CHR ''E''}
                      then (case scan_digits (tl r2) of (d, r) \<Rightarrow> (hd r2 # d, r)) else ([], r2)) in
      (whole @ frac @ ex, r3))"

text \<open>\<open>buffer >> d\<close> for a \<open>double\<close>: what is stored, if anything, and the stream afterwards.\<close>

definition istream_double :: "double_io \<Rightarrow> istream \<Rightarrow> double option \<times> istream" where
  "istream_double dio s =
     (if \<not> istream_good s then (None, s\<lparr>is_fail := True\<rparr>)
      else
        let cs = dropWhile isspace (is_buf s) in
        if cs = [] then (None, \<lparr>is_buf = [], is_eof = True, is_fail = True\<rparr>)
        else
          let (lit, rest) = scan_float cs in
          if lit = [] then (Some 0, \<lparr>is_buf = rest, is_eof = (rest = []), is_fail = True\<rparr>)
          else
            let (d, failed) = dio_parse dio lit in
            (Some d, \<lparr>is_buf = rest, is_eof = (rest = []), is_fail = failed\<rparr>))"

text \<open>
  The same for a \<open>double\<close> or \<open>bool\<close> that nothing initialised: when nothing is stored, what
  follows reads an indeterminate value.
\<close>

definition read_double :: "double_io \<Rightarrow> istream \<Rightarrow> (double \<times> istream) result" where
  "read_double dio s =
     (case istream_double dio s of (v, s') \<Rightarrow>
       (case v of None \<Rightarrow> Inl UndefinedBehaviour | Some d \<Rightarrow> Inr (d, s')))"

text \<open>A number other than 0 and 1 reads as true and sets \<open>failbit\<close>.\<close>

definition conv_bool :: "bool \<Rightarrow> nat \<Rightarrow> bool \<times> bool" where
  "conv_bool neg n = (if n = 0 then (False, False) else (True, neg \<or> n \<noteq> 1))"

definition read_flag :: "istream \<Rightarrow> (bool \<times> istream) result" where
  "read_flag s =
     (case istream_number conv_bool False s of (v, s') \<Rightarrow>
       (case v of None \<Rightarrow> Inl UndefinedBehaviour | Some b \<Rightarrow> Inr (b, s')))"

text \<open>The same for a \<open>bool\<close> that was false and a \<open>double\<close> that was 0.\<close>

definition read_flag_false :: "istream \<Rightarrow> bool \<times> istream" where
  "read_flag_false s = (case istream_number conv_bool False s of (v, s') \<Rightarrow> (v = Some True, s'))"

definition read_double_zero :: "double_io \<Rightarrow> istream \<Rightarrow> double \<times> istream" where
  "read_double_zero dio s = (case istream_double dio s of (v, s') \<Rightarrow> (case v of None \<Rightarrow> 0 | Some d \<Rightarrow> d, s'))"

section \<open>Comparisons\<close>

definition double_magnitude :: "double \<Rightarrow> nat" where
  "double_magnitude d = unat d mod 2 ^ 63"

definition double_negative :: "double \<Rightarrow> bool" where
  "double_negative d \<longleftrightarrow> 2 ^ 63 \<le> unat d"

definition double_nan :: "double \<Rightarrow> bool" where
  "double_nan d \<longleftrightarrow> 0x7FF0000000000000 < double_magnitude d"

text \<open>\<open>value < 0.0\<close> and \<open>value > 33.\<close>; 33 is \<open>0x4040800000000000\<close>.\<close>

definition below_zero :: "double \<Rightarrow> bool" where
  "below_zero d \<longleftrightarrow> \<not> double_nan d \<and> double_negative d \<and> 0 < double_magnitude d"

definition above_33 :: "double \<Rightarrow> bool" where
  "above_33 d \<longleftrightarrow> \<not> double_nan d \<and> \<not> double_negative d \<and> 0x4040800000000000 < double_magnitude d"

text \<open>An \<open>int\<close> converted to \<open>double\<close>, which is always exact.\<close>

fun top_bit :: "nat \<Rightarrow> nat" where
  "top_bit n = (if n < 2 then 0 else Suc (top_bit (n div 2)))"

declare top_bit.simps [simp del]

definition double_of_int :: "int \<Rightarrow> double" where
  "double_of_int z =
     (if z = 0 then 0
      else
        let m = nat \<bar>z\<bar>; k = top_bit m in
        of_nat ((if z < 0 then 2 ^ 63 else 0) + (1023 + k) * 2 ^ 52 + (m - 2 ^ k) * 2 ^ (52 - k)))"

section \<open>Reading back\<close>

text \<open>Numbers whose printed form is a literal in range, as that of every finite number is.\<close>

definition printable :: "double_io \<Rightarrow> double \<Rightarrow> bool" where
  "printable dio d \<longleftrightarrow> dio_show dio d \<noteq> [] \<and> scan_float (dio_show dio d) = (dio_show dio d, []) \<and>
     \<not> isspace (hd (dio_show dio d)) \<and> \<not> snd (dio_parse dio (dio_show dio d))"

definition reread :: "double_io \<Rightarrow> double \<Rightarrow> double" where
  "reread dio d = fst (dio_parse dio (dio_show dio d))"

lemma scan_digits_append:
  assumes "\<not> isdigit c" and "\<not> is_sign c"
  shows "scan_digits (cs @ c # r) = (case scan_digits cs of (d, rest) \<Rightarrow> (d, rest @ c # r))"
proof (cases cs)
  case Nil
  with assms show ?thesis by (simp add: scan_digits_def)
next
  case (Cons b bs)
  have "takeWhile isdigit (xs @ c # r) = takeWhile isdigit xs" "dropWhile isdigit (xs @ c # r) = dropWhile isdigit xs @ c # r" for xs
    using assms(1) by (induction xs) simp_all
  with this [of cs] Cons show ?thesis by (simp add: scan_digits_def Let_def)
qed

lemma scan_float_append:
  assumes "\<not> isdigit c" and "\<not> is_sign c" and "c \<notin> {CHR ''.'', CHR ''e'', CHR ''E''}"
  shows "scan_float (cs @ c # r) = (case scan_float cs of (f, rest) \<Rightarrow> (f, rest @ c # r))"
proof -
  have tw: "takeWhile isdigit (xs @ c # r) = takeWhile isdigit xs" "dropWhile isdigit (xs @ c # r) = dropWhile isdigit xs @ c # r" for xs
    using assms(1) by (induction xs) simp_all
  obtain whole r1 where w: "scan_digits cs = (whole, r1)" by force
  define frac r2 where "frac = (if r1 \<noteq> [] \<and> hd r1 = CHR ''.'' then CHR ''.'' # takeWhile isdigit (tl r1) else [])"
    and "r2 = (if r1 \<noteq> [] \<and> hd r1 = CHR ''.'' then dropWhile isdigit (tl r1) else r1)"
  have "scan_float cs = (case (if whole @ frac \<noteq> [] \<and> r2 \<noteq> [] \<and> hd r2 \<in> {CHR ''e'', CHR ''E''}
      then (case scan_digits (tl r2) of (d, r) \<Rightarrow> (hd r2 # d, r)) else ([], r2)) of (ex, r3) \<Rightarrow> (whole @ frac @ ex, r3))"
    by (auto simp: scan_float_def w frac_def r2_def Let_def)
  moreover have "scan_float (cs @ c # r) = (case (if whole @ frac \<noteq> [] \<and> r2 \<noteq> [] \<and> hd r2 \<in> {CHR ''e'', CHR ''E''}
      then (case scan_digits (tl r2) of (d, r') \<Rightarrow> (hd r2 # d, r' @ c # r)) else ([], r2 @ c # r)) of
      (ex, r3) \<Rightarrow> (whole @ frac @ ex, r3))"
    using assms
    by (cases r1; cases r2)
       (auto simp: scan_float_def scan_digits_append w frac_def r2_def tw hd_append Let_def split: if_splits prod.splits,
        (metis dropWhile_eq_Nil_conv list.distinct(1))+)
  ultimately show ?thesis by (auto split: prod.splits if_splits)
qed

lemma istream_double_show:
  assumes "printable dio d" and "spaces ws"
  shows "istream_double dio (istream_of (ws @ dio_show dio d @ nl # r)) = (Some (reread dio d), istream_of (nl # r))"
proof -
  let ?lit = "dio_show dio d"
  have lit: "?lit \<noteq> []" "scan_float ?lit = (?lit, [])" "\<not> isspace (hd ?lit)" "\<not> snd (dio_parse dio ?lit)"
    using assms(1) by (auto simp: printable_def)
  have "dropWhile isspace (ws @ ?lit @ nl # r) = ?lit @ nl # r"
    using lit(1,3) assms(2) by (cases ?lit) (simp_all add: dropWhile_spaces)
  moreover have "scan_float (?lit @ nl # r) = (?lit, nl # r)"
    using scan_float_append [of nl ?lit r] lit(2) by (simp add: is_sign_def)
  ultimately show ?thesis
    using lit(1,4) by (simp add: istream_double_def reread_def split_beta) (simp add: istream_of_def)
qed

lemma read_double_show:
  assumes "printable dio d" and "spaces ws"
  shows "read_double dio (istream_of (ws @ dio_show dio d @ nl # r)) = Inr (reread dio d, istream_of (nl # r))"
  by (simp add: read_double_def istream_double_show [OF assms])

lemma show_bool_nat: "show_bool b = show_nat (of_bool b)"
proof -
  have "digit 0 = CHR ''0''" "digit 1 = CHR ''1''" by code_simp+
  then show ?thesis by (simp add: show_bool_def show_nat.simps)
qed

lemma read_flag_show:
  assumes "spaces ws"
  shows "read_flag (istream_of (ws @ show_bool b @ nl # r)) = Inr (b, istream_of (nl # r))"
  using istream_number_show_nat [of conv_bool "of_bool b" b False r] assms
  by (simp add: read_flag_def istream_number_spaces show_bool_nat conv_bool_def)

lemma read_int_uninit_show:
  assumes "spaces ws" and "int32 z"
  shows "read_int_uninit (istream_of (ws @ show_int z @ nl # r)) = Inr (z, istream_of (nl # r))"
  using assms by (simp add: read_skip_spaces read_int_uninit_show_int int32_def)

lemma read_initialised:
  "spaces ws \<Longrightarrow> read_flag_false (istream_of (ws @ show_bool b @ nl # r)) = (b, istream_of (nl # r))"
  "printable dio d \<Longrightarrow> spaces ws \<Longrightarrow>
     read_double_zero dio (istream_of (ws @ dio_show dio d @ nl # r)) = (reread dio d, istream_of (nl # r))"
  using istream_number_show_nat [of conv_bool "of_bool b" b False r]
  by (simp_all add: read_flag_false_def read_double_zero_def istream_number_spaces show_bool_nat conv_bool_def
      istream_double_show)

section \<open>An instance\<close>

text \<open>A conversion that is exact on whole numbers.\<close>

definition whole_of :: "double \<Rightarrow> nat" where
  "whole_of d = (if d = 0 then 0
     else (2 ^ 52 + unat d mod 2 ^ 52) div 2 ^ (52 - (unat d div 2 ^ 52 - 1023)))"

definition whole_io :: double_io where
  "whole_io = \<lparr>dio_show = (\<lambda>d. show_nat (whole_of d)), dio_fixed = (\<lambda>d. show_nat (whole_of d) @ ''.000000''),
     dio_parse = (\<lambda>lit. (double_of_int (int (digits_value lit)), False))\<rparr>"

lemma scan_float_show_nat: "scan_float (show_nat n) = (show_nat n, [])"
proof -
  obtain c cs where c: "show_nat n = c # cs" "isdigit c" by (rule show_nat_Cons)
  have "takeWhile isdigit (show_nat n) = show_nat n" "dropWhile isdigit (show_nat n) = []"
    using show_nat_digits [of n] by simp_all
  moreover have "\<not> is_sign c" using isdigit_not_sign [OF c(2)] by (simp add: is_sign_def)
  ultimately show ?thesis using c(1) by (simp add: scan_float_def scan_digits_def)
qed

lemma whole_printable: "printable whole_io d"
proof -
  obtain c cs where c: "show_nat (whole_of d) = c # cs" "isdigit c" by (rule show_nat_Cons)
  then have "\<not> isspace (hd (show_nat (whole_of d)))" using isdigit_not_space [OF c(2)] by simp
  then show ?thesis by (simp add: printable_def whole_io_def scan_float_show_nat)
qed

lemma whole_zero: "dio_show whole_io 0 = ''0''" "reread whole_io 0 = 0"
proof -
  have "show_nat 0 = ''0''" "digits_value ''0'' = 0" by code_simp+
  then show "dio_show whole_io 0 = ''0''" "reread whole_io 0 = 0"
    by (simp_all add: reread_def whole_io_def whole_of_def double_of_int_def)
qed

end
