(* ===== verification/Remus_Session.thy ===== *)
theory Remus_Session
  imports Remus_Client
begin

text \<open>
  The clients of the examples (\<open>examples/Triangle/Client\<close>, \<open>examples/TetGen/Client\<close>,
  \<open>examples/nuclear\<close>): ask whether the server can mesh, submit, ask for the status until it is no
  longer good, and fetch the result of a finished job. The loop over the status ends only when
  the server says so; it has fuel, and \<open>None\<close> means that it is still asking.
\<close>

fun await_end ::
  "nat \<Rightarrow> uuid_io \<Rightarrow> Job \<Rightarrow> 's exchange \<Rightarrow> JobStatus \<Rightarrow> 's \<Rightarrow> (JobStatus \<times> 's) result option" where
  "await_end fuel io job ex jobState s =
     (if \<not> js_good jobState then Some (Inr (jobState, s))
      else case fuel of
        0 \<Rightarrow> None
      | Suc n \<Rightarrow> (case Client_jobStatus io job ex s of
          Inl e \<Rightarrow> Some (Inl e)
        | Inr (jobState', s') \<Rightarrow> await_end n io job ex jobState' s'))"

declare await_end.simps [simp del]

text \<open>From the submission to the result, or to nothing for a job that did not finish.\<close>

definition job_session ::
  "nat \<Rightarrow> uuid_io \<Rightarrow> JobSubmission \<Rightarrow> 's exchange \<Rightarrow> 's \<Rightarrow> (JobResult option \<times> 's) result option" where
  "job_session fuel io sub ex s =
     (case bindE (Client_submitJob io sub ex s) (\<lambda>(job, s).
           bindE (Client_jobStatus io job ex s) (\<lambda>(jobState, s). Inr (job, jobState, s))) of
        Inl e \<Rightarrow> Some (Inl e)
      | Inr (job, jobState, s) \<Rightarrow>
          (case await_end fuel io job ex jobState s of
             None \<Rightarrow> None
           | Some (Inl e) \<Rightarrow> Some (Inl e)
           | Some (Inr (jobState, s)) \<Rightarrow>
               if js_finished jobState
               then Some (bindE (Client_retrieveResults io job ex s) (\<lambda>(result, s). Inr (Some result, s)))
               else Some (Inr (None, s))))"

text \<open>The same behind the question whether the server can mesh, by mesh type or by requirements.\<close>

definition guarded_session ::
  "('s \<Rightarrow> (bool \<times> 's) result) \<Rightarrow> nat \<Rightarrow> uuid_io \<Rightarrow> JobSubmission \<Rightarrow> 's exchange \<Rightarrow> 's \<Rightarrow>
   (JobResult option \<times> 's) result option" where
  "guarded_session asks fuel io sub ex s =
     (case asks s of
        Inl e \<Rightarrow> Some (Inl e)
      | Inr (True, s') \<Rightarrow> job_session fuel io sub ex s'
      | Inr (False, s') \<Rightarrow> Some (Inr (None, s')))"

section \<open>The loop over the status\<close>

text \<open>The status after \<open>n\<close> more questions.\<close>

primrec nth_status :: "nat \<Rightarrow> uuid_io \<Rightarrow> Job \<Rightarrow> 's exchange \<Rightarrow> JobStatus \<Rightarrow> 's \<Rightarrow> (JobStatus \<times> 's) result" where
  "nth_status 0 io job ex st s = Inr (st, s)"
| "nth_status (Suc n) io job ex st s =
     bindE (Client_jobStatus io job ex s) (\<lambda>(st', s'). nth_status n io job ex st' s')"

lemma ex_le_Suc: "(\<exists>n\<le>Suc m. P n) \<longleftrightarrow> P 0 \<or> (\<exists>n\<le>m. P (Suc n))"
  by (metis Suc_le_mono le0 not0_implies_Suc)

definition good_until :: "nat \<Rightarrow> uuid_io \<Rightarrow> Job \<Rightarrow> 's exchange \<Rightarrow> JobStatus \<Rightarrow> 's \<Rightarrow> bool" where
  "good_until n io job ex st s \<longleftrightarrow>
     (\<forall>k<n. \<exists>st' s'. nth_status k io job ex st s = Inr (st', s') \<and> js_good st')"

lemma good_until_simps:
  "good_until 0 io job ex st s"
  "good_until (Suc n) io job ex st s \<longleftrightarrow>
     js_good st \<and> (n = 0 \<or> (\<exists>st' s'. Client_jobStatus io job ex s = Inr (st', s') \<and> good_until n io job ex st' s'))"
proof -
  show "good_until 0 io job ex st s" by (simp add: good_until_def)
  have "good_until (Suc n) io job ex st s \<longleftrightarrow> js_good st \<and>
      (\<forall>k<n. \<exists>st' s'. nth_status (Suc k) io job ex st s = Inr (st', s') \<and> js_good st')"
    by (simp add: good_until_def All_less_Suc2 del: nth_status.simps(2))
  then show "good_until (Suc n) io job ex st s \<longleftrightarrow>
     js_good st \<and> (n = 0 \<or> (\<exists>st' s'. Client_jobStatus io job ex s = Inr (st', s') \<and> good_until n io job ex st' s'))"
    by (cases "Client_jobStatus io job ex s"; cases n) (auto simp: good_until_def)
qed

text \<open>
  The loop ends as soon as one of the answers is not good, with the first such answer; as long
  as every answer is good, it goes on asking.
\<close>

theorem await_end_spec:
  "await_end fuel io job ex st s = Some (Inr r) \<longleftrightarrow>
   (\<exists>n\<le>fuel. nth_status n io job ex st s = Inr r \<and> \<not> js_good (fst r) \<and> good_until n io job ex st s)"
proof (induction fuel arbitrary: st s)
  case 0
  show ?case by (cases r) (auto simp: await_end.simps good_until_simps)
next
  case (Suc fuel)
  show ?case
  proof (cases "js_good st")
    case False
    then have "\<not> good_until (Suc n) io job ex st s" for n by (simp add: good_until_simps)
    with False show ?thesis by (cases r) (auto simp: await_end.simps ex_le_Suc good_until_simps(1))
  next
    case good: True
    show ?thesis
    proof (cases "Client_jobStatus io job ex s")
      case (Inl e)
      with good show ?thesis by (cases r) (auto simp: await_end.simps ex_le_Suc simp del: js_good_def)
    next
      case (Inr p)
      obtain st1 s1 where p: "p = (st1, s1)" by force
      have "nth_status (Suc n) io job ex st s = Inr r \<and> \<not> js_good (fst r) \<and> good_until (Suc n) io job ex st s \<longleftrightarrow>
          nth_status n io job ex st1 s1 = Inr r \<and> \<not> js_good (fst r) \<and> good_until n io job ex st1 s1" for n
        using good Inr p by (auto simp: good_until_simps)
      moreover have "\<not> (nth_status 0 io job ex st s = Inr r \<and> \<not> js_good (fst r))" using good by auto
      moreover have "await_end (Suc fuel) io job ex st s = await_end fuel io job ex st1 s1"
        using good Inr p by (subst await_end.simps) simp
      ultimately show ?thesis using Suc.IH [of st1 s1] by (simp only: ex_le_Suc) blast
    qed
  qed
qed

text \<open>A client whose question is answered by no sends nothing else.\<close>

lemma session_refused:
  "asks s = Inr (False, s') \<Longrightarrow> guarded_session asks fuel io sub ex s = Some (Inr (None, s'))"
  by (simp add: guarded_session_def)

end
