(* ===== verification/Remus_Triangle.thy ===== *)
theory Remus_Triangle
  imports Remus_Doubles Remus_Session
begin

text \<open>
  \<open>examples/Triangle\<close>: a mesher for plane regions. \<open>TriangleInput\<close> carries the region from
  client to worker, \<open>TriangleWorker\<close> calls the mesher and \<open>TriangleResult\<close> carries the mesh
  back. The mesher itself (\<open>triangulate\<close>) is not part of the sources and an argument. Pointers
  of its interface are numbers, 0 for \<open>NULL\<close>. Memory for vectors is assumed to be available.
\<close>

section \<open>StreamHelpers.h\<close>

text \<open>
  \<open>AllocFromStream\<close> on an empty vector. What the stream cannot deliver stays zero, and the
  callers do not look at the returned flag.
\<close>

definition AllocFromStream :: "'a raw \<Rightarrow> istream \<Rightarrow> int \<Rightarrow> bool \<times> 'a list \<times> istream" where
  "AllocFromStream t s numElements =
     (if numElements \<le> 0 then (False, [], s)
      else
        let n = nat numElements; size = raw_size t * n; s1 = skip_newline s;
            got = take size (is_buf s1);
            cdest = got @ replicate (size - length got) CHR 0x00 in
        (length got = size, map (\<lambda>i. raw_get t (take (raw_size t) (drop (i * raw_size t) cdest))) [0..<n],
         s1\<lparr>is_buf := drop size (is_buf s1)\<rparr>))"

definition WriteToStream :: "'a raw \<Rightarrow> 'a list \<Rightarrow> bool \<times> string" where
  "WriteToStream t src = (if length src = 0 then (False, []) else (True, concat (map (raw_put t) src) @ [nl]))"

text \<open>
  The overload for pointers writes from \<open>&src\<close>, the address of its own parameter: the eight
  bytes of the pointer, and beyond them memory that is none of its business.
\<close>

definition WriteToStream_pointer :: "'a raw \<Rightarrow> nat \<Rightarrow> int \<Rightarrow> (bool \<times> string) result" where
  "WriteToStream_pointer t src numElements =
     (if numElements = 0 then Inr (False, [])
      else if numElements < 0 \<or> 8 < raw_size t * nat numElements then Inl UndefinedBehaviour
      else Inr (True, take (raw_size t * nat numElements) (le_bytes 8 src) @ [nl]))"

section \<open>TriangleInput.h\<close>

record TriangleInput =
  NumberOfPoints :: int
  NumberOfSegments :: int
  NumberOfHoles :: int
  NumberOfRegions :: int
  NumberOfNodes :: int
  ti_Verbose :: bool
  PerserveSegmentsAndPoints :: bool
  PreserveBoundaries :: bool
  MinAngleOn :: bool
  MaxAreaOn :: bool
  MaxArea :: double
  MinAngle :: double
  ti_points :: "double list"
  pointAttribute :: "double list"
  ti_segments :: "int list"
  segmentMarker :: "int list"
  ti_holes :: "double list"
  ti_regions :: "double list"

definition TriangleInput_default :: TriangleInput where
  "TriangleInput_default = \<lparr>NumberOfPoints = 0, NumberOfSegments = 0, NumberOfHoles = 0, NumberOfRegions = 0,
     NumberOfNodes = 0, ti_Verbose = False, PerserveSegmentsAndPoints = False, PreserveBoundaries = True,
     MinAngleOn = False, MaxAreaOn = False, MaxArea = 0, MinAngle = 0, ti_points = [], pointAttribute = [],
     ti_segments = [], segmentMarker = [], ti_holes = [], ti_regions = []\<rparr>"

text \<open>A product of \<open>int\<close>s, and a vector of that many elements.\<close>

definition int_times :: "int \<Rightarrow> int \<Rightarrow> int result" where
  "int_times a b = (if int32 (a * b) then Inr (a * b) else Inl UndefinedBehaviour)"

definition vector_of :: "int \<Rightarrow> 'a \<Rightarrow> 'a list result" where
  "vector_of n x = (if n < 0 then Inl LengthError else Inr (replicate (nat n) x))"

definition TriangleInput_sizes :: "int \<Rightarrow> int \<Rightarrow> int \<Rightarrow> int \<Rightarrow> bool \<Rightarrow> TriangleInput result" where
  "TriangleInput_sizes numPoints numSegments numHoles numRegions perserve =
     bindE (int_times numPoints 2) (\<lambda>n. bindE (vector_of n 0) (\<lambda>points.
     bindE (int_times numSegments 2) (\<lambda>n. bindE (vector_of n 0) (\<lambda>segments.
     bindE (int_times numHoles 2) (\<lambda>n. bindE (vector_of n 0) (\<lambda>holes.
     bindE (int_times numRegions 4) (\<lambda>n. bindE (vector_of n 0) (\<lambda>regions.
     bindE (if perserve then vector_of numPoints 0 else Inr []) (\<lambda>attributes.
     bindE (if perserve then vector_of numSegments 0 else Inr []) (\<lambda>markers.
     Inr (TriangleInput_default\<lparr>NumberOfPoints := numPoints, NumberOfSegments := numSegments,
       NumberOfHoles := numHoles, NumberOfRegions := numRegions, PerserveSegmentsAndPoints := perserve,
       ti_points := points, pointAttribute := attributes, ti_segments := segments,
       segmentMarker := markers, ti_holes := holes, ti_regions := regions\<rparr>)))))))))))"

definition setUseMinAngle :: "bool \<Rightarrow> TriangleInput \<Rightarrow> TriangleInput" where
  "setUseMinAngle useMin i = i\<lparr>MinAngleOn := useMin\<rparr>"

definition setMinAngle :: "double \<Rightarrow> TriangleInput \<Rightarrow> TriangleInput" where
  "setMinAngle angle i = i\<lparr>MinAngle := angle\<rparr>"

definition setUseMaxArea :: "bool \<Rightarrow> TriangleInput \<Rightarrow> TriangleInput" where
  "setUseMaxArea useMin i = i\<lparr>MaxAreaOn := useMin\<rparr>"

definition setMaxArea :: "double \<Rightarrow> TriangleInput \<Rightarrow> TriangleInput" where
  "setMaxArea area i = i\<lparr>MaxArea := area\<rparr>"

definition ti_setVerbosity :: "bool \<Rightarrow> TriangleInput \<Rightarrow> TriangleInput" where
  "ti_setVerbosity verb i = i\<lparr>ti_Verbose := verb\<rparr>"

definition setPreserveBoundaries :: "bool \<Rightarrow> TriangleInput \<Rightarrow> TriangleInput" where
  "setPreserveBoundaries preserve i = i\<lparr>PreserveBoundaries := preserve\<rparr>"

definition setPoint :: "int \<Rightarrow> double \<Rightarrow> double \<Rightarrow> int \<Rightarrow> TriangleInput \<Rightarrow> bool \<times> TriangleInput" where
  "setPoint index x y nodeId i =
     (if 0 \<le> index \<and> index < NumberOfPoints i then
        let i1 = i\<lparr>ti_points := (ti_points i)[nat (index * 2) := x, nat (index * 2 + 1) := y]\<rparr>;
            i2 = (if PerserveSegmentsAndPoints i1 then
                    let i' = (if nodeId \<noteq> -1 then i1\<lparr>NumberOfNodes := NumberOfNodes i1 + 1\<rparr> else i1) in
                    i'\<lparr>pointAttribute := (pointAttribute i')[nat index := double_of_int nodeId]\<rparr>
                  else i1) in
        (True, i2)
      else (False, i))"

definition setSegment :: "int \<Rightarrow> int \<Rightarrow> int \<Rightarrow> int \<Rightarrow> TriangleInput \<Rightarrow> bool \<times> TriangleInput" where
  "setSegment index pId1 pId2 arcId i =
     (if 0 \<le> index \<and> index < NumberOfSegments i then
        let i1 = i\<lparr>ti_segments := (ti_segments i)[nat (index * 2) := pId1, nat (index * 2 + 1) := pId2]\<rparr>;
            i2 = (if PerserveSegmentsAndPoints i1
                  then i1\<lparr>segmentMarker := (segmentMarker i1)[nat index := arcId]\<rparr> else i1) in
        (True, i2)
      else (False, i))"

definition setRegion ::
  "int \<Rightarrow> double \<Rightarrow> double \<Rightarrow> double \<Rightarrow> double \<Rightarrow> TriangleInput \<Rightarrow> bool \<times> TriangleInput" where
  "setRegion index x y attribute max_area i =
     (if 0 \<le> index \<and> index < NumberOfRegions i then
        (True, i\<lparr>ti_regions := (ti_regions i)[nat (index * 4) := x, nat (index * 4 + 1) := y,
           nat (index * 4 + 2) := attribute, nat (index * 4 + 3) := max_area]\<rparr>)
      else (False, i))"

definition setHole :: "int \<Rightarrow> double \<Rightarrow> double \<Rightarrow> TriangleInput \<Rightarrow> bool \<times> TriangleInput" where
  "setHole index x y i =
     (if 0 \<le> index \<and> index < NumberOfHoles i then
        (True, i\<lparr>ti_holes := (ti_holes i)[nat (index * 2) := x, nat (index * 2 + 1) := y]\<rparr>)
      else (False, i))"

definition TriangleInput_to_string :: "double_io \<Rightarrow> TriangleInput \<Rightarrow> string" where
  "TriangleInput_to_string dio i =
     show_bool (MinAngleOn i) @ nl # show_bool (MaxAreaOn i) @ nl # show_bool (PreserveBoundaries i) @ nl #
     show_bool (PerserveSegmentsAndPoints i) @ nl # show_int (NumberOfPoints i) @ nl #
     show_int (NumberOfSegments i) @ nl # show_int (NumberOfHoles i) @ nl # show_int (NumberOfRegions i) @ nl #
     show_int (NumberOfNodes i) @ nl # dio_show dio (MaxArea i) @ nl # dio_show dio (MinAngle i) @ nl #
     show_bool (ti_Verbose i) @ nl #
     snd (WriteToStream raw_double (ti_points i)) @ snd (WriteToStream raw_int (ti_segments i)) @
     snd (WriteToStream raw_double (ti_holes i)) @ snd (WriteToStream raw_double (ti_regions i)) @
     (if PerserveSegmentsAndPoints i
      then snd (WriteToStream raw_int (segmentMarker i)) @ snd (WriteToStream raw_double (pointAttribute i))
      else []) @ [nl]"

text \<open>The part of the constructor from a job that reads the stream.\<close>

definition TriangleInput_read :: "double_io \<Rightarrow> istream \<Rightarrow> TriangleInput result" where
  "TriangleInput_read dio buffer =
     bindE (read_flag buffer) (\<lambda>(minAngleOn, b).
     bindE (read_flag b) (\<lambda>(maxAreaOn, b).
     bindE (read_flag b) (\<lambda>(preserveBoundaries, b).
     bindE (read_flag b) (\<lambda>(perserve, b).
     bindE (read_int_uninit b) (\<lambda>(points, b).
     bindE (read_int_uninit b) (\<lambda>(segments, b).
     bindE (read_int_uninit b) (\<lambda>(holes, b).
     bindE (read_int_uninit b) (\<lambda>(regions, b).
     bindE (read_int_uninit b) (\<lambda>(nodes, b).
     bindE (read_double dio b) (\<lambda>(maxArea, b).
     bindE (read_double dio b) (\<lambda>(minAngle, b).
     bindE (read_flag b) (\<lambda>(verb, b).
     bindE (int_times points 2) (\<lambda>n. let (_, ps, b) = AllocFromStream raw_double b n in
     bindE (int_times segments 2) (\<lambda>n. let (_, ss, b) = AllocFromStream raw_int b n in
     bindE (int_times holes 2) (\<lambda>n. let (_, hs, b) = AllocFromStream raw_double b n in
     bindE (int_times regions 4) (\<lambda>n. let (_, rs, b) = AllocFromStream raw_double b n in
     let (markers, attributes) =
           (if perserve
            then let (_, ms, b) = AllocFromStream raw_int b segments;
                     (_, as, b) = AllocFromStream raw_double b points in (ms, as)
            else ([], [])) in
     Inr \<lparr>NumberOfPoints = points, NumberOfSegments = segments, NumberOfHoles = holes, NumberOfRegions = regions,
       NumberOfNodes = nodes, ti_Verbose = verb, PerserveSegmentsAndPoints = perserve,
       PreserveBoundaries = preserveBoundaries, MinAngleOn = minAngleOn, MaxAreaOn = maxAreaOn,
       MaxArea = maxArea, MinAngle = minAngle, ti_points = ps, pointAttribute = attributes, ti_segments = ss,
       segmentMarker = markers, ti_holes = hs, ti_regions = rs\<rparr>))))))))))))))))"

text \<open>\<open>find("data")->second\<close> for a job without such a content dereferences \<open>end()\<close>.\<close>

definition TriangleInput_job :: "double_io \<Rightarrow> WorkerJob \<Rightarrow> TriangleInput result" where
  "TriangleInput_job dio job =
     (case JobSubmission_find ''data'' (wj_submission job) of
        None \<Rightarrow> Inl UndefinedBehaviour
      | Some content \<Rightarrow> TriangleInput_read dio (istream_of (con_data content)))"

section \<open>What an input keeps\<close>

text \<open>The vectors have the sizes the counts say, whatever sets them.\<close>

definition input_ok :: "TriangleInput \<Rightarrow> bool" where
  "input_ok i \<longleftrightarrow>
     int32 (NumberOfPoints i * 2) \<and> int32 (NumberOfSegments i * 2) \<and> int32 (NumberOfHoles i * 2) \<and>
     int32 (NumberOfRegions i * 4) \<and>
     length (ti_points i) = nat (NumberOfPoints i * 2) \<and> length (ti_segments i) = nat (NumberOfSegments i * 2) \<and>
     length (ti_holes i) = nat (NumberOfHoles i * 2) \<and> length (ti_regions i) = nat (NumberOfRegions i * 4) \<and>
     length (pointAttribute i) = (if PerserveSegmentsAndPoints i then nat (NumberOfPoints i) else 0) \<and>
     length (segmentMarker i) = (if PerserveSegmentsAndPoints i then nat (NumberOfSegments i) else 0)"

lemma sizes_ok: "TriangleInput_sizes p s h r b = Inr i \<Longrightarrow> input_ok i"
  by (auto simp: TriangleInput_sizes_def bindE_eq_Inr int_times_def vector_of_def TriangleInput_default_def
      input_ok_def split: if_splits)

lemma setters_ok:
  "input_ok i \<Longrightarrow> input_ok (setUseMinAngle b i)" "input_ok i \<Longrightarrow> input_ok (setMinAngle d i)"
  "input_ok i \<Longrightarrow> input_ok (setUseMaxArea b i)" "input_ok i \<Longrightarrow> input_ok (setMaxArea d i)"
  "input_ok i \<Longrightarrow> input_ok (ti_setVerbosity b i)" "input_ok i \<Longrightarrow> input_ok (setPreserveBoundaries b i)"
  "input_ok i \<Longrightarrow> input_ok (snd (setPoint n x y k i))" "input_ok i \<Longrightarrow> input_ok (snd (setSegment n p q k i))"
  "input_ok i \<Longrightarrow> input_ok (snd (setRegion n x y u v i))" "input_ok i \<Longrightarrow> input_ok (snd (setHole n x y i))"
  by (simp_all add: input_ok_def setUseMinAngle_def setMinAngle_def setUseMaxArea_def setMaxArea_def
      ti_setVerbosity_def setPreserveBoundaries_def setPoint_def setSegment_def setRegion_def setHole_def Let_def)

lemma alloc_length [simp]: "length (fst (snd (AllocFromStream t s n))) = nat n"
  by (simp add: AllocFromStream_def Let_def)

lemma alloc_empty [simp]: "fst (snd (AllocFromStream t s n)) = [] \<longleftrightarrow> n \<le> 0"
  using alloc_length [of t s n] by (cases "fst (snd (AllocFromStream t s n))") auto

lemma read_ok: "TriangleInput_read dio s = Inr i \<Longrightarrow> input_ok i"
  by (auto simp: TriangleInput_read_def bindE_eq_Inr int_times_def input_ok_def Let_def split_beta split: if_splits)

section \<open>From the client to the worker\<close>

lemma concat_raw_drop:
  "\<forall>x\<in>set xs. raw_ok t x \<Longrightarrow> n \<le> length xs \<Longrightarrow>
   drop (n * raw_size t) (concat (map (raw_put t) xs) @ r) = concat (map (raw_put t) (drop n xs)) @ r"
proof (induction n arbitrary: xs)
  case (Suc n)
  then obtain x ys where "xs = x # ys" by (cases xs) auto
  with Suc show ?case by (simp add: raw_ok_def)
qed simp

lemma raw_chunks:
  assumes "\<forall>x\<in>set xs. raw_ok t x"
  shows "map (\<lambda>i. raw_get t (take (raw_size t) (drop (i * raw_size t) (concat (map (raw_put t) xs))))) [0..<length xs] = xs"
proof (rule nth_equalityI)
  fix i assume "i < length (map (\<lambda>i. raw_get t (take (raw_size t) (drop (i * raw_size t) (concat (map (raw_put t) xs))))) [0..<length xs])"
  then have i: "i < length xs" by simp
  then have "raw_ok t (xs ! i)" using assms by simp
  with i concat_raw_drop [OF assms, of i "[]"] show
    "map (\<lambda>i. raw_get t (take (raw_size t) (drop (i * raw_size t) (concat (map (raw_put t) xs))))) [0..<length xs] ! i = xs ! i"
    by (simp add: raw_ok_def flip: Cons_nth_drop_Suc)
qed simp

lemma length_concat_raw: "\<forall>x\<in>set xs. raw_ok t x \<Longrightarrow> length (concat (map (raw_put t) xs)) = raw_size t * length xs"
  by (induction xs) (simp_all add: raw_ok_def)

lemma alloc_write:
  assumes "\<forall>x\<in>set xs. raw_ok t x" and "length xs = nat n"
  shows "snd (AllocFromStream t (istream_of (nl # snd (WriteToStream t xs) @ r)) n) = (xs, istream_of (nl # r))"
proof (cases "xs = []")
  case False
  then have n: "0 < n" "nat n = length xs" using assms(2) by (cases "0 < n"; simp)+
  note len = length_concat_raw [OF assms(1)]
  show ?thesis
    using False n raw_chunks [OF assms(1)] len
    by (simp add: AllocFromStream_def WriteToStream_def Let_def) (simp add: istream_of_def)
qed (use assms(2) in \<open>simp add: AllocFromStream_def WriteToStream_def\<close>)

definition wire_ok :: "double_io \<Rightarrow> TriangleInput \<Rightarrow> bool" where
  "wire_ok dio i \<longleftrightarrow> input_ok i \<and> int32 (NumberOfNodes i) \<and>
     (\<forall>z\<in>set (ti_segments i). int32 z) \<and> (\<forall>z\<in>set (segmentMarker i). int32 z) \<and>
     printable dio (MaxArea i) \<and> printable dio (MinAngle i)"

lemma header_reads:
  "read_flag (istream_of (show_bool b @ nl # r)) = Inr (b, istream_of (nl # r))"
  "read_flag (istream_of (nl # show_bool b @ nl # r)) = Inr (b, istream_of (nl # r))"
  "int32 z \<Longrightarrow> read_int_uninit (istream_of (nl # show_int z @ nl # r)) = Inr (z, istream_of (nl # r))"
  "printable dio d \<Longrightarrow>
     read_double dio (istream_of (nl # dio_show dio d @ nl # r)) = Inr (reread dio d, istream_of (nl # r))"
  using read_flag_show [of "[]" b r] read_flag_show [of "[nl]" b r] read_int_uninit_show [of "[nl]" z r]
    read_double_show [of dio d "[nl]" r] by simp_all

lemma TriangleInput_wire:
  assumes "wire_ok dio i"
  shows "TriangleInput_read dio (istream_of (TriangleInput_to_string dio i)) =
    Inr (i\<lparr>MaxArea := reread dio (MaxArea i), MinAngle := reread dio (MinAngle i)\<rparr>)"
proof -
  have ok: "int32 (NumberOfPoints i * 2)" "int32 (NumberOfSegments i * 2)" "int32 (NumberOfHoles i * 2)"
      "int32 (NumberOfRegions i * 4)" "int32 (NumberOfNodes i)"
      "printable dio (MaxArea i)" "printable dio (MinAngle i)"
    using assms by (simp_all add: wire_ok_def input_ok_def)
  then have counts: "int32 (NumberOfPoints i)" "int32 (NumberOfSegments i)" "int32 (NumberOfHoles i)" "int32 (NumberOfRegions i)"
    by (auto simp: int32_def)
  note head = header_reads(1,2) header_reads(3) [OF counts(1)] header_reads(3) [OF counts(2)]
    header_reads(3) [OF counts(3)] header_reads(3) [OF counts(4)] header_reads(3) [OF ok(5)]
    header_reads(4) [OF ok(6)] header_reads(4) [OF ok(7)]
  have doubles: "\<forall>d\<in>set xs. raw_ok raw_double d" for xs by simp
  have sizes: "length (ti_points i) = nat (NumberOfPoints i * 2)" "length (ti_segments i) = nat (NumberOfSegments i * 2)"
      "length (ti_holes i) = nat (NumberOfHoles i * 2)" "length (ti_regions i) = nat (NumberOfRegions i * 4)"
    using assms by (simp_all add: wire_ok_def input_ok_def)
  have ints: "\<forall>z\<in>set (ti_segments i). raw_ok raw_int z" "\<forall>z\<in>set (segmentMarker i). raw_ok raw_int z"
    using assms by (simp_all add: wire_ok_def raw_int_ok)
  note body = alloc_write [OF doubles sizes(1)] alloc_write [OF ints(1) sizes(2)]
    alloc_write [OF doubles sizes(3)] alloc_write [OF doubles sizes(4)]
  note times = int_times_def ok(1-4)
  show ?thesis
  proof (cases "PerserveSegmentsAndPoints i")
    case True
    have "length (segmentMarker i) = nat (NumberOfSegments i)" "length (pointAttribute i) = nat (NumberOfPoints i)"
      using assms True by (simp_all add: wire_ok_def input_ok_def)
    note tail = alloc_write [OF ints(2) this(1)] alloc_write [OF doubles this(2), where r = "[nl]"]
    show ?thesis
      using True by (simp add: TriangleInput_read_def TriangleInput_to_string_def head times body tail split_beta Let_def)
  next
    case False
    have "segmentMarker i = []" "pointAttribute i = []" using assms False by (simp_all add: wire_ok_def input_ok_def)
    with False show ?thesis
      using alloc_write [OF doubles sizes(4), where r = "[nl]"]
      by (simp add: TriangleInput_read_def TriangleInput_to_string_def head times body split_beta Let_def)
  qed
qed

section \<open>TriangleResult.h\<close>

record triangulateio =
  numberofpoints :: int
  numberofsegments :: int
  numberoftriangles :: int
  numberofholes :: int
  numberofregions :: int
  numberoftriangleattributes :: int
  pointlist :: nat
  pointattributelist :: nat
  pointmarkerlist :: nat
  trianglelist :: nat
  triangleattributelist :: nat
  trianglearealist :: nat
  neighborlist :: nat
  segmentlist :: nat
  segmentmarkerlist :: nat
  holelist :: nat
  regionlist :: nat
  edgelist :: nat
  edgemarkerlist :: nat
  normlist :: nat

definition TriangleResult_ToString :: "TriangleInput \<Rightarrow> triangulateio \<Rightarrow> string result" where
  "TriangleResult_ToString input d =
     bindE (int_times (numberofpoints d) 2) (\<lambda>n. bindE (WriteToStream_pointer raw_double (pointlist d) n) (\<lambda>(_, points).
     bindE (int_times (numberofsegments d) 2) (\<lambda>n. bindE (WriteToStream_pointer raw_int (segmentlist d) n) (\<lambda>(_, segments).
     bindE (int_times (numberoftriangles d) 3) (\<lambda>n. bindE (WriteToStream_pointer raw_int (trianglelist d) n) (\<lambda>(_, triangles).
     bindE (if PerserveSegmentsAndPoints input
            then WriteToStream_pointer raw_double (pointattributelist d) (numberofpoints d) else Inr (False, [])) (\<lambda>(_, attributes).
     bindE (if PerserveSegmentsAndPoints input
            then WriteToStream_pointer raw_int (segmentmarkerlist d) (numberofsegments d) else Inr (False, [])) (\<lambda>(_, markers).
     bindE (if NumberOfRegions input > 0
            then WriteToStream_pointer raw_double (triangleattributelist d) (numberoftriangles d) else Inr (False, [])) (\<lambda>(_, regions).
     Inr (show_int (numberofpoints d) @ nl # show_int (numberofsegments d) @ nl # show_int (numberoftriangles d) @ nl #
          show_bool (PerserveSegmentsAndPoints input) @ nl # show_int (NumberOfRegions input) @ nl #
          points @ segments @ triangles @ attributes @ markers @ regions @ [nl]))))))))))"

record TriangleResult =
  tr_NumberOfPoints :: int
  NumberOfLines :: int
  NumberOfTriangles :: int
  tr_points :: "double list"
  tr_pointAttribute :: "double list"
  tr_lines :: "int list"
  lineMarkers :: "int list"
  tr_triangles :: "int list"
  triangleAttributes :: "double list"

text \<open>\<open>std::stringstream buffer(result.data())\<close> ends at the first NUL, inside or behind the data.\<close>

definition TriangleResult_of :: "string \<Rightarrow> JobResult \<Rightarrow> TriangleResult result" where
  "TriangleResult_of behind r =
     bindE (read_int_uninit (istream_of (c_string (res_data r) behind))) (\<lambda>(points, b).
     bindE (read_int_uninit b) (\<lambda>(lines, b).
     bindE (read_int_uninit b) (\<lambda>(triangles, b).
     let (perserve, b) = read_flag_false b;
         (regions, b) = read_int b in
     bindE (int_times points 2) (\<lambda>n. let (_, ps, b) = AllocFromStream raw_double b n in
     bindE (int_times lines 2) (\<lambda>n. let (_, ls, b) = AllocFromStream raw_int b n in
     bindE (int_times triangles 3) (\<lambda>n. let (_, ts, b) = AllocFromStream raw_int b n;
         (attributes, markers, b) =
           (if perserve
            then let (_, as, b) = AllocFromStream raw_double b points;
                     (_, ms, b) = AllocFromStream raw_int b lines in (as, ms, b)
            else ([], [], b));
         tas = (if regions \<noteq> 0 then fst (snd (AllocFromStream raw_double b triangles)) else []) in
     Inr \<lparr>tr_NumberOfPoints = points, NumberOfLines = lines, NumberOfTriangles = triangles, tr_points = ps,
       tr_pointAttribute = attributes, tr_lines = ls, lineMarkers = markers, tr_triangles = ts,
       triangleAttributes = tas\<rparr>))))))"

section \<open>TriangleWorker.cxx\<close>

definition triangulateio_zero :: triangulateio where
  "triangulateio_zero = \<lparr>numberofpoints = 0, numberofsegments = 0, numberoftriangles = 0, numberofholes = 0,
     numberofregions = 0, numberoftriangleattributes = 0, pointlist = 0, pointattributelist = 0,
     pointmarkerlist = 0, trianglelist = 0, triangleattributelist = 0, trianglearealist = 0, neighborlist = 0,
     segmentlist = 0, segmentmarkerlist = 0, holelist = 0, regionlist = 0, edgelist = 0, edgemarkerlist = 0,
     normlist = 0\<rparr>"

text \<open>Where the vectors of the input have their elements.\<close>

record storage =
  at_points :: nat
  at_segments :: nat
  at_holes :: nat
  at_regions :: nat
  at_markers :: nat
  at_attributes :: nat

text \<open>\<open>&(*v.begin())\<close>, which dereferences the end of an empty vector.\<close>

definition first_of :: "'a list \<Rightarrow> nat \<Rightarrow> nat result" where
  "first_of v address = (if v = [] then Inl UndefinedBehaviour else Inr address)"

definition triangleParameters :: "storage \<Rightarrow> TriangleInput \<Rightarrow> triangulateio result" where
  "triangleParameters at i =
     bindE (first_of (ti_points i) (at_points at)) (\<lambda>points.
     bindE (first_of (ti_segments i) (at_segments at)) (\<lambda>segments.
     bindE (if NumberOfHoles i > 0 then first_of (ti_holes i) (at_holes at) else Inr 0) (\<lambda>holes.
     bindE (if NumberOfRegions i > 0 then first_of (ti_regions i) (at_regions at) else Inr 0) (\<lambda>regions.
     bindE (if PerserveSegmentsAndPoints i then first_of (segmentMarker i) (at_markers at) else Inr 0) (\<lambda>markers.
     bindE (if PerserveSegmentsAndPoints i then first_of (pointAttribute i) (at_attributes at) else Inr 0) (\<lambda>attributes.
     Inr (triangulateio_zero\<lparr>numberofsegments := NumberOfSegments i, numberofpoints := NumberOfPoints i,
       numberofholes := NumberOfHoles i, numberofregions := NumberOfRegions i,
       numberoftriangleattributes := (if NumberOfRegions i > 0 then 1 else 0),
       pointlist := points, segmentlist := segments, holelist := holes, regionlist := regions,
       segmentmarkerlist := markers, pointattributelist := attributes\<rparr>)))))))"

definition parameters_valid :: "TriangleInput \<Rightarrow> bool" where
  "parameters_valid i \<longleftrightarrow> 3 \<le> NumberOfPoints i \<and> 3 \<le> NumberOfSegments i"

text \<open>The blocks \<open>release_triangle_data\<close> frees; \<open>free(NULL)\<close> does nothing.\<close>

definition triangle_lists :: "triangulateio \<Rightarrow> nat list" where
  "triangle_lists d =
     [pointlist d, pointattributelist d, pointmarkerlist d, trianglelist d, triangleattributelist d,
      trianglearealist d, neighborlist d, segmentlist d, segmentmarkerlist d, holelist d, regionlist d,
      edgelist d, edgemarkerlist d, normlist d]"

definition release_triangle_data :: "triangulateio \<Rightarrow> nat list" where
  "release_triangle_data d = filter (\<lambda>p. p \<noteq> 0) (triangle_lists d)"

definition triangleParameters_destroy :: "triangulateio \<Rightarrow> triangulateio \<Rightarrow> nat list" where
  "triangleParameters_destroy i out =
     (let in' = i\<lparr>pointlist := 0, segmentlist := 0, holelist := 0, regionlist := 0, segmentmarkerlist := 0,
            pointattributelist := 0\<rparr>;
          out' = out\<lparr>
            pointlist := (if pointlist i = pointlist out then 0 else pointlist out),
            segmentlist := (if segmentlist i = segmentlist out then 0 else segmentlist out),
            segmentmarkerlist := (if segmentmarkerlist i = segmentmarkerlist out then 0 else segmentmarkerlist out),
            holelist := (if holelist i = holelist out then 0 else holelist out),
            regionlist := (if regionlist i = regionlist out then 0 else regionlist out),
            pointattributelist := (if pointattributelist i = pointattributelist out then 0 else pointattributelist out)\<rparr> in
      release_triangle_data in' @ release_triangle_data out')"

text \<open>The options of the mesher, or \<open>None\<close> when a constraint cannot be met.\<close>

definition buildTriangleArguments :: "double_io \<Rightarrow> TriangleInput \<Rightarrow> string option" where
  "buildTriangleArguments dio i =
     (let b1 = ''p'' @ ''z'';
          b2 = (if ti_Verbose i then b1 @ ''V'' else b1) in
      if MaxAreaOn i \<and> NumberOfRegions i = 0 \<and> below_zero (MaxArea i) then None
      else
        let b3 = (if MaxAreaOn i \<and> NumberOfRegions i = 0 then b2 @ ''a'' @ dio_fixed dio (MaxArea i)
                  else if NumberOfRegions i > 0 then b2 @ ''A'' else b2) in
        if MinAngleOn i \<and> (below_zero (MinAngle i) \<or> above_33 (MinAngle i)) then None
        else
          let b4 = (if MinAngleOn i then b3 @ ''q'' @ dio_fixed dio (MinAngle i) else b3) in
          Some (if PreserveBoundaries i then b4 @ ''Y'' else b4))"

definition TriangleWorker_requirements :: JobRequirements where
  "TriangleWorker_requirements =
     make_JobRequirements \<lparr>inputType = ''Edges'', outputType = ''Mesh2D''\<rparr> ''TriangleWorker'' ''''"

definition jobFailed :: "uuid_io \<Rightarrow> bool \<Rightarrow> WorkerJob \<Rightarrow> worker \<Rightarrow> worker" where
  "jobFailed io sent job w = updateStatus io sent (JobStatus_mk (wj_id job) FAILED) w"

text \<open>
  \<open>meshJob\<close> from the job it got on, up to where \<open>returnResult\<close> waits; with the blocks freed when
  its parameters go out of scope.
\<close>

definition Triangle_meshJob ::
  "uuid_io \<Rightarrow> double_io \<Rightarrow> storage \<Rightarrow> (string \<Rightarrow> triangulateio \<Rightarrow> triangulateio) \<Rightarrow> bool \<Rightarrow>
   WorkerJob \<Rightarrow> worker \<Rightarrow> (worker \<times> nat list) result" where
  "Triangle_meshJob io dio at triangulate sent j w =
     bindE (TriangleInput_job dio j) (\<lambda>meshing_data.
     bindE (triangleParameters at meshing_data) (\<lambda>i.
     let options = (if parameters_valid meshing_data then buildTriangleArguments dio meshing_data else None) in
     case options of
       None \<Rightarrow> Inr (jobFailed io sent j w, triangleParameters_destroy i triangulateio_zero)
     | Some opts \<Rightarrow>
         let out = triangulate opts i in
         bindE (TriangleResult_ToString meshing_data out) (\<lambda>str.
         Inr (snd (returnResult io (JobResult_mk (wj_id j) User str) w), triangleParameters_destroy i out))))"

section \<open>The example at work\<close>

datatype input_op = OpPoint int double double int | OpSegment int int int int | OpHole int double double
  | OpRegion int double double double double | OpMinAngle bool double | OpMaxArea bool double
  | OpVerbosity bool | OpBoundaries bool

fun apply_op :: "input_op \<Rightarrow> TriangleInput \<Rightarrow> TriangleInput" where
  "apply_op (OpPoint n x y k) i = snd (setPoint n x y k i)"
| "apply_op (OpSegment n p q k) i = snd (setSegment n p q k i)"
| "apply_op (OpHole n x y) i = snd (setHole n x y i)"
| "apply_op (OpRegion n x y u v) i = snd (setRegion n x y u v i)"
| "apply_op (OpMinAngle b d) i = setMinAngle d (setUseMinAngle b i)"
| "apply_op (OpMaxArea b d) i = setMaxArea d (setUseMaxArea b i)"
| "apply_op (OpVerbosity b) i = ti_setVerbosity b i"
| "apply_op (OpBoundaries b) i = setPreserveBoundaries b i"

lemma ops_ok: "input_ok i \<Longrightarrow> input_ok (fold apply_op ops i)"
proof (induction ops arbitrary: i)
  case (Cons op ops)
  then have "input_ok (apply_op op i)" by (cases op) (simp_all add: setters_ok)
  with Cons.IH show ?case by simp
qed simp

text \<open>
  C36: a region of the client arrives at the worker. Built in any way from the sizes, sent as a
  job and read back, it has the same points, segments, holes, regions, markers and flags, down to
  the last bit of every coordinate; only the two constraints, which are sent as decimal text,
  come back as what was printed.
\<close>

theorem triangle_roundtrip:
  assumes "wire_ok dio i" and "JobSubmission_wf sub" and "uuid_io_ok io"
    and "JobSubmission_find ''data'' sub = Some content" and "con_data content = TriangleInput_to_string dio i"
  shows "\<exists>job. to_WorkerJob io (WorkerJob_to_string io (WorkerJob_mk jid sub)) = Inr job \<and>
    TriangleInput_job dio job = Inr (i\<lparr>MaxArea := reread dio (MaxArea i), MinAngle := reread dio (MinAngle i)\<rparr>)"
  using WorkerJob_wire [OF assms(3,2)] TriangleInput_wire [OF assms(1)] assms(4,5)
  by (simp add: TriangleInput_job_def WorkerJob_mk_def)

text \<open>
  What the parameters free. The mesher hands over blocks of its own and may share lists of its
  input: then every block of its own is freed exactly once and none of the vectors, which free
  themselves.
\<close>

lemma parameters_null:
  assumes "triangleParameters at i = Inr inp"
  shows "pointmarkerlist inp = 0 \<and> trianglelist inp = 0 \<and> triangleattributelist inp = 0 \<and> trianglearealist inp = 0 \<and>
    neighborlist inp = 0 \<and> edgelist inp = 0 \<and> edgemarkerlist inp = 0 \<and> normlist inp = 0"
  using assms by (auto simp: triangleParameters_def bindE_eq_Inr triangulateio_zero_def)

lemma destroy_lists:
  assumes "triangleParameters at i = Inr inp"
  shows "triangleParameters_destroy inp out =
    filter (\<lambda>p. p \<noteq> 0) (map2 (\<lambda>p q. if q = p then 0 else p) (triangle_lists out) (triangle_lists inp))"
proof -
  note null = parameters_null [OF assms]
  let ?in = "inp\<lparr>pointlist := 0, segmentlist := 0, holelist := 0, regionlist := 0, segmentmarkerlist := 0,
    pointattributelist := 0\<rparr>"
  let ?out = "out\<lparr>
    pointlist := (if pointlist inp = pointlist out then 0 else pointlist out),
    segmentlist := (if segmentlist inp = segmentlist out then 0 else segmentlist out),
    segmentmarkerlist := (if segmentmarkerlist inp = segmentmarkerlist out then 0 else segmentmarkerlist out),
    holelist := (if holelist inp = holelist out then 0 else holelist out),
    regionlist := (if regionlist inp = regionlist out then 0 else regionlist out),
    pointattributelist := (if pointattributelist inp = pointattributelist out then 0 else pointattributelist out)\<rparr>"
  have "triangle_lists ?out = map2 (\<lambda>p q. if q = p then 0 else p) (triangle_lists out) (triangle_lists inp)"
    using null by (simp add: triangle_lists_def)
  moreover have "release_triangle_data ?in = []" using null by (simp add: release_triangle_data_def triangle_lists_def)
  ultimately show ?thesis by (simp only: triangleParameters_destroy_def Let_def release_triangle_data_def append_Nil)
qed

text \<open>
  C37: what the worker makes of a job it could read. Too few points or segments, a negative area
  or an angle outside of 0 to 33 degrees: it reports the job as failed and nothing else. Otherwise
  it meshes, and as soon as the mesh has a point, writing the result reads memory beyond a
  pointer variable: no job that is meshed is ever answered as the code intends.
\<close>

theorem triangle_job_outcome:
  assumes "TriangleInput_job dio j = Inr i" and "triangleParameters at i = Inr inp"
    and "\<forall>opts. numberofpoints (triangulate opts inp) > 0"
  shows "Triangle_meshJob io dio at triangulate sent j w =
    (if 3 \<le> NumberOfPoints i \<and> 3 \<le> NumberOfSegments i \<and>
        \<not> (MaxAreaOn i \<and> NumberOfRegions i = 0 \<and> below_zero (MaxArea i)) \<and>
        \<not> (MinAngleOn i \<and> (below_zero (MinAngle i) \<or> above_33 (MinAngle i)))
     then Inl UndefinedBehaviour
     else Inr (updateStatus io sent (JobStatus_mk (wj_id j) FAILED) w, []))"
proof -
  have lost: "TriangleResult_ToString i out = Inl UndefinedBehaviour" if "numberofpoints out > 0" for out
    using that by (auto simp: TriangleResult_ToString_def int_times_def WriteToStream_pointer_def raw_double_def)
  have "triangleParameters_destroy inp triangulateio_zero = []"
    by (simp add: destroy_lists [OF assms(2)] triangulateio_zero_def triangle_lists_def)
  moreover have "buildTriangleArguments dio i = None \<longleftrightarrow>
      (MaxAreaOn i \<and> NumberOfRegions i = 0 \<and> below_zero (MaxArea i)) \<or>
      (MinAngleOn i \<and> (below_zero (MinAngle i) \<or> above_33 (MinAngle i)))"
    by (simp add: buildTriangleArguments_def Let_def)
  ultimately show ?thesis
    using assms lost
    by (cases "parameters_valid i"; cases "buildTriangleArguments dio i")
       (simp_all add: Triangle_meshJob_def jobFailed_def parameters_valid_def, blast+)
qed

lemma unshared:
  assumes "list_all2 (\<lambda>p q. p \<noteq> 0 \<longrightarrow> (p \<in> V) = (p = q)) ps qs"
  shows "set (filter (\<lambda>p. p \<noteq> 0) (map2 (\<lambda>p q. if q = p then 0 else p) ps qs)) = set (filter (\<lambda>p. p \<noteq> 0) ps) - V"
    and "distinct (filter (\<lambda>p. p \<noteq> 0) ps) \<Longrightarrow>
      distinct (filter (\<lambda>p. p \<noteq> 0) (map2 (\<lambda>p q. if q = p then 0 else p) ps qs))"
  using assms by (induction rule: list_all2_induct) (auto split: if_splits)

theorem triangle_memory:
  assumes "triangleParameters at i = Inr inp" and "distinct (release_triangle_data out)"
    and "V = {at_points at, at_segments at, at_holes at, at_regions at, at_markers at, at_attributes at}"
    and "list_all2 (\<lambda>p q. p \<noteq> 0 \<longrightarrow> (p \<in> V) = (p = q)) (triangle_lists out) (triangle_lists inp)"
  shows "distinct (triangleParameters_destroy inp out) \<and>
    set (triangleParameters_destroy inp out) = set (release_triangle_data out) - V"
proof -
  show ?thesis
    using unshared [OF assms(4)] assms(2) by (simp add: destroy_lists [OF assms(1)] release_triangle_data_def)
qed

text \<open>However an input is made and changed, its vectors have the sizes its counts say.\<close>

theorem triangle_input_sizes:
  assumes "TriangleInput_sizes points segments holes regions perserve = Inr i \<or> TriangleInput_job dio job = Inr i"
  shows "input_ok (fold apply_op ops i)"
  using assms by (intro ops_ok) (auto simp: TriangleInput_job_def sizes_ok read_ok split: option.splits)

text \<open>
  The count that \<open>TriangleInput.h\<close> describes as the number of points with a node id above -1
  counts calls: a point that is set twice counts twice, and so does an id below -1.
\<close>

theorem nodes_counted_per_call:
  assumes "0 \<le> n" and "n < NumberOfPoints i" and "PerserveSegmentsAndPoints i" and "k \<noteq> -1"
  shows "NumberOfNodes (snd (setPoint n x y k (snd (setPoint n x' y' k i)))) = NumberOfNodes i + 2"
  using assms by (simp add: setPoint_def Let_def)

text \<open>A triangle with two sides of length 10.\<close>

definition example_triangle :: TriangleInput where
  "example_triangle = fold apply_op
     [OpSegment 0 0 1 0, OpSegment 1 1 2 0, OpSegment 2 2 0 0, OpPoint 1 (double_of_int 10) 0 (-1),
      OpPoint 2 0 (double_of_int 10) (-1)]
     (case TriangleInput_sizes 3 3 0 0 False of Inr i \<Rightarrow> i | Inl _ \<Rightarrow> TriangleInput_default)"

definition example_triangle_submission :: JobSubmission where
  "example_triangle_submission = JobSubmission_content TriangleWorker_requirements
     (JobContent_memory User (TriangleInput_to_string whole_io example_triangle))"

lemma example_triangle_eq:
  "example_triangle = TriangleInput_default\<lparr>NumberOfPoints := 3, NumberOfSegments := 3,
     ti_points := [0, 0, double_of_int 10, 0, 0, double_of_int 10], ti_segments := [0, 1, 1, 2, 2, 0]\<rparr>"
  by (simp add: example_triangle_def TriangleInput_sizes_def int_times_def int32_def vector_of_def setPoint_def
      setSegment_def TriangleInput_default_def numeral_eq_Suc)

lemma example_triangle_wire: "wire_ok whole_io example_triangle"
  by (simp add: example_triangle_eq wire_ok_def input_ok_def int32_def TriangleInput_default_def whole_printable)

lemma example_triangle_length: "length (TriangleInput_to_string whole_io example_triangle) < 2 ^ 31"
proof -
  have "length (show_int 3) = 1" "length (show_int 0) = 1" by code_simp+
  then show ?thesis
    by (simp add: TriangleInput_to_string_def example_triangle_eq TriangleInput_default_def whole_zero
        WriteToStream_def show_bool_def raw_double_def raw_int_def)
qed

lemma example_triangle_submission_wf: "JobSubmission_wf example_triangle_submission"
  using example_triangle_length
  by (simp add: JobSubmission_wf_def example_triangle_submission_def JobSubmission_content_def
      TriangleWorker_requirements_def make_JobRequirements_def JobRequirements_memory_def JobContent_memory_def
      JobRequirements_wf_def MeshIOType_wf_def entry_wf_def JobContent_wf_def default_key_def)


lemma example_triangle_found:
  "JobSubmission_find ''data'' example_triangle_submission =
   Some (JobContent_memory User (TriangleInput_to_string whole_io example_triangle))"
  by (simp add: example_triangle_submission_def JobSubmission_content_def JobSubmission_find_def default_key_def
      string_order.equiv_refl)

lemma example_triangle_reread:
  "example_triangle\<lparr>MaxArea := reread whole_io (MaxArea example_triangle),
     MinAngle := reread whole_io (MinAngle example_triangle)\<rparr> = example_triangle"
  by (simp add: example_triangle_eq whole_zero TriangleInput_default_def)

theorem triangle_roundtrip_witness:
  "\<exists>job. to_WorkerJob hex_uuid_io (WorkerJob_to_string hex_uuid_io (WorkerJob_mk 7 example_triangle_submission)) = Inr job \<and>
     TriangleInput_job whole_io job = Inr example_triangle"
  using triangle_roundtrip [OF example_triangle_wire example_triangle_submission_wf hex_uuid_io_ok
      example_triangle_found, of 7]
  by (simp add: JobContent_memory_def example_triangle_reread)

definition example_storage :: storage where
  "example_storage = \<lparr>at_points = 0x1000, at_segments = 0x2000, at_holes = 0x3000, at_regions = 0x4000,
     at_markers = 0x5000, at_attributes = 0x6000\<rparr>"

definition example_parameters :: triangulateio where
  "example_parameters = triangulateio_zero\<lparr>numberofsegments := 3, numberofpoints := 3, pointlist := 0x1000,
     segmentlist := 0x2000\<rparr>"

theorem triangle_job_outcome_witness:
  "Triangle_meshJob hex_uuid_io whole_io example_storage (\<lambda>opts i. i) True
     (WorkerJob_mk 7 example_triangle_submission) example_meshing_worker = Inl UndefinedBehaviour"
proof -
  have "TriangleInput_job whole_io (WorkerJob_mk 7 example_triangle_submission) = Inr example_triangle"
    using TriangleInput_wire [OF example_triangle_wire]
    by (simp add: TriangleInput_job_def WorkerJob_mk_def example_triangle_found JobContent_memory_def
        example_triangle_reread)
  moreover have "triangleParameters example_storage example_triangle = Inr example_parameters"
    by (simp add: triangleParameters_def example_triangle_eq TriangleInput_default_def first_of_def
        example_storage_def example_parameters_def triangulateio_zero_def)
  moreover have "\<forall>opts::string. numberofpoints ((\<lambda>opts i. i) opts example_parameters) > 0"
    by (simp add: example_parameters_def triangulateio_zero_def)
  ultimately show ?thesis
    by (subst triangle_job_outcome [of whole_io "WorkerJob_mk 7 example_triangle_submission" example_triangle
        example_storage example_parameters "\<lambda>opts i. i"])
       (simp_all add: example_triangle_eq TriangleInput_default_def)
qed


section \<open>client_main.cxx\<close>

text \<open>A box with a hole in it; converting the coordinates from \<open>int\<close> is exact.\<close>

definition client_box :: "input_op list" where
  "client_box =
     [OpSegment 0 0 1 0, OpSegment 1 1 2 0, OpSegment 2 2 3 0, OpSegment 3 3 0 0, OpSegment 4 4 5 0,
      OpSegment 5 5 6 0, OpSegment 6 6 4 0,
      OpPoint 0 (double_of_int 0) (double_of_int 10) (-1), OpPoint 1 (double_of_int 10) (double_of_int 10) (-1),
      OpPoint 2 (double_of_int 10) (double_of_int 0) (-1), OpPoint 3 (double_of_int 0) (double_of_int 0) (-1),
      OpPoint 4 (double_of_int 3) (double_of_int 3) (-1), OpPoint 5 (double_of_int 4) (double_of_int 5) (-1),
      OpPoint 6 (double_of_int 5) (double_of_int 3) (-1), OpHole 0 (double_of_int 4) (double_of_int 4)]"

definition Triangle_client_input :: "TriangleInput result" where
  "Triangle_client_input =
     bindE (TriangleInput_sizes 7 7 1 0 False) (\<lambda>input_data. Inr (fold apply_op client_box input_data))"

definition Triangle_client ::
  "nat \<Rightarrow> uuid_io \<Rightarrow> double_io \<Rightarrow> string \<Rightarrow> string \<Rightarrow> 's exchange \<Rightarrow> 's \<Rightarrow>
   (TriangleResult option \<times> 's) result option" where
  "Triangle_client fuel io dio behind behind_result ex s =
     (case Triangle_client_input of
        Inl e \<Rightarrow> Some (Inl e)
      | Inr input_data \<Rightarrow>
          let content = JobContent_memory User (TriangleInput_to_string dio input_data);
              mtype = \<lparr>inputType = ''Edges'', outputType = ''Mesh2D''\<rparr>;
              request = make_JobRequirements mtype ''TriangleWorker'' '''';
              sub = JobSubmission_assign ''data'' content (JobSubmission_reqs request) in
          map_option (\<lambda>outcome. bindE outcome (\<lambda>(result, s').
            case result of
              None \<Rightarrow> Inr (None, s')
            | Some r \<Rightarrow> bindE (TriangleResult_of behind_result r) (\<lambda>triangle_data. Inr (Some triangle_data, s'))))
          (guarded_session (Client_canMesh behind mtype ex) fuel io sub ex s))"

text \<open>Every call of the client that sets something succeeds, and what it made can be sent.\<close>

theorem triangle_client_input:
  assumes "printable dio 0"
  shows "\<exists>i. Triangle_client_input = Inr i \<and> wire_ok dio i \<and> parameters_valid i \<and>
    ti_segments i = [0, 1, 1, 2, 2, 3, 3, 0, 4, 5, 5, 6, 6, 4] \<and>
    ti_points i = map double_of_int [0, 10, 10, 10, 10, 0, 0, 0, 3, 3, 4, 5, 5, 3] \<and>
    ti_holes i = map double_of_int [4, 4]"
proof -
  obtain i0 where i0: "TriangleInput_sizes 7 7 1 0 False = Inr i0"
    and i0_eq: "i0 = TriangleInput_default\<lparr>NumberOfPoints := 7, NumberOfSegments := 7, NumberOfHoles := 1,
      ti_points := replicate 14 0, ti_segments := replicate 14 0, ti_holes := replicate 2 0\<rparr>"
    by (simp add: TriangleInput_sizes_def int_times_def int32_def vector_of_def TriangleInput_default_def)
  have segments: "ti_segments (fold apply_op client_box i0) = [0, 1, 1, 2, 2, 3, 3, 0, 4, 5, 5, 6, 6, 4]"
    and points: "ti_points (fold apply_op client_box i0) = map double_of_int [0, 10, 10, 10, 10, 0, 0, 0, 3, 3, 4, 5, 5, 3]"
    and holes: "ti_holes (fold apply_op client_box i0) = map double_of_int [4, 4]"
    and rest: "segmentMarker (fold apply_op client_box i0) = []" "NumberOfNodes (fold apply_op client_box i0) = 0"
      "MaxArea (fold apply_op client_box i0) = 0" "MinAngle (fold apply_op client_box i0) = 0"
      "NumberOfPoints (fold apply_op client_box i0) = 7" "NumberOfSegments (fold apply_op client_box i0) = 7"
    by (simp_all add: i0_eq client_box_def setPoint_def setSegment_def setHole_def TriangleInput_default_def numeral_eq_Suc)
  have "input_ok (fold apply_op client_box i0)" by (rule ops_ok [OF sizes_ok [OF i0]])
  then have "wire_ok dio (fold apply_op client_box i0)"
    using assms by (simp add: wire_ok_def segments rest int32_def)
  then show ?thesis
    using i0 segments points holes rest by (simp add: Triangle_client_input_def parameters_valid_def)
qed

text \<open>
  \<open>meshJob\<close> does not ask whether the job it got is one. When the worker is told to terminate, the
  job it gets has no contents, and reading it dereferences \<open>end()\<close>.
\<close>

theorem triangle_told_to_terminate:
  "Triangle_meshJob io dio at triangulate sent terminate_job w = Inl UndefinedBehaviour"
  by (simp add: Triangle_meshJob_def TriangleInput_job_def terminate_job_def WorkerJob_default_def
      JobSubmission_default_def JobSubmission_find_def)

end
