(* ===== verification/Remus_TetGen.thy ===== *)
theory Remus_TetGen
  imports Remus_Doubles Remus_Session
begin

text \<open>
  \<open>examples/TetGen\<close>: a mesher for polyhedra that reads its input from a file. \<open>TetGenInput\<close>
  carries the name of the file and the options, \<open>TetGenWorker\<close> calls the mesher, \<open>TetGenResult\<close>
  carries the name of the files it wrote. TetGen itself and what Boost says of paths are not
  part of the sources and arguments.
\<close>

section \<open>TetGenInput.cxx\<close>

record TetGenInput =
  AbsFilePath :: string
  BaseFileName :: string
  PathToFile :: string
  FileExtension :: string
  MergeCoplanarFacets :: bool
  MergeCoplanarFacetsCustomToleranceOn :: bool
  PerserveSurfaceMesh :: bool
  HaveRegionAttributes :: bool
  tg_Verbose :: bool
  VolumeConstraintOn :: bool
  MergeCoplanarFacetsTolerance :: double
  VolumeConstraint :: double

record path_io =
  path_exists :: "string \<Rightarrow> bool"
  path_is_regular_file :: "string \<Rightarrow> bool"
  path_parent_path :: "string \<Rightarrow> string"
  path_stem :: "string \<Rightarrow> string"
  path_extension :: "string \<Rightarrow> string"
  path_absolute :: "string \<Rightarrow> string"

definition TetGenInput_empty :: TetGenInput where
  "TetGenInput_empty = \<lparr>AbsFilePath = '''', BaseFileName = '''', PathToFile = '''', FileExtension = '''',
     MergeCoplanarFacets = False, MergeCoplanarFacetsCustomToleranceOn = False, PerserveSurfaceMesh = False,
     HaveRegionAttributes = False, tg_Verbose = False, VolumeConstraintOn = False,
     MergeCoplanarFacetsTolerance = 0, VolumeConstraint = 0\<rparr>"

definition TetGenInput_file :: "path_io \<Rightarrow> string \<Rightarrow> TetGenInput" where
  "TetGenInput_file pio fileName =
     (if path_exists pio fileName \<and> path_is_regular_file pio fileName
      then TetGenInput_empty\<lparr>PathToFile := path_parent_path pio fileName,
        BaseFileName := path_stem pio fileName, FileExtension := path_extension pio fileName,
        AbsFilePath := path_absolute pio fileName\<rparr>
      else TetGenInput_empty)"

definition valid_file :: "TetGenInput \<Rightarrow> bool" where
  "valid_file i \<longleftrightarrow> 0 < length (BaseFileName i) \<and> 0 < length (FileExtension i)"

definition setMergeCoplanarFacets :: "bool \<Rightarrow> TetGenInput \<Rightarrow> TetGenInput" where
  "setMergeCoplanarFacets merge i = i\<lparr>MergeCoplanarFacets := merge\<rparr>"

definition setUseCustomMergeCoplanarFacetsTolerance :: "bool \<Rightarrow> TetGenInput \<Rightarrow> TetGenInput" where
  "setUseCustomMergeCoplanarFacetsTolerance enableCustomTol i = i\<lparr>MergeCoplanarFacetsCustomToleranceOn := enableCustomTol\<rparr>"

definition setCustomMergeCoplanarFacetsTolerance :: "double \<Rightarrow> TetGenInput \<Rightarrow> TetGenInput" where
  "setCustomMergeCoplanarFacetsTolerance tol i = i\<lparr>MergeCoplanarFacetsTolerance := tol\<rparr>"

definition setUseVolumeConstraint :: "bool \<Rightarrow> TetGenInput \<Rightarrow> TetGenInput" where
  "setUseVolumeConstraint useVolCons i = i\<lparr>VolumeConstraintOn := useVolCons\<rparr>"

definition setVolumeConstraint :: "double \<Rightarrow> TetGenInput \<Rightarrow> TetGenInput" where
  "setVolumeConstraint volCons i = i\<lparr>VolumeConstraint := volCons\<rparr>"

definition setPerserveSurfaceMesh :: "bool \<Rightarrow> TetGenInput \<Rightarrow> TetGenInput" where
  "setPerserveSurfaceMesh enableSavingInputMesh i = i\<lparr>PerserveSurfaceMesh := enableSavingInputMesh\<rparr>"

definition setHaveRegionAtributes :: "bool \<Rightarrow> TetGenInput \<Rightarrow> TetGenInput" where
  "setHaveRegionAtributes haveRegionAttributes i = i\<lparr>HaveRegionAttributes := haveRegionAttributes\<rparr>"

definition tg_setVerbosity :: "bool \<Rightarrow> TetGenInput \<Rightarrow> TetGenInput" where
  "tg_setVerbosity verb i = i\<lparr>tg_Verbose := verb\<rparr>"

definition TetGenInput_to_string :: "double_io \<Rightarrow> TetGenInput \<Rightarrow> string" where
  "TetGenInput_to_string dio i =
     AbsFilePath i @ nl # BaseFileName i @ nl # PathToFile i @ nl # FileExtension i @ nl #
     show_bool (MergeCoplanarFacets i) @ nl # show_bool (MergeCoplanarFacetsCustomToleranceOn i) @ nl #
     show_bool (PerserveSurfaceMesh i) @ nl # show_bool (HaveRegionAttributes i) @ nl #
     show_bool (tg_Verbose i) @ nl # show_bool (VolumeConstraintOn i) @ nl #
     dio_show dio (MergeCoplanarFacetsTolerance i) @ nl # dio_show dio (VolumeConstraint i) @ [nl]"

text \<open>The part of the constructor from a job that reads the stream, into members that are all initialised.\<close>

definition TetGenInput_read :: "double_io \<Rightarrow> istream \<Rightarrow> TetGenInput" where
  "TetGenInput_read dio buffer =
     (let (abs_path, b) = read_word buffer;
          (base, b) = read_word b;
          (path, b) = read_word b;
          (ext, b) = read_word b;
          (merge, b) = read_flag_false b;
          (custom, b) = read_flag_false b;
          (perserve, b) = read_flag_false b;
          (attributes, b) = read_flag_false b;
          (verb, b) = read_flag_false b;
          (volumeOn, b) = read_flag_false b;
          (tolerance, b) = read_double_zero dio b;
          (volume, b) = read_double_zero dio b in
      \<lparr>AbsFilePath = abs_path, BaseFileName = base, PathToFile = path, FileExtension = ext,
       MergeCoplanarFacets = merge, MergeCoplanarFacetsCustomToleranceOn = custom,
       PerserveSurfaceMesh = perserve, HaveRegionAttributes = attributes, tg_Verbose = verb,
       VolumeConstraintOn = volumeOn, MergeCoplanarFacetsTolerance = tolerance, VolumeConstraint = volume\<rparr>)"

definition TetGenInput_job :: "double_io \<Rightarrow> WorkerJob \<Rightarrow> TetGenInput result" where
  "TetGenInput_job dio job =
     (case JobSubmission_find ''data'' (wj_submission job) of
        None \<Rightarrow> Inl UndefinedBehaviour
      | Some content \<Rightarrow> Inr (TetGenInput_read dio (istream_of (con_data content))))"

section \<open>TetGenResult.h\<close>

text \<open>The file type is whatever number the mesher reported.\<close>

record TetGenResult =
  FileBase :: string
  FileType :: int

definition POLY_TYPE :: int where
  "POLY_TYPE = 2"

definition VTK_TYPE :: int where
  "VTK_TYPE = 7"

definition TetGenResult_mk :: "string \<Rightarrow> int \<Rightarrow> TetGenResult" where
  "TetGenResult_mk file_base type = \<lparr>FileBase = file_base, FileType = type\<rparr>"

definition TetGenResult_of :: "string \<Rightarrow> JobResult \<Rightarrow> TetGenResult result" where
  "TetGenResult_of behind r =
     (let (base, b) = read_word (istream_of (c_string (res_data r) behind)) in
      bindE (read_int_uninit b) (\<lambda>(type, _). Inr \<lparr>FileBase = base, FileType = type\<rparr>))"

definition resultFiles :: "TetGenResult \<Rightarrow> string list" where
  "resultFiles r =
     (if FileType r = VTK_TYPE then [FileBase r @ ''.vtk'']
      else if FileType r = POLY_TYPE then [FileBase r @ ''.ele'', FileBase r @ ''.face'', FileBase r @ ''.node'']
      else [])"

definition TetGenResult_to_string :: "TetGenResult \<Rightarrow> string" where
  "TetGenResult_to_string r = FileBase r @ nl # show_int (FileType r) @ [nl]"

section \<open>TetGenWorker.cxx\<close>

definition TetGenWorker_requirements :: JobRequirements where
  "TetGenWorker_requirements =
     make_JobRequirements \<lparr>inputType = ''PiecewiseLinearComplex'', outputType = ''Mesh3D''\<rparr> ''TetGenWorker'' ''''"

definition buildTetGenArguments :: "double_io \<Rightarrow> TetGenInput \<Rightarrow> string option" where
  "buildTetGenArguments dio i =
     (let b = ''-'' @ ''p'' @ ''z'';
          b = (if \<not> MergeCoplanarFacets i then b @ ''M'' else b);
          custom = MergeCoplanarFacets i \<and> MergeCoplanarFacetsCustomToleranceOn i in
      if custom \<and> below_zero (MergeCoplanarFacetsTolerance i) then None
      else
        let b = (if custom then b @ ''T'' @ dio_show dio (MergeCoplanarFacetsTolerance i) else b);
            b = (if tg_Verbose i then b @ ''V'' else b);
            b = (if PerserveSurfaceMesh i then b @ ''Y'' else b);
            b = (if HaveRegionAttributes i then b @ ''A'' else b) in
        if VolumeConstraintOn i \<and> below_zero (VolumeConstraint i) then None
        else Some (if VolumeConstraintOn i then b @ ''a'' @ dio_show dio (VolumeConstraint i) else b))"

text \<open>TetGen: what it makes of its arguments, and what loading and meshing do to the world \<open>'m\<close>.\<close>

record tetgenbehavior =
  infilename :: string
  outfilename :: string
  tg_object :: int

record 'm tetgen =
  parse_commandline :: "string list \<Rightarrow> tetgenbehavior"
  load_plc :: "string \<Rightarrow> int \<Rightarrow> 'm \<Rightarrow> 'm"
  tetrahedralize :: "tetgenbehavior \<Rightarrow> 'm \<Rightarrow> 'm"

text \<open>
  \<open>meshJob\<close> from the job it got on, up to where \<open>returnResult\<close> waits; with the sizes of the blocks
  that nothing frees: \<open>delete[] fake_argv\<close> frees the array and not its two strings.
\<close>

definition TetGen_meshJob ::
  "uuid_io \<Rightarrow> double_io \<Rightarrow> 'm tetgen \<Rightarrow> bool \<Rightarrow> WorkerJob \<Rightarrow> worker \<Rightarrow> 'm \<Rightarrow>
   (worker \<times> 'm \<times> nat list) result" where
  "TetGen_meshJob io dio tg sent j w m =
     bindE (TetGenInput_job dio j) (\<lambda>meshing_data.
     case (if valid_file meshing_data then buildTetGenArguments dio meshing_data else None) of
       None \<Rightarrow> Inr (updateStatus io sent (JobStatus_mk (wj_id j) FAILED) w, m, [])
     | Some options \<Rightarrow>
         let file_path = AbsFilePath meshing_data;
             behavior = parse_commandline tg [c_str options, c_str file_path];
             m1 = load_plc tg (infilename behavior) (tg_object behavior) m;
             m2 = tetrahedralize tg behavior m1;
             tetResults = TetGenResult_mk (outfilename behavior) (tg_object behavior);
             results = JobResult_mk (wj_id j) User (TetGenResult_to_string tetResults) in
         Inr (snd (returnResult io results w), m2, [length options + 1, length file_path + 1]))"

section \<open>client_main.cxx\<close>

definition TetGen_client_requirements :: JobRequirements where
  "TetGen_client_requirements =
     make_JobRequirements \<lparr>inputType = ''PiecewiseLinearComplex'', outputType = ''Mesh2D''\<rparr> ''TetGenWorker'' ''''"

definition TetGen_client_submission :: "double_io \<Rightarrow> path_io \<Rightarrow> JobSubmission" where
  "TetGen_client_submission dio pio =
     (let content = JobContent_memory User (TetGenInput_to_string dio (TetGenInput_file pio ''pmdc.poly'')) in
      JobSubmission_assign ''data'' content (JobSubmission_reqs TetGen_client_requirements))"


text \<open>From the question whether the server can mesh on; \<open>None\<close> for a job that was refused or failed.\<close>

definition TetGen_client ::
  "nat \<Rightarrow> uuid_io \<Rightarrow> double_io \<Rightarrow> path_io \<Rightarrow> string \<Rightarrow> string \<Rightarrow> 's exchange \<Rightarrow> 's \<Rightarrow>
   (TetGenResult option \<times> 's) result option" where
  "TetGen_client fuel io dio pio behind behind_result ex s =
     map_option (\<lambda>outcome. bindE outcome (\<lambda>(result, s').
       case result of
         None \<Rightarrow> Inr (None, s')
       | Some r \<Rightarrow> bindE (TetGenResult_of behind_result r) (\<lambda>tetgen_data. Inr (Some tetgen_data, s'))))
     (guarded_session (Client_canMesh behind (req_meshTypes TetGen_client_requirements) ex) fuel io
        (TetGen_client_submission dio pio) ex s)"

section \<open>From the client to the worker\<close>

definition tet_word :: "string \<Rightarrow> bool" where
  "tet_word w \<longleftrightarrow> w \<noteq> [] \<and> (\<forall>c\<in>set w. \<not> isspace c)"

definition tet_words_ok :: "TetGenInput \<Rightarrow> bool" where
  "tet_words_ok i \<longleftrightarrow> tet_word (AbsFilePath i) \<and> tet_word (BaseFileName i) \<and> tet_word (FileExtension i)"

lemma tet_reads:
  "tet_word w \<Longrightarrow> read_word (istream_of (w @ nl # r)) = (w, istream_of (nl # r))"
  "tet_word w \<Longrightarrow> read_word (istream_of (nl # w @ nl # r)) = (w, istream_of (nl # r))"
  "tet_word w \<Longrightarrow> read_word (istream_of (nl # nl # w @ nl # r)) = (w, istream_of (nl # r))"
  "read_flag_false (istream_of (nl # show_bool b @ nl # r)) = (b, istream_of (nl # r))"
  "printable dio d \<Longrightarrow>
     read_double_zero dio (istream_of (nl # dio_show dio d @ nl # r)) = (reread dio d, istream_of (nl # r))"
  using read_initialised(1) [of "[nl]" b r] read_initialised(2) [of dio d "[nl]" r]
  by (simp_all add: tet_word_def read_word_nl read_word_spaces)

lemma show_bool_word: "tet_word (show_bool b)"
  by (simp add: tet_word_def show_bool_def isspace_def)

lemma TetGenInput_wire:
  assumes "tet_words_ok i" and "tet_word (PathToFile i)"
    and "printable dio (MergeCoplanarFacetsTolerance i)" and "printable dio (VolumeConstraint i)"
  shows "TetGenInput_read dio (istream_of (TetGenInput_to_string dio i)) =
    i\<lparr>MergeCoplanarFacetsTolerance := reread dio (MergeCoplanarFacetsTolerance i),
      VolumeConstraint := reread dio (VolumeConstraint i)\<rparr>"
  using assms by (simp add: TetGenInput_read_def TetGenInput_to_string_def tet_words_ok_def tet_reads)

text \<open>
  The input of a TetGen job arrives at the worker. When the three parts of the file's name
  and its directory are not empty and hold no white space, the worker reads the input the
  client sent off the job it is handed, up to what printing does to the two numbers.
\<close>

theorem tetgen_roundtrip:
  assumes "tet_words_ok i" and "tet_word (PathToFile i)"
    and "printable dio (MergeCoplanarFacetsTolerance i)" and "printable dio (VolumeConstraint i)"
    and "JobSubmission_wf sub" and "uuid_io_ok io"
    and "JobSubmission_find ''data'' sub = Some content" and "con_data content = TetGenInput_to_string dio i"
  shows "\<exists>job. to_WorkerJob io (WorkerJob_to_string io (WorkerJob_mk jid sub)) = Inr job \<and>
    TetGenInput_job dio job = Inr (i\<lparr>MergeCoplanarFacetsTolerance := reread dio (MergeCoplanarFacetsTolerance i),
      VolumeConstraint := reread dio (VolumeConstraint i)\<rparr>)"
  using WorkerJob_wire [OF assms(6,5)] TetGenInput_wire [OF assms(1-4)] assms(7,8)
  by (simp add: TetGenInput_job_def WorkerJob_mk_def)

text \<open>
  The file of the client has no directory, and for such a file every field after it arrives one
  place late: the extension as directory, the first option as extension, each option as the one
  before it. The volume constraint is switched off and the job still looks valid.
\<close>

theorem tetgen_relative_file:
  assumes "tet_words_ok i" and "PathToFile i = ''''" and "dio_show dio 0 = ''0''" and "dio_parse dio ''0'' = (0, False)"
    and "MergeCoplanarFacetsTolerance i = 0" and "VolumeConstraint i = 0"
  shows "TetGenInput_read dio (istream_of (TetGenInput_to_string dio i)) =
    \<lparr>AbsFilePath = AbsFilePath i, BaseFileName = BaseFileName i, PathToFile = FileExtension i,
     FileExtension = show_bool (MergeCoplanarFacets i),
     MergeCoplanarFacets = MergeCoplanarFacetsCustomToleranceOn i,
     MergeCoplanarFacetsCustomToleranceOn = PerserveSurfaceMesh i,
     PerserveSurfaceMesh = HaveRegionAttributes i, HaveRegionAttributes = tg_Verbose i,
     tg_Verbose = VolumeConstraintOn i, VolumeConstraintOn = False,
     MergeCoplanarFacetsTolerance = 0, VolumeConstraint = 0\<rparr>"
proof -
  have zero: "''0'' = show_bool False" by (simp add: show_bool_def)
  have "scan_float ''0'' = (''0'', [])" "\<not> isspace CHR ''0''" by code_simp+
  then have "printable dio 0" "reread dio 0 = 0"
    using assms(3,4) by (simp_all add: printable_def reread_def)
  with tet_reads(5) [of dio 0] have num: "read_double_zero dio (istream_of (nl # show_bool False @ nl # r)) = (0, istream_of (nl # r))" for r
    using assms(3) zero by simp
  have "read_double_zero dio (istream_of [nl]) = (0, \<lparr>is_buf = [], is_eof = True, is_fail = True\<rparr>)"
    by (simp add: read_double_zero_def istream_double_def)
  with num show ?thesis
    using assms tet_reads(4) [where b = False] zero
    by (simp add: TetGenInput_read_def TetGenInput_to_string_def tet_words_ok_def tet_reads show_bool_word)
qed


definition example_tet_input :: TetGenInput where
  "example_tet_input = setMergeCoplanarFacets True (TetGenInput_empty\<lparr>AbsFilePath := ''/data/part.poly'',
     BaseFileName := ''part'', PathToFile := ''/data'', FileExtension := ''.poly''\<rparr>)"

lemma example_tet_words:
  "tet_words_ok example_tet_input" "tet_word (PathToFile example_tet_input)"
  "MergeCoplanarFacetsTolerance example_tet_input = 0" "VolumeConstraint example_tet_input = 0"
  "example_tet_input\<lparr>MergeCoplanarFacetsTolerance := 0, VolumeConstraint := 0\<rparr> = example_tet_input"
  by (simp_all add: example_tet_input_def setMergeCoplanarFacets_def TetGenInput_empty_def tet_words_ok_def tet_word_def isspace_def)

definition example_tet_submission :: JobSubmission where
  "example_tet_submission = JobSubmission_content TetGenWorker_requirements
     (JobContent_memory User (TetGenInput_to_string whole_io example_tet_input))"

lemma example_tet_submission_wf: "JobSubmission_wf example_tet_submission"
proof -
  have "length (TetGenInput_to_string whole_io example_tet_input) < 2 ^ 31"
    by (simp add: TetGenInput_to_string_def example_tet_input_def setMergeCoplanarFacets_def TetGenInput_empty_def whole_zero show_bool_def)
  then show ?thesis
    by (simp add: JobSubmission_wf_def example_tet_submission_def JobSubmission_content_def
        TetGenWorker_requirements_def make_JobRequirements_def JobRequirements_memory_def JobContent_memory_def
        JobRequirements_wf_def MeshIOType_wf_def entry_wf_def JobContent_wf_def default_key_def)
qed

lemma example_tet_found:
  "JobSubmission_find ''data'' example_tet_submission =
   Some (JobContent_memory User (TetGenInput_to_string whole_io example_tet_input))"
  by (simp add: example_tet_submission_def JobSubmission_content_def JobSubmission_find_def default_key_def
      string_order.equiv_refl)

theorem tetgen_roundtrip_witness:
  "\<exists>job. to_WorkerJob hex_uuid_io (WorkerJob_to_string hex_uuid_io (WorkerJob_mk 7 example_tet_submission)) = Inr job \<and>
    TetGenInput_job whole_io job = Inr example_tet_input"
  using tetgen_roundtrip [OF example_tet_words(1,2) whole_printable whole_printable example_tet_submission_wf
      hex_uuid_io_ok example_tet_found, of 7]
  by (simp add: example_tet_words(3-5) whole_zero JobContent_memory_def)

section \<open>What becomes of a job\<close>

lemma buildTetGenArguments_None:
  "buildTetGenArguments dio i = None \<longleftrightarrow>
     MergeCoplanarFacets i \<and> MergeCoplanarFacetsCustomToleranceOn i \<and> below_zero (MergeCoplanarFacetsTolerance i) \<or>
     VolumeConstraintOn i \<and> below_zero (VolumeConstraint i)"
  by (simp add: buildTetGenArguments_def Let_def)

lemma TetGenResult_c_string:
  assumes "CHR 0x00 \<notin> set (FileBase r)"
  shows "c_string (TetGenResult_to_string r) behind =
    TetGenResult_to_string r @ takeWhile (\<lambda>c. c \<noteq> CHR 0x00) behind"
proof -
  have "c \<noteq> CHR 0x00" if "c \<in> set (show_int (FileType r))" for c
  proof -
    have "\<not> isdigit (CHR 0x00)" by (simp add: isdigit_def)
    then have "CHR 0x00 \<notin> set (show_nat n)" for n using show_nat_digits [of n] by blast
    with that show ?thesis by (auto simp: show_int_def split: if_splits)
  qed
  then show ?thesis
    unfolding c_string_def using assms by (subst takeWhile_append2) (auto simp: TetGenResult_to_string_def)
qed

lemma TetGenResult_wire:
  assumes "tet_word (FileBase r)" and "CHR 0x00 \<notin> set (FileBase r)" and "int32 (FileType r)"
  shows "TetGenResult_of behind (JobResult_mk jid User (TetGenResult_to_string r)) = Inr r"
  using assms TetGenResult_c_string [OF assms(2)] read_int_uninit_show [of "[nl]" "FileType r"]
  by (simp add: TetGenResult_of_def JobResult_mk_def TetGenResult_to_string_def tet_reads)

text \<open>
  The name is sent as a word. Of a name with a blank in it the client reads what stands before
  the blank, and the number that should follow off the rest of the name.
\<close>

lemma tetgen_name_cut:
  assumes "tet_word w" and "isspace c" and "FileBase r = w @ c # rest" and "CHR 0x00 \<notin> set (FileBase r)"
    and "TetGenResult_of behind (JobResult_mk jid User (TetGenResult_to_string r)) = Inr t"
  shows "FileBase t = w"
proof -
  have "takeWhile (\<lambda>c. \<not> isspace c) (w @ c # s) = w" "dropWhile isspace (w @ c # s) = w @ c # s" for s
    using assms(1,2) by (auto simp: tet_word_def takeWhile_append dropWhile_append neq_Nil_conv)
  then have "fst (read_word (istream_of (w @ c # s))) = w" for s
    by (simp add: read_word_def istream_of_def istream_good_def Let_def)
  then show ?thesis
    using assms(5) TetGenResult_c_string [OF assms(4)]
    by (auto simp: TetGenResult_of_def JobResult_mk_def TetGenResult_to_string_def assms(3) case_prod_unfold Let_def
        bindE_def split: sum.splits)
qed

text \<open>Only two of the formats the mesher knows have files for the client to look for.\<close>

lemma tetgen_other_formats: "FileType r \<noteq> 2 \<Longrightarrow> FileType r \<noteq> 7 \<Longrightarrow> resultFiles r = []"
  by (simp add: resultFiles_def POLY_TYPE_def VTK_TYPE_def)

text \<open>
  C38: what the worker makes of a job. A job without a file, with a negative tolerance that is to
  be used or a negative volume is reported as failed and the mesher is not called. Otherwise
  the mesher runs on the file with options that begin as they must, and the result that is sent
  carries the name and the number of the format the mesher reported. When the name is one
  word, the client reads exactly the two back. The two strings that were copied for the mesher
  are never freed.
\<close>

theorem tetgen_job_outcome:
  assumes "TetGenInput_job dio j = Inr i" and "isTalking (w_router w)"
  shows "if \<not> valid_file i \<or>
        MergeCoplanarFacets i \<and> MergeCoplanarFacetsCustomToleranceOn i \<and> below_zero (MergeCoplanarFacetsTolerance i) \<or>
        VolumeConstraintOn i \<and> below_zero (VolumeConstraint i)
     then TetGen_meshJob io dio tg sent j w m = Inr (updateStatus io sent (JobStatus_mk (wj_id j) FAILED) w, m, [])
     else \<exists>options b r.
       buildTetGenArguments dio i = Some (''-pz'' @ options) \<and> b = parse_commandline tg [c_str (''-pz'' @ options), c_str (AbsFilePath i)] \<and>
       TetGen_meshJob io dio tg sent j w m =
         Inr (worker_send RETRIEVE_RESULT (Some (JobResult_to_string io r)) w,
              tetrahedralize tg b (load_plc tg (infilename b) (tg_object b) m),
              [length options + 4, length (AbsFilePath i) + 1]) \<and>
       res_id r = wj_id j \<and>
       res_data r = TetGenResult_to_string \<lparr>FileBase = outfilename b, FileType = tg_object b\<rparr> \<and>
       (tet_word (outfilename b) \<and> CHR 0x00 \<notin> set (outfilename b) \<and> int32 (tg_object b) \<longrightarrow>
         TetGenResult_of behind r = Inr \<lparr>FileBase = outfilename b, FileType = tg_object b\<rparr>)"
proof (cases "(if valid_file i then buildTetGenArguments dio i else None)")
  case None
  then have "\<not> valid_file i \<or> buildTetGenArguments dio i = None" by (simp split: if_splits)
  moreover have "TetGen_meshJob io dio tg sent j w m = Inr (updateStatus io sent (JobStatus_mk (wj_id j) FAILED) w, m, [])"
    using None assms(1) by (simp only: TetGen_meshJob_def bindE_simps option.case)
  ultimately show ?thesis by (auto simp: buildTetGenArguments_None)
next
  case (Some opts)
  then have valid: "valid_file i" "buildTetGenArguments dio i = Some opts" by (simp_all split: if_splits)
  then have "take 3 opts = ''-pz''" by (auto simp: buildTetGenArguments_def Let_def split: if_splits)
  then obtain options where o: "opts = ''-pz'' @ options" by (metis append_take_drop_id)
  define b where "b = parse_commandline tg [c_str opts, c_str (AbsFilePath i)]"
  define r where "r = JobResult_mk (wj_id j) User (TetGenResult_to_string \<lparr>FileBase = outfilename b, FileType = tg_object b\<rparr>)"
  have "tet_word (outfilename b) \<and> CHR 0x00 \<notin> set (outfilename b) \<and> int32 (tg_object b) \<longrightarrow>
      TetGenResult_of behind r = Inr \<lparr>FileBase = outfilename b, FileType = tg_object b\<rparr>"
    unfolding r_def by (intro impI TetGenResult_wire) auto
  moreover have "TetGen_meshJob io dio tg sent j w m =
      Inr (worker_send RETRIEVE_RESULT (Some (JobResult_to_string io r)) w,
           tetrahedralize tg b (load_plc tg (infilename b) (tg_object b) m), [length opts + 1, length (AbsFilePath i) + 1])"
    using assms(1,2) valid by (simp add: TetGen_meshJob_def Let_def returnResult_def TetGenResult_mk_def r_def b_def)
  moreover have "res_id r = wj_id j"
      "res_data r = TetGenResult_to_string \<lparr>FileBase = outfilename b, FileType = tg_object b\<rparr>"
    by (simp_all add: r_def JobResult_mk_def)
  moreover have "\<not> (\<not> valid_file i \<or>
        MergeCoplanarFacets i \<and> MergeCoplanarFacetsCustomToleranceOn i \<and> below_zero (MergeCoplanarFacetsTolerance i) \<or>
        VolumeConstraintOn i \<and> below_zero (VolumeConstraint i))"
    using valid buildTetGenArguments_None [of dio i] by auto
  ultimately show ?thesis
    unfolding o using valid(2) o b_def
    by (simp only: if_False) (intro exI [of _ options] exI [of _ b] exI [of _ r] conjI; simp)
qed


definition example_tetgen :: "string list tetgen" where
  "example_tetgen = \<lparr>parse_commandline = (\<lambda>args. \<lparr>infilename = ''part'', outfilename = ''/data/part.1'', tg_object = 2\<rparr>),
     load_plc = (\<lambda>file object m. m @ [file]), tetrahedralize = (\<lambda>b m. m @ [outfilename b])\<rparr>"

lemma example_tet_job_input: "TetGenInput_job whole_io (WorkerJob_mk 7 example_tet_submission) = Inr example_tet_input"
  using TetGenInput_wire [OF example_tet_words(1,2) whole_printable whole_printable]
  by (simp add: TetGenInput_job_def WorkerJob_mk_def example_tet_found JobContent_memory_def
      example_tet_words(3,4) whole_zero)

theorem tetgen_job_outcome_witness:
  "\<exists>r. TetGen_meshJob hex_uuid_io whole_io example_tetgen True (WorkerJob_mk 7 example_tet_submission) example_meshing_worker [] =
      Inr (worker_send RETRIEVE_RESULT (Some (JobResult_to_string hex_uuid_io r)) example_meshing_worker,
           [''part'', ''/data/part.1''], [4, 16]) \<and>
    TetGenResult_of ''junk'' r = Inr \<lparr>FileBase = ''/data/part.1'', FileType = 2\<rparr>"
proof -
  have "isTalking (w_router example_meshing_worker)"
    by (simp add: example_meshing_worker_def Worker_requirements_def worker_send_def setIsTalking_def router_mk_def isTalking_def)
  moreover have "tet_word ''/data/part.1''" "int32 2" by (simp_all add: tet_word_def isspace_def int32_def)
  moreover have "valid_file example_tet_input" "buildTetGenArguments dio example_tet_input = Some ''-pz''"
      "MergeCoplanarFacets example_tet_input" "\<not> MergeCoplanarFacetsCustomToleranceOn example_tet_input"
      "\<not> VolumeConstraintOn example_tet_input" "length (AbsFilePath example_tet_input) = 15" for dio
    by (simp_all add: example_tet_input_def setMergeCoplanarFacets_def TetGenInput_empty_def valid_file_def buildTetGenArguments_def)
  ultimately show ?thesis
    using tetgen_job_outcome [OF example_tet_job_input, of example_meshing_worker hex_uuid_io example_tetgen True "[]" "''junk''"]
    by (auto simp: example_tetgen_def)
qed

text \<open>
  The client of the example asks for a plane mesh, its worker makes solid ones. A server whose
  workers are all TetGen workers refuses it, and the client ends without submitting anything.
\<close>

theorem tetgen_client_refused:
  assumes "env_send_ok env client" and "\<forall>x\<in>set (srv_WorkerPool s). wi_Reqs x = TetGenWorker_requirements"
    and "fo_workerRequirements (env_factory env) (req_meshTypes TetGen_client_requirements) (srv_WorkerFactory s) = []"
  shows "\<exists>s'. TetGen_client fuel io dio pio behind behind_result (server_exchange env client) s = Some (Inr (None, s')) \<and>
    abs_of s' = abs_of s"
proof -
  have "\<not> MeshIOType_eq (req_meshTypes TetGenWorker_requirements) (req_meshTypes TetGen_client_requirements)"
    by (simp add: TetGenWorker_requirements_def TetGen_client_requirements_def make_JobRequirements_def
        JobRequirements_memory_def MeshIOType_eq_def)
  with assms(2) have "filter (\<lambda>x. MeshIOType_eq (req_meshTypes (wi_Reqs x)) (req_meshTypes TetGen_client_requirements) \<and>
      isWaitingForWork x) (srv_WorkerPool s) = []"
    by (auto simp: filter_empty_conv)
  then have none: "waitingWorkerRequirements (req_meshTypes TetGen_client_requirements) (srv_WorkerPool s) = []"
    by (simp only: waitingWorkerRequirements_def) (simp add: JobRequirementsSet_insert_range_def set_insert_range_def)
  have "JobRequirements_wf TetGen_client_requirements"
    by (simp add: TetGen_client_requirements_def make_JobRequirements_def JobRequirements_memory_def
        JobRequirements_wf_def MeshIOType_wf_def)
  from client_canMesh_spec [OF assms(1) this, of behind "req_meshTypes TetGen_client_requirements" s] none assms(3)
  obtain s' where "Client_canMesh behind (req_meshTypes TetGen_client_requirements) (server_exchange env client) s =
      Inr (False, s')" "abs_of s' = abs_of s" by auto
  then show ?thesis by (simp add: TetGen_client_def session_refused)
qed

text \<open>
  \<open>meshJob\<close> does not ask whether the job it got is one. When the worker is told to terminate, the
  job it gets has no contents, and reading it dereferences \<open>end()\<close>.
\<close>

theorem tetgen_told_to_terminate:
  "TetGen_meshJob io dio tg sent terminate_job w m = Inl UndefinedBehaviour"
  by (simp add: TetGen_meshJob_def TetGenInput_job_def terminate_job_def WorkerJob_default_def
      JobSubmission_default_def JobSubmission_find_def)

end
