(* ===== verification/Remus_Nuclear.thy ===== *)
theory Remus_Nuclear
  imports Remus_Session Remus_Worker Remus_Process
begin

text \<open>
  \<open>examples/nuclear\<close>: three workers (cubit, assygen, coregen) that start a program on a file and
  report what it prints, and their clients. The three directories hold the same code with
  other names; what differs is a \<open>driver\<close>. Boost's paths and the process library are arguments.
\<close>

section \<open>CubitInput.h and CubitOutput.h\<close>

text \<open>\<open>std::getline(ss, str, delim)\<close> into an empty string.\<close>

definition getline :: "char \<Rightarrow> istream \<Rightarrow> string \<times> istream" where
  "getline delim s =
     (if \<not> istream_good s then ([], s\<lparr>is_fail := True\<rparr>)
      else
        let w = takeWhile (\<lambda>c. c \<noteq> delim) (is_buf s); rest = dropWhile (\<lambda>c. c \<noteq> delim) (is_buf s) in
        (w, if rest = [] then \<lparr>is_buf = [], is_eof = True, is_fail = (w = [])\<rparr>
            else \<lparr>is_buf = tl rest, is_eof = False, is_fail = False\<rparr>))"

definition is_cntrl :: "char \<Rightarrow> bool" where
  "is_cntrl c \<longleftrightarrow> (of_char c :: nat) < 32 \<or> (of_char c :: nat) = 127"

definition trim_cntrl :: "string \<Rightarrow> string" where
  "trim_cntrl s = rev (dropWhile is_cntrl (rev (dropWhile is_cntrl s)))"

text \<open>The first member is the input file of cubit and the prefix of assygen and coregen.\<close>

record NuclearInput =
  InFile :: string
  ExecutablePath :: string

definition NuclearInput_read :: "istream \<Rightarrow> NuclearInput" where
  "NuclearInput_read ss =
     (let (inFile, ss) = getline (CHR '';'') ss;
          (path, ss) = getline (CHR '';'') ss in
      \<lparr>InFile = trim_cntrl inFile, ExecutablePath = trim_cntrl path\<rparr>)"

definition CubitInput_job :: "WorkerJob \<Rightarrow> NuclearInput" where
  "CubitInput_job job = NuclearInput_read (istream_of (WorkerJob_details ''default'' job))"

definition AssygenInput_job :: "WorkerJob \<Rightarrow> NuclearInput" where
  "AssygenInput_job job = NuclearInput_read (istream_of (WorkerJob_details ''default'' job))"

definition CoregenInput_job :: "WorkerJob \<Rightarrow> NuclearInput" where
  "CoregenInput_job job = NuclearInput_read (istream_of (WorkerJob_details ''default'' job))"

definition setInputFile :: "string \<Rightarrow> NuclearInput \<Rightarrow> NuclearInput" where
  "setInputFile p i = i\<lparr>InFile := p\<rparr>"

definition NuclearInput_to_string :: "NuclearInput \<Rightarrow> string" where
  "NuclearInput_to_string i = InFile i @ '';'' @ ExecutablePath i @ '';''"

record NuclearOutput =
  out_Prefix :: string
  out_Valid :: bool

definition NuclearOutput_default :: NuclearOutput where
  "NuclearOutput_default = \<lparr>out_Prefix = '''', out_Valid = False\<rparr>"

text \<open>\<open>Prefix(job.data())\<close> ends at the first NUL, inside or behind the data.\<close>

definition NuclearOutput_result :: "string \<Rightarrow> JobResult \<Rightarrow> NuclearOutput" where
  "NuclearOutput_result behind r = \<lparr>out_Prefix = c_string (res_data r) behind, out_Valid = True\<rparr>"

definition setPrefix :: "string \<Rightarrow> bool \<Rightarrow> NuclearOutput \<Rightarrow> NuclearOutput" where
  "setPrefix p valid out = out\<lparr>out_Prefix := p, out_Valid := valid\<rparr>"

section \<open>worker.cxx\<close>

record driver =
  drv_requirements :: JobRequirements
  drv_input :: "WorkerJob \<Rightarrow> NuclearInput"
  drv_file :: "string \<Rightarrow> string"
  drv_args :: "string \<Rightarrow> string list"

definition Cubit_requirements :: JobRequirements where
  "Cubit_requirements = make_JobRequirements \<lparr>inputType = ''Model'', outputType = ''Mesh3D''\<rparr> ''CubitWorker'' ''''"

definition Assygen_requirements :: JobRequirements where
  "Assygen_requirements = make_JobRequirements \<lparr>inputType = ''SceneFile'', outputType = ''Model''\<rparr> ''AssyGenWorker'' ''''"

definition Coregen_requirements :: JobRequirements where
  "Coregen_requirements = make_JobRequirements \<lparr>inputType = ''Mesh3D'', outputType = ''Mesh3D''\<rparr> ''CoreGenWorker'' ''''"

definition cubit :: driver where
  "cubit = \<lparr>drv_requirements = Cubit_requirements, drv_input = CubitInput_job, drv_file = (\<lambda>f. f),
     drv_args = (\<lambda>f. [f, ''-nographics'', ''-batch''])\<rparr>"

definition assygen :: driver where
  "assygen = \<lparr>drv_requirements = Assygen_requirements, drv_input = AssygenInput_job, drv_file = (\<lambda>p. p @ ''.inp''),
     drv_args = (\<lambda>p. [p])\<rparr>"

definition coregen :: driver where
  "coregen = \<lparr>drv_requirements = Coregen_requirements, drv_input = CoregenInput_job, drv_file = (\<lambda>p. p @ ''.inp''),
     drv_args = (\<lambda>p. [p])\<rparr>"

text \<open>
  Paths: \<open>absolute\<close> from a directory, \<open>parent_path\<close>, and entering a directory, which throws when
  there is none.
\<close>

record cwd_io =
  cwd_absolute :: "string \<Rightarrow> string \<Rightarrow> string"
  cwd_parent_path :: "string \<Rightarrow> string"
  cwd_enter :: "string \<Rightarrow> string option"

text \<open>A worker of the examples, with the directory and the environment of its program.\<close>

record 'p nuclear_worker =
  nw_worker :: worker
  nw_Process :: "'p ExecuteProcess option"
  nw_cwd :: string
  nw_env :: "string \<rightharpoonup> string"

definition nuclear_worker_mk :: "driver \<Rightarrow> ptime \<Rightarrow> string \<Rightarrow> (string \<rightharpoonup> string) \<Rightarrow> 'p nuclear_worker" where
  "nuclear_worker_mk drv now cwd env =
     \<lparr>nw_worker = Worker_requirements (drv_requirements drv) now, nw_Process = None, nw_cwd = cwd, nw_env = env\<rparr>"

definition cleanlyExit :: "'p nuclear_worker \<Rightarrow> 'p nuclear_worker" where
  "cleanlyExit n = n\<lparr>nw_Process := None\<rparr>"

definition nuclear_worker_destroy :: "'p nuclear_worker \<Rightarrow> worker" where
  "nuclear_worker_destroy n = Worker_destroy (nw_worker (cleanlyExit n))"

definition nuclear_jobFailed :: "uuid_io \<Rightarrow> bool \<Rightarrow> WorkerJob \<Rightarrow> worker \<Rightarrow> worker" where
  "nuclear_jobFailed io sent job w = updateStatus io sent (JobStatus_mk (wj_id job) FAILED) w"

definition enter_directory :: "cwd_io \<Rightarrow> string \<Rightarrow> string result" where
  "enter_directory cio d = (case cwd_enter cio d of None \<Rightarrow> Inl RuntimeError | Some there \<Rightarrow> Inr there)"

definition launchProcess ::
  "driver \<Rightarrow> 'p systools \<Rightarrow> cwd_io \<Rightarrow> NuclearInput \<Rightarrow> 'p nuclear_worker \<Rightarrow> 'p nuclear_worker result" where
  "launchProcess drv tools cio job n0 =
     (let n = cleanlyExit n0; cwd = nw_cwd n;
          filePath = cwd_absolute cio cwd (drv_file drv (InFile job)) in
      bindE (enter_directory cio (cwd_parent_path cio filePath)) (\<lambda>there.
      let executePath = cwd_absolute cio there (ExecutablePath job);
          (env', p) = execute tools (nw_env n) (ExecuteProcess_mk tools executePath (drv_args drv (InFile job)) []) in
      bindE (enter_directory cio cwd) (\<lambda>back.
      Inr (n\<lparr>nw_Process := Some p, nw_cwd := back, nw_env := env'\<rparr>))))"

text \<open>
  The loop of \<open>pollStatus\<close>, \<open>None\<close> when the fuel is used up; \<open>sent k\<close> tells whether the \<open>k\<close>-th
  status got out.
\<close>

fun poll_loop ::
  "nat \<Rightarrow> uuid_io \<Rightarrow> 'p systools \<Rightarrow> (nat \<Rightarrow> bool) \<Rightarrow> nat \<Rightarrow> JobStatus \<Rightarrow> 'p ExecuteProcess \<Rightarrow> worker \<Rightarrow>
   ('p ExecuteProcess \<times> worker) option" where
  "poll_loop fuel io tools sent k status p w =
     (let (alive, p1) = ep_isAlive tools p in
      if \<not> alive then Some (p1, w)
      else case fuel of
        0 \<Rightarrow> None
      | Suc fuel' \<Rightarrow>
          (let (data, p2) = ep_poll tools (- 1) p1 in
           if pipe_type data = PPipe_STDOUT
           then let status = updateProgress (JobProgress_message (pipe_text data)) status in
                poll_loop fuel' io tools sent (Suc k) status p2 (updateStatus io (sent k) status w)
           else poll_loop fuel' io tools sent k status p2 w))"

declare poll_loop.simps [simp del]

definition pollStatus ::
  "nat \<Rightarrow> uuid_io \<Rightarrow> 'p systools \<Rightarrow> (nat \<Rightarrow> bool) \<Rightarrow> WorkerJob \<Rightarrow> 'p nuclear_worker \<Rightarrow>
   (bool \<times> 'p nuclear_worker) result option" where
  "pollStatus fuel io tools sent job n =
     (case nw_Process n of
        None \<Rightarrow> Some (Inl UndefinedBehaviour)
      | Some p \<Rightarrow>
          (case poll_loop fuel io tools sent 0 (JobStatus_mk (wj_id job) IN_PROGRESS) p (nw_worker n) of
             None \<Rightarrow> None
           | Some (p1, w) \<Rightarrow>
               let (validExection, p2) = exitedNormally tools p1;
                   n1 = n\<lparr>nw_Process := Some p2, nw_worker := w\<rparr> in
               Some (Inr (if \<not> validExection then (False, cleanlyExit n1) else (True, n1)))))"

text \<open>\<open>meshJob\<close> from the job it got on, up to where \<open>returnResult\<close> waits.\<close>

definition nuclear_meshJob ::
  "nat \<Rightarrow> driver \<Rightarrow> uuid_io \<Rightarrow> 'p systools \<Rightarrow> cwd_io \<Rightarrow> (nat \<Rightarrow> bool) \<Rightarrow> bool \<Rightarrow> WorkerJob \<Rightarrow> 'p nuclear_worker \<Rightarrow>
   'p nuclear_worker result option" where
  "nuclear_meshJob fuel drv io tools cio sent sent_failed j n =
     (let in' = drv_input drv j in
      case launchProcess drv tools cio in' n of
        Inl e \<Rightarrow> Some (Inl e)
      | Inr n1 \<Rightarrow>
          (case pollStatus fuel io tools sent j n1 of
             None \<Rightarrow> None
           | Some (Inl e) \<Rightarrow> Some (Inl e)
           | Some (Inr (False, n2)) \<Rightarrow>
               Some (Inr (n2\<lparr>nw_worker := nuclear_jobFailed io sent_failed j (nw_worker n2)\<rparr>))
           | Some (Inr (True, n2)) \<Rightarrow>
               let results = JobResult_mk (wj_id j) User (InFile in') in
               Some (Inr (n2\<lparr>nw_worker := snd (returnResult io results (nw_worker n2))\<rparr>))))"

section \<open>client.cxx\<close>

definition nuclear_submission :: "JobRequirements \<Rightarrow> NuclearInput \<Rightarrow> JobSubmission" where
  "nuclear_submission reqs i = JobSubmission_content reqs (JobContent_memory User (NuclearInput_to_string i))"

definition nuclear_output :: "string \<Rightarrow> (JobResult option \<times> 's) result option \<Rightarrow> (NuclearOutput \<times> 's) result option" where
  "nuclear_output behind = map_option (\<lambda>outcome. bindE outcome (\<lambda>(result, s).
     Inr (case result of None \<Rightarrow> NuclearOutput_default | Some r \<Rightarrow> NuclearOutput_result behind r, s)))"

definition Cubit_getOutput ::
  "nat \<Rightarrow> uuid_io \<Rightarrow> string \<Rightarrow> string \<Rightarrow> NuclearInput \<Rightarrow> 's exchange \<Rightarrow> 's \<Rightarrow> (NuclearOutput \<times> 's) result option" where
  "Cubit_getOutput fuel io behind behind_result i ex s =
     nuclear_output behind_result
       (guarded_session (Client_canMesh behind \<lparr>inputType = ''Model'', outputType = ''Mesh3D''\<rparr> ex) fuel io
          (nuclear_submission (make_JobRequirements \<lparr>inputType = ''Model'', outputType = ''Mesh3D''\<rparr> ''CubitWorker'' '''') i)
          ex s)"

definition Assygen_getOutput ::
  "nat \<Rightarrow> uuid_io \<Rightarrow> string \<Rightarrow> string \<Rightarrow> NuclearInput \<Rightarrow> 's exchange \<Rightarrow> 's \<Rightarrow> (NuclearOutput \<times> 's) result option" where
  "Assygen_getOutput fuel io behind behind_result i ex s =
     (let reqs = make_JobRequirements \<lparr>inputType = ''SceneFile'', outputType = ''Model''\<rparr> ''AssyGenWorker'' '''' in
      nuclear_output behind_result
        (guarded_session (Client_canMeshRequirements behind reqs ex) fuel io (nuclear_submission reqs i) ex s))"

definition Coregen_getOutput ::
  "nat \<Rightarrow> uuid_io \<Rightarrow> string \<Rightarrow> string \<Rightarrow> NuclearInput \<Rightarrow> 's exchange \<Rightarrow> 's \<Rightarrow> (NuclearOutput \<times> 's) result option" where
  "Coregen_getOutput fuel io behind behind_result i ex s =
     (let reqs = make_JobRequirements \<lparr>inputType = ''Mesh3D'', outputType = ''Mesh3D''\<rparr> ''CoreGenWorker'' '''' in
      nuclear_output behind_result
        (guarded_session (Client_canMeshRequirements behind reqs ex) fuel io (nuclear_submission reqs i) ex s))"


section \<open>What arrives\<close>

lemma getline_upto:
  "delim \<notin> set w \<Longrightarrow> getline delim (istream_of (w @ delim # r)) = (w, istream_of r)"
proof -
  assume "delim \<notin> set w"
  then have "\<forall>c\<in>set w. c \<noteq> delim" by auto
  then have "takeWhile (\<lambda>c. c \<noteq> delim) (w @ delim # r) = w" "dropWhile (\<lambda>c. c \<noteq> delim) (w @ delim # r) = delim # r"
    by (simp_all add: takeWhile_append2 dropWhile_append2)
  then show ?thesis by (simp add: getline_def istream_of_def istream_good_def)
qed

definition plain_text :: "string \<Rightarrow> bool" where
  "plain_text t \<longleftrightarrow> CHR '';'' \<notin> set t \<and> (t \<noteq> [] \<longrightarrow> \<not> is_cntrl (hd t) \<and> \<not> is_cntrl (last t))"

lemma trim_plain: "plain_text t \<Longrightarrow> trim_cntrl t = t"
proof (cases "t = []")
  case False
  assume "plain_text t"
  with False have "\<not> is_cntrl (hd t)" "\<not> is_cntrl (hd (rev t))" by (simp_all add: plain_text_def hd_rev)
  with False have "dropWhile is_cntrl t = t" "dropWhile is_cntrl (rev t) = rev t"
    by (simp_all add: dropWhile_eq_self_iff)
  then show ?thesis by (simp add: trim_cntrl_def)
qed (simp add: trim_cntrl_def)

lemma NuclearInput_wire:
  assumes "plain_text (InFile i)" and "plain_text (ExecutablePath i)"
  shows "NuclearInput_read (istream_of (NuclearInput_to_string i)) = i"
proof -
  have "CHR '';'' \<notin> set (InFile i)" "CHR '';'' \<notin> set (ExecutablePath i)"
    using assms by (simp_all add: plain_text_def)
  from getline_upto [OF this(1), of "ExecutablePath i @ '';''"] getline_upto [OF this(2), of "[]"]
  show ?thesis
    using trim_plain assms by (simp add: NuclearInput_read_def NuclearInput_to_string_def)
qed

definition nuclear_drivers :: "driver list" where
  "nuclear_drivers = [cubit, assygen, coregen]"

lemma nuclear_requirements_wf: "drv \<in> set nuclear_drivers \<Longrightarrow> JobRequirements_wf (drv_requirements drv)"
  by (auto simp: nuclear_drivers_def cubit_def assygen_def coregen_def Cubit_requirements_def Assygen_requirements_def
      Coregen_requirements_def make_JobRequirements_def JobRequirements_memory_def JobRequirements_wf_def MeshIOType_wf_def)

lemma nuclear_submission_wf:
  assumes "JobRequirements_wf reqs" and "length (InFile i) + length (ExecutablePath i) < 2 ^ 30"
  shows "JobSubmission_wf (nuclear_submission reqs i)"
  using assms
  by (simp add: JobSubmission_wf_def nuclear_submission_def JobSubmission_content_def JobContent_memory_def
      NuclearInput_to_string_def entry_wf_def JobContent_wf_def default_key_def JobRequirements_wf_def)

lemma nuclear_found:
  "JobSubmission_find k (nuclear_submission reqs i) =
     (if k = ''data'' then Some (JobContent_memory User (NuclearInput_to_string i)) else None)"
  by (simp add: nuclear_submission_def JobSubmission_content_def JobSubmission_find_def default_key_def
      string_order.equiv_iff_eq)

text \<open>
  C40: the workers of the examples never see their input. What a client submits arrives whole
  and could be read back from the key it is sent under; the workers look under another key
  and find nothing, so whatever file and program the client named, both are empty.
\<close>

theorem nuclear_input_lost:
  assumes "drv \<in> set nuclear_drivers" and "uuid_io_ok io" and "plain_text (InFile i)" and "plain_text (ExecutablePath i)"
    and "length (InFile i) + length (ExecutablePath i) < 2 ^ 30"
  shows "\<exists>job. to_WorkerJob io (WorkerJob_to_string io (WorkerJob_mk jid (nuclear_submission (drv_requirements drv) i))) = Inr job \<and>
    NuclearInput_read (istream_of (WorkerJob_details ''data'' job)) = i \<and>
    drv_input drv job = \<lparr>InFile = '''', ExecutablePath = ''''\<rparr>"
proof -
  let ?sub = "nuclear_submission (drv_requirements drv) i"
  have "JobSubmission_wf ?sub"
    by (rule nuclear_submission_wf [OF nuclear_requirements_wf [OF assms(1)] assms(5)])
  from WorkerJob_wire [OF assms(2) this] have
    wire: "to_WorkerJob io (WorkerJob_to_string io (WorkerJob_mk jid ?sub)) = Inr (WorkerJob_mk jid ?sub)" .
  have "NuclearInput_read (istream_of []) = \<lparr>InFile = '''', ExecutablePath = ''''\<rparr>"
    by (simp add: NuclearInput_read_def getline_def istream_of_def istream_good_def trim_cntrl_def)
  moreover have "drv_input drv job = NuclearInput_read (istream_of (WorkerJob_details ''default'' job))" for job
    using assms(1) by (auto simp: nuclear_drivers_def cubit_def assygen_def coregen_def CubitInput_job_def
        AssygenInput_job_def CoregenInput_job_def)
  ultimately show ?thesis
    using wire NuclearInput_wire [OF assms(3,4)]
    by (simp add: WorkerJob_details_def WorkerJob_mk_def nuclear_found JobContent_memory_def)
qed


section \<open>What becomes of a job\<close>

text \<open>A process that delivers the given pipes while it is alive and is over afterwards.\<close>

fun delivers :: "'p systools \<Rightarrow> ProcessPipe list \<Rightarrow> 'p ExecuteProcess \<Rightarrow> 'p ExecuteProcess \<Rightarrow> bool" where
  "delivers tools [] p p' \<longleftrightarrow> ep_isAlive tools p = (False, p')"
| "delivers tools (d # ds) p p' \<longleftrightarrow>
     (let (alive, p1) = ep_isAlive tools p; (data, p2) = ep_poll tools (- 1) p1 in
      alive \<and> data = d \<and> delivers tools ds p2 p')"

text \<open>The statuses a worker sends for them: one for every piece of output, in the order it came.\<close>

fun report :: "uuid_io \<Rightarrow> (nat \<Rightarrow> bool) \<Rightarrow> nat \<Rightarrow> uuid \<Rightarrow> string list \<Rightarrow> worker \<Rightarrow> worker" where
  "report io sent k jid [] w = w"
| "report io sent k jid (t # ts) w =
     report io sent (Suc k) jid ts (updateStatus io (sent k) (JobStatus_progress jid (JobProgress_message t)) w)"

definition output_of :: "ProcessPipe list \<Rightarrow> string list" where
  "output_of ds = map pipe_text (filter (\<lambda>d. pipe_type d = PPipe_STDOUT) ds)"

lemma poll_loop_delivers:
  assumes "delivers tools ds p p'" and "length ds \<le> fuel" and "js_id status = jid"
  shows "poll_loop fuel io tools sent k status p w = Some (p', report io sent k jid (output_of ds) w)"
  using assms
proof (induction ds arbitrary: fuel k status p w)
  case Nil
  then show ?case by (simp add: poll_loop.simps output_of_def)
next
  case (Cons d ds)
  obtain fuel' where fuel: "fuel = Suc fuel'" "length ds \<le> fuel'" using Cons.prems(2) by (cases fuel) auto
  obtain p1 p2 where p: "ep_isAlive tools p = (True, p1)" "ep_poll tools (- 1) p1 = (d, p2)" "delivers tools ds p2 p'"
    using Cons.prems(1) by (auto simp: split_beta Let_def prod_eq_iff)
  let ?status = "updateProgress (JobProgress_message (pipe_text d)) status"
  have "?status = JobStatus_progress jid (JobProgress_message (pipe_text d))" "js_id ?status = jid"
    using Cons.prems(3) by (simp_all add: updateProgress_def JobStatus_progress_def)
  with fuel p Cons.IH [OF p(3) fuel(2)] Cons.prems(3) show ?case
    by (subst poll_loop.simps) (simp add: output_of_def)
qed

lemma launch_ok:
  assumes "cwd_enter cio (cwd_parent_path cio (cwd_absolute cio (nw_cwd n) (drv_file drv (InFile i)))) = Some there"
    and "cwd_enter cio (nw_cwd n) = Some (nw_cwd n)"
    and "p = snd (execute tools (nw_env n)
      (ExecuteProcess_mk tools (cwd_absolute cio there (ExecutablePath i)) (drv_args drv (InFile i)) []))"
  shows "launchProcess drv tools cio i n = Inr (n\<lparr>nw_Process := Some p\<rparr>)"
proof -
  have "execute_environment [] env = (env, env)" for env by (simp add: execute_environment_def)
  then show ?thesis
    using assms by (simp add: launchProcess_def enter_directory_def cleanlyExit_def execute_def ExecuteProcess_mk_def split_beta Let_def)
qed

text \<open>
  C39: a job of the example workers. When the directory of its file can be entered, the worker
  starts the program there, reports each piece of its output as progress as long as it
  lives, and comes back from waiting when it is over: with the job reported as failed and the
  process dropped unless it exited normally, else with a result that is the name of the file. It is
  back in its own directory in every case.
\<close>

theorem nuclear_job_outcome:
  assumes "i = drv_input drv j"
    and "cwd_enter cio (cwd_parent_path cio (cwd_absolute cio (nw_cwd n) (drv_file drv (InFile i)))) = Some there"
    and "cwd_enter cio (nw_cwd n) = Some (nw_cwd n)"
    and "p = snd (execute tools (nw_env n)
      (ExecuteProcess_mk tools (cwd_absolute cio there (ExecutablePath i)) (drv_args drv (InFile i)) []))"
    and "delivers tools ds p p'" and "length ds \<le> fuel"
    and "w = report io sent 0 (wj_id j) (output_of ds) (nw_worker n)" and "exitedNormally tools p' = (normal, p'')"
  shows "nuclear_meshJob fuel drv io tools cio sent sent_failed j n =
    Some (Inr (n\<lparr>nw_Process := if normal then Some p'' else None,
      nw_worker := if normal then snd (returnResult io (JobResult_mk (wj_id j) User (InFile i)) w)
                   else updateStatus io sent_failed (JobStatus_mk (wj_id j) FAILED) w\<rparr>))"
proof -
  have "launchProcess drv tools cio i n = Inr (n\<lparr>nw_Process := Some p\<rparr>)" by (rule launch_ok [OF assms(2-4)])
  moreover have "js_id (JobStatus_mk (wj_id j) IN_PROGRESS) = wj_id j" by (simp add: JobStatus_mk_def)
  from poll_loop_delivers [OF assms(5,6) this]
  have "pollStatus fuel io tools sent j (n\<lparr>nw_Process := Some p\<rparr>) =
      Some (Inr (normal, n\<lparr>nw_Process := if normal then Some p'' else None, nw_worker := w\<rparr>))"
    using assms(7,8) by (simp add: pollStatus_def cleanlyExit_def)
  ultimately show ?thesis
    using assms(1) by (cases normal) (simp_all add: nuclear_meshJob_def nuclear_jobFailed_def)
qed


definition example_input :: NuclearInput where
  "example_input = \<lparr>InFile = ''core.jou'', ExecutablePath = ''/opt/cubit''\<rparr>"

theorem nuclear_input_lost_witness:
  "\<exists>job. to_WorkerJob hex_uuid_io (WorkerJob_to_string hex_uuid_io
       (WorkerJob_mk 7 (nuclear_submission Cubit_requirements example_input))) = Inr job \<and>
    NuclearInput_read (istream_of (WorkerJob_details ''data'' job)) = example_input \<and>
    CubitInput_job job = \<lparr>InFile = '''', ExecutablePath = ''''\<rparr>"
proof -
  have "plain_text (InFile example_input)" "plain_text (ExecutablePath example_input)"
    "length (InFile example_input) + length (ExecutablePath example_input) < 2 ^ 30"
    by (simp_all add: example_input_def plain_text_def is_cntrl_def)
  from nuclear_input_lost [OF _ hex_uuid_io_ok this, of cubit 7] show ?thesis
    by (simp add: nuclear_drivers_def cubit_def)
qed

text \<open>A process that prints two lines and exits, and a system where every directory can be entered.\<close>

definition printing_tools :: "string list systools" where
  "printing_tools = \<lparr>sys_New = [], sys_SetCommand = (\<lambda>_ p. p), sys_AddCommand = (\<lambda>_ p. p),
     sys_SetOption_HideWindow = (\<lambda>_ p. p), sys_Execute = (\<lambda>_ p. [''meshing'', ''done'']),
     sys_GetState = (\<lambda>p. if p = [] then State_Exited else State_Executing), sys_Kill = (\<lambda>_. []),
     sys_WaitForExit_timeout = (\<lambda>_ p. p), sys_WaitForExit = (\<lambda>_. Some []), sys_SetPipeShared = (\<lambda>_ _ p. p),
     sys_SetPipeFile = (\<lambda>_ _ p. p), sys_WaitForData = (\<lambda>_ p. ((Pipe_STDOUT, hd p), tl p))\<rparr>"

definition open_cwd :: cwd_io where
  "open_cwd = \<lparr>cwd_absolute = (\<lambda>d f. d @ ''/'' @ f), cwd_parent_path = (\<lambda>f. ''/work''), cwd_enter = Some\<rparr>"

definition example_cubit_worker :: "string list nuclear_worker" where
  "example_cubit_worker = nuclear_worker_mk cubit 0 ''/work'' Map.empty"

theorem nuclear_job_outcome_witness:
  "\<exists>p. nuclear_meshJob 2 cubit hex_uuid_io printing_tools open_cwd (\<lambda>_. True) True
      (WorkerJob_mk 7 (nuclear_submission Cubit_requirements example_input)) example_cubit_worker =
    Some (Inr (example_cubit_worker\<lparr>nw_Process := Some p,
      nw_worker := snd (returnResult hex_uuid_io (JobResult_mk 7 User '''')
        (report hex_uuid_io (\<lambda>_. True) 0 7 [''meshing'', ''done''] (nw_worker example_cubit_worker)))\<rparr>))"
proof -
  let ?j = "WorkerJob_mk 7 (nuclear_submission Cubit_requirements example_input)"
  have i: "\<lparr>InFile = '''', ExecutablePath = ''''\<rparr> = drv_input cubit ?j"
    by (simp add: cubit_def CubitInput_job_def WorkerJob_details_def WorkerJob_mk_def nuclear_found NuclearInput_read_def
        getline_def istream_of_def istream_good_def trim_cntrl_def)
  define p where "p = snd (execute printing_tools (nw_env example_cubit_worker)
    (ExecuteProcess_mk printing_tools (cwd_absolute open_cwd ''/work'' '''') (drv_args cubit '''') []))"
  define out where "out = (\<lambda>t. \<lparr>pipe_type = PPipe_STDOUT, pipe_text = t\<rparr>)"
  have p: "Proc p = [''meshing'', ''done'']" "Created p"
    by (simp_all add: p_def execute_def ExecuteProcess_mk_def execute_environment_def printing_tools_def)
  have del: "delivers printing_tools [out ''meshing'', out ''done''] p (p\<lparr>Proc := []\<rparr>)"
    by (simp add: p ep_isAlive_def ep_poll_def printing_tools_def out_def toProcessPipeType_def pipe_valid_def Let_def)
  have exit: "exitedNormally printing_tools (p\<lparr>Proc := []\<rparr>) = (True, p\<lparr>Proc := []\<rparr>)"
    by (simp add: p exitedNormally_def printing_tools_def)
  have "cwd_enter open_cwd d = Some d" "cwd_parent_path open_cwd f = ''/work''" "wj_id ?j = 7" for d f
    by (simp_all add: open_cwd_def WorkerJob_mk_def)
  then show ?thesis
    using nuclear_job_outcome [OF i, of open_cwd example_cubit_worker "''/work''" p printing_tools, OF _ _ _ del _ refl exit]
    by (intro exI [of _ "p\<lparr>Proc := []\<rparr>"]) (simp add: p_def output_of_def out_def)
qed

end
