(* ===== verification/Spec2Isabelle.thy ===== *)
theory Spec2Isabelle
  imports Remus_Channels Remus_Smtk Remus_Storage Remus_Parsed Remus_Files Remus_Registry
    Remus_System Remus_Triangle Remus_TetGen Remus_Nuclear
begin

text \<open>
  Remus distributes meshing jobs. A client (\<open>remus/client\<close>) submits jobs to a server
  (\<open>remus/server\<close>), asks for their status, fetches results and terminates jobs. The server
  queues jobs and hands each to a worker (\<open>remus/worker\<close>) that registered for exactly its
  requirements; when none waits, a factory may start one. All three talk in messages and
  responses (\<open>remus/proto\<close>) over ZeroMQ sockets. This development follows the C++ sources
  under \<open>src/remus\<close> and the meshers and clients under \<open>src/examples\<close>.

  \<^bold>\<open>How the code is modelled.\<close> A class is a record, an enumeration a datatype, a member
  function a function that returns the updated record. An exception, a failed assertion and
  undefined behaviour are values of \<open>cpp_error\<close> (\<open>'a result\<close>). \<open>std::set\<close> and
  \<open>std::map\<close> are sorted lists with the insertion, lookup and erasure of the containers, over
  the comparison the class defines. Text streams are strings with the failure state of
  \<open>std::istream\<close>. Sockets keep logs of what was put on them; whether a send succeeds is part
  of an environment record. The clock, the uuid generator and its text form, the MD5 digest,
  processes and the file system are arguments; \<open>uuid_io_ok\<close> is what the code needs of the
  text form of uuids, and \<open>hex_uuid_io\<close> an instance of it.

  \<^bold>\<open>The theories.\<close>

  \<^item> \<open>Remus_Prelude\<close>: results, containers, and the locales \<open>strict_weak_order\<close> and
    \<open>strict_total_order\<close> with the laws of sets and maps over an ordering; every ordering of
    the sources interprets one of them.
  \<^item> \<open>Remus_Streams\<close> (\<open>common/ConversionHelper.h\<close>): reading and writing numbers and
    length-prefixed strings; the locale \<open>stream_codec\<close> says that what a class prints, it reads
    back, and every serialised class interprets it.
  \<^item> \<open>Remus_Types\<close>, \<open>Remus_Uuid\<close>, \<open>Remus_Requirements\<close>, \<open>Remus_Jobs\<close>: the data that travels
    (\<open>common/MeshIOType\<close>, \<open>proto/JobRequirements\<close>, \<open>JobContent\<close>, \<open>JobSubmission\<close>,
    \<open>WorkerJob\<close>, \<open>Job\<close>, \<open>JobStatus\<close>, \<open>JobProgress\<close>, \<open>JobResult\<close>), with round trips.
  \<^item> \<open>Remus_Parsed\<close>: what the parsers of these classes return for arbitrary bytes is well formed.
  \<^item> \<open>Remus_Storage\<close> (\<open>common/ConditionalStorage.h\<close>, \<open>InternalImpl\<close> of \<open>proto/JobContent.cxx\<close>): who
    owns the bytes of a content, over an explicit heap; when a content may be taken for the
    plain value it is in \<open>Remus_Requirements\<close>.
  \<^item> \<open>Remus_Smtk\<close> (\<open>proto/SMTKMeshSubmission.cxx\<close>): submissions of SMTK models.
  \<^item> \<open>Remus_Registry\<close> (\<open>common/MeshRegistrar.cxx\<close>, \<open>MeshTypes.h\<close>) and \<open>Remus_Files\<close>
    (\<open>common/LocateFile.cxx\<close>): the registry of mesh types, and looking for files.
  \<^item> \<open>Remus_Polling\<close> (\<open>common/PollingMonitor.cxx\<close>, \<open>Timer.cxx\<close>): the adaptive polling rate and
    its bounds.
  \<^item> \<open>Remus_Sockets\<close> (\<open>proto/zmqSocketIdentity.cxx\<close>, \<open>zmqHelper.cxx\<close>, \<open>Message.cxx\<close>,
    \<open>Response.cxx\<close>): identities, retries and the frames of messages.
  \<^item> \<open>Remus_SocketMonitor\<close>, \<open>Remus_ActiveJobs\<close>, \<open>Remus_JobQueue\<close>, \<open>Remus_WorkerPool\<close>,
    \<open>Remus_Events\<close> (\<open>server/detail\<close>): the tables of the server, one theory per class. The
    locale \<open>job_ledger\<close> of \<open>Remus_Ledger\<close> is what the server relies on of both job tables;
    \<open>work_credits\<close> says that nobody is given more work than it asked for;
    \<open>liveness_monitor\<close> that only the last news of a worker counts.
  \<^item> \<open>Remus_Factory\<close> (\<open>server/WorkerFactory.cxx\<close>, \<open>ThreadWorkerFactory.cxx\<close>,
    \<open>WorkerFactoryBase.cxx\<close>, \<open>FactoryWorkerSpecification.cxx\<close>, \<open>detail/WorkerFinder.cxx\<close>): both
    factories behind the locale \<open>worker_factory\<close>.
  \<^item> \<open>Remus_WorkerFile\<close> (\<open>server/FactoryFileParser.cxx\<close>): from a worker file to the worker the
    factory can start; \<open>Remus_Process\<close> (\<open>common/ExecuteProcess.cxx\<close>): starting, watching and
    killing its process, and the destructor of the factory.
  \<^item> \<open>Remus_Server\<close> (\<open>server/Server.cxx\<close>): every handler, the search for workers, one turn of
    \<open>Brokering\<close> and its end, and the invariant \<open>server_inv\<close> each of them keeps.
  \<^item> \<open>Remus_Broker\<close>: an abstract broker whose events submit, assign and drop jobs, and the
    simulation of the broker loop by it.
  \<^item> \<open>Remus_Service\<close>: what clients and workers can rely on of a server in any reachable state.
  \<^item> \<open>Remus_Thread\<close> (\<open>ThreadManagement\<close> of \<open>server/Server.cxx\<close>, \<open>common/SignalCatcher.cxx\<close>): the
    threads of a program that starts, stops and waits for the broker, as a step relation with
    one step for each hold of the mutex, rounds of the loop, waits that wake for nothing and
    exceptions of the broker included, fair runs of it, and what a signal does.
  \<^item> \<open>Remus_Lifecycle\<close> (constructors and \<open>Brokering\<close> of \<open>server/Server.cxx\<close>): the whole of
    \<open>Brokering\<close> from binding the channels over the rounds of its loop to its end, and that the
    workers it starts connect back to it.
  \<^item> \<open>Remus_Client\<close> (\<open>client/Client.cxx\<close>): the calls of a client, over any exchange of a
    message and a response and then over the exchange with the broker.
  \<^item> \<open>Remus_WorkerQueue\<close> (\<open>worker/detail/JobQueue.cxx\<close>), \<open>Remus_Router\<close>
    (\<open>worker/detail/MessageRouter.cxx\<close>) and \<open>Remus_Worker\<close> (\<open>worker/Worker.cxx\<close>): the worker,
    the two threads behind it, and the way of jobs, orders, results and heartbeats between
    server and worker.
  \<^item> \<open>Remus_Connections\<close> (\<open>proto/zmqSocketInfo.h\<close>, \<open>server/ServerPorts.cxx\<close>,
    \<open>ServerConnection.cxx\<close> of client and worker): endpoints, binding and connection strings.
  \<^item> \<open>Remus_Channels\<close> (\<open>proto/Message.cxx\<close>, \<open>Response.cxx\<close>, \<open>zmqHelper.cxx\<close>): sending, receiving and
    forwarding, routing frames and connecting; a request and its reply from end to end.
  \<^item> \<open>Remus_Once\<close>: the invariant that the jobs handed out so far have different ids, over turns,
    loops and the end of \<open>Brokering\<close>; \<open>Remus_System\<close>: client, broker and worker together, a whole
    job from submission to result, and that no job is ever sent twice.
  \<^item> \<open>Remus_Doubles\<close>: doubles as 64-bit words, their raw bytes, and reading and printing them over
    the decimal conversions of the library, the argument \<open>double_io\<close>.
  \<^item> \<open>Remus_Session\<close>: what the clients of the examples do with a job, with the loop that asks for
    its status. \<open>Remus_Triangle\<close> (\<open>examples/Triangle\<close>), \<open>Remus_TetGen\<close> (\<open>examples/TetGen\<close>) and
    \<open>Remus_Nuclear\<close> (\<open>examples/nuclear\<close>): inputs and results with their text forms, workers and
    clients; the meshers, paths and processes are arguments.

  \<^bold>\<open>What is shown.\<close> Data: the text forms are read back, the orderings are strict weak orders.
  Server: every run of the broker loop is a run of the abstract broker, so a job is in one
  place, is assigned to one worker and is lost only when a client drops it; the search hands
  jobs only to responsive workers with equal requirements; each request is answered once; a
  result is delivered once. Whole system: a job goes from \<open>submitJob\<close> into the queue, from
  \<open>assignJobToWorker\<close> through router and queue to the worker unchanged, and its result back;
  the wait of \<open>returnResult\<close> ends; heartbeats keep an idle worker registered, and one that shuts
  down loses its place and its jobs in the same turn; the endpoints a server gives out lead back
  to the sockets it bound; a request arrives with the identity of its sender and the
  reply goes there. Program: a server used by one thread has one broker at a time, and
  in fair runs starting and stopping return unless the broker throws; a factory starts workers as
  their files say, and its destructor returns and leaves no process behind; a content that copied its data is a value, and comparing cached hashes is
  comparing values. End to end: a submitted job is handed to a waiting worker, worked on, and its
  result fetched by the client; over the life of a server no job id is handed out twice. Examples:
  what their workers make of a job on every branch, which inputs survive the way to the worker and
  which do not.

  \<^bold>\<open>Loops.\<close> Broker, router and worker queue loop for ever, so a run is a recursion over a list
  of what the rounds receive: a theorem about all lists is one about every length of run. The
  retries of \<open>send_harder\<close> and \<open>recv_harder\<close> carry the bound of the code (five). The search for
  a free port and the release of outstanding results end by a measure. Two loops of the examples
  wait for somebody else and have fuel: asking for a status (\<open>await_end\<close>) ends exactly with the
  first answer that is not good, and watching a program (\<open>poll_loop\<close>) needs one unit for each
  piece of its output. Counters with a fixed width that can wrap (\<open>OutstandingResults\<close>) are words; sizes on
  the wire are checked against the width of \<open>int\<close>. Times, and the number of jobs a worker wants,
  are unbounded: the model agrees with the code while times stay below \<open>2 ^ 63 - 2\<close> microseconds
  and the number below \<open>2 ^ 31\<close>, which the theorems that need it have as hypotheses.

  \<^bold>\<open>Not modelled.\<close> ZeroMQ, cJSON, pugixml, Boost, RemusSysTools and MD5, which the sources only
  call: what the code relies on of them is an argument, or a named hypothesis such as
  \<open>tools_ok\<close> and \<open>exclusive_binds\<close>. What the meshers of the examples write to files. Sleeping. A
  turn of the broker reads the clock once, where the code reads it several times. The code for Windows. A ROUTER socket is modelled by the frames it
  passes on. The steps of the threads are modelled apart, so that one of them can come between
  two locks of another (\<open>wq_take_amid\<close>, \<open>thread_step\<close>). \<open>Server::signalCaught\<close> has no definition:
  nothing calls it. Example programs that only read a command line or the console and call the
  interfaces, tests and bindings are left out. Sharing between objects is modelled for
  \<open>JobContent\<close> only; the implementations of \<open>JobRequirements\<close> and \<open>JobResult\<close> are the same without
  hashes, and their data are values here.
\<close>

end
